(* ===== verification/Go_Prelude.thy ===== *)
theory Go_Prelude
  imports Main "HOL-Library.State_Monad"
begin

text \<open>
  The vocabulary every component shares: the functions of Go's \<^verbatim>\<open>strings\<close>,
  \<^verbatim>\<open>strconv\<close> and \<^verbatim>\<open>fmt\<close> packages that the provider uses, the state monad
  in which its handlers run, and the two proof systems the components are verified with:
  \<open>emits\<close> (which events a computation can add to the trace) and \<open>wp\<close> (weakest
  preconditions). A Go string is a list of bytes (\<^typ>\<open>string\<close>); case mapping is the
  one of the ASCII range, which is the alphabet of Kubernetes object names.
\<close>

named_theorems go_eval \<open>definitions unfolded to evaluate a Go library function\<close>
named_theorems emits_intros \<open>introduction rules for the events of a computation\<close>
named_theorems wp_rules \<open>rewrite rules for weakest preconditions\<close>

section \<open>Strings\<close>

definition strings_HasPrefix :: "string \<Rightarrow> string \<Rightarrow> bool" where
  "strings_HasPrefix s p \<longleftrightarrow> take (length p) s = p"

fun strings_Contains :: "string \<Rightarrow> string \<Rightarrow> bool" where
  "strings_Contains [] t = (t = [])"
| "strings_Contains (c # s) t = (strings_HasPrefix (c # s) t \<or> strings_Contains s t)"

definition strings_TrimPrefix :: "string \<Rightarrow> string \<Rightarrow> string" where
  "strings_TrimPrefix s p = (if strings_HasPrefix s p then drop (length p) s else s)"

definition toLowerChar :: "char \<Rightarrow> char" where
  "toLowerChar c =
     (let n = (of_char c :: nat) in if 65 \<le> n \<and> n \<le> 90 then char_of (n + 32) else c)"

definition strings_ToLower :: "string \<Rightarrow> string" where
  "strings_ToLower s = map toLowerChar s"

definition strings_EqualFold :: "string \<Rightarrow> string \<Rightarrow> bool" where
  "strings_EqualFold s t \<longleftrightarrow> strings_ToLower s = strings_ToLower t"

fun strings_Join :: "string list \<Rightarrow> string \<Rightarrow> string" where
  "strings_Join [] sep = []"
| "strings_Join [s] sep = s"
| "strings_Join (s # t # ss) sep = s @ sep @ strings_Join (t # ss) sep"

definition strings_TrimLeft :: "string \<Rightarrow> char \<Rightarrow> string" where
  "strings_TrimLeft s c = dropWhile (\<lambda>x. x = c) s"

definition strings_TrimRight :: "string \<Rightarrow> char \<Rightarrow> string" where
  "strings_TrimRight s c = rev (dropWhile (\<lambda>x. x = c) (rev s))"

definition strings_Trim :: "string \<Rightarrow> char \<Rightarrow> string" where
  "strings_Trim s c = strings_TrimRight (strings_TrimLeft s c) c"

text \<open>\<^verbatim>\<open>strings.SplitN(s, sep, 2)\<close> for a one-character separator.\<close>

definition strings_SplitN2 :: "string \<Rightarrow> char \<Rightarrow> string list" where
  "strings_SplitN2 s c =
     (if c \<in> set s
      then [takeWhile (\<lambda>x. x \<noteq> c) s, tl (dropWhile (\<lambda>x. x \<noteq> c) s)]
      else [s])"

section \<open>Numbers in text\<close>

definition digitChar :: "nat \<Rightarrow> char" where
  "digitChar d = (if d < 10 then char_of (48 + d) else char_of (87 + d))"

text \<open>\<^verbatim>\<open>strconv.FormatUint(n, base)\<close>, for a base of at least two.\<close>

fun formatUint :: "nat \<Rightarrow> nat \<Rightarrow> string" where
  "formatUint n b =
     (if n < b \<or> b < 2 then [digitChar n] else formatUint (n div b) b @ [digitChar (n mod b)])"

declare formatUint.simps [simp del]

text \<open>The verb \<^verbatim>\<open>%d\<close>.\<close>

definition formatInt :: "int \<Rightarrow> string" where
  "formatInt i = (if i < 0 then ''-'' @ formatUint (nat (- i)) 10 else formatUint (nat i) 10)"

text \<open>The verb \<^verbatim>\<open>%q\<close> (\<^verbatim>\<open>strconv.Quote\<close>) on ASCII text.\<close>

definition quoteChar :: "char \<Rightarrow> string" where
  "quoteChar c =
     (let n = (of_char c :: nat) in
      if n = 34 then [char_of (92::nat), char_of (34::nat)]
      else if n = 92 then [char_of (92::nat), char_of (92::nat)]
      else if n = 7 then char_of (92::nat) # ''a''
      else if n = 8 then char_of (92::nat) # ''b''
      else if n = 12 then char_of (92::nat) # ''f''
      else if n = 10 then char_of (92::nat) # ''n''
      else if n = 13 then char_of (92::nat) # ''r''
      else if n = 9 then char_of (92::nat) # ''t''
      else if n = 11 then char_of (92::nat) # ''v''
      else if n < 32 \<or> n = 127
        then char_of (92::nat) # ''x'' @ [digitChar (n div 16), digitChar (n mod 16)]
      else [c])"

definition strconv_Quote :: "string \<Rightarrow> string" where
  "strconv_Quote s = char_of (34::nat) # concat (map quoteChar s) @ [char_of (34::nat)]"

section \<open>The state monad of the handlers\<close>

text \<open>
  A handler mutates the Kubernetes object it reconciles, talks to an outside world it cannot
  see, and leaves a trace of what it asked for. \<open>st_obj\<close> is that object (the target of
  the Go pointers in the scope), \<open>st_env\<close> the state of the outside world, on which only
  the parameters of the model operate, and \<open>st_trace\<close> the events so far, oldest first.
\<close>

record ('o, 'w, 'e) st =
  st_obj :: 'o
  st_env :: 'w
  st_trace :: "'e list"

type_synonym ('o, 'w, 'e, 'a) eff = "(('o, 'w, 'e) st, 'a) state"

abbreviation ret :: "'a \<Rightarrow> ('o, 'w, 'e, 'a) eff" where
  "ret \<equiv> State_Monad.return"

definition emit :: "'e \<Rightarrow> ('o, 'w, 'e, unit) eff" where
  "emit e = State (\<lambda>s. ((), s\<lparr>st_trace := st_trace s @ [e]\<rparr>))"

definition getObj :: "('o, 'w, 'e, 'o) eff" where
  "getObj = State (\<lambda>s. (st_obj s, s))"

definition modifyObj :: "('o \<Rightarrow> 'o) \<Rightarrow> ('o, 'w, 'e, unit) eff" where
  "modifyObj f = State (\<lambda>s. ((), s\<lparr>st_obj := f (st_obj s)\<rparr>))"

definition askEnv :: "('w \<Rightarrow> 'a \<times> 'w) \<Rightarrow> ('o, 'w, 'e, 'a) eff" where
  "askEnv f = State (\<lambda>s. case f (st_env s) of (a, w) \<Rightarrow> (a, s\<lparr>st_env := w\<rparr>))"

text \<open>\<^verbatim>\<open>for _, x := range xs { body }\<close> without an early exit.\<close>

primrec forEach :: "'x list \<Rightarrow> ('x \<Rightarrow> ('o, 'w, 'e, unit) eff) \<Rightarrow> ('o, 'w, 'e, unit) eff" where
  "forEach [] body = ret ()"
| "forEach (x # xs) body = do { _ \<leftarrow> body x; forEach xs body }"

lemma run_emit [simp]: "run_state (emit e) s = ((), s\<lparr>st_trace := st_trace s @ [e]\<rparr>)"
  by (simp add: emit_def)

lemma run_getObj [simp]: "run_state getObj s = (st_obj s, s)"
  by (simp add: getObj_def)

lemma run_modifyObj [simp]: "run_state (modifyObj f) s = ((), s\<lparr>st_obj := f (st_obj s)\<rparr>)"
  by (simp add: modifyObj_def)

lemma run_askEnv [simp]:
  "run_state (askEnv f) s = (fst (f (st_env s)), s\<lparr>st_env := snd (f (st_env s))\<rparr>)"
  by (simp add: askEnv_def split: prod.split)

lemma run_pair: "run_state m s = (fst (run_state m s), snd (run_state m s))"
  by simp

section \<open>Weakest preconditions\<close>

definition wp :: "('o, 'w, 'e, 'a) eff \<Rightarrow> ('a \<Rightarrow> ('o, 'w, 'e) st \<Rightarrow> bool)
    \<Rightarrow> ('o, 'w, 'e) st \<Rightarrow> bool" where
  "wp m Q s = (case run_state m s of (a, s') \<Rightarrow> Q a s')"

lemma wp_return [wp_rules]: "wp (ret x) Q s = Q x s"
  by (simp add: wp_def)

lemma wp_bind [wp_rules]: "wp (State_Monad.bind m f) Q s = wp m (\<lambda>a. wp (f a) Q) s"
  by (simp add: wp_def split: prod.split)

lemma wp_emit [wp_rules]: "wp (emit e) Q s = Q () (s\<lparr>st_trace := st_trace s @ [e]\<rparr>)"
  by (simp add: wp_def)

lemma wp_getObj [wp_rules]: "wp getObj Q s = Q (st_obj s) s"
  by (simp add: wp_def)

lemma wp_modifyObj [wp_rules]: "wp (modifyObj f) Q s = Q () (s\<lparr>st_obj := f (st_obj s)\<rparr>)"
  by (simp add: wp_def)

lemma wp_if [wp_rules]: "wp (if b then m else n) Q s = (if b then wp m Q s else wp n Q s)"
  by simp

lemma wp_case_sum [wp_rules]:
  "wp (case r of Inl e \<Rightarrow> f e | Inr x \<Rightarrow> g x) Q s =
     (case r of Inl e \<Rightarrow> wp (f e) Q s | Inr x \<Rightarrow> wp (g x) Q s)"
  by (cases r) simp_all

lemma wp_case_option [wp_rules]:
  "wp (case r of None \<Rightarrow> m | Some x \<Rightarrow> g x) Q s =
     (case r of None \<Rightarrow> wp m Q s | Some x \<Rightarrow> wp (g x) Q s)"
  by (cases r) simp_all

lemma wp_case_prod [wp_rules]:
  "wp (case r of (x, y) \<Rightarrow> f x y) Q s = (case r of (x, y) \<Rightarrow> wp (f x y) Q s)"
  by (cases r) simp

lemma wp_Let [wp_rules]: "wp (let x = t in f x) Q s = (let x = t in wp (f x) Q s)"
  by simp

lemma wp_mono: "wp m Q s \<Longrightarrow> (\<And>a t. Q a t \<Longrightarrow> R a t) \<Longrightarrow> wp m R s"
  by (auto simp: wp_def split: prod.splits)

lemma wp_conj: "wp m Q s \<Longrightarrow> wp m R s \<Longrightarrow> wp m (\<lambda>a t. Q a t \<and> R a t) s"
  by (auto simp: wp_def split: prod.splits)

lemma wpD: "wp m Q s \<Longrightarrow> run_state m s = (a, t) \<Longrightarrow> Q a t"
  by (simp add: wp_def)

lemma wpI: "(\<And>a t. run_state m s = (a, t) \<Longrightarrow> Q a t) \<Longrightarrow> wp m Q s"
  by (simp add: wp_def split: prod.split)

text \<open>\<open>answers m P\<close>: a call of a client, its retries included, leaves the object alone and returns a
  result with \<open>P\<close>, whatever state it starts from.\<close>

definition answers :: "('o, 'w, 'e, 'a) eff \<Rightarrow> ('a \<Rightarrow> bool) \<Rightarrow> bool" where
  "answers m P \<longleftrightarrow> (\<forall>s. wp m (\<lambda>r t. st_obj t = st_obj s \<and> P r) s)"

lemma answers_wp: "answers m P \<Longrightarrow> (\<And>r t. st_obj t = st_obj s \<Longrightarrow> P r \<Longrightarrow> Q r t) \<Longrightarrow> wp m Q s"
  unfolding answers_def by (blast intro: wp_mono)

section \<open>The events of a computation\<close>

definition emits :: "('e \<Rightarrow> bool) \<Rightarrow> ('o, 'w, 'e, 'a) eff \<Rightarrow> bool" where
  "emits P m \<longleftrightarrow>
     (\<forall>s. \<exists>es. st_trace (snd (run_state m s)) = st_trace s @ es \<and> (\<forall>e \<in> set es. P e))"

lemma emitsI:
  "(\<And>s. \<exists>es. st_trace (snd (run_state m s)) = st_trace s @ es \<and> (\<forall>e \<in> set es. P e))
    \<Longrightarrow> emits P m"
  by (simp add: emits_def)

lemma emitsD:
  assumes "emits P m" and "run_state m s = (a, t)"
  obtains es where "st_trace t = st_trace s @ es" and "\<forall>e \<in> set es. P e"
  using assms by (metis emits_def snd_conv)

lemma emits_mono: "emits P m \<Longrightarrow> (\<And>e. P e \<Longrightarrow> R e) \<Longrightarrow> emits R m"
  unfolding emits_def by metis

lemma emits_return [emits_intros]: "emits P (ret x)"
  by (simp add: emits_def)

lemma emits_emit [emits_intros]: "P e \<Longrightarrow> emits P (emit e)"
  by (simp add: emits_def)

lemma emits_getObj [emits_intros]: "emits P getObj"
  by (simp add: emits_def)

lemma emits_modifyObj [emits_intros]: "emits P (modifyObj f)"
  by (simp add: emits_def)

lemma emits_askEnv [emits_intros]: "emits P (askEnv f)"
  by (simp add: emits_def)

lemma emits_bind [emits_intros]:
  assumes "emits P m" and "\<And>a. emits P (f a)"
  shows "emits P (State_Monad.bind m f)"
proof (rule emitsI)
  fix s
  obtain a t where m: "run_state m s = (a, t)" by fastforce
  obtain b u where f: "run_state (f a) t = (b, u)" by fastforce
  from assms(1) m obtain es where es: "st_trace t = st_trace s @ es" "\<forall>e \<in> set es. P e"
    by (rule emitsD)
  from assms(2) f obtain fs where fs: "st_trace u = st_trace t @ fs" "\<forall>e \<in> set fs. P e"
    by (rule emitsD)
  from m f es fs have "st_trace (snd (run_state (State_Monad.bind m f) s)) = st_trace s @ es @ fs
      \<and> (\<forall>e \<in> set (es @ fs). P e)"
    by auto
  then show "\<exists>es. st_trace (snd (run_state (State_Monad.bind m f) s)) = st_trace s @ es
      \<and> (\<forall>e \<in> set es. P e)"
    by blast
qed

lemma emits_if [emits_intros]:
  "(b \<Longrightarrow> emits P m) \<Longrightarrow> (\<not> b \<Longrightarrow> emits P n) \<Longrightarrow> emits P (if b then m else n)"
  by simp

lemma emits_case_sum [emits_intros]:
  "(\<And>e. r = Inl e \<Longrightarrow> emits P (f e)) \<Longrightarrow> (\<And>x. r = Inr x \<Longrightarrow> emits P (g x))
    \<Longrightarrow> emits P (case r of Inl e \<Rightarrow> f e | Inr x \<Rightarrow> g x)"
  by (cases r) simp_all

lemma emits_case_option [emits_intros]:
  "(r = None \<Longrightarrow> emits P m) \<Longrightarrow> (\<And>x. r = Some x \<Longrightarrow> emits P (g x))
    \<Longrightarrow> emits P (case r of None \<Rightarrow> m | Some x \<Rightarrow> g x)"
  by (cases r) simp_all

lemma emits_case_prod [emits_intros]:
  "(\<And>x y. r = (x, y) \<Longrightarrow> emits P (f x y)) \<Longrightarrow> emits P (case r of (x, y) \<Rightarrow> f x y)"
  by (cases r) simp

lemma emits_case_list [emits_intros]:
  "(r = [] \<Longrightarrow> emits P m) \<Longrightarrow> (\<And>x xs. r = x # xs \<Longrightarrow> emits P (g x xs))
    \<Longrightarrow> emits P (case r of [] \<Rightarrow> m | x # xs \<Rightarrow> g x xs)"
  by (cases r) simp_all

lemma emits_Let [emits_intros]: "(\<And>x. x = t \<Longrightarrow> emits P (f x)) \<Longrightarrow> emits P (let x = t in f x)"
  by simp

lemma emits_forEach [emits_intros]:
  "(\<And>x. x \<in> set xs \<Longrightarrow> emits P (body x)) \<Longrightarrow> emits P (forEach xs body)"
  by (induction xs) (auto intro!: emits_intros)

section \<open>Computations that leave the object alone\<close>

text \<open>
  A call to the cloud or to Kubernetes changes the outside world and the trace, never the object
  under reconciliation. \<open>extern P m\<close> says so, and that every event it adds satisfies
  \<open>P\<close>.
\<close>

definition keepsObj :: "('o, 'w, 'e, 'a) eff \<Rightarrow> bool" where
  "keepsObj m \<longleftrightarrow> (\<forall>s. st_obj (snd (run_state m s)) = st_obj s)"

definition extern :: "('e \<Rightarrow> bool) \<Rightarrow> ('o, 'w, 'e, 'a) eff \<Rightarrow> bool" where
  "extern P m \<longleftrightarrow> emits P m \<and> keepsObj m"

named_theorems keepsObj_intros \<open>introduction rules for computations that leave the object alone\<close>

lemma keepsObjD: "keepsObj m \<Longrightarrow> run_state m s = (a, t) \<Longrightarrow> st_obj t = st_obj s"
  unfolding keepsObj_def by (metis snd_conv)

lemma keepsObj_return [keepsObj_intros]: "keepsObj (ret x)"
  by (simp add: keepsObj_def)

lemma keepsObj_emit [keepsObj_intros]: "keepsObj (emit e)"
  by (simp add: keepsObj_def)

lemma keepsObj_getObj [keepsObj_intros]: "keepsObj getObj"
  by (simp add: keepsObj_def)

lemma keepsObj_askEnv [keepsObj_intros]: "keepsObj (askEnv f)"
  by (simp add: keepsObj_def)

lemma keepsObj_bind [keepsObj_intros]:
  "keepsObj m \<Longrightarrow> (\<And>a. keepsObj (f a)) \<Longrightarrow> keepsObj (State_Monad.bind m f)"
  by (simp add: keepsObj_def split: prod.split) (metis snd_conv)

lemma keepsObj_if [keepsObj_intros]:
  "(b \<Longrightarrow> keepsObj m) \<Longrightarrow> (\<not> b \<Longrightarrow> keepsObj n) \<Longrightarrow> keepsObj (if b then m else n)"
  by simp

lemma keepsObj_case_sum [keepsObj_intros]:
  "(\<And>e. keepsObj (f e)) \<Longrightarrow> (\<And>x. keepsObj (g x))
    \<Longrightarrow> keepsObj (case r of Inl e \<Rightarrow> f e | Inr x \<Rightarrow> g x)"
  by (cases r) simp_all

lemma keepsObj_case_option [keepsObj_intros]:
  "keepsObj m \<Longrightarrow> (\<And>x. keepsObj (g x))
    \<Longrightarrow> keepsObj (case r of None \<Rightarrow> m | Some x \<Rightarrow> g x)"
  by (cases r) simp_all

lemma keepsObj_case_list [keepsObj_intros]:
  "keepsObj m \<Longrightarrow> (\<And>x xs. keepsObj (g x xs))
    \<Longrightarrow> keepsObj (case r of [] \<Rightarrow> m | x # xs \<Rightarrow> g x xs)"
  by (cases r) simp_all

lemma keepsObj_Let [keepsObj_intros]: "(\<And>x. keepsObj (f x)) \<Longrightarrow> keepsObj (let x = t in f x)"
  by simp

lemma keepsObj_forEach [keepsObj_intros]:
  "(\<And>x. keepsObj (body x)) \<Longrightarrow> keepsObj (forEach xs body)"
  by (induction xs) (auto intro!: keepsObj_intros)

lemma externI: "emits P m \<Longrightarrow> keepsObj m \<Longrightarrow> extern P m"
  by (simp add: extern_def)

lemma wp_extern:
  assumes "extern P m"
    and "\<And>r w es. \<forall>e \<in> set es. P e
        \<Longrightarrow> Q r (s\<lparr>st_env := w, st_trace := st_trace s @ es\<rparr>)"
  shows "wp m Q s"
proof (rule wpI)
  fix a t
  assume m: "run_state m s = (a, t)"
  from assms(1) m obtain es where es: "st_trace t = st_trace s @ es" "\<forall>e \<in> set es. P e"
    by (auto simp: extern_def elim: emitsD)
  from assms(1) m have "st_obj t = st_obj s"
    by (auto simp: extern_def intro: keepsObjD)
  with es(1) have "t = s\<lparr>st_env := st_env t, st_trace := st_trace s @ es\<rparr>"
    by simp
  with assms(2)[of es a "st_env t"] es(2) show "Q a t"
    by simp
qed

lemma wp_keepsObj:
  assumes "keepsObj m" and "\<And>r t. run_state m s = (r, t) \<Longrightarrow> st_obj t = st_obj s \<Longrightarrow> Q r t"
  shows "wp m Q s"
  using assms by (auto intro!: wpI dest: keepsObjD)

section \<open>Invariants together with events\<close>

text \<open>
  \<open>runs I P m\<close>: started on an object that satisfies \<open>I\<close>, the computation ends on one
  that satisfies \<open>I\<close>, and every event it adds satisfies \<open>P\<close>. The body of a handler
  is verified by the introduction rules; what it read from the object is known to satisfy \<open>I\<close>.
\<close>

definition runs :: "('o \<Rightarrow> bool) \<Rightarrow> ('e \<Rightarrow> bool) \<Rightarrow> ('o, 'w, 'e, 'a) eff \<Rightarrow> bool" where
  "runs I P m \<longleftrightarrow>
     (\<forall>s. I (st_obj s) \<longrightarrow> I (st_obj (snd (run_state m s)))
        \<and> (\<exists>es. st_trace (snd (run_state m s)) = st_trace s @ es \<and> (\<forall>e \<in> set es. P e)))"

named_theorems runs_intros \<open>introduction rules for invariants together with events\<close>

lemma runsD:
  assumes "runs I P m" and "I (st_obj s)" and "run_state m s = (a, t)"
  obtains es where "I (st_obj t)" and "st_trace t = st_trace s @ es" and "\<forall>e \<in> set es. P e"
  using assms unfolding runs_def by (metis snd_conv)

lemma runs_wp:
  assumes "runs I P m" and "I (st_obj s)"
    and "\<And>a t es. I (st_obj t) \<Longrightarrow> st_trace t = st_trace s @ es \<Longrightarrow> \<forall>e \<in> set es. P e \<Longrightarrow> Q a t"
  shows "wp m Q s"
  using assms by (auto intro!: wpI elim: runsD)

lemma runs_mono: "runs I P m \<Longrightarrow> (\<And>e. P e \<Longrightarrow> R e) \<Longrightarrow> runs I R m"
  unfolding runs_def by metis

lemma runs_return [runs_intros]: "runs I P (ret x)"
  by (simp add: runs_def)

lemma runs_emit [runs_intros]: "P e \<Longrightarrow> runs I P (emit e)"
  by (simp add: runs_def)

lemma runs_getObj: "runs I P getObj"
  by (simp add: runs_def)

lemma runs_modifyObj [runs_intros]: "(\<And>x. I x \<Longrightarrow> I (f x)) \<Longrightarrow> runs I P (modifyObj f)"
  by (simp add: runs_def)

lemma runs_extern: "extern P m \<Longrightarrow> runs I P m"
  unfolding extern_def emits_def keepsObj_def runs_def by metis

lemma runs_bind:
  assumes "runs I P m" and "\<And>a. runs I P (f a)"
  shows "runs I P (State_Monad.bind m f)"
  unfolding runs_def
proof (intro allI impI)
  fix s
  obtain a t where m: "run_state m s = (a, t)" by fastforce
  assume i: "I (st_obj s)"
  obtain b u where f: "run_state (f a) t = (b, u)" by fastforce
  from runsD [OF assms(1) i m] obtain es where
    es: "I (st_obj t)" "st_trace t = st_trace s @ es" "\<forall>e \<in> set es. P e" .
  from runsD [OF assms(2) es(1) f] obtain fs where
    fs: "I (st_obj u)" "st_trace u = st_trace t @ fs" "\<forall>e \<in> set fs. P e" .
  from m f es fs show "I (st_obj (snd (run_state (State_Monad.bind m f) s)))
      \<and> (\<exists>es. st_trace (snd (run_state (State_Monad.bind m f) s)) = st_trace s @ es
        \<and> (\<forall>e \<in> set es. P e))"
    by (auto intro!: exI [of _ "es @ fs"])
qed

lemma runs_bind_getObj:
  assumes "\<And>x. I x \<Longrightarrow> runs I P (f x)"
  shows "runs I P (State_Monad.bind getObj f)"
  using assms unfolding runs_def by simp

lemmas runs_binds [runs_intros] = runs_bind_getObj runs_bind

lemma runs_if [runs_intros]:
  "(b \<Longrightarrow> runs I P m) \<Longrightarrow> (\<not> b \<Longrightarrow> runs I P n) \<Longrightarrow> runs I P (if b then m else n)"
  by simp

lemma runs_case_sum [runs_intros]:
  "(\<And>e. r = Inl e \<Longrightarrow> runs I P (f e)) \<Longrightarrow> (\<And>x. r = Inr x \<Longrightarrow> runs I P (g x))
    \<Longrightarrow> runs I P (case r of Inl e \<Rightarrow> f e | Inr x \<Rightarrow> g x)"
  by (cases r) simp_all

lemma runs_case_option [runs_intros]:
  "(r = None \<Longrightarrow> runs I P m) \<Longrightarrow> (\<And>x. r = Some x \<Longrightarrow> runs I P (g x))
    \<Longrightarrow> runs I P (case r of None \<Rightarrow> m | Some x \<Rightarrow> g x)"
  by (cases r) simp_all

lemma runs_case_list [runs_intros]:
  "(r = [] \<Longrightarrow> runs I P m) \<Longrightarrow> (\<And>x xs. r = x # xs \<Longrightarrow> runs I P (g x xs))
    \<Longrightarrow> runs I P (case r of [] \<Rightarrow> m | x # xs \<Rightarrow> g x xs)"
  by (cases r) simp_all

lemma runs_case_prod [runs_intros]:
  "(\<And>x y. r = (x, y) \<Longrightarrow> runs I P (f x y)) \<Longrightarrow> runs I P (case r of (x, y) \<Rightarrow> f x y)"
  by (cases r) simp

lemma runs_Let [runs_intros]: "(\<And>x. x = t \<Longrightarrow> runs I P (f x)) \<Longrightarrow> runs I P (let x = t in f x)"
  by simp

lemma runs_forEach [runs_intros]:
  "(\<And>x. x \<in> set xs \<Longrightarrow> runs I P (body x)) \<Longrightarrow> runs I P (forEach xs body)"
  by (induction xs) (auto intro!: runs_intros)

end
