(* ===== verification/Ovh_Errors.thy ===== *)
theory Ovh_Errors
  imports Go_Prelude
begin

text \<open>
  Go errors and the classifiers of \<^verbatim>\<open>pkg/ovh/errors.go\<close>. An error is a value of
  \<open>gerror\<close>; Go's \<^verbatim>\<open>nil\<close> is \<open>None\<close>. The error types of packages
  outside the repository carry what the provider reads of them: the status code and the text of
  the OVH SDK's \<^verbatim>\<open>APIError\<close>, the reason and the text of a Kubernetes
  \<^verbatim>\<open>StatusError\<close>.
\<close>

section \<open>Error values\<close>

text \<open>
  \<open>Plain\<close> is an \<^verbatim>\<open>errors.New\<close> or \<^verbatim>\<open>fmt.Errorf\<close> value without a
  cause (or an error of the network stack); \<open>Sentinel\<close> is a package-level error variable,
  which \<^verbatim>\<open>errors.Is\<close> recognises by identity; \<open>Wrap p e q\<close> is
  \<^verbatim>\<open>fmt.Errorf("p%wq", e)\<close>.
\<close>

datatype gerror =
    APIError int string
  | StatusError string string
  | Sentinel string
  | Plain string
  | Wrap string gerror string

primrec Error_text :: "gerror \<Rightarrow> string" where
  "Error_text (APIError code text) = text"
| "Error_text (StatusError reason text) = text"
| "Error_text (Sentinel text) = text"
| "Error_text (Plain text) = text"
| "Error_text (Wrap p e q) = p @ Error_text e @ q"

text \<open>\<^verbatim>\<open>errors.As(err, &apiErr)\<close>: the code of the first API error of the chain.\<close>

primrec errors_As_API :: "gerror \<Rightarrow> int option" where
  "errors_As_API (APIError code text) = Some code"
| "errors_As_API (StatusError reason text) = None"
| "errors_As_API (Sentinel text) = None"
| "errors_As_API (Plain text) = None"
| "errors_As_API (Wrap p e q) = errors_As_API e"

text \<open>\<^verbatim>\<open>errors.Is(err, sentinel)\<close>.\<close>

primrec errors_Is :: "gerror \<Rightarrow> string \<Rightarrow> bool" where
  "errors_Is (APIError code text) name = False"
| "errors_Is (StatusError reason text) name = False"
| "errors_Is (Sentinel text) name = (text = name)"
| "errors_Is (Plain text) name = False"
| "errors_Is (Wrap p e q) name = errors_Is e name"

text \<open>The reason that \<^verbatim>\<open>apierrors.IsNotFound\<close> of Kubernetes looks for in the chain.\<close>

primrec apierrors_Reason :: "gerror \<Rightarrow> string" where
  "apierrors_Reason (APIError code text) = ''''"
| "apierrors_Reason (StatusError reason text) = reason"
| "apierrors_Reason (Sentinel text) = ''''"
| "apierrors_Reason (Plain text) = ''''"
| "apierrors_Reason (Wrap p e q) = apierrors_Reason e"

definition apierrors_IsNotFound :: "gerror \<Rightarrow> bool" where
  "apierrors_IsNotFound e \<longleftrightarrow> apierrors_Reason e = ''NotFound''"

section \<open>The classifiers\<close>

definition IsNotFound :: "gerror option \<Rightarrow> bool" where
  "IsNotFound err = (case err of None \<Rightarrow> False
     | Some e \<Rightarrow> (case errors_As_API e of
         Some code \<Rightarrow> code = 404
       | None \<Rightarrow> strings_Contains (Error_text e) ''404''
                \<or> strings_Contains (Error_text e) ''not found''))"

definition IsConflict :: "gerror option \<Rightarrow> bool" where
  "IsConflict err = (case err of None \<Rightarrow> False
     | Some e \<Rightarrow> (case errors_As_API e of Some code \<Rightarrow> code = 409 | None \<Rightarrow> False))"

definition IsAlreadyDeleting :: "gerror option \<Rightarrow> bool" where
  "IsAlreadyDeleting err =
     (if \<not> IsConflict err then False
      else (case err of None \<Rightarrow> False
        | Some e \<Rightarrow> strings_Contains (Error_text e) ''PENDING_DELETE''
                  \<or> strings_Contains (Error_text e) ''PENDING_UPDATE''))"

definition IsRetryable :: "gerror option \<Rightarrow> bool" where
  "IsRetryable err = (case err of None \<Rightarrow> False
     | Some e \<Rightarrow> (case errors_As_API e of
         Some code \<Rightarrow> code \<in> {429, 500, 502, 503, 504}
       | None \<Rightarrow> strings_Contains (Error_text e) ''connection refused''
                \<or> strings_Contains (Error_text e) ''connection reset''
                \<or> strings_Contains (Error_text e) ''timeout''
                \<or> strings_Contains (Error_text e) ''temporary failure''))"

definition IsForbidden :: "gerror option \<Rightarrow> bool" where
  "IsForbidden err = (case err of None \<Rightarrow> False
     | Some e \<Rightarrow> (case errors_As_API e of Some code \<Rightarrow> code = 403 | None \<Rightarrow> False))"

definition IsUnauthorized :: "gerror option \<Rightarrow> bool" where
  "IsUnauthorized err = (case err of None \<Rightarrow> False
     | Some e \<Rightarrow> (case errors_As_API e of Some code \<Rightarrow> code = 401 | None \<Rightarrow> False))"

lemmas classifier_defs = IsNotFound_def IsConflict_def IsAlreadyDeleting_def IsRetryable_def
  IsForbidden_def IsUnauthorized_def

section \<open>Wrapping an error\<close>

lemma HasPrefix_append: "strings_HasPrefix s t \<Longrightarrow> strings_HasPrefix (s @ u) t"
  unfolding strings_HasPrefix_def by (metis append_take_drop_id append.assoc append_eq_conv_conj)

lemma Contains_iff: "strings_Contains s t \<longleftrightarrow> (\<exists>u v. s = u @ t @ v)"
proof (induction s)
  case Nil
  show ?case by auto
next
  case (Cons c s)
  have "strings_HasPrefix (c # s) t \<longleftrightarrow> (\<exists>v. c # s = t @ v)"
    unfolding strings_HasPrefix_def by (metis append_eq_conv_conj append_take_drop_id)
  moreover have "(\<exists>u v. c # s = u @ t @ v) \<longleftrightarrow> (\<exists>v. c # s = t @ v) \<or> (\<exists>u v. s = u @ t @ v)"
    by (metis append_Cons append_Nil list.exhaust list.inject)
  ultimately show ?case using Cons.IH by simp
qed

lemma Contains_appendI: "strings_Contains s t \<Longrightarrow> strings_Contains (u @ s @ v) t"
  unfolding Contains_iff by (metis append.assoc)

lemma Contains_prefixI: "strings_Contains u t \<Longrightarrow> strings_Contains (u @ v) t"
  using Contains_appendI [of u t "[]" v] by simp

text \<open>What the handlers conclude from an API error survives every wrapping on the way up.\<close>

lemma errors_As_API_Wrap: "errors_As_API (Wrap p e q) = errors_As_API e"
  by simp

lemma classify_Wrap_API:
  assumes "errors_As_API e = Some code"
  shows "IsNotFound (Some (Wrap p e q)) = IsNotFound (Some e)"
    and "IsRetryable (Some (Wrap p e q)) = IsRetryable (Some e)"
    and "IsConflict (Some (Wrap p e q)) = IsConflict (Some e)"
    and "IsForbidden (Some (Wrap p e q)) = IsForbidden (Some e)"
    and "IsUnauthorized (Some (Wrap p e q)) = IsUnauthorized (Some e)"
  using assms by (simp_all add: classifier_defs)

lemma classify_Wrap_mono:
  "IsNotFound (Some e) \<Longrightarrow> IsNotFound (Some (Wrap p e q))"
  "IsRetryable (Some e) \<Longrightarrow> IsRetryable (Some (Wrap p e q))"
  "IsAlreadyDeleting (Some e) \<Longrightarrow> IsAlreadyDeleting (Some (Wrap p e q))"
  by (auto simp: classifier_defs Contains_appendI split: option.splits if_splits)

text \<open>The six classifiers sort every API error by its status code, and by nothing else: at
  most one of not-found, conflict, forbidden, unauthorized and retryable holds, the same holds
  for the error wrapped any number of times, and an error that is already being deleted is a
  conflict.\<close>

lemma classifiers_partition:
  assumes "errors_As_API e = Some code"
  shows "(IsNotFound (Some (Wrap p e q)) \<longleftrightarrow> code = 404)
    \<and> (IsConflict (Some (Wrap p e q)) \<longleftrightarrow> code = 409)
    \<and> (IsForbidden (Some (Wrap p e q)) \<longleftrightarrow> code = 403)
    \<and> (IsUnauthorized (Some (Wrap p e q)) \<longleftrightarrow> code = 401)
    \<and> (IsRetryable (Some (Wrap p e q)) \<longleftrightarrow> code \<in> {429, 500, 502, 503, 504})
    \<and> (IsAlreadyDeleting (Some (Wrap p e q)) \<longrightarrow> code = 409)"
  using assms by (simp add: classifier_defs)

end
