(* ===== verification/Ovh_Types.thy ===== *)
theory Ovh_Types
  imports Complex_Main Ovh_Errors
begin

text \<open>
  The data of \<^verbatim>\<open>pkg/ovh/types.go\<close>: one record per struct, with the field
  \<^verbatim>\<open>F\<close> of the struct \<^verbatim>\<open>S\<close> named \<open>S_F\<close>, a slice as a list, a pointer as
  an option. Then the boundary of the model: the requests the OVH SDK is asked to send, the
  values it decodes an answer into, and the events a run of the controller leaves behind.
  The Go integer types are \<^typ>\<open>int\<close>: the provider copies and compares them only.
\<close>

section \<open>Resources and request options\<close>

record IPAddress =
  IPAddress_IP :: string
  IPAddress_Type :: string
  IPAddress_Version :: int

record AttachedVolume =
  AttachedVolume_ID :: string

record Instance =
  Instance_ID :: string
  Instance_Name :: string
  Instance_Status :: string
  Instance_FlavorID :: string
  Instance_ImageID :: string
  Instance_Region :: string
  Instance_Created :: string
  Instance_IPAddresses :: "IPAddress list"
  Instance_AttachedVolumes :: "AttachedVolume list"
  Instance_SSHKeyID :: string
  Instance_MonthlyBilling :: bool

record InstanceNetwork =
  InstanceNetwork_NetworkID :: string

record CreateInstanceOpts =
  CreateInstanceOpts_Name :: string
  CreateInstanceOpts_FlavorID :: string
  CreateInstanceOpts_ImageID :: string
  CreateInstanceOpts_Region :: string
  CreateInstanceOpts_SSHKeyID :: string
  CreateInstanceOpts_UserData :: string
  CreateInstanceOpts_Networks :: "InstanceNetwork list"
  CreateInstanceOpts_MonthlyBilling :: bool
  CreateInstanceOpts_GroupID :: string

record Flavor =
  Flavor_ID :: string
  Flavor_Name :: string
  Flavor_VCPUs :: int
  Flavor_RAM :: int
  Flavor_Disk :: int
  Flavor_Type :: string
  Flavor_Region :: string
  Flavor_Bandwidth :: int
  Flavor_PlanCode :: string

record Image =
  Image_ID :: string
  Image_Name :: string
  Image_Status :: string
  Image_Region :: string
  Image_CreationDate :: string
  Image_MinRAM :: int
  Image_MinDisk :: int
  Image_Size :: real
  Image_Type :: string
  Image_User :: string
  Image_Visibility :: string
  Image_PlanCode :: string

record SSHKey =
  SSHKey_ID :: string
  SSHKey_Name :: string
  SSHKey_PublicKey :: string
  SSHKey_Fingerprint :: string
  SSHKey_Regions :: "string list"

record NetworkRegion =
  NetworkRegion_Region :: string
  NetworkRegion_Status :: string
  NetworkRegion_OpenStackID :: string

record PrivateNetwork =
  PrivateNetwork_ID :: string
  PrivateNetwork_Name :: string
  PrivateNetwork_VlanID :: int
  PrivateNetwork_Regions :: "NetworkRegion list"
  PrivateNetwork_Status :: string
  PrivateNetwork_Type :: string

record CreateNetworkOpts =
  CreateNetworkOpts_Name :: string
  CreateNetworkOpts_VlanID :: int
  CreateNetworkOpts_Regions :: "string list"

record IPPool =
  IPPool_Start :: string
  IPPool_End :: string
  IPPool_Network :: string
  IPPool_Region :: string
  IPPool_DHCP :: bool

record Subnet =
  Subnet_ID :: string
  Subnet_CIDR :: string
  Subnet_GatewayIP :: string
  Subnet_IPPools :: "IPPool list"
  Subnet_Region :: string
  Subnet_DHCP :: bool
  Subnet_NoGateway :: bool

record CreateSubnetOpts =
  CreateSubnetOpts_Network :: string
  CreateSubnetOpts_Start :: string
  CreateSubnetOpts_End :: string
  CreateSubnetOpts_Region :: string
  CreateSubnetOpts_DHCP :: bool
  CreateSubnetOpts_NoGateway :: bool

record LBFlavor =
  LBFlavor_ID :: string
  LBFlavor_Name :: string
  LBFlavor_Region :: string

record FloatingIPRef =
  FloatingIPRef_ID :: string
  FloatingIPRef_IP :: string

record ListenerRef =
  ListenerRef_ID :: string

record LoadBalancer =
  LoadBalancer_ID :: string
  LoadBalancer_Name :: string
  LoadBalancer_CreatedAt :: string
  LoadBalancer_UpdatedAt :: string
  LoadBalancer_Region :: string
  LoadBalancer_FlavorID :: string
  LoadBalancer_OperatingStatus :: string
  LoadBalancer_ProvisioningStatus :: string
  LoadBalancer_VIPAddress :: string
  LoadBalancer_VIPNetworkID :: string
  LoadBalancer_VIPSubnetID :: string
  LoadBalancer_FloatingIP :: "FloatingIPRef option"
  LoadBalancer_Listeners :: "ListenerRef list"

record LBNetworkRef =
  LBNetworkRef_ID :: string
  LBNetworkRef_SubnetID :: string

record LBPrivateNetwork =
  LBPrivateNetwork_Network :: LBNetworkRef

record LBNetworkConfig =
  LBNetworkConfig_Private :: LBPrivateNetwork

record CreateLoadBalancerOpts =
  CreateLoadBalancerOpts_Name :: string
  CreateLoadBalancerOpts_FlavorID :: string
  CreateLoadBalancerOpts_Network :: LBNetworkConfig

record Listener =
  Listener_ID :: string
  Listener_Name :: string
  Listener_Protocol :: string
  Listener_ProtocolPort :: int
  Listener_Port :: int
  Listener_DefaultPoolID :: string
  Listener_LoadBalancerID :: string
  Listener_LoadBalancerIDs :: "string list"
  Listener_ProvisioningStatus :: string
  Listener_OperatingStatus :: string

record CreateListenerOpts =
  CreateListenerOpts_Name :: string
  CreateListenerOpts_Protocol :: string
  CreateListenerOpts_Port :: int
  CreateListenerOpts_LoadBalancerID :: string
  CreateListenerOpts_DefaultPoolID :: string

record Pool =
  Pool_ID :: string
  Pool_Name :: string
  Pool_Protocol :: string
  Pool_LBAlgorithm :: string
  Pool_ListenerID :: string
  Pool_LoadBalancerID :: string
  Pool_ProvisioningStatus :: string
  Pool_OperatingStatus :: string

record CreatePoolOpts =
  CreatePoolOpts_Name :: string
  CreatePoolOpts_Protocol :: string
  CreatePoolOpts_Algorithm :: string
  CreatePoolOpts_ListenerID :: string
  CreatePoolOpts_LoadBalancerID :: string

record Member =
  Member_ID :: string
  Member_Name :: string
  Member_Address :: string
  Member_ProtocolPort :: int
  Member_SubnetID :: string
  Member_OperatingStatus :: string
  Member_ProvisioningStatus :: string
  Member_Weight :: int

record CreateMemberOpts =
  CreateMemberOpts_Name :: string
  CreateMemberOpts_Address :: string
  CreateMemberOpts_ProtocolPort :: int
  CreateMemberOpts_SubnetID :: string
  CreateMemberOpts_Weight :: int

record addPoolMembersRequest =
  addPoolMembersRequest_Members :: "CreateMemberOpts list"

record HealthMonitor =
  HealthMonitor_ID :: string
  HealthMonitor_Name :: string
  HealthMonitor_MonitorType :: string
  HealthMonitor_Delay :: int
  HealthMonitor_Timeout :: int
  HealthMonitor_MaxRetries :: int
  HealthMonitor_PoolID :: string
  HealthMonitor_URLPath :: string
  HealthMonitor_HTTPMethod :: string
  HealthMonitor_ExpectedCodes :: string
  HealthMonitor_ProvisioningStatus :: string
  HealthMonitor_OperatingStatus :: string

record CreateHealthMonitorOpts =
  CreateHealthMonitorOpts_Name :: string
  CreateHealthMonitorOpts_MonitorType :: string
  CreateHealthMonitorOpts_Delay :: int
  CreateHealthMonitorOpts_Timeout :: int
  CreateHealthMonitorOpts_MaxRetries :: int
  CreateHealthMonitorOpts_PoolID :: string

record FloatingIPAssociation =
  FloatingIPAssociation_ID :: string
  FloatingIPAssociation_Type :: string
  FloatingIPAssociation_IP :: string
  FloatingIPAssociation_GatewayID :: string

record FloatingIP =
  FloatingIP_ID :: string
  FloatingIP_IP :: string
  FloatingIP_Status :: string
  FloatingIP_AssociatedEntity :: "FloatingIPAssociation option"
  FloatingIP_Region :: string
  FloatingIP_NetworkID :: string

record GatewayInterface =
  GatewayInterface_ID :: string
  GatewayInterface_IP :: string
  GatewayInterface_NetworkID :: string
  GatewayInterface_SubnetID :: string

record Gateway =
  Gateway_ID :: string
  Gateway_Name :: string
  Gateway_Status :: string
  Gateway_Model :: string
  Gateway_Region :: string
  Gateway_Interfaces :: "GatewayInterface list"

record CreateFloatingIPOpts =
  CreateFloatingIPOpts_IP :: string
  CreateFloatingIPOpts_Description :: string

record Volume =
  Volume_ID :: string
  Volume_Name :: string
  Volume_Description :: string
  Volume_Size :: int
  Volume_Type :: string
  Volume_Region :: string
  Volume_Status :: string
  Volume_AttachedTo :: "string list"

record CreateVolumeOpts =
  CreateVolumeOpts_Name :: string
  CreateVolumeOpts_Description :: string
  CreateVolumeOpts_Size :: int
  CreateVolumeOpts_Type :: string
  CreateVolumeOpts_Region :: string

record AttachVolumeOpts =
  AttachVolumeOpts_InstanceID :: string

record Me =
  Me_Nichandle :: string
  Me_FirstName :: string
  Me_Name :: string
  Me_Email :: string

record RegionService =
  RegionService_Name :: string
  RegionService_Status :: string

record RegionInfo =
  RegionInfo_Name :: string
  RegionInfo_Services :: "RegionService list"

record SecurityGroup =
  SecurityGroup_ID :: string
  SecurityGroup_Name :: string

record SecurityGroupRule =
  SecurityGroupRule_ID :: string
  SecurityGroupRule_Direction :: string
  SecurityGroupRule_Protocol :: string
  SecurityGroupRule_PortRangeMin :: "int option"
  SecurityGroupRule_PortRangeMax :: "int option"
  SecurityGroupRule_RemoteIPPrefix :: string
  SecurityGroupRule_EtherType :: string

record CreateSecurityGroupOpts =
  CreateSecurityGroupOpts_Name :: string
  CreateSecurityGroupOpts_Description :: string

record CreateSecurityGroupRuleOpts =
  CreateSecurityGroupRuleOpts_Direction :: string
  CreateSecurityGroupRuleOpts_Protocol :: string
  CreateSecurityGroupRuleOpts_PortRangeMin :: "int option"
  CreateSecurityGroupRuleOpts_PortRangeMax :: "int option"
  CreateSecurityGroupRuleOpts_RemoteIPPrefix :: string
  CreateSecurityGroupRuleOpts_EtherType :: string

record DNSRecord =
  DNSRecord_ID :: int
  DNSRecord_FieldType :: string
  DNSRecord_SubDomain :: string
  DNSRecord_Target :: string
  DNSRecord_TTL :: int
  DNSRecord_Zone :: string

record CreateDNSRecordOpts =
  CreateDNSRecordOpts_FieldType :: string
  CreateDNSRecordOpts_SubDomain :: string
  CreateDNSRecordOpts_Target :: string
  CreateDNSRecordOpts_TTL :: int

text \<open>\<^verbatim>\<open>CreateSSHKeyOpts\<close> is declared in \<^verbatim>\<open>client.go\<close>.\<close>

record CreateSSHKeyOpts =
  CreateSSHKeyOpts_Name :: string
  CreateSSHKeyOpts_PublicKey :: string
  CreateSSHKeyOpts_Region :: string

section \<open>Status constants\<close>

abbreviation InstanceStatusActive :: string where "InstanceStatusActive \<equiv> ''ACTIVE''"
abbreviation InstanceStatusBuild :: string where "InstanceStatusBuild \<equiv> ''BUILD''"
abbreviation InstanceStatusError :: string where "InstanceStatusError \<equiv> ''ERROR''"
abbreviation InstanceStatusDeleted :: string where "InstanceStatusDeleted \<equiv> ''DELETED''"
abbreviation LBProvisioningStatusActive :: string where "LBProvisioningStatusActive \<equiv> ''active''"

section \<open>Operations on resources\<close>

text \<open>\<^verbatim>\<open>(*PrivateNetwork).OpenStackIDForRegion\<close>.\<close>

definition OpenStackIDForRegion :: "PrivateNetwork \<Rightarrow> string \<Rightarrow> string" where
  "OpenStackIDForRegion n region =
     (case find (\<lambda>r. NetworkRegion_Region r = region) (PrivateNetwork_Regions n) of
        Some r \<Rightarrow> NetworkRegion_OpenStackID r
      | None \<Rightarrow> '''')"

section \<open>Zero values\<close>

text \<open>The value of a freshly declared variable, which it keeps when an answer has no body.\<close>

definition zero_Instance :: Instance where
  "zero_Instance = \<lparr>Instance_ID = '''', Instance_Name = '''', Instance_Status = '''',
     Instance_FlavorID = '''', Instance_ImageID = '''', Instance_Region = '''',
     Instance_Created = '''', Instance_IPAddresses = [], Instance_AttachedVolumes = [],
     Instance_SSHKeyID = '''', Instance_MonthlyBilling = False\<rparr>"

definition zero_Image :: Image where
  "zero_Image = \<lparr>Image_ID = '''', Image_Name = '''', Image_Status = '''',
     Image_Region = '''', Image_CreationDate = '''', Image_MinRAM = 0, Image_MinDisk = 0,
     Image_Size = 0, Image_Type = '''', Image_User = '''', Image_Visibility = '''',
     Image_PlanCode = ''''\<rparr>"

definition zero_SSHKey :: SSHKey where
  "zero_SSHKey = \<lparr>SSHKey_ID = '''', SSHKey_Name = '''', SSHKey_PublicKey = '''',
     SSHKey_Fingerprint = '''', SSHKey_Regions = []\<rparr>"

definition zero_PrivateNetwork :: PrivateNetwork where
  "zero_PrivateNetwork = \<lparr>PrivateNetwork_ID = '''', PrivateNetwork_Name = '''',
     PrivateNetwork_VlanID = 0, PrivateNetwork_Regions = [], PrivateNetwork_Status = '''',
     PrivateNetwork_Type = ''''\<rparr>"

definition zero_Subnet :: Subnet where
  "zero_Subnet = \<lparr>Subnet_ID = '''', Subnet_CIDR = '''', Subnet_GatewayIP = '''',
     Subnet_IPPools = [], Subnet_Region = '''', Subnet_DHCP = False, Subnet_NoGateway = False\<rparr>"

definition zero_LoadBalancer :: LoadBalancer where
  "zero_LoadBalancer = \<lparr>LoadBalancer_ID = '''', LoadBalancer_Name = '''',
     LoadBalancer_CreatedAt = '''', LoadBalancer_UpdatedAt = '''', LoadBalancer_Region = '''',
     LoadBalancer_FlavorID = '''', LoadBalancer_OperatingStatus = '''',
     LoadBalancer_ProvisioningStatus = '''', LoadBalancer_VIPAddress = '''',
     LoadBalancer_VIPNetworkID = '''', LoadBalancer_VIPSubnetID = '''',
     LoadBalancer_FloatingIP = None, LoadBalancer_Listeners = []\<rparr>"

definition zero_Listener :: Listener where
  "zero_Listener = \<lparr>Listener_ID = '''', Listener_Name = '''', Listener_Protocol = '''',
     Listener_ProtocolPort = 0, Listener_Port = 0, Listener_DefaultPoolID = '''',
     Listener_LoadBalancerID = '''', Listener_LoadBalancerIDs = [],
     Listener_ProvisioningStatus = '''', Listener_OperatingStatus = ''''\<rparr>"

definition zero_Pool :: Pool where
  "zero_Pool = \<lparr>Pool_ID = '''', Pool_Name = '''', Pool_Protocol = '''',
     Pool_LBAlgorithm = '''', Pool_ListenerID = '''', Pool_LoadBalancerID = '''',
     Pool_ProvisioningStatus = '''', Pool_OperatingStatus = ''''\<rparr>"

definition zero_HealthMonitor :: HealthMonitor where
  "zero_HealthMonitor = \<lparr>HealthMonitor_ID = '''', HealthMonitor_Name = '''',
     HealthMonitor_MonitorType = '''', HealthMonitor_Delay = 0, HealthMonitor_Timeout = 0,
     HealthMonitor_MaxRetries = 0, HealthMonitor_PoolID = '''', HealthMonitor_URLPath = '''',
     HealthMonitor_HTTPMethod = '''', HealthMonitor_ExpectedCodes = '''',
     HealthMonitor_ProvisioningStatus = '''', HealthMonitor_OperatingStatus = ''''\<rparr>"

definition zero_FloatingIP :: FloatingIP where
  "zero_FloatingIP = \<lparr>FloatingIP_ID = '''', FloatingIP_IP = '''',
     FloatingIP_Status = '''', FloatingIP_AssociatedEntity = None, FloatingIP_Region = '''',
     FloatingIP_NetworkID = ''''\<rparr>"

definition zero_Volume :: Volume where
  "zero_Volume = \<lparr>Volume_ID = '''', Volume_Name = '''', Volume_Description = '''',
     Volume_Size = 0, Volume_Type = '''', Volume_Region = '''', Volume_Status = '''',
     Volume_AttachedTo = []\<rparr>"

definition zero_RegionInfo :: RegionInfo where
  "zero_RegionInfo = \<lparr>RegionInfo_Name = '''', RegionInfo_Services = []\<rparr>"

definition zero_SecurityGroup :: SecurityGroup where
  "zero_SecurityGroup = \<lparr>SecurityGroup_ID = '''', SecurityGroup_Name = ''''\<rparr>"

definition zero_SecurityGroupRule :: SecurityGroupRule where
  "zero_SecurityGroupRule = \<lparr>SecurityGroupRule_ID = '''',
     SecurityGroupRule_Direction = '''', SecurityGroupRule_Protocol = '''',
     SecurityGroupRule_PortRangeMin = None, SecurityGroupRule_PortRangeMax = None,
     SecurityGroupRule_RemoteIPPrefix = '''', SecurityGroupRule_EtherType = ''''\<rparr>"

definition zero_DNSRecord :: DNSRecord where
  "zero_DNSRecord = \<lparr>DNSRecord_ID = 0, DNSRecord_FieldType = '''',
     DNSRecord_SubDomain = '''', DNSRecord_Target = '''', DNSRecord_TTL = 0,
     DNSRecord_Zone = ''''\<rparr>"

section \<open>Requests, answers, events\<close>

text \<open>The Go value handed to the SDK as the body of a POST.\<close>

datatype body =
    BNone
  | BInstance CreateInstanceOpts
  | BSSHKey CreateSSHKeyOpts
  | BNetwork CreateNetworkOpts
  | BSubnet CreateSubnetOpts
  | BLoadBalancer CreateLoadBalancerOpts
  | BAssociateFloatingIP string
  | BLBFloatingIP string "(string \<times> string) list"
  | BListener CreateListenerOpts
  | BPool CreatePoolOpts
  | BMembers addPoolMembersRequest
  | BHealthMonitor CreateHealthMonitorOpts
  | BVolume CreateVolumeOpts
  | BAttachVolume AttachVolumeOpts
  | BFloatingIP CreateFloatingIPOpts
  | BSecurityGroup CreateSecurityGroupOpts
  | BSecurityGroupRule CreateSecurityGroupRuleOpts
  | BDNSRecord CreateDNSRecordOpts

datatype request = Get string | Post string body | Delete string

text \<open>
  What an answer decodes to. \<open>RNone\<close> is an answer without a body. Decoding an answer of one
  shape into a variable of another is an error of \<^verbatim>\<open>encoding/json\<close>.
\<close>

datatype reply =
    RNone
  | RTask "(string \<times> string) list"
  | RStrings (the_RStrings: "string list")
  | RInstance (the_RInstance: Instance)
  | RSSHKey (the_RSSHKey: SSHKey)
  | RPrivateNetwork (the_RPrivateNetwork: PrivateNetwork)
  | RSubnet (the_RSubnet: Subnet)
  | RLoadBalancer (the_RLoadBalancer: LoadBalancer)
  | RFloatingIP (the_RFloatingIP: FloatingIP)
  | RListener (the_RListener: Listener)
  | RPool (the_RPool: Pool)
  | RHealthMonitor (the_RHealthMonitor: HealthMonitor)
  | RVolume (the_RVolume: Volume)
  | RRegionInfo (the_RRegionInfo: RegionInfo)
  | RSecurityGroup (the_RSecurityGroup: SecurityGroup)
  | RSecurityGroupRule (the_RSecurityGroupRule: SecurityGroupRule)
  | RDNSRecord (the_RDNSRecord: DNSRecord)
  | RInstances (the_RInstances: "Instance list")
  | RFlavors (the_RFlavors: "Flavor list")
  | RImages (the_RImages: "Image list")
  | RSSHKeys (the_RSSHKeys: "SSHKey list")
  | RPrivateNetworks (the_RPrivateNetworks: "PrivateNetwork list")
  | RSubnets (the_RSubnets: "Subnet list")
  | RLBFlavors (the_RLBFlavors: "LBFlavor list")
  | RLoadBalancers (the_RLoadBalancers: "LoadBalancer list")
  | RGateways (the_RGateways: "Gateway list")
  | RListeners (the_RListeners: "Listener list")
  | RPools (the_RPools: "Pool list")
  | RMembers (the_RMembers: "Member list")
  | RHealthMonitors (the_RHealthMonitors: "HealthMonitor list")
  | RFloatingIPs (the_RFloatingIPs: "FloatingIP list")
  | RSecurityGroups (the_RSecurityGroups: "SecurityGroup list")
  | RSecurityGroupRules (the_RSecurityGroupRules: "SecurityGroupRule list")

definition decode :: "(reply \<Rightarrow> bool) \<Rightarrow> (reply \<Rightarrow> 'a) \<Rightarrow> 'a \<Rightarrow> reply \<Rightarrow> gerror + 'a" where
  "decode is the_value zero r =
     (if r = RNone then Inr zero
      else if is r then Inr (the_value r)
      else Inl (Plain ''json: cannot unmarshal''))"

definition asStrings :: "reply \<Rightarrow> gerror + (string list)" where
  "asStrings = decode is_RStrings the_RStrings []"

definition asInstance :: "reply \<Rightarrow> gerror + Instance" where
  "asInstance = decode is_RInstance the_RInstance zero_Instance"

definition asSSHKey :: "reply \<Rightarrow> gerror + SSHKey" where
  "asSSHKey = decode is_RSSHKey the_RSSHKey zero_SSHKey"

definition asPrivateNetwork :: "reply \<Rightarrow> gerror + PrivateNetwork" where
  "asPrivateNetwork = decode is_RPrivateNetwork the_RPrivateNetwork zero_PrivateNetwork"

definition asSubnet :: "reply \<Rightarrow> gerror + Subnet" where
  "asSubnet = decode is_RSubnet the_RSubnet zero_Subnet"

definition asLoadBalancer :: "reply \<Rightarrow> gerror + LoadBalancer" where
  "asLoadBalancer = decode is_RLoadBalancer the_RLoadBalancer zero_LoadBalancer"

definition asFloatingIP :: "reply \<Rightarrow> gerror + FloatingIP" where
  "asFloatingIP = decode is_RFloatingIP the_RFloatingIP zero_FloatingIP"

definition asListener :: "reply \<Rightarrow> gerror + Listener" where
  "asListener = decode is_RListener the_RListener zero_Listener"

definition asPool :: "reply \<Rightarrow> gerror + Pool" where
  "asPool = decode is_RPool the_RPool zero_Pool"

definition asHealthMonitor :: "reply \<Rightarrow> gerror + HealthMonitor" where
  "asHealthMonitor = decode is_RHealthMonitor the_RHealthMonitor zero_HealthMonitor"

definition asVolume :: "reply \<Rightarrow> gerror + Volume" where
  "asVolume = decode is_RVolume the_RVolume zero_Volume"

definition asRegionInfo :: "reply \<Rightarrow> gerror + RegionInfo" where
  "asRegionInfo = decode is_RRegionInfo the_RRegionInfo zero_RegionInfo"

definition asSecurityGroup :: "reply \<Rightarrow> gerror + SecurityGroup" where
  "asSecurityGroup = decode is_RSecurityGroup the_RSecurityGroup zero_SecurityGroup"

definition asSecurityGroupRule :: "reply \<Rightarrow> gerror + SecurityGroupRule" where
  "asSecurityGroupRule = decode is_RSecurityGroupRule the_RSecurityGroupRule zero_SecurityGroupRule"

definition asDNSRecord :: "reply \<Rightarrow> gerror + DNSRecord" where
  "asDNSRecord = decode is_RDNSRecord the_RDNSRecord zero_DNSRecord"

definition asInstances :: "reply \<Rightarrow> gerror + (Instance list)" where
  "asInstances = decode is_RInstances the_RInstances []"

definition asFlavors :: "reply \<Rightarrow> gerror + (Flavor list)" where
  "asFlavors = decode is_RFlavors the_RFlavors []"

definition asImages :: "reply \<Rightarrow> gerror + (Image list)" where
  "asImages = decode is_RImages the_RImages []"

definition asSSHKeys :: "reply \<Rightarrow> gerror + (SSHKey list)" where
  "asSSHKeys = decode is_RSSHKeys the_RSSHKeys []"

definition asPrivateNetworks :: "reply \<Rightarrow> gerror + (PrivateNetwork list)" where
  "asPrivateNetworks = decode is_RPrivateNetworks the_RPrivateNetworks []"

definition asSubnets :: "reply \<Rightarrow> gerror + (Subnet list)" where
  "asSubnets = decode is_RSubnets the_RSubnets []"

definition asLBFlavors :: "reply \<Rightarrow> gerror + (LBFlavor list)" where
  "asLBFlavors = decode is_RLBFlavors the_RLBFlavors []"

definition asLoadBalancers :: "reply \<Rightarrow> gerror + (LoadBalancer list)" where
  "asLoadBalancers = decode is_RLoadBalancers the_RLoadBalancers []"

definition asGateways :: "reply \<Rightarrow> gerror + (Gateway list)" where
  "asGateways = decode is_RGateways the_RGateways []"

definition asListeners :: "reply \<Rightarrow> gerror + (Listener list)" where
  "asListeners = decode is_RListeners the_RListeners []"

definition asPools :: "reply \<Rightarrow> gerror + (Pool list)" where
  "asPools = decode is_RPools the_RPools []"

definition asMembers :: "reply \<Rightarrow> gerror + (Member list)" where
  "asMembers = decode is_RMembers the_RMembers []"

definition asHealthMonitors :: "reply \<Rightarrow> gerror + (HealthMonitor list)" where
  "asHealthMonitors = decode is_RHealthMonitors the_RHealthMonitors []"

definition asFloatingIPs :: "reply \<Rightarrow> gerror + (FloatingIP list)" where
  "asFloatingIPs = decode is_RFloatingIPs the_RFloatingIPs []"

definition asSecurityGroups :: "reply \<Rightarrow> gerror + (SecurityGroup list)" where
  "asSecurityGroups = decode is_RSecurityGroups the_RSecurityGroups []"

definition asSecurityGroupRules :: "reply \<Rightarrow> gerror + (SecurityGroupRule list)" where
  "asSecurityGroupRules = decode is_RSecurityGroupRules the_RSecurityGroupRules []"

text \<open>\<^verbatim>\<open>map[string]any\<close> takes any object, but no array.\<close>

definition isArray :: "reply \<Rightarrow> bool" where
  "isArray r \<longleftrightarrow> is_RStrings r \<or> is_RInstances r \<or> is_RFlavors r \<or> is_RImages r
      \<or> is_RSSHKeys r \<or> is_RPrivateNetworks r \<or> is_RSubnets r \<or> is_RLBFlavors r
      \<or> is_RLoadBalancers r \<or> is_RGateways r \<or> is_RListeners r \<or> is_RPools r
      \<or> is_RMembers r \<or> is_RHealthMonitors r \<or> is_RFloatingIPs r \<or> is_RSecurityGroups r
      \<or> is_RSecurityGroupRules r"

definition asTask :: "reply \<Rightarrow> gerror + unit" where
  "asTask r = (if isArray r then Inl (Plain ''json: cannot unmarshal'') else Inr ())"

text \<open>The Prometheus collectors of \<^verbatim>\<open>internal/metrics/metrics.go\<close>.\<close>

datatype metric =
    MachineCreateTotal
  | MachineCreateErrorsTotal
  | MachineCreationDuration
  | MachineDeleteTotal
  | MachineDeleteErrorsTotal
  | MachineStatus
  | MachineReconcileDuration
  | ClusterReconcileDuration
  | ClusterReady
  | NodeInitDuration
  | EtcdMemberRemovalDuration
  | BootstrapWaitDuration
  | LBPollDuration
  | OVHAPIRequestsTotal
  | OVHAPIRequestDuration

text \<open>Requests to the Kubernetes API of a workload cluster.\<close>

datatype kube_request =
    NodeGet string
  | NodePatch string string
  | PodList string string
  | PodExec string string string "string list"

text \<open>
  \<open>Call\<close> is one HTTP exchange with the OVH API, \<open>Kube\<close> one with a workload cluster,
  \<open>Sleep\<close> a pause in nanoseconds; \<open>Inc\<close>, \<open>Observe\<close> and \<open>SetGauge\<close> are the
  metric updates (the observed durations are not modelled).
\<close>

datatype event =
    Call request
  | Kube kube_request
  | Sleep int
  | Inc metric
  | Observe metric "string list"
  | SetGauge metric "string list" int

end
