(* ===== verification/Ovh_Client.thy ===== *)
theory Ovh_Client
  imports Ovh_Types
begin

text \<open>
  The client of \<^verbatim>\<open>pkg/ovh/client.go\<close>: the retry loop and one definition per method,
  in the order of the source. The OVH SDK is the field \<open>Client_api\<close>: a request and the
  state of the cloud give an answer and the new state, and nothing is assumed of it. A method
  that returns \<^verbatim>\<open>(T, error)\<close> gives \<open>gerror + T\<close>; one that may return
  \<^verbatim>\<open>(nil, nil)\<close> gives \<open>gerror + T option\<close>; one that returns an
  \<^verbatim>\<open>error\<close> gives \<open>gerror option\<close>.
\<close>

section \<open>The client and its requests\<close>

type_synonym 'w api = "request \<Rightarrow> 'w \<Rightarrow> (gerror + reply) \<times> 'w"

record 'w Client =
  Client_api :: "'w api"
  Client_serviceName :: string
  Client_region :: string

type_synonym ('o, 'w, 'a) act = "('o, 'w, event, 'a) eff"

record Secret =
  Secret_Namespace :: string
  Secret_Name :: string
  Secret_Data :: "string \<Rightarrow> string option"

text \<open>The SDK's constructor is the parameter \<open>goovh\<close>.\<close>

definition NewClient :: "(string \<Rightarrow> string \<Rightarrow> string \<Rightarrow> string \<Rightarrow> gerror + 'w api)
    \<Rightarrow> string \<Rightarrow> string \<Rightarrow> string \<Rightarrow> string \<Rightarrow> string \<Rightarrow> string \<Rightarrow> gerror + 'w Client" where
  "NewClient goovh endpoint appKey appSecret consumerKey serviceName region =
     (case goovh endpoint appKey appSecret consumerKey of
        Inl e \<Rightarrow> Inl (Wrap ''creating OVH client: '' e '''')
      | Inr api \<Rightarrow> Inr \<lparr>Client_api = api, Client_serviceName = serviceName, Client_region = region\<rparr>)"

definition secretString :: "Secret \<Rightarrow> string \<Rightarrow> string" where
  "secretString secret key = (case Secret_Data secret key of None \<Rightarrow> '''' | Some v \<Rightarrow> v)"

definition NewClientFromSecret :: "(string \<Rightarrow> string \<Rightarrow> string \<Rightarrow> string \<Rightarrow> gerror + 'w api)
    \<Rightarrow> Secret \<Rightarrow> string \<Rightarrow> string \<Rightarrow> gerror + 'w Client" where
  "NewClientFromSecret goovh secret serviceName region =
     (let endpoint = secretString secret ''endpoint'';
          appKey = secretString secret ''applicationKey'';
          appSecret = secretString secret ''applicationSecret'';
          consumerKey = secretString secret ''consumerKey''
      in if endpoint = '''' \<or> appKey = '''' \<or> appSecret = '''' \<or> consumerKey = ''''
         then Inl (Plain (''secret '' @ Secret_Namespace secret @ ''/'' @ Secret_Name secret @
           '' missing required keys (endpoint, applicationKey, applicationSecret, consumerKey)''))
         else NewClient goovh endpoint appKey appSecret consumerKey serviceName region)"

definition projectPath :: "'w Client \<Rightarrow> string \<Rightarrow> string" where
  "projectPath c suffix = ''/cloud/project/'' @ Client_serviceName c @ suffix"

definition regionPath :: "'w Client \<Rightarrow> string \<Rightarrow> string" where
  "regionPath c suffix =
     ''/cloud/project/'' @ Client_serviceName c @ ''/region/'' @ Client_region c @ suffix"

text \<open>One exchange: the request goes out, the answer is decoded into the caller's variable.\<close>

definition exchange :: "'w Client \<Rightarrow> request \<Rightarrow> (reply \<Rightarrow> gerror + 'a)
    \<Rightarrow> ('o, 'w, gerror + 'a) act" where
  "exchange c req dec = do {
     _ \<leftarrow> emit (Call req);
     r \<leftarrow> askEnv (Client_api c req);
     ret (case r of Inl e \<Rightarrow> Inl e | Inr a \<Rightarrow> dec a)
   }"

abbreviation noBody :: "reply \<Rightarrow> gerror + unit" where
  "noBody \<equiv> (\<lambda>_. Inr ())"

section \<open>Retrying\<close>

abbreviation second :: int where "second \<equiv> 1000000000"

definition maxRetries :: nat where "maxRetries = 5"
definition initialBackoff :: int where "initialBackoff = 2 * second"
definition maxBackoff :: int where "maxBackoff = 60 * second"

definition backoff :: "nat \<Rightarrow> int" where
  "backoff attempt = min (initialBackoff * 2 ^ attempt) maxBackoff"

text \<open>The body of the loop of \<^verbatim>\<open>retryWithBackoff\<close>, from a given attempt on.\<close>

function retryFrom :: "string \<Rightarrow> ('o, 'w, gerror + 'a) act \<Rightarrow> nat \<Rightarrow> ('o, 'w, gerror + 'a) act"
  where
  "retryFrom operation fn attempt = do {
     r \<leftarrow> fn;
     (case r of
        Inr x \<Rightarrow> ret (Inr x)
      | Inl e \<Rightarrow>
          if \<not> IsRetryable (Some e) then ret (Inl e)
          else if attempt < maxRetries then do {
            _ \<leftarrow> emit (Sleep (backoff attempt));
            retryFrom operation fn (Suc attempt)
          }
          else ret (Inl (Wrap (operation @ '' failed after '' @ formatInt (int maxRetries)
                                 @ '' retries: '') e '''')))
   }"
  by pat_completeness auto
termination
  by (relation "measure (\<lambda>(operation, fn, attempt). maxRetries - attempt)") auto

declare retryFrom.simps [simp del]

definition retryWithBackoff :: "string \<Rightarrow> ('o, 'w, gerror + 'a) act \<Rightarrow> ('o, 'w, gerror + 'a) act"
  where
  "retryWithBackoff operation fn = retryFrom operation fn 0"

text \<open>The shapes the methods share: a wrapped error, and a deletion that tolerates some errors.\<close>

definition wrapResult :: "string \<Rightarrow> gerror + 'a \<Rightarrow> gerror + 'a" where
  "wrapResult p r = (case r of Inl e \<Rightarrow> Inl (Wrap p e '''') | Inr x \<Rightarrow> Inr x)"

definition errorResult :: "string \<Rightarrow> gerror + 'a \<Rightarrow> gerror option" where
  "errorResult p r = (case r of Inl e \<Rightarrow> Some (Wrap p e '''') | Inr x \<Rightarrow> None)"

definition deleteResult :: "(gerror option \<Rightarrow> bool) \<Rightarrow> string \<Rightarrow> gerror + 'a \<Rightarrow> gerror option" where
  "deleteResult tolerated p r =
     (case r of Inl e \<Rightarrow> (if tolerated (Some e) then None else Some (Wrap p e ''''))
      | Inr x \<Rightarrow> None)"

section \<open>Credential validation\<close>

definition ValidateCredentials ::
    "'w Client \<Rightarrow> ('o, 'w, gerror option) act" where
  "ValidateCredentials c = (if Client_serviceName c = '''' then ret (Some (Plain ''serviceName is empty''))
   else do {
     r \<leftarrow> retryWithBackoff ''ValidateCredentials''
       (exchange c (Get (projectPath c (''/region''))) asStrings);
     ret (case r of
            Inl e \<Rightarrow> Some (Wrap ''validating OVH credentials: '' e '''')
          | Inr regions \<Rightarrow>
              if regions = []
              then Some (Plain ''validating OVH credentials: no regions returned by project'')
              else None)
   })"

section \<open>Instances\<close>

definition CreateInstance ::
    "'w Client \<Rightarrow> CreateInstanceOpts \<Rightarrow> ('o, 'w, gerror + Instance) act" where
  "CreateInstance c opts = do {
     r \<leftarrow> retryWithBackoff ''CreateInstance''
       (exchange c (Post (projectPath c (''/instance'')) (BInstance opts)) asInstance);
     ret (wrapResult (''creating instance '' @ strconv_Quote (CreateInstanceOpts_Name opts) @ '': '') r)
   }"

definition GetInstance ::
    "'w Client \<Rightarrow> string \<Rightarrow> ('o, 'w, gerror + Instance) act" where
  "GetInstance c instanceID = do {
     r \<leftarrow> retryWithBackoff ''GetInstance''
       (exchange c (Get (projectPath c (''/instance/'' @ instanceID))) asInstance);
     ret (wrapResult (''getting instance '' @ instanceID @ '': '') r)
   }"

definition DeleteInstance ::
    "'w Client \<Rightarrow> string \<Rightarrow> ('o, 'w, gerror option) act" where
  "DeleteInstance c instanceID = do {
     r \<leftarrow> retryWithBackoff ''DeleteInstance''
       (exchange c (Delete (projectPath c (''/instance/'' @ instanceID))) noBody);
     ret (deleteResult IsNotFound (''deleting instance '' @ instanceID @ '': '') r)
   }"

text \<open>The optional region filter of the listings under the project path.\<close>

definition regionQuery :: "'w Client \<Rightarrow> string" where
  "regionQuery c = (if Client_region c \<noteq> '''' then ''?region='' @ Client_region c else '''')"

definition ListInstances ::
    "'w Client \<Rightarrow> ('o, 'w, gerror + Instance list) act" where
  "ListInstances c = do {
     r \<leftarrow> retryWithBackoff ''ListInstances''
       (exchange c (Get (projectPath c (''/instance'') @ regionQuery c)) asInstances);
     ret (wrapResult (''listing instances: '') r)
   }"

definition FindInstanceByName ::
    "'w Client \<Rightarrow> string \<Rightarrow> ('o, 'w, gerror + Instance option) act" where
  "FindInstanceByName c name = do {
     r \<leftarrow> ListInstances c;
     ret (case r of Inl e \<Rightarrow> Inl e | Inr xs \<Rightarrow> Inr (find (\<lambda>x. Instance_Name x = name) xs))
   }"

section \<open>Flavors\<close>

definition ListFlavors ::
    "'w Client \<Rightarrow> ('o, 'w, gerror + Flavor list) act" where
  "ListFlavors c = do {
     r \<leftarrow> retryWithBackoff ''ListFlavors''
       (exchange c (Get (projectPath c (''/flavor'') @ regionQuery c)) asFlavors);
     ret (wrapResult (''listing flavors: '') r)
   }"

definition GetFlavorByName ::
    "'w Client \<Rightarrow> string \<Rightarrow> ('o, 'w, gerror + Flavor) act" where
  "GetFlavorByName c name = do {
     r \<leftarrow> ListFlavors c;
     ret (case r of
            Inl e \<Rightarrow> Inl e
          | Inr xs \<Rightarrow> (case find (\<lambda>x. strings_EqualFold (Flavor_Name x) name) xs of
                Some x \<Rightarrow> Inr x
              | None \<Rightarrow> Inl (Plain (''flavor '' @ strconv_Quote name @ '' not found in region '' @ Client_region c))))
   }"

section \<open>Images\<close>

definition ListImages ::
    "'w Client \<Rightarrow> ('o, 'w, gerror + Image list) act" where
  "ListImages c = do {
     r \<leftarrow> retryWithBackoff ''ListImages''
       (exchange c (Get (projectPath c (''/image'') @ regionQuery c)) asImages);
     ret (wrapResult (''listing images: '') r)
   }"

definition ListSnapshots ::
    "'w Client \<Rightarrow> ('o, 'w, gerror + Image list) act" where
  "ListSnapshots c = do {
     r \<leftarrow> retryWithBackoff ''ListSnapshots''
       (exchange c (Get (projectPath c (''/snapshot'') @ regionQuery c)) asImages);
     ret (wrapResult (''listing snapshots: '') r)
   }"

definition isHexDigit :: "char \<Rightarrow> bool" where
  "isHexDigit c =
     (let n = (of_char c :: nat) in
      48 \<le> n \<and> n \<le> 57 \<or> 97 \<le> n \<and> n \<le> 102 \<or> 65 \<le> n \<and> n \<le> 70)"

text \<open>The loop of \<^verbatim>\<open>isUUID\<close> from index \<open>i\<close> on.\<close>

fun uuidFrom :: "nat \<Rightarrow> string \<Rightarrow> bool" where
  "uuidFrom i [] = True"
| "uuidFrom i (c # s) =
     (if i = 8 \<or> i = 13 \<or> i = 18 \<or> i = 23
      then (if c \<noteq> CHR ''-'' then False else uuidFrom (Suc i) s)
      else (if \<not> isHexDigit c then False else uuidFrom (Suc i) s))"

definition isUUID :: "string \<Rightarrow> bool" where
  "isUUID s = (if length s \<noteq> 36 then False else uuidFrom 0 s)"

definition findImageByName :: "Image list \<Rightarrow> string \<Rightarrow> Image option" where
  "findImageByName images name =
     (case find (\<lambda>x. strings_EqualFold (Image_Name x) name) images of
        Some x \<Rightarrow> Some x
      | None \<Rightarrow>
          (let nameLower = strings_ToLower name in
           find (\<lambda>x. strings_Contains (strings_ToLower (Image_Name x)) nameLower) images))"

definition GetImageByName ::
    "'w Client \<Rightarrow> string \<Rightarrow> ('o, 'w, gerror + Image) act" where
  "GetImageByName c name = (if name = '''' then ret (Inl (Plain ''image name is empty''))
   else if isUUID name
   then ret (Inr (zero_Image\<lparr>Image_ID := name, Image_Name := name, Image_Region := Client_region c\<rparr>))
   else do {
     r \<leftarrow> ListImages c;
     (case r of
        Inl e \<Rightarrow> ret (Inl e)
      | Inr images \<Rightarrow>
          (case findImageByName images name of
             Some img \<Rightarrow> ret (Inr img)
           | None \<Rightarrow> do {
               r' \<leftarrow> ListSnapshots c;
               ret (case r' of
                      Inl e \<Rightarrow> Inl (Wrap (''image '' @ strconv_Quote name @
                        '' not found in public images and snapshot lookup failed: '') e '''')
                    | Inr snapshots \<Rightarrow>
                        (case findImageByName snapshots name of
                           Some img \<Rightarrow> Inr img
                         | None \<Rightarrow> Inl (Plain (''image '' @ strconv_Quote name @
                             '' not found in region '' @ Client_region c @
                             '' (searched public images and BYOI snapshots)''))))
             }))
   })"

section \<open>SSH keys\<close>

definition ListSSHKeys ::
    "'w Client \<Rightarrow> ('o, 'w, gerror + SSHKey list) act" where
  "ListSSHKeys c = do {
     r \<leftarrow> retryWithBackoff ''ListSSHKeys''
       (exchange c (Get (projectPath c (''/sshkey'') @ regionQuery c)) asSSHKeys);
     ret (wrapResult (''listing SSH keys: '') r)
   }"

definition GetSSHKeyByName ::
    "'w Client \<Rightarrow> string \<Rightarrow> ('o, 'w, gerror + SSHKey) act" where
  "GetSSHKeyByName c name = do {
     r \<leftarrow> ListSSHKeys c;
     ret (case r of
            Inl e \<Rightarrow> Inl e
          | Inr xs \<Rightarrow> (case find (\<lambda>x. SSHKey_Name x = name) xs of
                Some x \<Rightarrow> Inr x
              | None \<Rightarrow> Inl (Plain (''SSH key '' @ strconv_Quote name @ '' not found''))))
   }"

definition CreateSSHKey ::
    "'w Client \<Rightarrow> CreateSSHKeyOpts \<Rightarrow> ('o, 'w, gerror + SSHKey) act" where
  "CreateSSHKey c opts = do {
     r \<leftarrow> retryWithBackoff ''CreateSSHKey''
       (exchange c (Post (projectPath c (''/sshkey'')) (BSSHKey opts)) asSSHKey);
     ret (wrapResult (''creating SSH key '' @ strconv_Quote (CreateSSHKeyOpts_Name opts) @ '': '') r)
   }"

definition DeleteSSHKey ::
    "'w Client \<Rightarrow> string \<Rightarrow> ('o, 'w, gerror option) act" where
  "DeleteSSHKey c keyID = do {
     r \<leftarrow> retryWithBackoff ''DeleteSSHKey''
       (exchange c (Delete (projectPath c (''/sshkey/'' @ keyID))) noBody);
     ret (deleteResult IsNotFound (''deleting SSH key '' @ keyID @ '': '') r)
   }"

section \<open>Private networks and subnets\<close>

definition ListPrivateNetworks ::
    "'w Client \<Rightarrow> ('o, 'w, gerror + PrivateNetwork list) act" where
  "ListPrivateNetworks c = do {
     r \<leftarrow> retryWithBackoff ''ListPrivateNetworks''
       (exchange c (Get (projectPath c (''/network/private''))) asPrivateNetworks);
     ret (wrapResult (''listing private networks: '') r)
   }"

definition GetPrivateNetwork ::
    "'w Client \<Rightarrow> string \<Rightarrow> ('o, 'w, gerror + PrivateNetwork) act" where
  "GetPrivateNetwork c networkID = do {
     r \<leftarrow> retryWithBackoff ''GetPrivateNetwork''
       (exchange c (Get (projectPath c (''/network/private/'' @ networkID))) asPrivateNetwork);
     ret (wrapResult (''getting private network '' @ networkID @ '': '') r)
   }"

definition CreatePrivateNetwork ::
    "'w Client \<Rightarrow> CreateNetworkOpts \<Rightarrow> ('o, 'w, gerror + PrivateNetwork) act" where
  "CreatePrivateNetwork c opts = do {
     r \<leftarrow> retryWithBackoff ''CreatePrivateNetwork''
       (exchange c (Post (projectPath c (''/network/private'')) (BNetwork opts)) asPrivateNetwork);
     ret (wrapResult (''creating private network '' @ strconv_Quote (CreateNetworkOpts_Name opts) @ '': '') r)
   }"

definition DeletePrivateNetwork ::
    "'w Client \<Rightarrow> string \<Rightarrow> ('o, 'w, gerror option) act" where
  "DeletePrivateNetwork c networkID = do {
     r \<leftarrow> retryWithBackoff ''DeletePrivateNetwork''
       (exchange c (Delete (projectPath c (''/network/private/'' @ networkID))) noBody);
     ret (deleteResult IsNotFound (''deleting private network '' @ networkID @ '': '') r)
   }"

definition ListSubnets ::
    "'w Client \<Rightarrow> string \<Rightarrow> ('o, 'w, gerror + Subnet list) act" where
  "ListSubnets c networkID = do {
     r \<leftarrow> retryWithBackoff ''ListSubnets''
       (exchange c (Get (projectPath c (''/network/private/'' @ networkID @ ''/subnet''))) asSubnets);
     ret (wrapResult (''listing subnets for network '' @ networkID @ '': '') r)
   }"

definition CreateSubnet ::
    "'w Client \<Rightarrow> string \<Rightarrow> CreateSubnetOpts \<Rightarrow> ('o, 'w, gerror + Subnet) act" where
  "CreateSubnet c networkID opts = do {
     r \<leftarrow> retryWithBackoff ''CreateSubnet''
       (exchange c (Post (projectPath c (''/network/private/'' @ networkID @ ''/subnet'')) (BSubnet opts)) asSubnet);
     ret (wrapResult (''creating subnet in network '' @ networkID @ '': '') r)
   }"

section \<open>Load balancers\<close>

definition ListLBFlavors ::
    "'w Client \<Rightarrow> ('o, 'w, gerror + LBFlavor list) act" where
  "ListLBFlavors c = do {
     r \<leftarrow> retryWithBackoff ''ListLBFlavors''
       (exchange c (Get (regionPath c (''/loadbalancing/flavor''))) asLBFlavors);
     ret (wrapResult (''listing LB flavors: '') r)
   }"

definition GetLBFlavorByName ::
    "'w Client \<Rightarrow> string \<Rightarrow> ('o, 'w, gerror + LBFlavor) act" where
  "GetLBFlavorByName c name = do {
     r \<leftarrow> ListLBFlavors c;
     ret (case r of
            Inl e \<Rightarrow> Inl e
          | Inr xs \<Rightarrow> (case find (\<lambda>x. strings_EqualFold (LBFlavor_Name x) name) xs of
                Some x \<Rightarrow> Inr x
              | None \<Rightarrow> Inl (Plain (''LB flavor '' @ strconv_Quote name @ '' not found in region '' @ Client_region c))))
   }"

definition findLoadBalancerByName ::
    "'w Client \<Rightarrow> string \<Rightarrow> ('o, 'w, gerror + LoadBalancer option) act" where
  "findLoadBalancerByName c name = do {
     r \<leftarrow> retryWithBackoff ''ListLoadBalancers''
       (exchange c (Get (regionPath c (''/loadbalancing/loadbalancer''))) asLoadBalancers);
     ret (case r of Inl e \<Rightarrow> Inl e | Inr xs \<Rightarrow> Inr (find (\<lambda>x. LoadBalancer_Name x = name) xs))
   }"

text \<open>
  The polling loop of \<^verbatim>\<open>CreateLoadBalancer\<close> from a given attempt on; ten attempts at most.
\<close>

definition maxLookupAttempts :: nat where "maxLookupAttempts = 10"

function pollLoadBalancer :: "'w Client \<Rightarrow> string \<Rightarrow> nat \<Rightarrow> ('o, 'w, gerror + LoadBalancer) act" where
  "pollLoadBalancer c name attempt =
     (if attempt < maxLookupAttempts then do {
        r \<leftarrow> findLoadBalancerByName c name;
        (case r of
           Inl e \<Rightarrow> ret (Inl (Wrap (''LB '' @ strconv_Quote name @ '' created but lookup failed: '') e ''''))
         | Inr (Some lb) \<Rightarrow> ret (Inr lb)
         | Inr None \<Rightarrow> do {
             _ \<leftarrow> emit (Sleep (int (2 * (attempt + 1)) * second));
             pollLoadBalancer c name (Suc attempt)
           })
      }
      else ret (Inl (Plain (''LB '' @ strconv_Quote name @
        '' was created but did not appear in list within '' @
        formatInt (int maxLookupAttempts) @ '' attempts''))))"
  by pat_completeness auto
termination
  by (relation "measure (\<lambda>(c, name, attempt). maxLookupAttempts - attempt)") auto

declare pollLoadBalancer.simps [simp del]

definition CreateLoadBalancer ::
    "'w Client \<Rightarrow> CreateLoadBalancerOpts \<Rightarrow> ('o, 'w, gerror + LoadBalancer) act" where
  "CreateLoadBalancer c opts = do {
     existing \<leftarrow> findLoadBalancerByName c (CreateLoadBalancerOpts_Name opts);
     (case existing of
        Inr (Some lb) \<Rightarrow> ret (Inr lb)
      | _ \<Rightarrow> do {
          r \<leftarrow> retryWithBackoff ''CreateLoadBalancer''
       (exchange c (Post (regionPath c (''/loadbalancing/loadbalancer'')) (BLoadBalancer opts)) asTask);
          (case r of
             Inl e \<Rightarrow> ret (Inl (Wrap (''creating load balancer '' @
               strconv_Quote (CreateLoadBalancerOpts_Name opts) @ '': '') e ''''))
           | Inr _ \<Rightarrow> pollLoadBalancer c (CreateLoadBalancerOpts_Name opts) 0)
        })
   }"

definition ListLoadBalancersByPrefix ::
    "'w Client \<Rightarrow> string \<Rightarrow> ('o, 'w, gerror + LoadBalancer list) act" where
  "ListLoadBalancersByPrefix c prefix = do {
     r \<leftarrow> retryWithBackoff ''ListLoadBalancers''
       (exchange c (Get (regionPath c (''/loadbalancing/loadbalancer''))) asLoadBalancers);
     ret (case r of
            Inl e \<Rightarrow> Inl e
          | Inr lbs \<Rightarrow> Inr (filter (\<lambda>x. strings_HasPrefix (LoadBalancer_Name x) prefix) lbs))
   }"

definition AssociateFloatingIPToLB ::
    "'w Client \<Rightarrow> string \<Rightarrow> string \<Rightarrow> ('o, 'w, gerror option) act" where
  "AssociateFloatingIPToLB c lbID floatingIPID = do {
     r \<leftarrow> retryWithBackoff ''AssociateFloatingIPToLB''
       (exchange c (Post (regionPath c (''/loadbalancing/loadbalancer/'' @ lbID @ ''/associateFloatingIp'')) (BAssociateFloatingIP floatingIPID)) noBody);
     ret (errorResult (''associating floating IP '' @ floatingIPID @ '' to LB '' @ lbID @ '': '') r)
   }"

definition ListGateways ::
    "'w Client \<Rightarrow> ('o, 'w, gerror + Gateway list) act" where
  "ListGateways c = do {
     r \<leftarrow> retryWithBackoff ''ListGateways''
       (exchange c (Get (regionPath c (''/gateway''))) asGateways);
     ret (wrapResult (''listing gateways: '') r)
   }"

definition DeleteGateway ::
    "'w Client \<Rightarrow> string \<Rightarrow> ('o, 'w, gerror option) act" where
  "DeleteGateway c gatewayID = do {
     r \<leftarrow> retryWithBackoff ''DeleteGateway''
       (exchange c (Delete (regionPath c (''/gateway/'' @ gatewayID))) noBody);
     ret (deleteResult IsNotFound (''deleting gateway '' @ gatewayID @ '': '') r)
   }"

definition ExposeGateway ::
    "'w Client \<Rightarrow> string \<Rightarrow> ('o, 'w, gerror option) act" where
  "ExposeGateway c gatewayID = do {
     r \<leftarrow> retryWithBackoff ''ExposeGateway''
       (exchange c (Post (regionPath c (''/gateway/'' @ gatewayID @ ''/expose'')) BNone) noBody);
     ret (deleteResult IsConflict (''exposing gateway '' @ gatewayID @ '': '') r)
   }"

definition CreateLoadBalancerFloatingIP ::
    "'w Client \<Rightarrow> string \<Rightarrow> string \<Rightarrow> string \<Rightarrow> ('o, 'w, gerror + FloatingIP) act" where
  "CreateLoadBalancerFloatingIP c lbID privateIP gatewayName = do {
     r \<leftarrow> retryWithBackoff ''CreateLoadBalancerFloatingIP''
       (exchange c (Post (regionPath c (''/loadbalancing/loadbalancer/'' @ lbID @ ''/floatingIp''))
       (BLBFloatingIP privateIP [(''model'', ''s''), (''name'', gatewayName)])) asFloatingIP);
     ret (wrapResult (''creating floating IP for LB '' @ lbID @ '': '') r)
   }"

definition GetLoadBalancer ::
    "'w Client \<Rightarrow> string \<Rightarrow> ('o, 'w, gerror + LoadBalancer) act" where
  "GetLoadBalancer c lbID = do {
     r \<leftarrow> retryWithBackoff ''GetLoadBalancer''
       (exchange c (Get (regionPath c (''/loadbalancing/loadbalancer/'' @ lbID))) asLoadBalancer);
     ret (wrapResult (''getting load balancer '' @ lbID @ '': '') r)
   }"

definition DeleteLoadBalancer ::
    "'w Client \<Rightarrow> string \<Rightarrow> ('o, 'w, gerror option) act" where
  "DeleteLoadBalancer c lbID = do {
     r \<leftarrow> retryWithBackoff ''DeleteLoadBalancer''
       (exchange c (Delete (regionPath c (''/loadbalancing/loadbalancer/'' @ lbID))) noBody);
     ret (deleteResult (\<lambda>err. IsNotFound err \<or> IsAlreadyDeleting err) (''deleting load balancer '' @ lbID @ '': '') r)
   }"

section \<open>Listeners and pools\<close>

definition ListListeners ::
    "'w Client \<Rightarrow> ('o, 'w, gerror + Listener list) act" where
  "ListListeners c = do {
     r \<leftarrow> retryWithBackoff ''ListListeners''
       (exchange c (Get (regionPath c (''/loadbalancing/listener''))) asListeners);
     ret (wrapResult (''listing listeners: '') r)
   }"

definition FindListenerByName ::
    "'w Client \<Rightarrow> string \<Rightarrow> string \<Rightarrow> ('o, 'w, gerror + Listener option) act" where
  "FindListenerByName c lbID name = do {
     r \<leftarrow> ListListeners c;
     ret (case r of Inl e \<Rightarrow> Inl e | Inr xs \<Rightarrow> Inr (find (\<lambda>x. Listener_Name x = name \<and> lbID \<in> set (Listener_LoadBalancerIDs x)) xs))
   }"

definition FindPoolByName ::
    "'w Client \<Rightarrow> string \<Rightarrow> string \<Rightarrow> ('o, 'w, gerror + Pool option) act" where
  "FindPoolByName c lbID name = do {
     r \<leftarrow> retryWithBackoff ''ListPools''
       (exchange c (Get (regionPath c (''/loadbalancing/pool''))) asPools);
     ret (case r of
            Inl e \<Rightarrow> Inl (Wrap ''listing pools: '' e '''')
          | Inr pools \<Rightarrow> Inr (find (\<lambda>x. Pool_Name x = name \<and> Pool_LoadBalancerID x = lbID) pools))
   }"

definition CreateListener ::
    "'w Client \<Rightarrow> CreateListenerOpts \<Rightarrow> ('o, 'w, gerror + Listener) act" where
  "CreateListener c opts = do {
     r \<leftarrow> retryWithBackoff ''CreateListener''
       (exchange c (Post (regionPath c (''/loadbalancing/listener'')) (BListener opts)) asListener);
     ret (wrapResult (''creating listener '' @ strconv_Quote (CreateListenerOpts_Name opts) @ '': '') r)
   }"

definition DeleteListener ::
    "'w Client \<Rightarrow> string \<Rightarrow> ('o, 'w, gerror option) act" where
  "DeleteListener c listenerID = do {
     r \<leftarrow> retryWithBackoff ''DeleteListener''
       (exchange c (Delete (regionPath c (''/loadbalancing/listener/'' @ listenerID))) noBody);
     ret (deleteResult IsNotFound (''deleting listener '' @ listenerID @ '': '') r)
   }"

definition CreatePool ::
    "'w Client \<Rightarrow> CreatePoolOpts \<Rightarrow> ('o, 'w, gerror + Pool) act" where
  "CreatePool c opts = do {
     r \<leftarrow> retryWithBackoff ''CreatePool''
       (exchange c (Post (regionPath c (''/loadbalancing/pool'')) (BPool opts)) asPool);
     ret (wrapResult (''creating pool '' @ strconv_Quote (CreatePoolOpts_Name opts) @ '': '') r)
   }"

definition DeletePool ::
    "'w Client \<Rightarrow> string \<Rightarrow> ('o, 'w, gerror option) act" where
  "DeletePool c poolID = do {
     r \<leftarrow> retryWithBackoff ''DeletePool''
       (exchange c (Delete (regionPath c (''/loadbalancing/pool/'' @ poolID))) noBody);
     ret (deleteResult IsNotFound (''deleting pool '' @ poolID @ '': '') r)
   }"

section \<open>Pool members\<close>

definition AddPoolMembers ::
    "'w Client \<Rightarrow> string \<Rightarrow> CreateMemberOpts list \<Rightarrow> ('o, 'w, gerror + Member list) act" where
  "AddPoolMembers c poolID opts = do {
     r \<leftarrow> retryWithBackoff ''AddPoolMembers''
       (exchange c (Post (regionPath c (''/loadbalancing/pool/'' @ poolID @ ''/member''))
       (BMembers \<lparr>addPoolMembersRequest_Members = opts\<rparr>)) asMembers);
     ret (wrapResult (''adding members to pool '' @ poolID @ '': '') r)
   }"

definition AddPoolMember ::
    "'w Client \<Rightarrow> string \<Rightarrow> CreateMemberOpts \<Rightarrow> ('o, 'w, gerror + Member) act" where
  "AddPoolMember c poolID opts = do {
     r \<leftarrow> AddPoolMembers c poolID [opts];
     ret (case r of
            Inl e \<Rightarrow> Inl e
          | Inr [] \<Rightarrow> Inl (Plain (''OVH returned no members after add to pool '' @ poolID))
          | Inr (m # _) \<Rightarrow> Inr m)
   }"

definition RemovePoolMember ::
    "'w Client \<Rightarrow> string \<Rightarrow> string \<Rightarrow> ('o, 'w, gerror option) act" where
  "RemovePoolMember c poolID memberID = do {
     r \<leftarrow> retryWithBackoff ''RemovePoolMember''
       (exchange c (Delete (regionPath c (''/loadbalancing/pool/'' @ poolID @ ''/member/'' @ memberID))) noBody);
     ret (deleteResult IsNotFound (''removing member '' @ memberID @ '' from pool '' @ poolID @ '': '') r)
   }"

definition ListPoolMembers ::
    "'w Client \<Rightarrow> string \<Rightarrow> ('o, 'w, gerror + Member list) act" where
  "ListPoolMembers c poolID = do {
     r \<leftarrow> retryWithBackoff ''ListPoolMembers''
       (exchange c (Get (regionPath c (''/loadbalancing/pool/'' @ poolID @ ''/member''))) asMembers);
     ret (wrapResult (''listing members for pool '' @ poolID @ '': '') r)
   }"

section \<open>Health monitors\<close>

definition CreateHealthMonitor ::
    "'w Client \<Rightarrow> CreateHealthMonitorOpts \<Rightarrow> ('o, 'w, gerror + HealthMonitor) act" where
  "CreateHealthMonitor c opts = do {
     r \<leftarrow> retryWithBackoff ''CreateHealthMonitor''
       (exchange c (Post (regionPath c (''/loadbalancing/healthMonitor'')) (BHealthMonitor opts)) asHealthMonitor);
     ret (wrapResult (''creating health monitor '' @ strconv_Quote (CreateHealthMonitorOpts_Name opts) @ '': '') r)
   }"

definition GetHealthMonitor ::
    "'w Client \<Rightarrow> string \<Rightarrow> ('o, 'w, gerror + HealthMonitor) act" where
  "GetHealthMonitor c hmID = do {
     r \<leftarrow> retryWithBackoff ''GetHealthMonitor''
       (exchange c (Get (regionPath c (''/loadbalancing/healthMonitor/'' @ hmID))) asHealthMonitor);
     ret (wrapResult (''getting health monitor '' @ hmID @ '': '') r)
   }"

definition ListHealthMonitors ::
    "'w Client \<Rightarrow> ('o, 'w, gerror + HealthMonitor list) act" where
  "ListHealthMonitors c = do {
     r \<leftarrow> retryWithBackoff ''ListHealthMonitors''
       (exchange c (Get (regionPath c (''/loadbalancing/healthMonitor''))) asHealthMonitors);
     ret (wrapResult (''listing health monitors: '') r)
   }"

definition FindHealthMonitorByName ::
    "'w Client \<Rightarrow> string \<Rightarrow> ('o, 'w, gerror + HealthMonitor option) act" where
  "FindHealthMonitorByName c name = do {
     r \<leftarrow> ListHealthMonitors c;
     ret (case r of Inl e \<Rightarrow> Inl e | Inr xs \<Rightarrow> Inr (find (\<lambda>x. HealthMonitor_Name x = name) xs))
   }"

definition DeleteHealthMonitor ::
    "'w Client \<Rightarrow> string \<Rightarrow> ('o, 'w, gerror option) act" where
  "DeleteHealthMonitor c hmID = do {
     r \<leftarrow> retryWithBackoff ''DeleteHealthMonitor''
       (exchange c (Delete (regionPath c (''/loadbalancing/healthMonitor/'' @ hmID))) noBody);
     ret (deleteResult (\<lambda>err. IsNotFound err \<or> IsAlreadyDeleting err) (''deleting health monitor '' @ hmID @ '': '') r)
   }"

section \<open>Volumes\<close>

definition CreateVolume ::
    "'w Client \<Rightarrow> CreateVolumeOpts \<Rightarrow> ('o, 'w, gerror + Volume) act" where
  "CreateVolume c opts = do {
     r \<leftarrow> retryWithBackoff ''CreateVolume''
       (exchange c (Post (projectPath c (''/volume'')) (BVolume opts)) asVolume);
     ret (wrapResult (''creating volume '' @ strconv_Quote (CreateVolumeOpts_Name opts) @ '': '') r)
   }"

definition GetVolume ::
    "'w Client \<Rightarrow> string \<Rightarrow> ('o, 'w, gerror + Volume) act" where
  "GetVolume c volumeID = do {
     r \<leftarrow> retryWithBackoff ''GetVolume''
       (exchange c (Get (projectPath c (''/volume/'' @ volumeID))) asVolume);
     ret (wrapResult (''getting volume '' @ volumeID @ '': '') r)
   }"

definition AttachVolume ::
    "'w Client \<Rightarrow> string \<Rightarrow> string \<Rightarrow> ('o, 'w, gerror option) act" where
  "AttachVolume c volumeID instanceID = do {
     r \<leftarrow> retryWithBackoff ''AttachVolume''
       (exchange c (Post (projectPath c (''/volume/'' @ volumeID @ ''/attach''))
       (BAttachVolume \<lparr>AttachVolumeOpts_InstanceID = instanceID\<rparr>)) noBody);
     ret (errorResult (''attaching volume '' @ volumeID @ '' to instance '' @ instanceID @ '': '') r)
   }"

definition DetachVolume ::
    "'w Client \<Rightarrow> string \<Rightarrow> string \<Rightarrow> ('o, 'w, gerror option) act" where
  "DetachVolume c volumeID instanceID = do {
     r \<leftarrow> retryWithBackoff ''DetachVolume''
       (exchange c (Post (projectPath c (''/volume/'' @ volumeID @ ''/detach''))
       (BAttachVolume \<lparr>AttachVolumeOpts_InstanceID = instanceID\<rparr>)) noBody);
     ret (deleteResult IsNotFound (''detaching volume '' @ volumeID @ '' from instance '' @ instanceID @ '': '') r)
   }"

definition DeleteVolume ::
    "'w Client \<Rightarrow> string \<Rightarrow> ('o, 'w, gerror option) act" where
  "DeleteVolume c volumeID = do {
     r \<leftarrow> retryWithBackoff ''DeleteVolume''
       (exchange c (Delete (projectPath c (''/volume/'' @ volumeID))) noBody);
     ret (deleteResult IsNotFound (''deleting volume '' @ volumeID @ '': '') r)
   }"

section \<open>Floating IPs\<close>

definition ListFloatingIPs ::
    "'w Client \<Rightarrow> ('o, 'w, gerror + FloatingIP list) act" where
  "ListFloatingIPs c = do {
     r \<leftarrow> retryWithBackoff ''ListFloatingIPs''
       (exchange c (Get (regionPath c (''/floatingip''))) asFloatingIPs);
     ret (wrapResult (''listing floating IPs: '') r)
   }"

definition GetFloatingIP ::
    "'w Client \<Rightarrow> string \<Rightarrow> ('o, 'w, gerror + FloatingIP) act" where
  "GetFloatingIP c fipID = do {
     r \<leftarrow> retryWithBackoff ''GetFloatingIP''
       (exchange c (Get (regionPath c (''/floatingip/'' @ fipID))) asFloatingIP);
     ret (wrapResult (''getting floating IP '' @ fipID @ '': '') r)
   }"

definition CreateFloatingIP ::
    "'w Client \<Rightarrow> CreateFloatingIPOpts \<Rightarrow> ('o, 'w, gerror + FloatingIP) act" where
  "CreateFloatingIP c opts = do {
     r \<leftarrow> retryWithBackoff ''CreateFloatingIP''
       (exchange c (Post (regionPath c (''/floatingIp'')) (BFloatingIP opts)) asFloatingIP);
     ret (wrapResult (''creating floating IP: '') r)
   }"

definition DeleteFloatingIP ::
    "'w Client \<Rightarrow> string \<Rightarrow> ('o, 'w, gerror option) act" where
  "DeleteFloatingIP c fipID = do {
     r \<leftarrow> retryWithBackoff ''DeleteFloatingIP''
       (exchange c (Delete (regionPath c (''/floatingIp/'' @ fipID))) noBody);
     ret (deleteResult IsNotFound (''deleting floating IP '' @ fipID @ '': '') r)
   }"

section \<open>Region\<close>

definition GetRegionInfo ::
    "'w Client \<Rightarrow> ('o, 'w, gerror + RegionInfo) act" where
  "GetRegionInfo c = do {
     r \<leftarrow> retryWithBackoff ''GetRegionInfo''
       (exchange c (Get (projectPath c (''/region/'' @ Client_region c))) asRegionInfo);
     ret (wrapResult (''getting region info for '' @ Client_region c @ '': '') r)
   }"

section \<open>Security groups\<close>

definition ListSecurityGroups ::
    "'w Client \<Rightarrow> ('o, 'w, gerror + SecurityGroup list) act" where
  "ListSecurityGroups c = do {
     r \<leftarrow> retryWithBackoff ''ListSecurityGroups''
       (exchange c (Get (regionPath c (''/network/security/group''))) asSecurityGroups);
     ret (wrapResult (''listing security groups: '') r)
   }"

definition CreateSecurityGroup ::
    "'w Client \<Rightarrow> CreateSecurityGroupOpts \<Rightarrow> ('o, 'w, gerror + SecurityGroup) act" where
  "CreateSecurityGroup c opts = do {
     r \<leftarrow> retryWithBackoff ''CreateSecurityGroup''
       (exchange c (Post (regionPath c (''/network/security/group'')) (BSecurityGroup opts)) asSecurityGroup);
     ret (wrapResult (''creating security group '' @ strconv_Quote (CreateSecurityGroupOpts_Name opts) @ '': '') r)
   }"

definition DeleteSecurityGroup ::
    "'w Client \<Rightarrow> string \<Rightarrow> ('o, 'w, gerror option) act" where
  "DeleteSecurityGroup c sgID = do {
     r \<leftarrow> retryWithBackoff ''DeleteSecurityGroup''
       (exchange c (Delete (regionPath c (''/network/security/group/'' @ sgID))) noBody);
     ret (deleteResult IsNotFound (''deleting security group '' @ sgID @ '': '') r)
   }"

definition CreateSecurityGroupRule ::
    "'w Client \<Rightarrow> string \<Rightarrow> CreateSecurityGroupRuleOpts \<Rightarrow> ('o, 'w, gerror + SecurityGroupRule) act" where
  "CreateSecurityGroupRule c sgID opts = do {
     r \<leftarrow> retryWithBackoff ''CreateSecurityGroupRule''
       (exchange c (Post (regionPath c (''/network/security/group/'' @ sgID @ ''/rule'')) (BSecurityGroupRule opts)) asSecurityGroupRule);
     ret (wrapResult (''creating security group rule in '' @ sgID @ '': '') r)
   }"

definition ListSecurityGroupRules ::
    "'w Client \<Rightarrow> string \<Rightarrow> ('o, 'w, gerror + SecurityGroupRule list) act" where
  "ListSecurityGroupRules c sgID = do {
     r \<leftarrow> retryWithBackoff ''ListSecurityGroupRules''
       (exchange c (Get (regionPath c (''/network/security/group/'' @ sgID @ ''/rule''))) asSecurityGroupRules);
     ret (wrapResult (''listing security group rules for '' @ sgID @ '': '') r)
   }"

section \<open>DNS\<close>

definition CreateDNSRecord ::
    "'w Client \<Rightarrow> string \<Rightarrow> CreateDNSRecordOpts \<Rightarrow> ('o, 'w, gerror + DNSRecord) act" where
  "CreateDNSRecord c zone opts = do {
     r \<leftarrow> retryWithBackoff ''CreateDNSRecord''
       (exchange c (Post (''/domain/zone/'' @ zone @ ''/record'') (BDNSRecord opts)) asDNSRecord);
     ret (wrapResult (''creating DNS record '' @ CreateDNSRecordOpts_SubDomain opts @ ''.'' @ zone @ '': '') r)
   }"

definition DeleteDNSRecord ::
    "'w Client \<Rightarrow> string \<Rightarrow> int \<Rightarrow> ('o, 'w, gerror option) act" where
  "DeleteDNSRecord c zone recordID = do {
     r \<leftarrow> retryWithBackoff ''DeleteDNSRecord''
       (exchange c (Delete (''/domain/zone/'' @ zone @ ''/record/'' @ formatInt recordID)) noBody);
     ret (deleteResult IsNotFound (''deleting DNS record '' @ formatInt recordID @ '' in zone '' @ zone @ '': '') r)
   }"

definition RefreshDNSZone ::
    "'w Client \<Rightarrow> string \<Rightarrow> ('o, 'w, gerror option) act" where
  "RefreshDNSZone c zone = do {
     r \<leftarrow> retryWithBackoff ''RefreshDNSZone''
       (exchange c (Post (''/domain/zone/'' @ zone @ ''/refresh'') BNone) noBody);
     ret (errorResult (''refreshing DNS zone '' @ zone @ '': '') r)
   }"

section \<open>What an operation may do\<close>

text \<open>
  The contract between the client and the controllers: an operation changes nothing of the
  object under reconciliation, and every request it sends satisfies \<open>R\<close>, whatever the
  cloud answers. The controllers' proofs use the client through the facts of this locale only.
\<close>

definition requestsIn :: "(request \<Rightarrow> bool) \<Rightarrow> event \<Rightarrow> bool" where
  "requestsIn R e \<longleftrightarrow> (\<exists>r. e = Call r \<and> R r) \<or> (\<exists>n. e = Sleep n)"

lemma requestsIn_simps [simp]:
  "requestsIn R (Call r) = R r"
  "requestsIn R (Sleep n)"
  "\<not> requestsIn R (Kube k)"
  "\<not> requestsIn R (Inc x)"
  "\<not> requestsIn R (Observe x l)"
  "\<not> requestsIn R (SetGauge x l n)"
  by (simp_all add: requestsIn_def)

locale ovh_operation =
  fixes oper :: "('o, 'w, 'a) act"
    and R :: "request \<Rightarrow> bool"
  assumes oper_extern: "extern (requestsIn R) oper"
begin

lemma oper_emits [emits_intros]:
  "(\<And>r. R r \<Longrightarrow> P (Call r)) \<Longrightarrow> (\<And>n. P (Sleep n)) \<Longrightarrow> emits P oper"
  using oper_extern by (auto simp: extern_def requestsIn_def elim!: emits_mono)

lemma oper_keepsObj [keepsObj_intros]: "keepsObj oper"
  using oper_extern by (simp add: extern_def)

lemma oper_weaken: "(\<And>r. R r \<Longrightarrow> R' r) \<Longrightarrow> ovh_operation oper R'"
  by unfold_locales (auto intro!: externI oper_emits oper_keepsObj)

lemma oper_runs [runs_intros]:
  "(\<And>r. R r \<Longrightarrow> P (Call r)) \<Longrightarrow> (\<And>n. P (Sleep n)) \<Longrightarrow> runs I P oper"
  by (rule runs_extern) (auto intro: externI oper_emits oper_keepsObj)

lemma oper_wp:
  "(\<And>r w es. \<forall>e \<in> set es. requestsIn R e
      \<Longrightarrow> Q r (s\<lparr>st_env := w, st_trace := st_trace s @ es\<rparr>)) \<Longrightarrow> wp oper Q s"
  by (rule wp_extern [OF oper_extern])

end

interpretation exchange: ovh_operation "exchange c req dec" "\<lambda>r. r = req" for c req dec
  by unfold_locales (auto simp: exchange_def intro!: externI emits_intros keepsObj_intros)

text \<open>Retrying an operation sends no other request.\<close>

lemma emits_retryFrom:
  assumes "emits P fn" and "\<And>n. P (Sleep n)"
  shows "emits P (retryFrom op fn k)"
  using assms
proof (induction op fn k rule: retryFrom.induct)
  case (1 op fn k)
  then show ?case
    by (subst retryFrom.simps) (auto intro!: emits_intros)
qed

lemma keepsObj_retryFrom:
  assumes "keepsObj fn"
  shows "keepsObj (retryFrom op fn k)"
  using assms
proof (induction op fn k rule: retryFrom.induct)
  case (1 op fn k)
  then show ?case
    by (subst retryFrom.simps) (auto intro!: keepsObj_intros)
qed

interpretation retry: ovh_operation "retryWithBackoff op (exchange c req dec)" "\<lambda>r. r = req"
  for op c req dec
  by unfold_locales
    (auto simp: retryWithBackoff_def
      intro!: externI emits_retryFrom keepsObj_retryFrom emits_intros keepsObj_intros)

interpretation ValidateCredentials: ovh_operation "ValidateCredentials c"
  "\<lambda>r. r = Get (projectPath c (''/region''))"
  for c
  by unfold_locales (auto simp: ValidateCredentials_def intro!: externI emits_intros keepsObj_intros)

interpretation CreateInstance: ovh_operation "CreateInstance c opts"
  "\<lambda>r. r = Post (projectPath c (''/instance'')) (BInstance opts)"
  for c opts
  by unfold_locales (auto simp: CreateInstance_def intro!: externI emits_intros keepsObj_intros)

interpretation GetInstance: ovh_operation "GetInstance c instanceID"
  "\<lambda>r. r = Get (projectPath c (''/instance/'' @ instanceID))"
  for c instanceID
  by unfold_locales (auto simp: GetInstance_def intro!: externI emits_intros keepsObj_intros)

interpretation DeleteInstance: ovh_operation "DeleteInstance c instanceID"
  "\<lambda>r. r = Delete (projectPath c (''/instance/'' @ instanceID))"
  for c instanceID
  by unfold_locales (auto simp: DeleteInstance_def intro!: externI emits_intros keepsObj_intros)

interpretation ListInstances: ovh_operation "ListInstances c"
  "\<lambda>r. r = Get (projectPath c (''/instance'') @ regionQuery c)"
  for c
  by unfold_locales (auto simp: ListInstances_def intro!: externI emits_intros keepsObj_intros)

interpretation FindInstanceByName: ovh_operation "FindInstanceByName c name"
  "\<lambda>r. r = Get (projectPath c (''/instance'') @ regionQuery c)"
  for c name
  by unfold_locales (auto simp: FindInstanceByName_def intro!: externI emits_intros keepsObj_intros)

interpretation ListFlavors: ovh_operation "ListFlavors c"
  "\<lambda>r. r = Get (projectPath c (''/flavor'') @ regionQuery c)"
  for c
  by unfold_locales (auto simp: ListFlavors_def intro!: externI emits_intros keepsObj_intros)

interpretation GetFlavorByName: ovh_operation "GetFlavorByName c name"
  "\<lambda>r. r = Get (projectPath c (''/flavor'') @ regionQuery c)"
  for c name
  by unfold_locales (auto simp: GetFlavorByName_def intro!: externI emits_intros keepsObj_intros)

interpretation ListImages: ovh_operation "ListImages c"
  "\<lambda>r. r = Get (projectPath c (''/image'') @ regionQuery c)"
  for c
  by unfold_locales (auto simp: ListImages_def intro!: externI emits_intros keepsObj_intros)

interpretation ListSnapshots: ovh_operation "ListSnapshots c"
  "\<lambda>r. r = Get (projectPath c (''/snapshot'') @ regionQuery c)"
  for c
  by unfold_locales (auto simp: ListSnapshots_def intro!: externI emits_intros keepsObj_intros)

interpretation GetImageByName: ovh_operation "GetImageByName c name"
  "\<lambda>r. r = Get (projectPath c (''/image'') @ regionQuery c) \<or> r = Get (projectPath c (''/snapshot'') @ regionQuery c)"
  for c name
  by unfold_locales (auto simp: GetImageByName_def intro!: externI emits_intros keepsObj_intros)

interpretation ListSSHKeys: ovh_operation "ListSSHKeys c"
  "\<lambda>r. r = Get (projectPath c (''/sshkey'') @ regionQuery c)"
  for c
  by unfold_locales (auto simp: ListSSHKeys_def intro!: externI emits_intros keepsObj_intros)

interpretation GetSSHKeyByName: ovh_operation "GetSSHKeyByName c name"
  "\<lambda>r. r = Get (projectPath c (''/sshkey'') @ regionQuery c)"
  for c name
  by unfold_locales (auto simp: GetSSHKeyByName_def intro!: externI emits_intros keepsObj_intros)

interpretation CreateSSHKey: ovh_operation "CreateSSHKey c opts"
  "\<lambda>r. r = Post (projectPath c (''/sshkey'')) (BSSHKey opts)"
  for c opts
  by unfold_locales (auto simp: CreateSSHKey_def intro!: externI emits_intros keepsObj_intros)

interpretation DeleteSSHKey: ovh_operation "DeleteSSHKey c keyID"
  "\<lambda>r. r = Delete (projectPath c (''/sshkey/'' @ keyID))"
  for c keyID
  by unfold_locales (auto simp: DeleteSSHKey_def intro!: externI emits_intros keepsObj_intros)

interpretation ListPrivateNetworks: ovh_operation "ListPrivateNetworks c"
  "\<lambda>r. r = Get (projectPath c (''/network/private''))"
  for c
  by unfold_locales (auto simp: ListPrivateNetworks_def intro!: externI emits_intros keepsObj_intros)

interpretation GetPrivateNetwork: ovh_operation "GetPrivateNetwork c networkID"
  "\<lambda>r. r = Get (projectPath c (''/network/private/'' @ networkID))"
  for c networkID
  by unfold_locales (auto simp: GetPrivateNetwork_def intro!: externI emits_intros keepsObj_intros)

interpretation CreatePrivateNetwork: ovh_operation "CreatePrivateNetwork c opts"
  "\<lambda>r. r = Post (projectPath c (''/network/private'')) (BNetwork opts)"
  for c opts
  by unfold_locales (auto simp: CreatePrivateNetwork_def intro!: externI emits_intros keepsObj_intros)

interpretation DeletePrivateNetwork: ovh_operation "DeletePrivateNetwork c networkID"
  "\<lambda>r. r = Delete (projectPath c (''/network/private/'' @ networkID))"
  for c networkID
  by unfold_locales (auto simp: DeletePrivateNetwork_def intro!: externI emits_intros keepsObj_intros)

interpretation ListSubnets: ovh_operation "ListSubnets c networkID"
  "\<lambda>r. r = Get (projectPath c (''/network/private/'' @ networkID @ ''/subnet''))"
  for c networkID
  by unfold_locales (auto simp: ListSubnets_def intro!: externI emits_intros keepsObj_intros)

interpretation CreateSubnet: ovh_operation "CreateSubnet c networkID opts"
  "\<lambda>r. r = Post (projectPath c (''/network/private/'' @ networkID @ ''/subnet'')) (BSubnet opts)"
  for c networkID opts
  by unfold_locales (auto simp: CreateSubnet_def intro!: externI emits_intros keepsObj_intros)

interpretation ListLBFlavors: ovh_operation "ListLBFlavors c"
  "\<lambda>r. r = Get (regionPath c (''/loadbalancing/flavor''))"
  for c
  by unfold_locales (auto simp: ListLBFlavors_def intro!: externI emits_intros keepsObj_intros)

interpretation GetLBFlavorByName: ovh_operation "GetLBFlavorByName c name"
  "\<lambda>r. r = Get (regionPath c (''/loadbalancing/flavor''))"
  for c name
  by unfold_locales (auto simp: GetLBFlavorByName_def intro!: externI emits_intros keepsObj_intros)

interpretation findLoadBalancerByName: ovh_operation "findLoadBalancerByName c name"
  "\<lambda>r. r = Get (regionPath c (''/loadbalancing/loadbalancer''))"
  for c name
  by unfold_locales (auto simp: findLoadBalancerByName_def intro!: externI emits_intros keepsObj_intros)

text \<open>The polling loop only lists load balancers.\<close>

lemma emits_pollLoadBalancer:
  assumes "P (Call (Get (regionPath c ''/loadbalancing/loadbalancer'')))" and "\<And>n. P (Sleep n)"
  shows "emits P (pollLoadBalancer c name k)"
  using assms
proof (induction c name k rule: pollLoadBalancer.induct)
  case (1 c name k)
  then show ?case
    by (subst pollLoadBalancer.simps) (auto intro!: emits_intros)
qed

lemma keepsObj_pollLoadBalancer: "keepsObj (pollLoadBalancer c name k)"
proof (induction c name k rule: pollLoadBalancer.induct)
  case (1 c name k)
  then show ?case
    by (subst pollLoadBalancer.simps) (auto intro!: keepsObj_intros)
qed

interpretation CreateLoadBalancer: ovh_operation "CreateLoadBalancer c opts"
  "\<lambda>r. r = Get (regionPath c (''/loadbalancing/loadbalancer'')) \<or> r = Post (regionPath c (''/loadbalancing/loadbalancer'')) (BLoadBalancer opts)"
  for c opts
  by unfold_locales (auto simp: CreateLoadBalancer_def intro!: externI emits_intros keepsObj_intros emits_pollLoadBalancer keepsObj_pollLoadBalancer)

interpretation ListLoadBalancersByPrefix: ovh_operation "ListLoadBalancersByPrefix c prefix"
  "\<lambda>r. r = Get (regionPath c (''/loadbalancing/loadbalancer''))"
  for c prefix
  by unfold_locales (auto simp: ListLoadBalancersByPrefix_def intro!: externI emits_intros keepsObj_intros)

interpretation AssociateFloatingIPToLB: ovh_operation "AssociateFloatingIPToLB c lbID floatingIPID"
  "\<lambda>r. r = Post (regionPath c (''/loadbalancing/loadbalancer/'' @ lbID @ ''/associateFloatingIp'')) (BAssociateFloatingIP floatingIPID)"
  for c lbID floatingIPID
  by unfold_locales (auto simp: AssociateFloatingIPToLB_def intro!: externI emits_intros keepsObj_intros)

interpretation ListGateways: ovh_operation "ListGateways c"
  "\<lambda>r. r = Get (regionPath c (''/gateway''))"
  for c
  by unfold_locales (auto simp: ListGateways_def intro!: externI emits_intros keepsObj_intros)

interpretation DeleteGateway: ovh_operation "DeleteGateway c gatewayID"
  "\<lambda>r. r = Delete (regionPath c (''/gateway/'' @ gatewayID))"
  for c gatewayID
  by unfold_locales (auto simp: DeleteGateway_def intro!: externI emits_intros keepsObj_intros)

interpretation ExposeGateway: ovh_operation "ExposeGateway c gatewayID"
  "\<lambda>r. r = Post (regionPath c (''/gateway/'' @ gatewayID @ ''/expose'')) BNone"
  for c gatewayID
  by unfold_locales (auto simp: ExposeGateway_def intro!: externI emits_intros keepsObj_intros)

interpretation CreateLoadBalancerFloatingIP: ovh_operation "CreateLoadBalancerFloatingIP c lbID privateIP gatewayName"
  "\<lambda>r. r = Post (regionPath c (''/loadbalancing/loadbalancer/'' @ lbID @ ''/floatingIp'')) (BLBFloatingIP privateIP [(''model'', ''s''), (''name'', gatewayName)])"
  for c lbID privateIP gatewayName
  by unfold_locales (auto simp: CreateLoadBalancerFloatingIP_def intro!: externI emits_intros keepsObj_intros)

interpretation GetLoadBalancer: ovh_operation "GetLoadBalancer c lbID"
  "\<lambda>r. r = Get (regionPath c (''/loadbalancing/loadbalancer/'' @ lbID))"
  for c lbID
  by unfold_locales (auto simp: GetLoadBalancer_def intro!: externI emits_intros keepsObj_intros)

interpretation DeleteLoadBalancer: ovh_operation "DeleteLoadBalancer c lbID"
  "\<lambda>r. r = Delete (regionPath c (''/loadbalancing/loadbalancer/'' @ lbID))"
  for c lbID
  by unfold_locales (auto simp: DeleteLoadBalancer_def intro!: externI emits_intros keepsObj_intros)

interpretation ListListeners: ovh_operation "ListListeners c"
  "\<lambda>r. r = Get (regionPath c (''/loadbalancing/listener''))"
  for c
  by unfold_locales (auto simp: ListListeners_def intro!: externI emits_intros keepsObj_intros)

interpretation FindListenerByName: ovh_operation "FindListenerByName c lbID name"
  "\<lambda>r. r = Get (regionPath c (''/loadbalancing/listener''))"
  for c lbID name
  by unfold_locales (auto simp: FindListenerByName_def intro!: externI emits_intros keepsObj_intros)

interpretation FindPoolByName: ovh_operation "FindPoolByName c lbID name"
  "\<lambda>r. r = Get (regionPath c (''/loadbalancing/pool''))"
  for c lbID name
  by unfold_locales (auto simp: FindPoolByName_def intro!: externI emits_intros keepsObj_intros)

interpretation CreateListener: ovh_operation "CreateListener c opts"
  "\<lambda>r. r = Post (regionPath c (''/loadbalancing/listener'')) (BListener opts)"
  for c opts
  by unfold_locales (auto simp: CreateListener_def intro!: externI emits_intros keepsObj_intros)

interpretation DeleteListener: ovh_operation "DeleteListener c listenerID"
  "\<lambda>r. r = Delete (regionPath c (''/loadbalancing/listener/'' @ listenerID))"
  for c listenerID
  by unfold_locales (auto simp: DeleteListener_def intro!: externI emits_intros keepsObj_intros)

interpretation CreatePool: ovh_operation "CreatePool c opts"
  "\<lambda>r. r = Post (regionPath c (''/loadbalancing/pool'')) (BPool opts)"
  for c opts
  by unfold_locales (auto simp: CreatePool_def intro!: externI emits_intros keepsObj_intros)

interpretation DeletePool: ovh_operation "DeletePool c poolID"
  "\<lambda>r. r = Delete (regionPath c (''/loadbalancing/pool/'' @ poolID))"
  for c poolID
  by unfold_locales (auto simp: DeletePool_def intro!: externI emits_intros keepsObj_intros)

interpretation AddPoolMembers: ovh_operation "AddPoolMembers c poolID opts"
  "\<lambda>r. r = Post (regionPath c (''/loadbalancing/pool/'' @ poolID @ ''/member'')) (BMembers \<lparr>addPoolMembersRequest_Members = opts\<rparr>)"
  for c poolID opts
  by unfold_locales (auto simp: AddPoolMembers_def intro!: externI emits_intros keepsObj_intros)

interpretation AddPoolMember: ovh_operation "AddPoolMember c poolID opts"
  "\<lambda>r. r = Post (regionPath c (''/loadbalancing/pool/'' @ poolID @ ''/member'')) (BMembers \<lparr>addPoolMembersRequest_Members = [opts]\<rparr>)"
  for c poolID opts
  by unfold_locales (auto simp: AddPoolMember_def intro!: externI emits_intros keepsObj_intros)

interpretation RemovePoolMember: ovh_operation "RemovePoolMember c poolID memberID"
  "\<lambda>r. r = Delete (regionPath c (''/loadbalancing/pool/'' @ poolID @ ''/member/'' @ memberID))"
  for c poolID memberID
  by unfold_locales (auto simp: RemovePoolMember_def intro!: externI emits_intros keepsObj_intros)

interpretation ListPoolMembers: ovh_operation "ListPoolMembers c poolID"
  "\<lambda>r. r = Get (regionPath c (''/loadbalancing/pool/'' @ poolID @ ''/member''))"
  for c poolID
  by unfold_locales (auto simp: ListPoolMembers_def intro!: externI emits_intros keepsObj_intros)

interpretation CreateHealthMonitor: ovh_operation "CreateHealthMonitor c opts"
  "\<lambda>r. r = Post (regionPath c (''/loadbalancing/healthMonitor'')) (BHealthMonitor opts)"
  for c opts
  by unfold_locales (auto simp: CreateHealthMonitor_def intro!: externI emits_intros keepsObj_intros)

interpretation GetHealthMonitor: ovh_operation "GetHealthMonitor c hmID"
  "\<lambda>r. r = Get (regionPath c (''/loadbalancing/healthMonitor/'' @ hmID))"
  for c hmID
  by unfold_locales (auto simp: GetHealthMonitor_def intro!: externI emits_intros keepsObj_intros)

interpretation ListHealthMonitors: ovh_operation "ListHealthMonitors c"
  "\<lambda>r. r = Get (regionPath c (''/loadbalancing/healthMonitor''))"
  for c
  by unfold_locales (auto simp: ListHealthMonitors_def intro!: externI emits_intros keepsObj_intros)

interpretation FindHealthMonitorByName: ovh_operation "FindHealthMonitorByName c name"
  "\<lambda>r. r = Get (regionPath c (''/loadbalancing/healthMonitor''))"
  for c name
  by unfold_locales (auto simp: FindHealthMonitorByName_def intro!: externI emits_intros keepsObj_intros)

interpretation DeleteHealthMonitor: ovh_operation "DeleteHealthMonitor c hmID"
  "\<lambda>r. r = Delete (regionPath c (''/loadbalancing/healthMonitor/'' @ hmID))"
  for c hmID
  by unfold_locales (auto simp: DeleteHealthMonitor_def intro!: externI emits_intros keepsObj_intros)

interpretation CreateVolume: ovh_operation "CreateVolume c opts"
  "\<lambda>r. r = Post (projectPath c (''/volume'')) (BVolume opts)"
  for c opts
  by unfold_locales (auto simp: CreateVolume_def intro!: externI emits_intros keepsObj_intros)

interpretation GetVolume: ovh_operation "GetVolume c volumeID"
  "\<lambda>r. r = Get (projectPath c (''/volume/'' @ volumeID))"
  for c volumeID
  by unfold_locales (auto simp: GetVolume_def intro!: externI emits_intros keepsObj_intros)

interpretation AttachVolume: ovh_operation "AttachVolume c volumeID instanceID"
  "\<lambda>r. r = Post (projectPath c (''/volume/'' @ volumeID @ ''/attach'')) (BAttachVolume \<lparr>AttachVolumeOpts_InstanceID = instanceID\<rparr>)"
  for c volumeID instanceID
  by unfold_locales (auto simp: AttachVolume_def intro!: externI emits_intros keepsObj_intros)

interpretation DetachVolume: ovh_operation "DetachVolume c volumeID instanceID"
  "\<lambda>r. r = Post (projectPath c (''/volume/'' @ volumeID @ ''/detach'')) (BAttachVolume \<lparr>AttachVolumeOpts_InstanceID = instanceID\<rparr>)"
  for c volumeID instanceID
  by unfold_locales (auto simp: DetachVolume_def intro!: externI emits_intros keepsObj_intros)

interpretation DeleteVolume: ovh_operation "DeleteVolume c volumeID"
  "\<lambda>r. r = Delete (projectPath c (''/volume/'' @ volumeID))"
  for c volumeID
  by unfold_locales (auto simp: DeleteVolume_def intro!: externI emits_intros keepsObj_intros)

interpretation ListFloatingIPs: ovh_operation "ListFloatingIPs c"
  "\<lambda>r. r = Get (regionPath c (''/floatingip''))"
  for c
  by unfold_locales (auto simp: ListFloatingIPs_def intro!: externI emits_intros keepsObj_intros)

interpretation GetFloatingIP: ovh_operation "GetFloatingIP c fipID"
  "\<lambda>r. r = Get (regionPath c (''/floatingip/'' @ fipID))"
  for c fipID
  by unfold_locales (auto simp: GetFloatingIP_def intro!: externI emits_intros keepsObj_intros)

interpretation CreateFloatingIP: ovh_operation "CreateFloatingIP c opts"
  "\<lambda>r. r = Post (regionPath c (''/floatingIp'')) (BFloatingIP opts)"
  for c opts
  by unfold_locales (auto simp: CreateFloatingIP_def intro!: externI emits_intros keepsObj_intros)

interpretation DeleteFloatingIP: ovh_operation "DeleteFloatingIP c fipID"
  "\<lambda>r. r = Delete (regionPath c (''/floatingIp/'' @ fipID))"
  for c fipID
  by unfold_locales (auto simp: DeleteFloatingIP_def intro!: externI emits_intros keepsObj_intros)

interpretation GetRegionInfo: ovh_operation "GetRegionInfo c"
  "\<lambda>r. r = Get (projectPath c (''/region/'' @ Client_region c))"
  for c
  by unfold_locales (auto simp: GetRegionInfo_def intro!: externI emits_intros keepsObj_intros)

interpretation ListSecurityGroups: ovh_operation "ListSecurityGroups c"
  "\<lambda>r. r = Get (regionPath c (''/network/security/group''))"
  for c
  by unfold_locales (auto simp: ListSecurityGroups_def intro!: externI emits_intros keepsObj_intros)

interpretation CreateSecurityGroup: ovh_operation "CreateSecurityGroup c opts"
  "\<lambda>r. r = Post (regionPath c (''/network/security/group'')) (BSecurityGroup opts)"
  for c opts
  by unfold_locales (auto simp: CreateSecurityGroup_def intro!: externI emits_intros keepsObj_intros)

interpretation DeleteSecurityGroup: ovh_operation "DeleteSecurityGroup c sgID"
  "\<lambda>r. r = Delete (regionPath c (''/network/security/group/'' @ sgID))"
  for c sgID
  by unfold_locales (auto simp: DeleteSecurityGroup_def intro!: externI emits_intros keepsObj_intros)

interpretation CreateSecurityGroupRule: ovh_operation "CreateSecurityGroupRule c sgID opts"
  "\<lambda>r. r = Post (regionPath c (''/network/security/group/'' @ sgID @ ''/rule'')) (BSecurityGroupRule opts)"
  for c sgID opts
  by unfold_locales (auto simp: CreateSecurityGroupRule_def intro!: externI emits_intros keepsObj_intros)

interpretation ListSecurityGroupRules: ovh_operation "ListSecurityGroupRules c sgID"
  "\<lambda>r. r = Get (regionPath c (''/network/security/group/'' @ sgID @ ''/rule''))"
  for c sgID
  by unfold_locales (auto simp: ListSecurityGroupRules_def intro!: externI emits_intros keepsObj_intros)

interpretation CreateDNSRecord: ovh_operation "CreateDNSRecord c zone opts"
  "\<lambda>r. r = Post (''/domain/zone/'' @ zone @ ''/record'') (BDNSRecord opts)"
  for c zone opts
  by unfold_locales (auto simp: CreateDNSRecord_def intro!: externI emits_intros keepsObj_intros)

interpretation DeleteDNSRecord: ovh_operation "DeleteDNSRecord c zone recordID"
  "\<lambda>r. r = Delete (''/domain/zone/'' @ zone @ ''/record/'' @ formatInt recordID)"
  for c zone recordID
  by unfold_locales (auto simp: DeleteDNSRecord_def intro!: externI emits_intros keepsObj_intros)

interpretation RefreshDNSZone: ovh_operation "RefreshDNSZone c zone"
  "\<lambda>r. r = Post (''/domain/zone/'' @ zone @ ''/refresh'') BNone"
  for c zone
  by unfold_locales (auto simp: RefreshDNSZone_def intro!: externI emits_intros keepsObj_intros)

section \<open>What a retried exchange does\<close>

text \<open>The decoded answer of the cloud in a given state, and its state after \<open>k\<close> requests.\<close>

definition answer :: "'w Client \<Rightarrow> request \<Rightarrow> (reply \<Rightarrow> gerror + 'a) \<Rightarrow> 'w \<Rightarrow> gerror + 'a" where
  "answer c req dec w = (case fst (Client_api c req w) of Inl e \<Rightarrow> Inl e | Inr a \<Rightarrow> dec a)"

definition after :: "'w Client \<Rightarrow> request \<Rightarrow> nat \<Rightarrow> 'w \<Rightarrow> 'w" where
  "after c req k w = ((\<lambda>w. snd (Client_api c req w)) ^^ k) w"

definition retryable :: "gerror + 'a \<Rightarrow> bool" where
  "retryable r = (case r of Inl e \<Rightarrow> IsRetryable (Some e) | Inr x \<Rightarrow> False)"

text \<open>The outcome of the loop when its last answer is \<open>r\<close>.\<close>

definition exhausted :: "string \<Rightarrow> gerror + 'a \<Rightarrow> gerror + 'a" where
  "exhausted op r =
     (if retryable r
      then wrapResult (op @ '' failed after '' @ formatInt (int maxRetries) @ '' retries: '') r
      else r)"

lemma after_simps [simp]:
  "after c req 0 w = w"
  "after c req (Suc k) w = after c req k (snd (Client_api c req w))"
  by (simp_all add: after_def funpow_Suc_right del: funpow.simps(2))

lemma run_exchange:
  "run_state (exchange c req dec) s =
     (answer c req dec (st_env s),
      s\<lparr>st_env := after c req 1 (st_env s), st_trace := st_trace s @ [Call req]\<rparr>)"
  by (simp add: exchange_def answer_def)

lemma retryFrom_settled:
  "\<not> retryable (answer c req dec (st_env s))
    \<Longrightarrow> run_state (retryFrom op (exchange c req dec) k) s =
     (answer c req dec (st_env s),
      s\<lparr>st_env := after c req 1 (st_env s), st_trace := st_trace s @ [Call req]\<rparr>)"
  by (subst retryFrom.simps) (auto simp: run_exchange retryable_def split: sum.splits)

lemma retryFrom_last:
  "retryable (answer c req dec (st_env s)) \<Longrightarrow> \<not> k < maxRetries
    \<Longrightarrow> run_state (retryFrom op (exchange c req dec) k) s =
     (exhausted op (answer c req dec (st_env s)),
      s\<lparr>st_env := after c req 1 (st_env s), st_trace := st_trace s @ [Call req]\<rparr>)"
  by (subst retryFrom.simps)
    (auto simp: run_exchange retryable_def exhausted_def wrapResult_def split: sum.splits)

lemma retryFrom_again:
  "retryable (answer c req dec (st_env s)) \<Longrightarrow> k < maxRetries
    \<Longrightarrow> run_state (retryFrom op (exchange c req dec) k) s =
     run_state (retryFrom op (exchange c req dec) (Suc k))
      (s\<lparr>st_env := after c req 1 (st_env s),
         st_trace := st_trace s @ [Call req, Sleep (backoff k)]\<rparr>)"
  by (subst retryFrom.simps) (auto simp: run_exchange retryable_def split: sum.splits)

definition rounds :: "request \<Rightarrow> nat \<Rightarrow> nat \<Rightarrow> event list" where
  "rounds req k n = concat (map (\<lambda>i. [Call req, Sleep (backoff i)]) [k..<k + n])"

lemma rounds_Suc: "rounds req k (Suc n) = [Call req, Sleep (backoff k)] @ rounds req (Suc k) n"
  by (simp add: rounds_def upt_conv_Cons del: upt_Suc)

lemma retryFrom_run:
  assumes "k \<le> maxRetries"
  shows "\<exists>n. k + n \<le> maxRetries
    \<and> (\<forall>i < n. retryable (answer c req dec (after c req i (st_env s))))
    \<and> (k + n < maxRetries \<longrightarrow> \<not> retryable (answer c req dec (after c req n (st_env s))))
    \<and> run_state (retryFrom op (exchange c req dec) k) s =
        (exhausted op (answer c req dec (after c req n (st_env s))),
         s\<lparr>st_env := after c req (Suc n) (st_env s),
           st_trace := st_trace s @ rounds req k n @ [Call req]\<rparr>)"
  using assms
proof (induction "maxRetries - k" arbitrary: k s)
  case 0
  then show ?case
    by (intro exI [of _ 0])
      (cases "retryable (answer c req dec (st_env s))";
       simp add: retryFrom_settled retryFrom_last exhausted_def rounds_def)
next
  case (Suc d)
  show ?case
  proof (cases "retryable (answer c req dec (st_env s))")
    case False
    with Suc.prems show ?thesis
      by (intro exI [of _ 0]) (simp add: retryFrom_settled exhausted_def rounds_def)
  next
    case True
    let ?s = "s\<lparr>st_env := after c req 1 (st_env s),
      st_trace := st_trace s @ [Call req, Sleep (backoff k)]\<rparr>"
    from Suc.hyps(2) have k: "k < maxRetries" and "d = maxRetries - Suc k" by simp_all
    with Suc.hyps(1) [of "Suc k" ?s] obtain n where n: "Suc k + n \<le> maxRetries"
      "\<forall>i < n. retryable (answer c req dec (after c req i (st_env ?s)))"
      "Suc k + n < maxRetries \<longrightarrow> \<not> retryable (answer c req dec (after c req n (st_env ?s)))"
      "run_state (retryFrom op (exchange c req dec) (Suc k)) ?s =
        (exhausted op (answer c req dec (after c req n (st_env ?s))),
         ?s\<lparr>st_env := after c req (Suc n) (st_env ?s),
           st_trace := st_trace ?s @ rounds req (Suc k) n @ [Call req]\<rparr>)"
      by auto
    from n(2) True have "\<forall>i < Suc n. retryable (answer c req dec (after c req i (st_env s)))"
      by (simp add: less_Suc_eq_0_disj) (metis One_nat_def after_simps)
    with n True k show ?thesis
      by (intro exI [of _ "Suc n"]) (simp add: retryFrom_again rounds_Suc)
  qed
qed

text \<open>C18: the retry loop is determined by the answers of the cloud. There is a number \<open>n \<le> 5\<close>
  of retries such that the first \<open>n\<close> answers are transient errors, the next one is not
  (unless the retries are used up), the requests sent are exactly \<open>n + 1\<close> copies of the
  same request with the pauses 2, 4, 8, 16, 32 s in between, and the result is that last answer
  (wrapped when it is still a transient error). In particular the loop always returns.\<close>

theorem retryWithBackoff_characterised:
  "\<exists>n \<le> 5. (\<forall>i < n. retryable (answer c req dec (after c req i (st_env s))))
    \<and> (n < 5 \<longrightarrow> \<not> retryable (answer c req dec (after c req n (st_env s))))
    \<and> run_state (retryWithBackoff op (exchange c req dec)) s =
        (exhausted op (answer c req dec (after c req n (st_env s))),
         s\<lparr>st_env := after c req (Suc n) (st_env s),
           st_trace := st_trace s
             @ concat (map (\<lambda>i. [Call req, Sleep (2 ^ Suc i * second)]) [0..<n]) @ [Call req]\<rparr>)"
proof -
  have b: "i < 5 \<Longrightarrow> backoff i = 2 ^ Suc i * second" for i :: nat
    by (auto simp: backoff_def initialBackoff_def maxBackoff_def less_Suc_eq numeral_eq_Suc)
  from retryFrom_run [of 0 c req dec s op] obtain n where n: "n \<le> 5"
    "\<forall>i < n. retryable (answer c req dec (after c req i (st_env s)))"
    "n < 5 \<longrightarrow> \<not> retryable (answer c req dec (after c req n (st_env s)))"
    "run_state (retryFrom op (exchange c req dec) 0) s =
        (exhausted op (answer c req dec (after c req n (st_env s))),
         s\<lparr>st_env := after c req (Suc n) (st_env s),
           st_trace := st_trace s @ rounds req 0 n @ [Call req]\<rparr>)"
    by (auto simp: maxRetries_def)
  have "rounds req 0 n = concat (map (\<lambda>i. [Call req, Sleep (2 ^ Suc i * second)]) [0..<n])"
    using n(1) unfolding rounds_def by (intro arg_cong [where f = concat] map_cong) (auto simp: b)
  with n show ?thesis
    by (auto simp: retryWithBackoff_def)
qed

text \<open>A request that is answered, or refused for good, is sent once.\<close>

lemma settled_ok:
  "Client_api c req (st_env s) = (Inr a, w) \<Longrightarrow> dec a = Inr x \<Longrightarrow>
   run_state (retryWithBackoff op (exchange c req dec)) s =
     (Inr x, s\<lparr>st_env := w, st_trace := st_trace s @ [Call req]\<rparr>)"
  by (simp add: retryWithBackoff_def retryFrom_settled answer_def retryable_def)

lemma settled_err:
  "Client_api c req (st_env s) = (Inl e, w) \<Longrightarrow> \<not> IsRetryable (Some e) \<Longrightarrow>
   run_state (retryWithBackoff op (exchange c req dec)) s =
     (Inl e, s\<lparr>st_env := w, st_trace := st_trace s @ [Call req]\<rparr>)"
  by (simp add: retryWithBackoff_def retryFrom_settled answer_def retryable_def)

section \<open>Deletions\<close>

text \<open>
  The fifteen deletion-like methods share one shape: the request is retried, and an error that
  means "already gone" (or, for a gateway, "already exposed") counts as success.
\<close>

locale ovh_deletion =
  fixes oper :: "('o, 'w, gerror option) act"
    and c :: "'w Client"
    and req :: request
    and tolerated :: "gerror option \<Rightarrow> bool"
    and name :: string
    and msg :: string
  assumes oper_shape: "oper = do {
      r \<leftarrow> retryWithBackoff name (exchange c req noBody);
      ret (deleteResult tolerated msg r) }"
begin

lemma oper_run:
  obtains n where "n \<le> 5"
    and "\<forall>i < n. retryable (answer c req noBody (after c req i (st_env s)))"
    and "n < 5 \<longrightarrow> \<not> retryable (answer c req noBody (after c req n (st_env s)))"
    and "fst (run_state oper s) =
      deleteResult tolerated msg (exhausted name (answer c req noBody (after c req n (st_env s))))"
  using retryFrom_run [of 0 c req noBody s name]
  by (auto simp: oper_shape retryWithBackoff_def maxRetries_def)

lemma success_confirmed:
  assumes "fst (run_state oper s) = None"
  shows "\<exists>n \<le> 5. (\<exists>a. fst (Client_api c req (after c req n (st_env s))) = Inr a)
    \<or> (\<exists>e. fst (Client_api c req (after c req n (st_env s))) = Inl e
          \<and> (tolerated (Some e) \<or> IsRetryable (Some e) \<and> tolerated (Some (Wrap
                (name @ '' failed after 5 retries: '') e ''''))))"
proof -
  obtain n where n: "n \<le> 5" and r: "fst (run_state oper s) =
      deleteResult tolerated msg (exhausted name (answer c req noBody (after c req n (st_env s))))"
    by (rule oper_run)
  have five: "formatInt (int maxRetries) = ''5''"
    by (simp add: formatInt_def maxRetries_def formatUint.simps digitChar_def char_of_def)
      code_simp
  show ?thesis
    using n r assms
    by (intro exI [of _ n])
      (auto simp: answer_def deleteResult_def exhausted_def retryable_def wrapResult_def five
        split: sum.splits if_splits)
qed

lemma tolerated_error:
  assumes "fst (Client_api c req (st_env s)) = Inl e"
    and "tolerated (Some e)" and "\<not> IsRetryable (Some e)"
  shows "run_state oper s = (None,
    s\<lparr>st_env := snd (Client_api c req (st_env s)), st_trace := st_trace s @ [Call req]\<rparr>)"
  using assms
  by (simp add: oper_shape retryWithBackoff_def retryFrom_settled answer_def retryable_def
      deleteResult_def)

lemma fatal_error:
  assumes "fst (Client_api c req (st_env s)) = Inl e"
    and "\<not> tolerated (Some e)" and "\<not> IsRetryable (Some e)"
  shows "fst (run_state oper s) = Some (Wrap msg e '''')"
  using assms
  by (simp add: oper_shape retryWithBackoff_def retryFrom_settled answer_def retryable_def
      deleteResult_def)

end

interpretation DeleteInstance_del: ovh_deletion "DeleteInstance c instanceID" c
  "Delete (projectPath c (''/instance/'' @ instanceID))"
  "IsNotFound" "''DeleteInstance''" "''deleting instance '' @ instanceID @ '': ''"
  for c instanceID
  by unfold_locales (simp add: DeleteInstance_def)

interpretation DeleteSSHKey_del: ovh_deletion "DeleteSSHKey c keyID" c
  "Delete (projectPath c (''/sshkey/'' @ keyID))"
  "IsNotFound" "''DeleteSSHKey''" "''deleting SSH key '' @ keyID @ '': ''"
  for c keyID
  by unfold_locales (simp add: DeleteSSHKey_def)

interpretation DeletePrivateNetwork_del: ovh_deletion "DeletePrivateNetwork c networkID" c
  "Delete (projectPath c (''/network/private/'' @ networkID))"
  "IsNotFound" "''DeletePrivateNetwork''" "''deleting private network '' @ networkID @ '': ''"
  for c networkID
  by unfold_locales (simp add: DeletePrivateNetwork_def)

interpretation DeleteGateway_del: ovh_deletion "DeleteGateway c gatewayID" c
  "Delete (regionPath c (''/gateway/'' @ gatewayID))"
  "IsNotFound" "''DeleteGateway''" "''deleting gateway '' @ gatewayID @ '': ''"
  for c gatewayID
  by unfold_locales (simp add: DeleteGateway_def)

interpretation ExposeGateway_del: ovh_deletion "ExposeGateway c gatewayID" c
  "Post (regionPath c (''/gateway/'' @ gatewayID @ ''/expose'')) BNone"
  "IsConflict" "''ExposeGateway''" "''exposing gateway '' @ gatewayID @ '': ''"
  for c gatewayID
  by unfold_locales (simp add: ExposeGateway_def)

interpretation DeleteLoadBalancer_del: ovh_deletion "DeleteLoadBalancer c lbID" c
  "Delete (regionPath c (''/loadbalancing/loadbalancer/'' @ lbID))"
  "(\<lambda>err. IsNotFound err \<or> IsAlreadyDeleting err)" "''DeleteLoadBalancer''" "''deleting load balancer '' @ lbID @ '': ''"
  for c lbID
  by unfold_locales (simp add: DeleteLoadBalancer_def)

interpretation DeleteListener_del: ovh_deletion "DeleteListener c listenerID" c
  "Delete (regionPath c (''/loadbalancing/listener/'' @ listenerID))"
  "IsNotFound" "''DeleteListener''" "''deleting listener '' @ listenerID @ '': ''"
  for c listenerID
  by unfold_locales (simp add: DeleteListener_def)

interpretation DeletePool_del: ovh_deletion "DeletePool c poolID" c
  "Delete (regionPath c (''/loadbalancing/pool/'' @ poolID))"
  "IsNotFound" "''DeletePool''" "''deleting pool '' @ poolID @ '': ''"
  for c poolID
  by unfold_locales (simp add: DeletePool_def)

interpretation RemovePoolMember_del: ovh_deletion "RemovePoolMember c poolID memberID" c
  "Delete (regionPath c (''/loadbalancing/pool/'' @ poolID @ ''/member/'' @ memberID))"
  "IsNotFound" "''RemovePoolMember''" "''removing member '' @ memberID @ '' from pool '' @ poolID @ '': ''"
  for c poolID memberID
  by unfold_locales (simp add: RemovePoolMember_def)

interpretation DeleteHealthMonitor_del: ovh_deletion "DeleteHealthMonitor c hmID" c
  "Delete (regionPath c (''/loadbalancing/healthMonitor/'' @ hmID))"
  "(\<lambda>err. IsNotFound err \<or> IsAlreadyDeleting err)" "''DeleteHealthMonitor''" "''deleting health monitor '' @ hmID @ '': ''"
  for c hmID
  by unfold_locales (simp add: DeleteHealthMonitor_def)

interpretation DetachVolume_del: ovh_deletion "DetachVolume c volumeID instanceID" c
  "Post (projectPath c (''/volume/'' @ volumeID @ ''/detach'')) (BAttachVolume \<lparr>AttachVolumeOpts_InstanceID = instanceID\<rparr>)"
  "IsNotFound" "''DetachVolume''" "''detaching volume '' @ volumeID @ '' from instance '' @ instanceID @ '': ''"
  for c volumeID instanceID
  by unfold_locales (simp add: DetachVolume_def)

interpretation DeleteVolume_del: ovh_deletion "DeleteVolume c volumeID" c
  "Delete (projectPath c (''/volume/'' @ volumeID))"
  "IsNotFound" "''DeleteVolume''" "''deleting volume '' @ volumeID @ '': ''"
  for c volumeID
  by unfold_locales (simp add: DeleteVolume_def)

interpretation DeleteFloatingIP_del: ovh_deletion "DeleteFloatingIP c fipID" c
  "Delete (regionPath c (''/floatingIp/'' @ fipID))"
  "IsNotFound" "''DeleteFloatingIP''" "''deleting floating IP '' @ fipID @ '': ''"
  for c fipID
  by unfold_locales (simp add: DeleteFloatingIP_def)

interpretation DeleteSecurityGroup_del: ovh_deletion "DeleteSecurityGroup c sgID" c
  "Delete (regionPath c (''/network/security/group/'' @ sgID))"
  "IsNotFound" "''DeleteSecurityGroup''" "''deleting security group '' @ sgID @ '': ''"
  for c sgID
  by unfold_locales (simp add: DeleteSecurityGroup_def)

interpretation DeleteDNSRecord_del: ovh_deletion "DeleteDNSRecord c zone recordID" c
  "Delete (''/domain/zone/'' @ zone @ ''/record/'' @ formatInt recordID)"
  "IsNotFound" "''DeleteDNSRecord''" "''deleting DNS record '' @ formatInt recordID @ '' in zone '' @ zone @ '': ''"
  for c zone recordID
  by unfold_locales (simp add: DeleteDNSRecord_def)

section \<open>Properties of the client\<close>

lemma Contains_retry_prefix:
  "strings_Contains (''DeleteInstance failed after 5 retries: '' @ s) ''404''
     \<longleftrightarrow> strings_Contains s ''404''"
  "strings_Contains (''DeleteInstance failed after 5 retries: '' @ s) ''not found''
     \<longleftrightarrow> strings_Contains s ''not found''"
  by (simp_all add: strings_HasPrefix_def)

text \<open>C26: when \<open>DeleteInstance\<close> reports success, the cloud has confirmed it: one of the at
  most six answers to the DELETE of that instance was a success, or the last one was a 404, or an
  error without a status code whose text mentions 404 or "not found".\<close>

theorem DeleteInstance_confirmed:
  fixes c :: "'w Client" and s :: "('o, 'w, event) st"
  assumes "fst (run_state (DeleteInstance c i) s) = None"
  shows "\<exists>n \<le> 5. case fst (Client_api c (Delete (projectPath c (''/instance/'' @ i)))
        (after c (Delete (projectPath c (''/instance/'' @ i))) n (st_env s))) of
      Inr a \<Rightarrow> True
    | Inl e \<Rightarrow> errors_As_API e = Some 404 \<or> errors_As_API e = None
        \<and> (strings_Contains (Error_text e) ''404'' \<or> strings_Contains (Error_text e) ''not found'')"
proof -
  let ?req = "Delete (projectPath c (''/instance/'' @ i))"
  obtain n where n: "n \<le> 5" and "(\<exists>a. fst (Client_api c ?req (after c ?req n (st_env s))) = Inr a)
    \<or> (\<exists>e. fst (Client_api c ?req (after c ?req n (st_env s))) = Inl e
          \<and> (IsNotFound (Some e) \<or> IsRetryable (Some e) \<and> IsNotFound (Some (Wrap
                (''DeleteInstance'' @ '' failed after 5 retries: '') e ''''))))"
    using DeleteInstance_del.success_confirmed [OF assms] by blast
  then show ?thesis
    by (intro exI [of _ n])
      (auto simp: IsNotFound_def Contains_retry_prefix [simplified] split: option.splits)
qed

definition goneClient :: "unit Client" where
  "goneClient = \<lparr>Client_api = (\<lambda>req w. (Inl (APIError 404 ''Instance does not exist''), w)),
     Client_serviceName = ''sn'', Client_region = ''GRA7''\<rparr>"

theorem DeleteInstance_confirmed_witness:
  "fst (run_state (DeleteInstance goneClient ''i-1'')
      \<lparr>st_obj = (), st_env = (), st_trace = []\<rparr>) = None
   \<and> (\<exists>n \<le> 5. case fst (Client_api goneClient (Delete (projectPath goneClient (''/instance/'' @ ''i-1'')))
        (after goneClient (Delete (projectPath goneClient (''/instance/'' @ ''i-1''))) n ())) of
      Inr a \<Rightarrow> True
    | Inl e \<Rightarrow> errors_As_API e = Some 404 \<or> errors_As_API e = None
        \<and> (strings_Contains (Error_text e) ''404'' \<or> strings_Contains (Error_text e) ''not found''))"
proof -
  have "fst (run_state (DeleteInstance goneClient ''i-1'')
      \<lparr>st_obj = (), st_env = (), st_trace = []\<rparr>) = None"
    by (subst DeleteInstance_del.tolerated_error [where e = "APIError 404 ''Instance does not exist''"])
      (simp_all add: goneClient_def IsNotFound_def IsRetryable_def)
  from this DeleteInstance_confirmed [OF this] show ?thesis by simp
qed

text \<open>The listing behind a lookup by name settles in one request when its answer is a list.\<close>

lemma findLoadBalancerByName_run:
  assumes "fst (Client_api c (Get (regionPath c ''/loadbalancing/loadbalancer'')) (st_env s))
      = Inr (RLoadBalancers lbs)"
  shows "run_state (findLoadBalancerByName c name) s =
     (Inr (find (\<lambda>x. LoadBalancer_Name x = name) lbs),
      s\<lparr>st_env := snd (Client_api c (Get (regionPath c ''/loadbalancing/loadbalancer'')) (st_env s)),
        st_trace := st_trace s @ [Call (Get (regionPath c ''/loadbalancing/loadbalancer''))]\<rparr>)"
  using assms
  by (simp add: findLoadBalancerByName_def retryWithBackoff_def retryFrom_settled answer_def
      retryable_def asLoadBalancers_def decode_def)

lemma findLoadBalancerByName_name:
  "run_state (findLoadBalancerByName c name) s = (Inr (Some lb), t) \<Longrightarrow> LoadBalancer_Name lb = name"
  by (auto simp: findLoadBalancerByName_def find_Some_iff split: prod.splits sum.splits)

lemma pollLoadBalancer_name:
  "run_state (pollLoadBalancer c name k) s = (Inr lb, t) \<Longrightarrow> LoadBalancer_Name lb = name"
proof (induction c name k arbitrary: s rule: pollLoadBalancer.induct)
  case (1 c name k)
  from "1.prems" show ?case
    by (subst (asm) pollLoadBalancer.simps)
      (auto split: if_splits prod.splits sum.splits option.splits
        dest: findLoadBalancerByName_name "1.IH")
qed

text \<open>Creating a load balancer whose name is already listed in the region sends no POST: the
  existing one is returned after a single GET.\<close>

lemma CreateLoadBalancer_idempotent:
  assumes "fst (Client_api c (Get (regionPath c ''/loadbalancing/loadbalancer'')) (st_env s))
      = Inr (RLoadBalancers lbs)"
    and "lb \<in> set lbs" and "LoadBalancer_Name lb = CreateLoadBalancerOpts_Name opts"
  shows "\<exists>lb' \<in> set lbs. LoadBalancer_Name lb' = CreateLoadBalancerOpts_Name opts
    \<and> run_state (CreateLoadBalancer c opts) s = (Inr lb',
        s\<lparr>st_env := snd (Client_api c (Get (regionPath c ''/loadbalancing/loadbalancer'')) (st_env s)),
          st_trace := st_trace s @ [Call (Get (regionPath c ''/loadbalancing/loadbalancer''))]\<rparr>)"
proof -
  obtain lb' where lb': "find (\<lambda>x. LoadBalancer_Name x = CreateLoadBalancerOpts_Name opts) lbs = Some lb'"
    using assms(2,3) by (cases "find (\<lambda>x. LoadBalancer_Name x = CreateLoadBalancerOpts_Name opts) lbs")
      (auto simp: find_None_iff)
  then have "lb' \<in> set lbs" "LoadBalancer_Name lb' = CreateLoadBalancerOpts_Name opts"
    by (auto simp: find_Some_iff)
  with lb' show ?thesis
    by (intro bexI [of _ lb'])
      (simp_all add: CreateLoadBalancer_def findLoadBalancerByName_run [OF assms(1)])
qed

text \<open>A load balancer that \<open>CreateLoadBalancer\<close> returns, found or newly created, has the
  requested name.\<close>

lemma CreateLoadBalancer_name:
  assumes "run_state (CreateLoadBalancer c opts) s = (Inr lb, t)"
  shows "LoadBalancer_Name lb = CreateLoadBalancerOpts_Name opts"
  using assms
  by (auto simp: CreateLoadBalancer_def split: prod.splits sum.splits option.splits
      dest: findLoadBalancerByName_name pollLoadBalancer_name)

definition uuidCharAt :: "nat \<Rightarrow> char \<Rightarrow> bool" where
  "uuidCharAt i ch = (if i \<in> {8, 13, 18, 23} then ch = CHR ''-'' else isHexDigit ch)"

lemma uuidFrom_Cons: "uuidFrom k (ch # s) \<longleftrightarrow> uuidCharAt k ch \<and> uuidFrom (Suc k) s"
  by (simp add: uuidCharAt_def)

lemma uuidFrom_iff: "uuidFrom k s \<longleftrightarrow> (\<forall>i < length s. uuidCharAt (k + i) (s ! i))"
proof (induction s arbitrary: k)
  case (Cons ch s)
  show ?case
    by (simp add: uuidFrom_Cons Cons.IH All_less_Suc2 del: uuidFrom.simps)
qed simp

text \<open>\<open>isUUID\<close> accepts exactly the strings of 36 characters with dashes at positions 8,
  13, 18 and 23 and hexadecimal digits everywhere else.\<close>

lemma isUUID_iff:
  "isUUID s \<longleftrightarrow> length s = 36
     \<and> (\<forall>i < 36. if i \<in> {8, 13, 18, 23} then s ! i = CHR ''-'' else isHexDigit (s ! i))"
  using uuidFrom_iff [of 0 s] by (auto simp: isUUID_def uuidCharAt_def)

lemma EqualFold_Contains:
  "strings_EqualFold a b \<Longrightarrow> strings_Contains (strings_ToLower a) (strings_ToLower b)"
  unfolding strings_EqualFold_def Contains_iff by (metis append_Nil append_Nil2)

text \<open>The image lookup prefers an exact (case-insensitive) match anywhere in the list to a
  partial one, returns only images whose name contains the requested one, and fails only if there
  is none.\<close>

lemma findImageByName_spec:
  "case findImageByName images name of
     Some img \<Rightarrow> img \<in> set images
       \<and> strings_Contains (strings_ToLower (Image_Name img)) (strings_ToLower name)
       \<and> (strings_EqualFold (Image_Name img) name
           \<or> (\<forall>x \<in> set images. \<not> strings_EqualFold (Image_Name x) name))
   | None \<Rightarrow> (\<forall>x \<in> set images.
       \<not> strings_Contains (strings_ToLower (Image_Name x)) (strings_ToLower name))"
  by (auto simp: findImageByName_def find_Some_iff find_None_iff EqualFold_Contains
      split: option.splits)

text \<open>A cloud that is unavailable once and then answers; the state counts the requests.\<close>

definition flakyClient :: "nat Client" where
  "flakyClient = \<lparr>Client_api = (\<lambda>req w. (if w = 0 then Inl (APIError 503 ''unavailable'')
      else Inr (RStrings [''GRA7'']), Suc w)),
     Client_serviceName = ''sn'', Client_region = ''GRA7''\<rparr>"

theorem retryWithBackoff_characterised_witness:
  "run_state (retryWithBackoff ''ValidateCredentials'' (exchange flakyClient (Get ''/p'') asStrings))
        \<lparr>st_obj = (), st_env = 0, st_trace = []\<rparr> = (Inr [''GRA7''],
        \<lparr>st_obj = (), st_env = 2, st_trace = [Call (Get ''/p''), Sleep (2 * second), Call (Get ''/p'')]\<rparr>)"
proof -
  let ?a = "\<lambda>i. answer flakyClient (Get ''/p'') asStrings (after flakyClient (Get ''/p'') i 0)"
  have after: "after flakyClient (Get ''/p'') i w = w + i" for i w
    by (induction i arbitrary: w) (simp_all add: flakyClient_def)
  have a: "answer flakyClient (Get ''/p'') asStrings w =
      (if w = 0 then Inl (APIError 503 ''unavailable'') else Inr [''GRA7''])" for w
    by (simp add: answer_def asStrings_def decode_def flakyClient_def)
  have r: "retryable (?a i) \<longleftrightarrow> i = 0" for i
    unfolding after a by (simp add: retryable_def IsRetryable_def)
  obtain n where n: "n \<le> 5" "\<forall>i < n. retryable (?a i)" "n < 5 \<longrightarrow> \<not> retryable (?a n)"
    "run_state (retryWithBackoff ''ValidateCredentials'' (exchange flakyClient (Get ''/p'') asStrings))
        \<lparr>st_obj = (), st_env = 0, st_trace = []\<rparr> =
        (exhausted ''ValidateCredentials'' (?a n),
         \<lparr>st_obj = (), st_env = after flakyClient (Get ''/p'') (Suc n) 0, st_trace =
           concat (map (\<lambda>i. [Call (Get ''/p''), Sleep (2 ^ Suc i * second)]) [0..<n]) @ [Call (Get ''/p'')]\<rparr>)"
    using retryWithBackoff_characterised [of flakyClient "Get ''/p''" asStrings
      "\<lparr>st_obj = (), st_env = 0, st_trace = []\<rparr>" "''ValidateCredentials''"] by auto
  from n(2) have "\<not> 1 < n" unfolding r by auto
  moreover from n(3) have "n \<noteq> 0" unfolding r by auto
  ultimately have "n = 1" by simp
  with n(4) show ?thesis
    by (simp add: after a exhausted_def retryable_def del: after_simps)
qed

end
