(* ===== verification/Api_Types.thy ===== *)
theory Api_Types
  imports "HOL-Library.AList" Ovh_Client
begin

text \<open>
  The custom resources of \<^verbatim>\<open>api/v1alpha2\<close> (the hub) and \<^verbatim>\<open>api/v1alpha1\<close>,
  one record per struct; the records of the old version carry the suffix \<open>V1\<close>. The
  Kubernetes and Cluster API types they embed come first, with the fields the provider reads or
  writes. A Go map is an association list in the order in which the runtime iterates over it;
  a statement about all lists is one about all iteration orders.
\<close>

section \<open>Kubernetes and Cluster API types\<close>

record ObjectMeta =
  ObjectMeta_Namespace :: string
  ObjectMeta_Name :: string
  ObjectMeta_Annotations :: "(string \<times> string) list"
  ObjectMeta_Finalizers :: "string list"
  ObjectMeta_Deleting :: bool \<comment> \<open>the deletion timestamp is set\<close>

record TemplateMeta =
  TemplateMeta_Labels :: "(string \<times> string) list"
  TemplateMeta_Annotations :: "(string \<times> string) list"

record ListMeta =
  ListMeta_ResourceVersion :: string
  ListMeta_Continue :: string

datatype ConditionStatus = ConditionTrue | ConditionFalse | ConditionUnknown

record Condition =
  Condition_Type :: string
  Condition_Status :: ConditionStatus
  Condition_Reason :: string
  Condition_Message :: string

record APIEndpoint =
  APIEndpoint_Host :: string
  APIEndpoint_Port :: int

record MachineAddress =
  MachineAddress_Type :: string
  MachineAddress_Address :: string

record FailureDomain =
  FailureDomain_Name :: string
  FailureDomain_ControlPlane :: "bool option"

text \<open>\<^verbatim>\<open>clusterv1.Cluster\<close> and \<^verbatim>\<open>clusterv1.Machine\<close>, the owners.\<close>

record Cluster =
  Cluster_Namespace :: string
  Cluster_Name :: string
  Cluster_Paused :: bool
  Cluster_InfrastructureRefKind :: string
  Cluster_InfrastructureRefName :: string
  Cluster_InfrastructureProvisioned :: "bool option"

record Machine =
  Machine_Namespace :: string
  Machine_Name :: string
  Machine_Labels :: "(string \<times> string) list"
  Machine_DataSecretName :: "string option"

text \<open>Reading a Go map: a missing key gives the zero value.\<close>

definition mapGet :: "(string \<times> string) list \<Rightarrow> string \<Rightarrow> string" where
  "mapGet m k = (case map_of m k of None \<Rightarrow> '''' | Some v \<Rightarrow> v)"

section \<open>v1alpha2\<close>

record SecretKey =
  SecretKey_Namespace :: string
  SecretKey_Name :: string

record OVHListener =
  OVHListener_Name :: string
  OVHListener_Port :: int
  OVHListener_Protocol :: string
  OVHListener_BackendPort :: int

record OVHLoadBalancerConfig =
  OVHLoadBalancerConfig_SubnetID :: string
  OVHLoadBalancerConfig_FlavorName :: string
  OVHLoadBalancerConfig_FloatingNetworkID :: string
  OVHLoadBalancerConfig_Listeners :: "OVHListener list"
  OVHLoadBalancerConfig_ExistingLoadBalancerID :: string
  OVHLoadBalancerConfig_ExistingFloatingIPID :: string

record OVHNetworkConfig =
  OVHNetworkConfig_PrivateNetworkID :: string
  OVHNetworkConfig_SubnetCIDR :: string
  OVHNetworkConfig_VlanID :: int
  OVHNetworkConfig_Gateway :: string
  OVHNetworkConfig_DNSServers :: "string list"

record OVHSecurityRule =
  OVHSecurityRule_Direction :: string
  OVHSecurityRule_Protocol :: string
  OVHSecurityRule_PortRangeMin :: "int option"
  OVHSecurityRule_PortRangeMax :: "int option"
  OVHSecurityRule_RemoteIPPrefix :: string
  OVHSecurityRule_EtherType :: string

record OVHSecurityGroup =
  OVHSecurityGroup_Name :: string
  OVHSecurityGroup_Rules :: "OVHSecurityRule list"

record OVHDNSConfig =
  OVHDNSConfig_ZoneName :: string
  OVHDNSConfig_RecordName :: string
  OVHDNSConfig_TTL :: int

record OVHClusterSpec =
  OVHClusterSpec_ServiceName :: string
  OVHClusterSpec_Region :: string
  OVHClusterSpec_IdentitySecret :: SecretKey
  OVHClusterSpec_ControlPlaneEndpoint :: APIEndpoint
  OVHClusterSpec_LoadBalancerConfig :: OVHLoadBalancerConfig
  OVHClusterSpec_NetworkConfig :: "OVHNetworkConfig option"
  OVHClusterSpec_SSHKeyName :: string
  OVHClusterSpec_FailureDomains :: "string list"
  OVHClusterSpec_SecurityGroups :: "OVHSecurityGroup list"
  OVHClusterSpec_DefaultTags :: "(string \<times> string) list"
  OVHClusterSpec_DNSConfig :: "OVHDNSConfig option"

record OVHVolume =
  OVHVolume_Name :: string
  OVHVolume_SizeGB :: int
  OVHVolume_Type :: string

record Initialization =
  Initialization_Provisioned :: "bool option"

record OVHClusterStatus =
  OVHClusterStatus_Ready :: bool
  OVHClusterStatus_Initialization :: Initialization
  OVHClusterStatus_Conditions :: "Condition list"
  OVHClusterStatus_NetworkID :: string
  OVHClusterStatus_SubnetID :: string
  OVHClusterStatus_LoadBalancerID :: string
  OVHClusterStatus_ListenerID :: string
  OVHClusterStatus_PoolID :: string
  OVHClusterStatus_FloatingIPID :: string
  OVHClusterStatus_GatewayID :: string
  OVHClusterStatus_GatewayExposed :: bool
  OVHClusterStatus_RegisterListenerID :: string
  OVHClusterStatus_RegisterPoolID :: string
  OVHClusterStatus_FailureDomains :: "FailureDomain list"
  OVHClusterStatus_SecurityGroupIDs :: "(string \<times> string) list"
  OVHClusterStatus_DNSRecordID :: int

record OVHCluster =
  OVHCluster_ObjectMeta :: ObjectMeta
  OVHCluster_Spec :: OVHClusterSpec
  OVHCluster_Status :: OVHClusterStatus

record OVHClusterList =
  OVHClusterList_ListMeta :: ListMeta
  OVHClusterList_Items :: "OVHCluster list"

record OVHMachineSpec =
  OVHMachineSpec_ProviderID :: string
  OVHMachineSpec_FlavorName :: string
  OVHMachineSpec_ImageName :: string
  OVHMachineSpec_SSHKeyName :: string
  OVHMachineSpec_RootDiskSize :: int
  OVHMachineSpec_AdditionalVolumes :: "OVHVolume list"
  OVHMachineSpec_FailureDomain :: string
  OVHMachineSpec_SecurityGroupNames :: "string list"
  OVHMachineSpec_Tags :: "(string \<times> string) list"
  OVHMachineSpec_BootstrapFormat :: string
  OVHMachineSpec_ExistingInstanceID :: string

record OVHMachineStatus =
  OVHMachineStatus_Ready :: bool
  OVHMachineStatus_Conditions :: "Condition list"
  OVHMachineStatus_Addresses :: "MachineAddress list"
  OVHMachineStatus_Initialization :: Initialization
  OVHMachineStatus_InstanceID :: string
  OVHMachineStatus_VolumeIDs :: "string list"
  OVHMachineStatus_LBPoolMemberID :: string
  OVHMachineStatus_RegisterPoolMemberID :: string

record OVHMachine =
  OVHMachine_ObjectMeta :: ObjectMeta
  OVHMachine_Spec :: OVHMachineSpec
  OVHMachine_Status :: OVHMachineStatus

record OVHMachineList =
  OVHMachineList_ListMeta :: ListMeta
  OVHMachineList_Items :: "OVHMachine list"

record OVHClusterTemplateResource =
  OVHClusterTemplateResource_ObjectMeta :: TemplateMeta
  OVHClusterTemplateResource_Spec :: OVHClusterSpec

record OVHClusterTemplateSpec =
  OVHClusterTemplateSpec_Template :: OVHClusterTemplateResource

record OVHClusterTemplate =
  OVHClusterTemplate_ObjectMeta :: ObjectMeta
  OVHClusterTemplate_Spec :: OVHClusterTemplateSpec

record OVHClusterTemplateList =
  OVHClusterTemplateList_ListMeta :: ListMeta
  OVHClusterTemplateList_Items :: "OVHClusterTemplate list"

record OVHMachineTemplateResource =
  OVHMachineTemplateResource_ObjectMeta :: TemplateMeta
  OVHMachineTemplateResource_Spec :: OVHMachineSpec

record OVHMachineTemplateSpec =
  OVHMachineTemplateSpec_Template :: OVHMachineTemplateResource

record OVHMachineTemplate =
  OVHMachineTemplate_ObjectMeta :: ObjectMeta
  OVHMachineTemplate_Spec :: OVHMachineTemplateSpec

record OVHMachineTemplateList =
  OVHMachineTemplateList_ListMeta :: ListMeta
  OVHMachineTemplateList_Items :: "OVHMachineTemplate list"

record OVHMachinePoolSpec =
  OVHMachinePoolSpec_FlavorName :: string
  OVHMachinePoolSpec_ImageName :: string
  OVHMachinePoolSpec_SSHKeyName :: string
  OVHMachinePoolSpec_RootDiskSize :: int
  OVHMachinePoolSpec_ProviderIDList :: "string list"

record OVHMachinePoolStatus =
  OVHMachinePoolStatus_Ready :: bool
  OVHMachinePoolStatus_Replicas :: int
  OVHMachinePoolStatus_ReadyReplicas :: int
  OVHMachinePoolStatus_Conditions :: "Condition list"
  OVHMachinePoolStatus_FailureReason :: string
  OVHMachinePoolStatus_FailureMessage :: string
  OVHMachinePoolStatus_InfrastructureReady :: bool
  OVHMachinePoolStatus_InstanceIDs :: "string list"

record OVHMachinePool =
  OVHMachinePool_ObjectMeta :: ObjectMeta
  OVHMachinePool_Spec :: OVHMachinePoolSpec
  OVHMachinePool_Status :: OVHMachinePoolStatus

record OVHMachinePoolList =
  OVHMachinePoolList_ListMeta :: ListMeta
  OVHMachinePoolList_Items :: "OVHMachinePool list"

section \<open>v1alpha1\<close>

record SecretKeyV1 =
  SecretKeyV1_Namespace :: string
  SecretKeyV1_Name :: string

record OVHListenerV1 =
  OVHListenerV1_Name :: string
  OVHListenerV1_Port :: int
  OVHListenerV1_Protocol :: string
  OVHListenerV1_BackendPort :: int

record OVHLoadBalancerConfigV1 =
  OVHLoadBalancerConfigV1_SubnetID :: string
  OVHLoadBalancerConfigV1_FlavorName :: string
  OVHLoadBalancerConfigV1_FloatingNetworkID :: string
  OVHLoadBalancerConfigV1_Listeners :: "OVHListenerV1 list"

record OVHNetworkConfigV1 =
  OVHNetworkConfigV1_PrivateNetworkID :: string
  OVHNetworkConfigV1_SubnetCIDR :: string
  OVHNetworkConfigV1_VlanID :: int
  OVHNetworkConfigV1_Gateway :: string
  OVHNetworkConfigV1_DNSServers :: "string list"

record OVHClusterSpecV1 =
  OVHClusterSpecV1_ServiceName :: string
  OVHClusterSpecV1_Region :: string
  OVHClusterSpecV1_IdentitySecret :: SecretKeyV1
  OVHClusterSpecV1_ControlPlaneEndpoint :: APIEndpoint
  OVHClusterSpecV1_LoadBalancerConfig :: OVHLoadBalancerConfigV1
  OVHClusterSpecV1_NetworkConfig :: "OVHNetworkConfigV1 option"
  OVHClusterSpecV1_SSHKeyName :: string

record OVHClusterStatusV1 =
  OVHClusterStatusV1_Ready :: bool
  OVHClusterStatusV1_FailureReason :: string
  OVHClusterStatusV1_FailureMessage :: string
  OVHClusterStatusV1_Conditions :: "Condition list"
  OVHClusterStatusV1_NetworkID :: string
  OVHClusterStatusV1_SubnetID :: string
  OVHClusterStatusV1_LoadBalancerID :: string
  OVHClusterStatusV1_ListenerID :: string
  OVHClusterStatusV1_PoolID :: string
  OVHClusterStatusV1_FloatingIPID :: string
  OVHClusterStatusV1_GatewayID :: string
  OVHClusterStatusV1_GatewayExposed :: bool
  OVHClusterStatusV1_RegisterListenerID :: string
  OVHClusterStatusV1_RegisterPoolID :: string

record OVHClusterV1 =
  OVHClusterV1_ObjectMeta :: ObjectMeta
  OVHClusterV1_Spec :: OVHClusterSpecV1
  OVHClusterV1_Status :: OVHClusterStatusV1

record OVHClusterListV1 =
  OVHClusterListV1_ListMeta :: ListMeta
  OVHClusterListV1_Items :: "OVHClusterV1 list"

record OVHVolumeV1 =
  OVHVolumeV1_Name :: string
  OVHVolumeV1_SizeGB :: int
  OVHVolumeV1_Type :: string

record InitializationV1 =
  InitializationV1_Provisioned :: bool

record OVHMachineSpecV1 =
  OVHMachineSpecV1_ProviderID :: string
  OVHMachineSpecV1_FlavorName :: string
  OVHMachineSpecV1_ImageName :: string
  OVHMachineSpecV1_SSHKeyName :: string
  OVHMachineSpecV1_RootDiskSize :: int
  OVHMachineSpecV1_AdditionalVolumes :: "OVHVolumeV1 list"
  OVHMachineSpecV1_FailureDomain :: string

record OVHMachineStatusV1 =
  OVHMachineStatusV1_Ready :: bool
  OVHMachineStatusV1_Conditions :: "Condition list"
  OVHMachineStatusV1_FailureReason :: string
  OVHMachineStatusV1_FailureMessage :: string
  OVHMachineStatusV1_Addresses :: "MachineAddress list"
  OVHMachineStatusV1_Initialization :: InitializationV1
  OVHMachineStatusV1_InstanceID :: string
  OVHMachineStatusV1_VolumeIDs :: "string list"
  OVHMachineStatusV1_LBPoolMemberID :: string
  OVHMachineStatusV1_RegisterPoolMemberID :: string

record OVHMachineV1 =
  OVHMachineV1_ObjectMeta :: ObjectMeta
  OVHMachineV1_Spec :: OVHMachineSpecV1
  OVHMachineV1_Status :: OVHMachineStatusV1

record OVHMachineListV1 =
  OVHMachineListV1_ListMeta :: ListMeta
  OVHMachineListV1_Items :: "OVHMachineV1 list"

record OVHClusterTemplateResourceV1 =
  OVHClusterTemplateResourceV1_ObjectMeta :: TemplateMeta
  OVHClusterTemplateResourceV1_Spec :: OVHClusterSpecV1

record OVHClusterTemplateSpecV1 =
  OVHClusterTemplateSpecV1_Template :: OVHClusterTemplateResourceV1

record OVHClusterTemplateV1 =
  OVHClusterTemplateV1_ObjectMeta :: ObjectMeta
  OVHClusterTemplateV1_Spec :: OVHClusterTemplateSpecV1

record OVHClusterTemplateListV1 =
  OVHClusterTemplateListV1_ListMeta :: ListMeta
  OVHClusterTemplateListV1_Items :: "OVHClusterTemplateV1 list"

record OVHMachineTemplateResourceV1 =
  OVHMachineTemplateResourceV1_ObjectMeta :: TemplateMeta
  OVHMachineTemplateResourceV1_Spec :: OVHMachineSpecV1

record OVHMachineTemplateSpecV1 =
  OVHMachineTemplateSpecV1_Template :: OVHMachineTemplateResourceV1

record OVHMachineTemplateV1 =
  OVHMachineTemplateV1_ObjectMeta :: ObjectMeta
  OVHMachineTemplateV1_Spec :: OVHMachineTemplateSpecV1

record OVHMachineTemplateListV1 =
  OVHMachineTemplateListV1_ListMeta :: ListMeta
  OVHMachineTemplateListV1_Items :: "OVHMachineTemplateV1 list"

section \<open>Zero values\<close>

definition zero_ObjectMeta :: ObjectMeta where
  "zero_ObjectMeta = \<lparr>ObjectMeta_Namespace = '''', ObjectMeta_Name = '''',
     ObjectMeta_Annotations = [], ObjectMeta_Finalizers = [], ObjectMeta_Deleting = False\<rparr>"

definition zero_TemplateMeta :: TemplateMeta where
  "zero_TemplateMeta = \<lparr>TemplateMeta_Labels = [], TemplateMeta_Annotations = []\<rparr>"

definition zero_APIEndpoint :: APIEndpoint where
  "zero_APIEndpoint = \<lparr>APIEndpoint_Host = '''', APIEndpoint_Port = 0\<rparr>"

definition zero_SecretKey :: SecretKey where
  "zero_SecretKey = \<lparr>SecretKey_Namespace = '''', SecretKey_Name = ''''\<rparr>"

definition zero_OVHListener :: OVHListener where
  "zero_OVHListener = \<lparr>OVHListener_Name = '''', OVHListener_Port = 0,
     OVHListener_Protocol = '''', OVHListener_BackendPort = 0\<rparr>"

definition zero_OVHLoadBalancerConfig :: OVHLoadBalancerConfig where
  "zero_OVHLoadBalancerConfig = \<lparr>OVHLoadBalancerConfig_SubnetID = '''',
     OVHLoadBalancerConfig_FlavorName = '''', OVHLoadBalancerConfig_FloatingNetworkID = '''',
     OVHLoadBalancerConfig_Listeners = [], OVHLoadBalancerConfig_ExistingLoadBalancerID = '''',
     OVHLoadBalancerConfig_ExistingFloatingIPID = ''''\<rparr>"

definition zero_OVHNetworkConfig :: OVHNetworkConfig where
  "zero_OVHNetworkConfig = \<lparr>OVHNetworkConfig_PrivateNetworkID = '''',
     OVHNetworkConfig_SubnetCIDR = '''', OVHNetworkConfig_VlanID = 0,
     OVHNetworkConfig_Gateway = '''', OVHNetworkConfig_DNSServers = []\<rparr>"

definition zero_OVHSecurityRule :: OVHSecurityRule where
  "zero_OVHSecurityRule = \<lparr>OVHSecurityRule_Direction = '''',
     OVHSecurityRule_Protocol = '''', OVHSecurityRule_PortRangeMin = None,
     OVHSecurityRule_PortRangeMax = None, OVHSecurityRule_RemoteIPPrefix = '''',
     OVHSecurityRule_EtherType = ''''\<rparr>"

definition zero_OVHSecurityGroup :: OVHSecurityGroup where
  "zero_OVHSecurityGroup = \<lparr>OVHSecurityGroup_Name = '''', OVHSecurityGroup_Rules = []\<rparr>"

definition zero_OVHDNSConfig :: OVHDNSConfig where
  "zero_OVHDNSConfig = \<lparr>OVHDNSConfig_ZoneName = '''', OVHDNSConfig_RecordName = '''',
     OVHDNSConfig_TTL = 0\<rparr>"

definition zero_OVHClusterSpec :: OVHClusterSpec where
  "zero_OVHClusterSpec = \<lparr>OVHClusterSpec_ServiceName = '''',
     OVHClusterSpec_Region = '''', OVHClusterSpec_IdentitySecret = zero_SecretKey,
     OVHClusterSpec_ControlPlaneEndpoint = zero_APIEndpoint,
     OVHClusterSpec_LoadBalancerConfig = zero_OVHLoadBalancerConfig,
     OVHClusterSpec_NetworkConfig = None, OVHClusterSpec_SSHKeyName = '''',
     OVHClusterSpec_FailureDomains = [], OVHClusterSpec_SecurityGroups = [],
     OVHClusterSpec_DefaultTags = [], OVHClusterSpec_DNSConfig = None\<rparr>"

definition zero_OVHVolume :: OVHVolume where
  "zero_OVHVolume = \<lparr>OVHVolume_Name = '''', OVHVolume_SizeGB = 0, OVHVolume_Type = ''''\<rparr>"

definition zero_Initialization :: Initialization where
  "zero_Initialization = \<lparr>Initialization_Provisioned = None\<rparr>"

definition zero_OVHClusterStatus :: OVHClusterStatus where
  "zero_OVHClusterStatus = \<lparr>OVHClusterStatus_Ready = False,
     OVHClusterStatus_Initialization = zero_Initialization, OVHClusterStatus_Conditions = [],
     OVHClusterStatus_NetworkID = '''', OVHClusterStatus_SubnetID = '''',
     OVHClusterStatus_LoadBalancerID = '''', OVHClusterStatus_ListenerID = '''',
     OVHClusterStatus_PoolID = '''', OVHClusterStatus_FloatingIPID = '''',
     OVHClusterStatus_GatewayID = '''', OVHClusterStatus_GatewayExposed = False,
     OVHClusterStatus_RegisterListenerID = '''', OVHClusterStatus_RegisterPoolID = '''',
     OVHClusterStatus_FailureDomains = [], OVHClusterStatus_SecurityGroupIDs = [],
     OVHClusterStatus_DNSRecordID = 0\<rparr>"

definition zero_OVHCluster :: OVHCluster where
  "zero_OVHCluster = \<lparr>OVHCluster_ObjectMeta = zero_ObjectMeta,
     OVHCluster_Spec = zero_OVHClusterSpec, OVHCluster_Status = zero_OVHClusterStatus\<rparr>"

definition zero_OVHMachineSpec :: OVHMachineSpec where
  "zero_OVHMachineSpec = \<lparr>OVHMachineSpec_ProviderID = '''',
     OVHMachineSpec_FlavorName = '''', OVHMachineSpec_ImageName = '''',
     OVHMachineSpec_SSHKeyName = '''', OVHMachineSpec_RootDiskSize = 0,
     OVHMachineSpec_AdditionalVolumes = [], OVHMachineSpec_FailureDomain = '''',
     OVHMachineSpec_SecurityGroupNames = [], OVHMachineSpec_Tags = [],
     OVHMachineSpec_BootstrapFormat = '''', OVHMachineSpec_ExistingInstanceID = ''''\<rparr>"

definition zero_OVHMachineStatus :: OVHMachineStatus where
  "zero_OVHMachineStatus = \<lparr>OVHMachineStatus_Ready = False,
     OVHMachineStatus_Conditions = [], OVHMachineStatus_Addresses = [],
     OVHMachineStatus_Initialization = zero_Initialization, OVHMachineStatus_InstanceID = '''',
     OVHMachineStatus_VolumeIDs = [], OVHMachineStatus_LBPoolMemberID = '''',
     OVHMachineStatus_RegisterPoolMemberID = ''''\<rparr>"

definition zero_OVHMachine :: OVHMachine where
  "zero_OVHMachine = \<lparr>OVHMachine_ObjectMeta = zero_ObjectMeta,
     OVHMachine_Spec = zero_OVHMachineSpec, OVHMachine_Status = zero_OVHMachineStatus\<rparr>"

definition zero_OVHClusterTemplateResource :: OVHClusterTemplateResource where
  "zero_OVHClusterTemplateResource = \<lparr>
     OVHClusterTemplateResource_ObjectMeta = zero_TemplateMeta,
     OVHClusterTemplateResource_Spec = zero_OVHClusterSpec\<rparr>"

definition zero_OVHClusterTemplateSpec :: OVHClusterTemplateSpec where
  "zero_OVHClusterTemplateSpec = \<lparr>
     OVHClusterTemplateSpec_Template = zero_OVHClusterTemplateResource\<rparr>"

definition zero_OVHClusterTemplate :: OVHClusterTemplate where
  "zero_OVHClusterTemplate = \<lparr>OVHClusterTemplate_ObjectMeta = zero_ObjectMeta,
     OVHClusterTemplate_Spec = zero_OVHClusterTemplateSpec\<rparr>"

definition zero_OVHMachineTemplateResource :: OVHMachineTemplateResource where
  "zero_OVHMachineTemplateResource = \<lparr>
     OVHMachineTemplateResource_ObjectMeta = zero_TemplateMeta,
     OVHMachineTemplateResource_Spec = zero_OVHMachineSpec\<rparr>"

definition zero_OVHMachineTemplateSpec :: OVHMachineTemplateSpec where
  "zero_OVHMachineTemplateSpec = \<lparr>
     OVHMachineTemplateSpec_Template = zero_OVHMachineTemplateResource\<rparr>"

definition zero_OVHMachineTemplate :: OVHMachineTemplate where
  "zero_OVHMachineTemplate = \<lparr>OVHMachineTemplate_ObjectMeta = zero_ObjectMeta,
     OVHMachineTemplate_Spec = zero_OVHMachineTemplateSpec\<rparr>"

definition zero_SecretKeyV1 :: SecretKeyV1 where
  "zero_SecretKeyV1 = \<lparr>SecretKeyV1_Namespace = '''', SecretKeyV1_Name = ''''\<rparr>"

definition zero_OVHListenerV1 :: OVHListenerV1 where
  "zero_OVHListenerV1 = \<lparr>OVHListenerV1_Name = '''', OVHListenerV1_Port = 0,
     OVHListenerV1_Protocol = '''', OVHListenerV1_BackendPort = 0\<rparr>"

definition zero_OVHLoadBalancerConfigV1 :: OVHLoadBalancerConfigV1 where
  "zero_OVHLoadBalancerConfigV1 = \<lparr>OVHLoadBalancerConfigV1_SubnetID = '''',
     OVHLoadBalancerConfigV1_FlavorName = '''',
     OVHLoadBalancerConfigV1_FloatingNetworkID = '''', OVHLoadBalancerConfigV1_Listeners = []\<rparr>"

definition zero_OVHNetworkConfigV1 :: OVHNetworkConfigV1 where
  "zero_OVHNetworkConfigV1 = \<lparr>OVHNetworkConfigV1_PrivateNetworkID = '''',
     OVHNetworkConfigV1_SubnetCIDR = '''', OVHNetworkConfigV1_VlanID = 0,
     OVHNetworkConfigV1_Gateway = '''', OVHNetworkConfigV1_DNSServers = []\<rparr>"

definition zero_OVHClusterSpecV1 :: OVHClusterSpecV1 where
  "zero_OVHClusterSpecV1 = \<lparr>OVHClusterSpecV1_ServiceName = '''',
     OVHClusterSpecV1_Region = '''', OVHClusterSpecV1_IdentitySecret = zero_SecretKeyV1,
     OVHClusterSpecV1_ControlPlaneEndpoint = zero_APIEndpoint,
     OVHClusterSpecV1_LoadBalancerConfig = zero_OVHLoadBalancerConfigV1,
     OVHClusterSpecV1_NetworkConfig = None, OVHClusterSpecV1_SSHKeyName = ''''\<rparr>"

definition zero_OVHClusterStatusV1 :: OVHClusterStatusV1 where
  "zero_OVHClusterStatusV1 = \<lparr>OVHClusterStatusV1_Ready = False,
     OVHClusterStatusV1_FailureReason = '''', OVHClusterStatusV1_FailureMessage = '''',
     OVHClusterStatusV1_Conditions = [], OVHClusterStatusV1_NetworkID = '''',
     OVHClusterStatusV1_SubnetID = '''', OVHClusterStatusV1_LoadBalancerID = '''',
     OVHClusterStatusV1_ListenerID = '''', OVHClusterStatusV1_PoolID = '''',
     OVHClusterStatusV1_FloatingIPID = '''', OVHClusterStatusV1_GatewayID = '''',
     OVHClusterStatusV1_GatewayExposed = False, OVHClusterStatusV1_RegisterListenerID = '''',
     OVHClusterStatusV1_RegisterPoolID = ''''\<rparr>"

definition zero_OVHClusterV1 :: OVHClusterV1 where
  "zero_OVHClusterV1 = \<lparr>OVHClusterV1_ObjectMeta = zero_ObjectMeta,
     OVHClusterV1_Spec = zero_OVHClusterSpecV1, OVHClusterV1_Status = zero_OVHClusterStatusV1\<rparr>"

definition zero_OVHVolumeV1 :: OVHVolumeV1 where
  "zero_OVHVolumeV1 = \<lparr>OVHVolumeV1_Name = '''', OVHVolumeV1_SizeGB = 0,
     OVHVolumeV1_Type = ''''\<rparr>"

definition zero_InitializationV1 :: InitializationV1 where
  "zero_InitializationV1 = \<lparr>InitializationV1_Provisioned = False\<rparr>"

definition zero_OVHMachineSpecV1 :: OVHMachineSpecV1 where
  "zero_OVHMachineSpecV1 = \<lparr>OVHMachineSpecV1_ProviderID = '''',
     OVHMachineSpecV1_FlavorName = '''', OVHMachineSpecV1_ImageName = '''',
     OVHMachineSpecV1_SSHKeyName = '''', OVHMachineSpecV1_RootDiskSize = 0,
     OVHMachineSpecV1_AdditionalVolumes = [], OVHMachineSpecV1_FailureDomain = ''''\<rparr>"

definition zero_OVHMachineStatusV1 :: OVHMachineStatusV1 where
  "zero_OVHMachineStatusV1 = \<lparr>OVHMachineStatusV1_Ready = False,
     OVHMachineStatusV1_Conditions = [], OVHMachineStatusV1_FailureReason = '''',
     OVHMachineStatusV1_FailureMessage = '''', OVHMachineStatusV1_Addresses = [],
     OVHMachineStatusV1_Initialization = zero_InitializationV1,
     OVHMachineStatusV1_InstanceID = '''', OVHMachineStatusV1_VolumeIDs = [],
     OVHMachineStatusV1_LBPoolMemberID = '''', OVHMachineStatusV1_RegisterPoolMemberID = ''''\<rparr>"

definition zero_OVHMachineV1 :: OVHMachineV1 where
  "zero_OVHMachineV1 = \<lparr>OVHMachineV1_ObjectMeta = zero_ObjectMeta,
     OVHMachineV1_Spec = zero_OVHMachineSpecV1, OVHMachineV1_Status = zero_OVHMachineStatusV1\<rparr>"

definition zero_OVHClusterTemplateResourceV1 :: OVHClusterTemplateResourceV1 where
  "zero_OVHClusterTemplateResourceV1 = \<lparr>
     OVHClusterTemplateResourceV1_ObjectMeta = zero_TemplateMeta,
     OVHClusterTemplateResourceV1_Spec = zero_OVHClusterSpecV1\<rparr>"

definition zero_OVHClusterTemplateSpecV1 :: OVHClusterTemplateSpecV1 where
  "zero_OVHClusterTemplateSpecV1 = \<lparr>
     OVHClusterTemplateSpecV1_Template = zero_OVHClusterTemplateResourceV1\<rparr>"

definition zero_OVHClusterTemplateV1 :: OVHClusterTemplateV1 where
  "zero_OVHClusterTemplateV1 = \<lparr>OVHClusterTemplateV1_ObjectMeta = zero_ObjectMeta,
     OVHClusterTemplateV1_Spec = zero_OVHClusterTemplateSpecV1\<rparr>"

definition zero_OVHMachineTemplateResourceV1 :: OVHMachineTemplateResourceV1 where
  "zero_OVHMachineTemplateResourceV1 = \<lparr>
     OVHMachineTemplateResourceV1_ObjectMeta = zero_TemplateMeta,
     OVHMachineTemplateResourceV1_Spec = zero_OVHMachineSpecV1\<rparr>"

definition zero_OVHMachineTemplateSpecV1 :: OVHMachineTemplateSpecV1 where
  "zero_OVHMachineTemplateSpecV1 = \<lparr>
     OVHMachineTemplateSpecV1_Template = zero_OVHMachineTemplateResourceV1\<rparr>"

definition zero_OVHMachineTemplateV1 :: OVHMachineTemplateV1 where
  "zero_OVHMachineTemplateV1 = \<lparr>OVHMachineTemplateV1_ObjectMeta = zero_ObjectMeta,
     OVHMachineTemplateV1_Spec = zero_OVHMachineTemplateSpecV1\<rparr>"

section \<open>Names the controllers use\<close>

abbreviation ClusterFinalizer :: string where
  "ClusterFinalizer \<equiv> ''ovhcluster.infrastructure.cluster.x-k8s.io/finalizer''"
abbreviation MachineFinalizer :: string where
  "MachineFinalizer \<equiv> ''ovhmachine.infrastructure.cluster.x-k8s.io/finalizer''"

end
