(* ===== verification/Conversion.thy ===== *)
theory Conversion
  imports Api_Types
begin

text \<open>
  \<^verbatim>\<open>api/v1alpha1/conversion.go\<close>: conversion between the old version and the hub. A
  conversion method writes into a target that already exists, so each definition takes the
  target's value before the call and returns the one after it: a field that the method does not
  assign, or assigns only for a non-empty source, keeps the target's value. The argument of type
  \<^verbatim>\<open>conversion.Hub\<close> is a sum of the hub's types, and the failing type assertion is a
  branch. On an error the caller drops the target, so \<open>Inl\<close> carries the error alone.
\<close>

datatype Hub =
  HubOVHCluster OVHCluster | HubOVHClusterList OVHClusterList
  | HubOVHMachine OVHMachine | HubOVHMachineList OVHMachineList
  | HubOVHClusterTemplate OVHClusterTemplate | HubOVHClusterTemplateList OVHClusterTemplateList
  | HubOVHMachineTemplate OVHMachineTemplate | HubOVHMachineTemplateList OVHMachineTemplateList

text \<open>The verb \<^verbatim>\<open>%T\<close>.\<close>

fun typeName :: "Hub \<Rightarrow> string" where
  "typeName (HubOVHCluster _) = ''*v1alpha2.OVHCluster''"
| "typeName (HubOVHClusterList _) = ''*v1alpha2.OVHClusterList''"
| "typeName (HubOVHMachine _) = ''*v1alpha2.OVHMachine''"
| "typeName (HubOVHMachineList _) = ''*v1alpha2.OVHMachineList''"
| "typeName (HubOVHClusterTemplate _) = ''*v1alpha2.OVHClusterTemplate''"
| "typeName (HubOVHClusterTemplateList _) = ''*v1alpha2.OVHClusterTemplateList''"
| "typeName (HubOVHMachineTemplate _) = ''*v1alpha2.OVHMachineTemplate''"
| "typeName (HubOVHMachineTemplateList _) = ''*v1alpha2.OVHMachineTemplateList''"

definition wrongType :: "string \<Rightarrow> Hub \<Rightarrow> gerror" where
  "wrongType want got = Plain (''expected '' @ want @ '', got '' @ typeName got)"

text \<open>\<^verbatim>\<open>for i := range src.Items { if err := ...; err != nil { return err } }\<close>\<close>

fun convertEach :: "('a \<Rightarrow> gerror + 'b) \<Rightarrow> 'a list \<Rightarrow> gerror + 'b list" where
  "convertEach f [] = Inr []"
| "convertEach f (x # xs) =
     (case f x of
        Inl e \<Rightarrow> Inl e
      | Inr y \<Rightarrow> (case convertEach f xs of Inl e \<Rightarrow> Inl e | Inr ys \<Rightarrow> Inr (y # ys)))"

section \<open>Clusters\<close>

definition convertProtocolToV1Alpha2 :: "string \<Rightarrow> gerror + string" where
  "convertProtocolToV1Alpha2 p =
     (if p = ''TCP'' then Inr ''TCP''
      else if p = ''UDP'' then Inr ''UDP''
      else if p = ''SCTP'' then Inr ''SCTP''
      else if p = ''HTTP''
        then Inl (Plain ''protocol HTTP is deprecated in v1alpha2; use TCP with an HTTP health check instead'')
      else Inl (Plain (''unknown protocol '' @ strconv_Quote p)))"

definition convertListenerTo :: "OVHListenerV1 \<Rightarrow> gerror + OVHListener" where
  "convertListenerTo l =
     (case convertProtocolToV1Alpha2 (OVHListenerV1_Protocol l) of
        Inl e \<Rightarrow> Inl (Wrap (''listener '' @ strconv_Quote (OVHListenerV1_Name l) @ '': '') e '''')
      | Inr proto \<Rightarrow> Inr \<lparr>OVHListener_Name = OVHListenerV1_Name l,
          OVHListener_Port = OVHListenerV1_Port l, OVHListener_Protocol = proto,
          OVHListener_BackendPort = OVHListenerV1_BackendPort l\<rparr>)"

definition convertListenerFrom :: "OVHListener \<Rightarrow> OVHListenerV1" where
  "convertListenerFrom l = \<lparr>OVHListenerV1_Name = OVHListener_Name l,
     OVHListenerV1_Port = OVHListener_Port l, OVHListenerV1_Protocol = OVHListener_Protocol l,
     OVHListenerV1_BackendPort = OVHListener_BackendPort l\<rparr>"

definition convertNetworkConfigTo :: "OVHNetworkConfigV1 \<Rightarrow> OVHNetworkConfig" where
  "convertNetworkConfigTo n = \<lparr>
     OVHNetworkConfig_PrivateNetworkID = OVHNetworkConfigV1_PrivateNetworkID n,
     OVHNetworkConfig_SubnetCIDR = OVHNetworkConfigV1_SubnetCIDR n,
     OVHNetworkConfig_VlanID = OVHNetworkConfigV1_VlanID n,
     OVHNetworkConfig_Gateway = OVHNetworkConfigV1_Gateway n,
     OVHNetworkConfig_DNSServers = OVHNetworkConfigV1_DNSServers n\<rparr>"

definition convertNetworkConfigFrom :: "OVHNetworkConfig \<Rightarrow> OVHNetworkConfigV1" where
  "convertNetworkConfigFrom n = \<lparr>
     OVHNetworkConfigV1_PrivateNetworkID = OVHNetworkConfig_PrivateNetworkID n,
     OVHNetworkConfigV1_SubnetCIDR = OVHNetworkConfig_SubnetCIDR n,
     OVHNetworkConfigV1_VlanID = OVHNetworkConfig_VlanID n,
     OVHNetworkConfigV1_Gateway = OVHNetworkConfig_Gateway n,
     OVHNetworkConfigV1_DNSServers = OVHNetworkConfig_DNSServers n\<rparr>"

definition assignLoadBalancerConfigTo :: "OVHLoadBalancerConfigV1 \<Rightarrow> OVHListener list
    \<Rightarrow> OVHLoadBalancerConfig \<Rightarrow> OVHLoadBalancerConfig" where
  "assignLoadBalancerConfigTo s listeners d =
     d\<lparr>OVHLoadBalancerConfig_SubnetID := OVHLoadBalancerConfigV1_SubnetID s,
       OVHLoadBalancerConfig_FlavorName := OVHLoadBalancerConfigV1_FlavorName s,
       OVHLoadBalancerConfig_FloatingNetworkID := OVHLoadBalancerConfigV1_FloatingNetworkID s,
       OVHLoadBalancerConfig_Listeners :=
         (if length (OVHLoadBalancerConfigV1_Listeners s) > 0 then listeners
          else OVHLoadBalancerConfig_Listeners d)\<rparr>"

definition assignClusterSpecTo :: "OVHClusterSpecV1 \<Rightarrow> OVHListener list
    \<Rightarrow> OVHClusterSpec \<Rightarrow> OVHClusterSpec" where
  "assignClusterSpecTo s listeners d =
     d\<lparr>OVHClusterSpec_ServiceName := OVHClusterSpecV1_ServiceName s,
       OVHClusterSpec_Region := OVHClusterSpecV1_Region s,
       OVHClusterSpec_IdentitySecret :=
           \<lparr>SecretKey_Namespace = SecretKeyV1_Namespace (OVHClusterSpecV1_IdentitySecret s),
             SecretKey_Name = SecretKeyV1_Name (OVHClusterSpecV1_IdentitySecret s)\<rparr>,
       OVHClusterSpec_ControlPlaneEndpoint := OVHClusterSpecV1_ControlPlaneEndpoint s,
       OVHClusterSpec_SSHKeyName := OVHClusterSpecV1_SSHKeyName s,
       OVHClusterSpec_LoadBalancerConfig :=
         assignLoadBalancerConfigTo (OVHClusterSpecV1_LoadBalancerConfig s) listeners
           (OVHClusterSpec_LoadBalancerConfig d),
       OVHClusterSpec_NetworkConfig :=
         (case OVHClusterSpecV1_NetworkConfig s of
            None \<Rightarrow> OVHClusterSpec_NetworkConfig d
          | Some n \<Rightarrow> Some (convertNetworkConfigTo n))\<rparr>"

definition assignClusterStatusTo ::
  "OVHClusterStatusV1 \<Rightarrow> OVHClusterStatus \<Rightarrow> OVHClusterStatus" where
  "assignClusterStatusTo s d =
     d\<lparr>OVHClusterStatus_Ready := OVHClusterStatusV1_Ready s,
       OVHClusterStatus_Conditions := OVHClusterStatusV1_Conditions s,
       OVHClusterStatus_NetworkID := OVHClusterStatusV1_NetworkID s,
       OVHClusterStatus_SubnetID := OVHClusterStatusV1_SubnetID s,
       OVHClusterStatus_LoadBalancerID := OVHClusterStatusV1_LoadBalancerID s,
       OVHClusterStatus_ListenerID := OVHClusterStatusV1_ListenerID s,
       OVHClusterStatus_PoolID := OVHClusterStatusV1_PoolID s,
       OVHClusterStatus_FloatingIPID := OVHClusterStatusV1_FloatingIPID s,
       OVHClusterStatus_GatewayID := OVHClusterStatusV1_GatewayID s,
       OVHClusterStatus_GatewayExposed := OVHClusterStatusV1_GatewayExposed s,
       OVHClusterStatus_RegisterListenerID := OVHClusterStatusV1_RegisterListenerID s,
       OVHClusterStatus_RegisterPoolID := OVHClusterStatusV1_RegisterPoolID s\<rparr>"

definition OVHCluster_ConvertTo :: "OVHClusterV1 \<Rightarrow> Hub \<Rightarrow> gerror + OVHCluster" where
  "OVHCluster_ConvertTo src dstRaw =
     (case dstRaw of
        HubOVHCluster dst \<Rightarrow>
          (case convertEach convertListenerTo (OVHLoadBalancerConfigV1_Listeners
                  (OVHClusterSpecV1_LoadBalancerConfig (OVHClusterV1_Spec src))) of
             Inl e \<Rightarrow> Inl e
           | Inr listeners \<Rightarrow> Inr (dst\<lparr>OVHCluster_ObjectMeta := OVHClusterV1_ObjectMeta src,
               OVHCluster_Spec :=
                 assignClusterSpecTo (OVHClusterV1_Spec src) listeners (OVHCluster_Spec dst),
               OVHCluster_Status :=
                 assignClusterStatusTo (OVHClusterV1_Status src) (OVHCluster_Status dst)\<rparr>))
      | _ \<Rightarrow> Inl (wrongType ''*v1alpha2.OVHCluster'' dstRaw))"

definition assignLoadBalancerConfigFrom :: "OVHLoadBalancerConfig \<Rightarrow> OVHListenerV1 list
    \<Rightarrow> OVHLoadBalancerConfigV1 \<Rightarrow> OVHLoadBalancerConfigV1" where
  "assignLoadBalancerConfigFrom s listeners d =
     d\<lparr>OVHLoadBalancerConfigV1_SubnetID := OVHLoadBalancerConfig_SubnetID s,
       OVHLoadBalancerConfigV1_FlavorName := OVHLoadBalancerConfig_FlavorName s,
       OVHLoadBalancerConfigV1_FloatingNetworkID := OVHLoadBalancerConfig_FloatingNetworkID s,
       OVHLoadBalancerConfigV1_Listeners :=
         (if length (OVHLoadBalancerConfig_Listeners s) > 0 then listeners
          else OVHLoadBalancerConfigV1_Listeners d)\<rparr>"

definition assignClusterSpecFrom :: "OVHClusterSpec \<Rightarrow> OVHListenerV1 list
    \<Rightarrow> OVHClusterSpecV1 \<Rightarrow> OVHClusterSpecV1" where
  "assignClusterSpecFrom s listeners d =
     d\<lparr>OVHClusterSpecV1_ServiceName := OVHClusterSpec_ServiceName s,
       OVHClusterSpecV1_Region := OVHClusterSpec_Region s,
       OVHClusterSpecV1_IdentitySecret :=
           \<lparr>SecretKeyV1_Namespace = SecretKey_Namespace (OVHClusterSpec_IdentitySecret s),
             SecretKeyV1_Name = SecretKey_Name (OVHClusterSpec_IdentitySecret s)\<rparr>,
       OVHClusterSpecV1_ControlPlaneEndpoint := OVHClusterSpec_ControlPlaneEndpoint s,
       OVHClusterSpecV1_SSHKeyName := OVHClusterSpec_SSHKeyName s,
       OVHClusterSpecV1_LoadBalancerConfig :=
         assignLoadBalancerConfigFrom (OVHClusterSpec_LoadBalancerConfig s) listeners
           (OVHClusterSpecV1_LoadBalancerConfig d),
       OVHClusterSpecV1_NetworkConfig :=
         (case OVHClusterSpec_NetworkConfig s of
            None \<Rightarrow> OVHClusterSpecV1_NetworkConfig d
          | Some n \<Rightarrow> Some (convertNetworkConfigFrom n))\<rparr>"

definition assignClusterStatusFrom ::
  "OVHClusterStatus \<Rightarrow> OVHClusterStatusV1 \<Rightarrow> OVHClusterStatusV1" where
  "assignClusterStatusFrom s d =
     d\<lparr>OVHClusterStatusV1_Ready := OVHClusterStatus_Ready s,
       OVHClusterStatusV1_Conditions := OVHClusterStatus_Conditions s,
       OVHClusterStatusV1_NetworkID := OVHClusterStatus_NetworkID s,
       OVHClusterStatusV1_SubnetID := OVHClusterStatus_SubnetID s,
       OVHClusterStatusV1_LoadBalancerID := OVHClusterStatus_LoadBalancerID s,
       OVHClusterStatusV1_ListenerID := OVHClusterStatus_ListenerID s,
       OVHClusterStatusV1_PoolID := OVHClusterStatus_PoolID s,
       OVHClusterStatusV1_FloatingIPID := OVHClusterStatus_FloatingIPID s,
       OVHClusterStatusV1_GatewayID := OVHClusterStatus_GatewayID s,
       OVHClusterStatusV1_GatewayExposed := OVHClusterStatus_GatewayExposed s,
       OVHClusterStatusV1_RegisterListenerID := OVHClusterStatus_RegisterListenerID s,
       OVHClusterStatusV1_RegisterPoolID := OVHClusterStatus_RegisterPoolID s\<rparr>"

definition OVHCluster_ConvertFrom :: "OVHClusterV1 \<Rightarrow> Hub \<Rightarrow> gerror + OVHClusterV1" where
  "OVHCluster_ConvertFrom dst srcRaw =
     (case srcRaw of
        HubOVHCluster src \<Rightarrow>
          (let listeners = map convertListenerFrom (OVHLoadBalancerConfig_Listeners
                 (OVHClusterSpec_LoadBalancerConfig (OVHCluster_Spec src))) in
           Inr (dst\<lparr>OVHClusterV1_ObjectMeta := OVHCluster_ObjectMeta src,
             OVHClusterV1_Spec :=
               assignClusterSpecFrom (OVHCluster_Spec src) listeners (OVHClusterV1_Spec dst),
             OVHClusterV1_Status :=
               assignClusterStatusFrom (OVHCluster_Status src) (OVHClusterV1_Status dst)\<rparr>))
      | _ \<Rightarrow> Inl (wrongType ''*v1alpha2.OVHCluster'' srcRaw))"

section \<open>Machines\<close>

definition convertVolumeTo :: "OVHVolumeV1 \<Rightarrow> OVHVolume" where
  "convertVolumeTo v = \<lparr>OVHVolume_Name = OVHVolumeV1_Name v,
     OVHVolume_SizeGB = OVHVolumeV1_SizeGB v, OVHVolume_Type = OVHVolumeV1_Type v\<rparr>"

definition convertVolumeFrom :: "OVHVolume \<Rightarrow> OVHVolumeV1" where
  "convertVolumeFrom v = \<lparr>OVHVolumeV1_Name = OVHVolume_Name v,
     OVHVolumeV1_SizeGB = OVHVolume_SizeGB v, OVHVolumeV1_Type = OVHVolume_Type v\<rparr>"

definition convertMachineSpecTo :: "OVHMachineSpecV1 \<Rightarrow> OVHMachineSpec \<Rightarrow> OVHMachineSpec" where
  "convertMachineSpecTo src dst =
     dst\<lparr>OVHMachineSpec_ProviderID := OVHMachineSpecV1_ProviderID src,
         OVHMachineSpec_FlavorName := OVHMachineSpecV1_FlavorName src,
         OVHMachineSpec_ImageName := OVHMachineSpecV1_ImageName src,
         OVHMachineSpec_SSHKeyName := OVHMachineSpecV1_SSHKeyName src,
         OVHMachineSpec_RootDiskSize := OVHMachineSpecV1_RootDiskSize src,
         OVHMachineSpec_FailureDomain := OVHMachineSpecV1_FailureDomain src,
         OVHMachineSpec_AdditionalVolumes :=
           (if length (OVHMachineSpecV1_AdditionalVolumes src) > 0
            then map convertVolumeTo (OVHMachineSpecV1_AdditionalVolumes src)
            else OVHMachineSpec_AdditionalVolumes dst)\<rparr>"

definition convertMachineSpecFrom :: "OVHMachineSpec \<Rightarrow> OVHMachineSpecV1 \<Rightarrow> OVHMachineSpecV1" where
  "convertMachineSpecFrom src dst =
     dst\<lparr>OVHMachineSpecV1_ProviderID := OVHMachineSpec_ProviderID src,
         OVHMachineSpecV1_FlavorName := OVHMachineSpec_FlavorName src,
         OVHMachineSpecV1_ImageName := OVHMachineSpec_ImageName src,
         OVHMachineSpecV1_SSHKeyName := OVHMachineSpec_SSHKeyName src,
         OVHMachineSpecV1_RootDiskSize := OVHMachineSpec_RootDiskSize src,
         OVHMachineSpecV1_FailureDomain := OVHMachineSpec_FailureDomain src,
         OVHMachineSpecV1_AdditionalVolumes :=
           (if length (OVHMachineSpec_AdditionalVolumes src) > 0
            then map convertVolumeFrom (OVHMachineSpec_AdditionalVolumes src)
            else OVHMachineSpecV1_AdditionalVolumes dst)\<rparr>"

definition convertMachineStatusTo :: "OVHMachineStatusV1 \<Rightarrow> OVHMachineStatus \<Rightarrow> OVHMachineStatus" where
  "convertMachineStatusTo src dst =
     dst\<lparr>OVHMachineStatus_Ready := OVHMachineStatusV1_Ready src,
         OVHMachineStatus_Conditions := OVHMachineStatusV1_Conditions src,
         OVHMachineStatus_Addresses := OVHMachineStatusV1_Addresses src,
         OVHMachineStatus_Initialization := \<lparr>Initialization_Provisioned =
             Some (InitializationV1_Provisioned (OVHMachineStatusV1_Initialization src))\<rparr>,
         OVHMachineStatus_InstanceID := OVHMachineStatusV1_InstanceID src,
         OVHMachineStatus_VolumeIDs := OVHMachineStatusV1_VolumeIDs src,
         OVHMachineStatus_LBPoolMemberID := OVHMachineStatusV1_LBPoolMemberID src,
         OVHMachineStatus_RegisterPoolMemberID := OVHMachineStatusV1_RegisterPoolMemberID src\<rparr>"

definition convertMachineStatusFrom :: "OVHMachineStatus \<Rightarrow> OVHMachineStatusV1 \<Rightarrow> OVHMachineStatusV1" where
  "convertMachineStatusFrom src dst =
     dst\<lparr>OVHMachineStatusV1_Ready := OVHMachineStatus_Ready src,
         OVHMachineStatusV1_Conditions := OVHMachineStatus_Conditions src,
         OVHMachineStatusV1_Addresses := OVHMachineStatus_Addresses src,
         OVHMachineStatusV1_Initialization := \<lparr>InitializationV1_Provisioned =
             (case Initialization_Provisioned (OVHMachineStatus_Initialization src) of
                None \<Rightarrow> False | Some b \<Rightarrow> b)\<rparr>,
         OVHMachineStatusV1_InstanceID := OVHMachineStatus_InstanceID src,
         OVHMachineStatusV1_VolumeIDs := OVHMachineStatus_VolumeIDs src,
         OVHMachineStatusV1_LBPoolMemberID := OVHMachineStatus_LBPoolMemberID src,
         OVHMachineStatusV1_RegisterPoolMemberID := OVHMachineStatus_RegisterPoolMemberID src\<rparr>"

definition OVHMachine_ConvertTo :: "OVHMachineV1 \<Rightarrow> Hub \<Rightarrow> gerror + OVHMachine" where
  "OVHMachine_ConvertTo src dstRaw =
     (case dstRaw of
        HubOVHMachine dst \<Rightarrow> Inr (dst\<lparr>OVHMachine_ObjectMeta := OVHMachineV1_ObjectMeta src,
          OVHMachine_Spec := convertMachineSpecTo (OVHMachineV1_Spec src) (OVHMachine_Spec dst),
          OVHMachine_Status :=
            convertMachineStatusTo (OVHMachineV1_Status src) (OVHMachine_Status dst)\<rparr>)
      | _ \<Rightarrow> Inl (wrongType ''*v1alpha2.OVHMachine'' dstRaw))"

definition OVHMachine_ConvertFrom :: "OVHMachineV1 \<Rightarrow> Hub \<Rightarrow> gerror + OVHMachineV1" where
  "OVHMachine_ConvertFrom dst srcRaw =
     (case srcRaw of
        HubOVHMachine src \<Rightarrow> Inr (dst\<lparr>OVHMachineV1_ObjectMeta := OVHMachine_ObjectMeta src,
          OVHMachineV1_Spec := convertMachineSpecFrom (OVHMachine_Spec src) (OVHMachineV1_Spec dst),
          OVHMachineV1_Status :=
            convertMachineStatusFrom (OVHMachine_Status src) (OVHMachineV1_Status dst)\<rparr>)
      | _ \<Rightarrow> Inl (wrongType ''*v1alpha2.OVHMachine'' srcRaw))"

section \<open>Templates\<close>

definition OVHClusterTemplate_ConvertTo ::
  "OVHClusterTemplateV1 \<Rightarrow> Hub \<Rightarrow> gerror + OVHClusterTemplate" where
  "OVHClusterTemplate_ConvertTo src dstRaw =
     (case dstRaw of
        HubOVHClusterTemplate dst \<Rightarrow>
          (let template = OVHClusterTemplateSpecV1_Template (OVHClusterTemplateV1_Spec src);
               tmpSrc = zero_OVHClusterV1\<lparr>
                 OVHClusterV1_Spec := OVHClusterTemplateResourceV1_Spec template\<rparr> in
           case OVHCluster_ConvertTo tmpSrc (HubOVHCluster zero_OVHCluster) of
             Inl e \<Rightarrow> Inl e
           | Inr tmpDst \<Rightarrow>
               Inr (dst\<lparr>OVHClusterTemplate_ObjectMeta := OVHClusterTemplateV1_ObjectMeta src,
                 OVHClusterTemplate_Spec := \<lparr>OVHClusterTemplateSpec_Template = \<lparr>
                   OVHClusterTemplateResource_ObjectMeta =
                     OVHClusterTemplateResourceV1_ObjectMeta template,
                   OVHClusterTemplateResource_Spec = OVHCluster_Spec tmpDst\<rparr>\<rparr>\<rparr>))
      | _ \<Rightarrow> Inl (wrongType ''*v1alpha2.OVHClusterTemplate'' dstRaw))"

definition OVHClusterTemplate_ConvertFrom ::
  "OVHClusterTemplateV1 \<Rightarrow> Hub \<Rightarrow> gerror + OVHClusterTemplateV1" where
  "OVHClusterTemplate_ConvertFrom dst srcRaw =
     (case srcRaw of
        HubOVHClusterTemplate src \<Rightarrow>
          (let template = OVHClusterTemplateSpec_Template (OVHClusterTemplate_Spec src);
               tmpSrc = zero_OVHCluster\<lparr>
                 OVHCluster_Spec := OVHClusterTemplateResource_Spec template\<rparr> in
           case OVHCluster_ConvertFrom zero_OVHClusterV1 (HubOVHCluster tmpSrc) of
             Inl e \<Rightarrow> Inl e
           | Inr tmpDst \<Rightarrow>
               Inr (dst\<lparr>OVHClusterTemplateV1_ObjectMeta := OVHClusterTemplate_ObjectMeta src,
                 OVHClusterTemplateV1_Spec := \<lparr>OVHClusterTemplateSpecV1_Template = \<lparr>
                   OVHClusterTemplateResourceV1_ObjectMeta =
                     OVHClusterTemplateResource_ObjectMeta template,
                   OVHClusterTemplateResourceV1_Spec = OVHClusterV1_Spec tmpDst\<rparr>\<rparr>\<rparr>))
      | _ \<Rightarrow> Inl (wrongType ''*v1alpha2.OVHClusterTemplate'' srcRaw))"

definition OVHMachineTemplate_ConvertTo ::
  "OVHMachineTemplateV1 \<Rightarrow> Hub \<Rightarrow> gerror + OVHMachineTemplate" where
  "OVHMachineTemplate_ConvertTo src dstRaw =
     (case dstRaw of
        HubOVHMachineTemplate dst \<Rightarrow>
          (let template = OVHMachineTemplateSpecV1_Template (OVHMachineTemplateV1_Spec src) in
           Inr (dst\<lparr>OVHMachineTemplate_ObjectMeta := OVHMachineTemplateV1_ObjectMeta src,
             OVHMachineTemplate_Spec := \<lparr>OVHMachineTemplateSpec_Template = \<lparr>
               OVHMachineTemplateResource_ObjectMeta =
                 OVHMachineTemplateResourceV1_ObjectMeta template,
               OVHMachineTemplateResource_Spec =
                 convertMachineSpecTo (OVHMachineTemplateResourceV1_Spec template)
                   (OVHMachineTemplateResource_Spec (OVHMachineTemplateSpec_Template
                      (OVHMachineTemplate_Spec dst)))\<rparr>\<rparr>\<rparr>))
      | _ \<Rightarrow> Inl (wrongType ''*v1alpha2.OVHMachineTemplate'' dstRaw))"

definition OVHMachineTemplate_ConvertFrom ::
  "OVHMachineTemplateV1 \<Rightarrow> Hub \<Rightarrow> gerror + OVHMachineTemplateV1" where
  "OVHMachineTemplate_ConvertFrom dst srcRaw =
     (case srcRaw of
        HubOVHMachineTemplate src \<Rightarrow>
          (let template = OVHMachineTemplateSpec_Template (OVHMachineTemplate_Spec src) in
           Inr (dst\<lparr>OVHMachineTemplateV1_ObjectMeta := OVHMachineTemplate_ObjectMeta src,
             OVHMachineTemplateV1_Spec := \<lparr>OVHMachineTemplateSpecV1_Template = \<lparr>
               OVHMachineTemplateResourceV1_ObjectMeta =
                 OVHMachineTemplateResource_ObjectMeta template,
               OVHMachineTemplateResourceV1_Spec =
                 convertMachineSpecFrom (OVHMachineTemplateResource_Spec template)
                   (OVHMachineTemplateResourceV1_Spec (OVHMachineTemplateSpecV1_Template
                      (OVHMachineTemplateV1_Spec dst)))\<rparr>\<rparr>\<rparr>))
      | _ \<Rightarrow> Inl (wrongType ''*v1alpha2.OVHMachineTemplate'' srcRaw))"

section \<open>Lists\<close>

definition OVHClusterList_ConvertTo :: "OVHClusterListV1 \<Rightarrow> Hub \<Rightarrow> gerror + OVHClusterList" where
  "OVHClusterList_ConvertTo src dstRaw =
     (case dstRaw of
        HubOVHClusterList dst \<Rightarrow>
          (case convertEach (\<lambda>item. OVHCluster_ConvertTo item (HubOVHCluster zero_OVHCluster))
                  (OVHClusterListV1_Items src) of
             Inl e \<Rightarrow> Inl e
           | Inr items \<Rightarrow> Inr (dst\<lparr>OVHClusterList_ListMeta := OVHClusterListV1_ListMeta src,
               OVHClusterList_Items := items\<rparr>))
      | _ \<Rightarrow> Inl (wrongType ''*v1alpha2.OVHClusterList'' dstRaw))"

definition OVHClusterList_ConvertFrom :: "OVHClusterListV1 \<Rightarrow> Hub \<Rightarrow> gerror + OVHClusterListV1" where
  "OVHClusterList_ConvertFrom dst srcRaw =
     (case srcRaw of
        HubOVHClusterList src \<Rightarrow>
          (case convertEach (\<lambda>item. OVHCluster_ConvertFrom zero_OVHClusterV1 (HubOVHCluster item))
                  (OVHClusterList_Items src) of
             Inl e \<Rightarrow> Inl e
           | Inr items \<Rightarrow> Inr (dst\<lparr>OVHClusterListV1_ListMeta := OVHClusterList_ListMeta src,
               OVHClusterListV1_Items := items\<rparr>))
      | _ \<Rightarrow> Inl (wrongType ''*v1alpha2.OVHClusterList'' srcRaw))"

definition OVHMachineList_ConvertTo :: "OVHMachineListV1 \<Rightarrow> Hub \<Rightarrow> gerror + OVHMachineList" where
  "OVHMachineList_ConvertTo src dstRaw =
     (case dstRaw of
        HubOVHMachineList dst \<Rightarrow>
          (case convertEach (\<lambda>item. OVHMachine_ConvertTo item (HubOVHMachine zero_OVHMachine))
                  (OVHMachineListV1_Items src) of
             Inl e \<Rightarrow> Inl e
           | Inr items \<Rightarrow> Inr (dst\<lparr>OVHMachineList_ListMeta := OVHMachineListV1_ListMeta src,
               OVHMachineList_Items := items\<rparr>))
      | _ \<Rightarrow> Inl (wrongType ''*v1alpha2.OVHMachineList'' dstRaw))"

definition OVHMachineList_ConvertFrom :: "OVHMachineListV1 \<Rightarrow> Hub \<Rightarrow> gerror + OVHMachineListV1" where
  "OVHMachineList_ConvertFrom dst srcRaw =
     (case srcRaw of
        HubOVHMachineList src \<Rightarrow>
          (case convertEach (\<lambda>item. OVHMachine_ConvertFrom zero_OVHMachineV1 (HubOVHMachine item))
                  (OVHMachineList_Items src) of
             Inl e \<Rightarrow> Inl e
           | Inr items \<Rightarrow> Inr (dst\<lparr>OVHMachineListV1_ListMeta := OVHMachineList_ListMeta src,
               OVHMachineListV1_Items := items\<rparr>))
      | _ \<Rightarrow> Inl (wrongType ''*v1alpha2.OVHMachineList'' srcRaw))"

definition OVHClusterTemplateList_ConvertTo :: "OVHClusterTemplateListV1 \<Rightarrow> Hub \<Rightarrow> gerror + OVHClusterTemplateList" where
  "OVHClusterTemplateList_ConvertTo src dstRaw =
     (case dstRaw of
        HubOVHClusterTemplateList dst \<Rightarrow>
          (case convertEach (\<lambda>item. OVHClusterTemplate_ConvertTo item (HubOVHClusterTemplate zero_OVHClusterTemplate))
                  (OVHClusterTemplateListV1_Items src) of
             Inl e \<Rightarrow> Inl e
           | Inr items \<Rightarrow> Inr (dst\<lparr>OVHClusterTemplateList_ListMeta := OVHClusterTemplateListV1_ListMeta src,
               OVHClusterTemplateList_Items := items\<rparr>))
      | _ \<Rightarrow> Inl (wrongType ''*v1alpha2.OVHClusterTemplateList'' dstRaw))"

definition OVHClusterTemplateList_ConvertFrom :: "OVHClusterTemplateListV1 \<Rightarrow> Hub \<Rightarrow> gerror + OVHClusterTemplateListV1" where
  "OVHClusterTemplateList_ConvertFrom dst srcRaw =
     (case srcRaw of
        HubOVHClusterTemplateList src \<Rightarrow>
          (case convertEach (\<lambda>item. OVHClusterTemplate_ConvertFrom zero_OVHClusterTemplateV1 (HubOVHClusterTemplate item))
                  (OVHClusterTemplateList_Items src) of
             Inl e \<Rightarrow> Inl e
           | Inr items \<Rightarrow> Inr (dst\<lparr>OVHClusterTemplateListV1_ListMeta := OVHClusterTemplateList_ListMeta src,
               OVHClusterTemplateListV1_Items := items\<rparr>))
      | _ \<Rightarrow> Inl (wrongType ''*v1alpha2.OVHClusterTemplateList'' srcRaw))"

definition OVHMachineTemplateList_ConvertTo :: "OVHMachineTemplateListV1 \<Rightarrow> Hub \<Rightarrow> gerror + OVHMachineTemplateList" where
  "OVHMachineTemplateList_ConvertTo src dstRaw =
     (case dstRaw of
        HubOVHMachineTemplateList dst \<Rightarrow>
          (case convertEach (\<lambda>item. OVHMachineTemplate_ConvertTo item (HubOVHMachineTemplate zero_OVHMachineTemplate))
                  (OVHMachineTemplateListV1_Items src) of
             Inl e \<Rightarrow> Inl e
           | Inr items \<Rightarrow> Inr (dst\<lparr>OVHMachineTemplateList_ListMeta := OVHMachineTemplateListV1_ListMeta src,
               OVHMachineTemplateList_Items := items\<rparr>))
      | _ \<Rightarrow> Inl (wrongType ''*v1alpha2.OVHMachineTemplateList'' dstRaw))"

definition OVHMachineTemplateList_ConvertFrom :: "OVHMachineTemplateListV1 \<Rightarrow> Hub \<Rightarrow> gerror + OVHMachineTemplateListV1" where
  "OVHMachineTemplateList_ConvertFrom dst srcRaw =
     (case srcRaw of
        HubOVHMachineTemplateList src \<Rightarrow>
          (case convertEach (\<lambda>item. OVHMachineTemplate_ConvertFrom zero_OVHMachineTemplateV1 (HubOVHMachineTemplate item))
                  (OVHMachineTemplateList_Items src) of
             Inl e \<Rightarrow> Inl e
           | Inr items \<Rightarrow> Inr (dst\<lparr>OVHMachineTemplateListV1_ListMeta := OVHMachineTemplateList_ListMeta src,
               OVHMachineTemplateListV1_Items := items\<rparr>))
      | _ \<Rightarrow> Inl (wrongType ''*v1alpha2.OVHMachineTemplateList'' srcRaw))"

section \<open>Round trips\<close>

text \<open>
  The contract between a version and the hub, for one kind of object: converting an object to the
  hub and back, each time into an empty target, gives the object with the fields the hub lacks
  reset (\<open>norm\<close>). It is proved once here that a list of such objects then behaves the same
  way, element by element.
\<close>

locale convertible =
  fixes to_hub :: "'s \<Rightarrow> gerror + 'h" and from_hub :: "'h \<Rightarrow> gerror + 's"
    and norm :: "'s \<Rightarrow> 's"
  assumes there_and_back: "to_hub s = Inr h \<Longrightarrow> from_hub h = Inr (norm s)"
begin

lemma each_back: "convertEach to_hub ss = Inr hs \<Longrightarrow> convertEach from_hub hs = Inr (map norm ss)"
  by (induction ss arbitrary: hs) (auto simp: there_and_back split: sum.splits)

end

lemma convertEach_Inr_iff:
  "convertEach f xs = Inr ys \<longleftrightarrow> list_all2 (\<lambda>x y. f x = Inr y) xs ys"
proof (induction xs arbitrary: ys)
  case (Cons x xs)
  have "convertEach f (x # xs) = Inr ys \<longleftrightarrow>
      (\<exists>y zs. ys = y # zs \<and> f x = Inr y \<and> convertEach f xs = Inr zs)"
    by (auto split: sum.splits)
  then show ?case by (simp add: Cons.IH list_all2_Cons1)
qed auto

lemma convertEach_Inl_iff:
  "convertEach f xs = Inl e \<longleftrightarrow>
     (\<exists>us x vs. xs = us @ x # vs \<and> f x = Inl e \<and> (\<forall>u \<in> set us. \<exists>y. f u = Inr y))"
proof (induction xs)
  case (Cons a xs)
  show ?case
  proof (cases "f a")
    case (Inl e')
    then show ?thesis
      by (auto simp: Cons_eq_append_conv intro: exI [of _ "[]"])
  next
    case (Inr y)
    then have "convertEach f (a # xs) = Inl e \<longleftrightarrow> convertEach f xs = Inl e"
      by (auto split: sum.splits)
    also have "\<dots> \<longleftrightarrow> (\<exists>us x vs. a # xs = us @ x # vs \<and> f x = Inl e
        \<and> (\<forall>u \<in> set us. \<exists>y. f u = Inr y))"
      unfolding Cons.IH using Inr
      by (auto simp: Cons_eq_append_conv) (metis list.set_intros(1) set_ConsD)+
    finally show ?thesis .
  qed
qed simp

lemma convertEach_map: "convertEach (\<lambda>x. Inr (f x)) xs = Inr (map f xs)"
  by (induction xs) simp_all

lemma listener_back: "convertListenerTo l = Inr h \<Longrightarrow> convertListenerFrom h = l"
  by (auto simp: convertListenerTo_def convertListenerFrom_def convertProtocolToV1Alpha2_def
      split: sum.splits if_splits)

lemma listeners_back:
  "convertEach convertListenerTo ls = Inr hs \<Longrightarrow> map convertListenerFrom hs = ls"
  by (induction ls arbitrary: hs) (auto simp: listener_back split: sum.splits)

lemma listeners_length: "convertEach convertListenerTo ls = Inr hs \<Longrightarrow> length hs = length ls"
  by (auto simp: convertEach_Inr_iff dest: list_all2_lengthD)

lemma networkConfig_back [simp]: "convertNetworkConfigFrom (convertNetworkConfigTo n) = n"
  by (simp add: convertNetworkConfigTo_def convertNetworkConfigFrom_def)

lemma networkConfig_forth [simp]: "convertNetworkConfigTo (convertNetworkConfigFrom n) = n"
  by (simp add: convertNetworkConfigTo_def convertNetworkConfigFrom_def)

lemma volume_back [simp]: "convertVolumeFrom (convertVolumeTo v) = v"
  by (simp add: convertVolumeTo_def convertVolumeFrom_def)

lemma volume_forth [simp]: "convertVolumeTo (convertVolumeFrom v) = v"
  by (simp add: convertVolumeTo_def convertVolumeFrom_def)

lemmas cluster_assign = assignClusterSpecTo_def assignClusterSpecFrom_def
  assignLoadBalancerConfigTo_def assignLoadBalancerConfigFrom_def
  assignClusterStatusTo_def assignClusterStatusFrom_def

lemmas cluster_zero = zero_OVHClusterV1_def zero_OVHClusterSpecV1_def zero_OVHClusterStatusV1_def
  zero_OVHLoadBalancerConfigV1_def zero_OVHCluster_def zero_OVHClusterSpec_def
  zero_OVHClusterStatus_def zero_OVHLoadBalancerConfig_def

text \<open>The fields of the old version that the hub does not have.\<close>

definition dropClusterFailure :: "OVHClusterV1 \<Rightarrow> OVHClusterV1" where
  "dropClusterFailure c = c\<lparr>OVHClusterV1_Status := (OVHClusterV1_Status c)\<lparr>
     OVHClusterStatusV1_FailureReason := '''', OVHClusterStatusV1_FailureMessage := ''''\<rparr>\<rparr>"

definition dropMachineFailure :: "OVHMachineV1 \<Rightarrow> OVHMachineV1" where
  "dropMachineFailure m = m\<lparr>OVHMachineV1_Status := (OVHMachineV1_Status m)\<lparr>
     OVHMachineStatusV1_FailureReason := '''', OVHMachineStatusV1_FailureMessage := ''''\<rparr>\<rparr>"

lemma cluster_spec_back:
  assumes "convertEach convertListenerTo (OVHLoadBalancerConfigV1_Listeners
      (OVHClusterSpecV1_LoadBalancerConfig s)) = Inr hs"
  shows "assignClusterSpecFrom (assignClusterSpecTo s hs zero_OVHClusterSpec)
      (map convertListenerFrom hs) zero_OVHClusterSpecV1 = s"
  using listeners_back [OF assms] listeners_length [OF assms]
  by (cases "hs = []") (simp_all add: cluster_assign cluster_zero split: option.split)

lemma cluster_status_back:
  "assignClusterStatusFrom (assignClusterStatusTo s zero_OVHClusterStatus) zero_OVHClusterStatusV1
     = s\<lparr>OVHClusterStatusV1_FailureReason := '''', OVHClusterStatusV1_FailureMessage := ''''\<rparr>"
  by (simp add: cluster_assign cluster_zero)

lemma assignClusterSpecTo_Listeners:
  "length hs = length (OVHLoadBalancerConfigV1_Listeners (OVHClusterSpecV1_LoadBalancerConfig s)) \<Longrightarrow>
   OVHLoadBalancerConfig_Listeners (OVHClusterSpec_LoadBalancerConfig
     (assignClusterSpecTo s hs zero_OVHClusterSpec)) = hs"
  by (cases hs) (auto simp: cluster_assign cluster_zero)

lemma OVHCluster_back:
  assumes "OVHCluster_ConvertTo c (HubOVHCluster zero_OVHCluster) = Inr h"
  shows "OVHCluster_ConvertFrom zero_OVHClusterV1 (HubOVHCluster h) = Inr (dropClusterFailure c)"
proof -
  obtain hs where hs: "convertEach convertListenerTo (OVHLoadBalancerConfigV1_Listeners
      (OVHClusterSpecV1_LoadBalancerConfig (OVHClusterV1_Spec c))) = Inr hs"
    and h: "h = zero_OVHCluster\<lparr>OVHCluster_ObjectMeta := OVHClusterV1_ObjectMeta c,
      OVHCluster_Spec := assignClusterSpecTo (OVHClusterV1_Spec c) hs (OVHCluster_Spec zero_OVHCluster),
      OVHCluster_Status :=
        assignClusterStatusTo (OVHClusterV1_Status c) (OVHCluster_Status zero_OVHCluster)\<rparr>"
    using assms by (auto simp: OVHCluster_ConvertTo_def split: sum.splits)
  have z: "OVHCluster_Spec zero_OVHCluster = zero_OVHClusterSpec"
    "OVHCluster_Status zero_OVHCluster = zero_OVHClusterStatus"
    "OVHClusterV1_Spec zero_OVHClusterV1 = zero_OVHClusterSpecV1"
    "OVHClusterV1_Status zero_OVHClusterV1 = zero_OVHClusterStatusV1"
    by (simp_all add: zero_OVHCluster_def zero_OVHClusterV1_def)
  show ?thesis
    unfolding OVHCluster_ConvertFrom_def h dropClusterFailure_def
    by (simp add: z cluster_spec_back [OF hs] cluster_status_back
        assignClusterSpecTo_Listeners [OF listeners_length [OF hs]])
qed

lemma machine_spec_back:
  "convertMachineSpecFrom (convertMachineSpecTo s zero_OVHMachineSpec) zero_OVHMachineSpecV1 = s"
  by (simp add: convertMachineSpecTo_def convertMachineSpecFrom_def zero_OVHMachineSpec_def
      zero_OVHMachineSpecV1_def comp_def)

lemma machine_status_back:
  "convertMachineStatusFrom (convertMachineStatusTo s zero_OVHMachineStatus) zero_OVHMachineStatusV1
     = s\<lparr>OVHMachineStatusV1_FailureReason := '''', OVHMachineStatusV1_FailureMessage := ''''\<rparr>"
  by (simp add: convertMachineStatusTo_def convertMachineStatusFrom_def zero_OVHMachineStatus_def
      zero_OVHMachineStatusV1_def)

interpretation cluster_conv: convertible
  "\<lambda>c. OVHCluster_ConvertTo c (HubOVHCluster zero_OVHCluster)"
  "\<lambda>h. OVHCluster_ConvertFrom zero_OVHClusterV1 (HubOVHCluster h)"
  dropClusterFailure
  by unfold_locales (rule OVHCluster_back)

interpretation machine_conv: convertible
  "\<lambda>m. OVHMachine_ConvertTo m (HubOVHMachine zero_OVHMachine)"
  "\<lambda>h. OVHMachine_ConvertFrom zero_OVHMachineV1 (HubOVHMachine h)"
  dropMachineFailure
  by unfold_locales
    (auto simp: OVHMachine_ConvertTo_def OVHMachine_ConvertFrom_def zero_OVHMachine_def
      zero_OVHMachineV1_def machine_spec_back machine_status_back dropMachineFailure_def)

interpretation machine_template_conv: convertible
  "\<lambda>t. OVHMachineTemplate_ConvertTo t (HubOVHMachineTemplate zero_OVHMachineTemplate)"
  "\<lambda>h. OVHMachineTemplate_ConvertFrom zero_OVHMachineTemplateV1 (HubOVHMachineTemplate h)"
  "\<lambda>t. t"
  by unfold_locales
    (auto simp: OVHMachineTemplate_ConvertTo_def OVHMachineTemplate_ConvertFrom_def Let_def
      zero_OVHMachineTemplate_def zero_OVHMachineTemplateV1_def zero_OVHMachineTemplateSpec_def
      zero_OVHMachineTemplateSpecV1_def zero_OVHMachineTemplateResource_def
      zero_OVHMachineTemplateResourceV1_def machine_spec_back)

text \<open>A cluster template embeds a spec; converting it goes through a temporary cluster.\<close>

lemma ConvertFrom_Spec:
  "OVHCluster_ConvertFrom zero_OVHClusterV1 (HubOVHCluster h) = Inr c \<Longrightarrow>
   OVHCluster_ConvertFrom zero_OVHClusterV1
     (HubOVHCluster (zero_OVHCluster\<lparr>OVHCluster_Spec := OVHCluster_Spec h\<rparr>)) = Inr c'
   \<Longrightarrow> OVHClusterV1_Spec c' = OVHClusterV1_Spec c"
  by (auto simp: OVHCluster_ConvertFrom_def Let_def)

lemma ConvertFrom_total: "\<exists>c. OVHCluster_ConvertFrom d (HubOVHCluster h) = Inr c"
  by (simp add: OVHCluster_ConvertFrom_def Let_def)

lemma cluster_template_back:
  assumes "OVHClusterTemplate_ConvertTo t (HubOVHClusterTemplate zero_OVHClusterTemplate) = Inr h"
  shows "OVHClusterTemplate_ConvertFrom zero_OVHClusterTemplateV1 (HubOVHClusterTemplate h) = Inr t"
proof -
  let ?tpl = "OVHClusterTemplateSpecV1_Template (OVHClusterTemplateV1_Spec t)"
  let ?c = "zero_OVHClusterV1\<lparr>OVHClusterV1_Spec := OVHClusterTemplateResourceV1_Spec ?tpl\<rparr>"
  obtain hc where hc: "OVHCluster_ConvertTo ?c (HubOVHCluster zero_OVHCluster) = Inr hc"
    and h: "h = zero_OVHClusterTemplate\<lparr>OVHClusterTemplate_ObjectMeta := OVHClusterTemplateV1_ObjectMeta t,
      OVHClusterTemplate_Spec := \<lparr>OVHClusterTemplateSpec_Template = \<lparr>
        OVHClusterTemplateResource_ObjectMeta = OVHClusterTemplateResourceV1_ObjectMeta ?tpl,
        OVHClusterTemplateResource_Spec = OVHCluster_Spec hc\<rparr>\<rparr>\<rparr>"
    using assms by (auto simp: OVHClusterTemplate_ConvertTo_def Let_def split: sum.splits)
  obtain c' where c': "OVHCluster_ConvertFrom zero_OVHClusterV1
      (HubOVHCluster (zero_OVHCluster\<lparr>OVHCluster_Spec := OVHCluster_Spec hc\<rparr>)) = Inr c'"
    using ConvertFrom_total by blast
  have "OVHClusterV1_Spec c' = OVHClusterTemplateResourceV1_Spec ?tpl"
    using ConvertFrom_Spec [OF OVHCluster_back [OF hc] c'] by (simp add: dropClusterFailure_def)
  then show ?thesis
    by (simp add: h OVHClusterTemplate_ConvertFrom_def Let_def c' zero_OVHClusterTemplateV1_def)
qed

interpretation cluster_template_conv: convertible
  "\<lambda>t. OVHClusterTemplate_ConvertTo t (HubOVHClusterTemplate zero_OVHClusterTemplate)"
  "\<lambda>h. OVHClusterTemplate_ConvertFrom zero_OVHClusterTemplateV1 (HubOVHClusterTemplate h)"
  "\<lambda>t. t"
  by unfold_locales (rule cluster_template_back)

lemmas list_conversions =
  OVHClusterList_ConvertTo_def OVHClusterList_ConvertFrom_def
  OVHMachineList_ConvertTo_def OVHMachineList_ConvertFrom_def
  OVHClusterTemplateList_ConvertTo_def OVHClusterTemplateList_ConvertFrom_def
  OVHMachineTemplateList_ConvertTo_def OVHMachineTemplateList_ConvertFrom_def

section \<open>Properties\<close>

definition supportedProtocol :: "string \<Rightarrow> bool" where
  "supportedProtocol p \<longleftrightarrow> p \<in> {''TCP'', ''UDP'', ''SCTP''}"

definition listenersOf :: "OVHClusterV1 \<Rightarrow> OVHListenerV1 list" where
  "listenersOf c = OVHLoadBalancerConfigV1_Listeners
     (OVHClusterSpecV1_LoadBalancerConfig (OVHClusterV1_Spec c))"

lemma convertListenerTo_ok:
  "(\<exists>h. convertListenerTo l = Inr h) \<longleftrightarrow> supportedProtocol (OVHListenerV1_Protocol l)"
  by (auto simp: convertListenerTo_def convertProtocolToV1Alpha2_def supportedProtocol_def)

lemma convertListeners_ok:
  "(\<exists>hs. convertEach convertListenerTo ls = Inr hs) \<longleftrightarrow>
     (\<forall>l \<in> set ls. supportedProtocol (OVHListenerV1_Protocol l))"
  by (induction ls) (auto simp: convertListenerTo_ok [symmetric] split: sum.splits)

text \<open>A list of clusters of the old version, converted to the hub and back, is the same list
  with each cluster's failure reason and message (which the hub lacks) reset.\<close>

lemma cluster_list_roundtrip:
  assumes "OVHClusterList_ConvertTo cs (HubOVHClusterList d) = Inr h"
  shows "OVHClusterList_ConvertFrom d' (HubOVHClusterList h) =
    Inr (d'\<lparr>OVHClusterListV1_ListMeta := OVHClusterListV1_ListMeta cs,
      OVHClusterListV1_Items := map dropClusterFailure (OVHClusterListV1_Items cs)\<rparr>)"
  using assms by (auto simp: list_conversions split: sum.splits dest!: cluster_conv.each_back)

text \<open>The same for a list of machines.\<close>

lemma machine_list_roundtrip:
  assumes "OVHMachineList_ConvertTo ms (HubOVHMachineList d) = Inr h"
  shows "OVHMachineList_ConvertFrom d' (HubOVHMachineList h) =
    Inr (d'\<lparr>OVHMachineListV1_ListMeta := OVHMachineListV1_ListMeta ms,
      OVHMachineListV1_Items := map dropMachineFailure (OVHMachineListV1_Items ms)\<rparr>)"
  using assms by (auto simp: list_conversions split: sum.splits dest!: machine_conv.each_back)

text \<open>Lists of cluster templates survive the round trip without any loss.\<close>

lemma cluster_template_list_roundtrip:
  assumes "OVHClusterTemplateList_ConvertTo ts (HubOVHClusterTemplateList d) = Inr h"
  shows "OVHClusterTemplateList_ConvertFrom ts (HubOVHClusterTemplateList h) = Inr ts"
  using assms by (auto simp: list_conversions split: sum.splits
      dest!: cluster_template_conv.each_back)

lemma machine_template_list_roundtrip:
  assumes "OVHMachineTemplateList_ConvertTo ts (HubOVHMachineTemplateList d) = Inr h"
  shows "OVHMachineTemplateList_ConvertFrom ts (HubOVHMachineTemplateList h) = Inr ts"
  using assms by (auto simp: list_conversions split: sum.splits
      dest!: machine_template_conv.each_back)

text \<open>C31: a cluster of the old version is refused exactly when one of its listeners has a protocol
  other than TCP, UDP and SCTP; the error is the one of the first such listener, under its name.\<close>

theorem OVHCluster_ConvertTo_refused:
  "OVHCluster_ConvertTo c (HubOVHCluster d) = Inl e \<longleftrightarrow>
     (\<exists>us l vs p. listenersOf c = us @ l # vs
        \<and> list_all (\<lambda>u. supportedProtocol (OVHListenerV1_Protocol u)) us
        \<and> \<not> supportedProtocol (OVHListenerV1_Protocol l)
        \<and> convertProtocolToV1Alpha2 (OVHListenerV1_Protocol l) = Inl p
        \<and> e = Wrap (''listener '' @ strconv_Quote (OVHListenerV1_Name l) @ '': '') p '''')"
proof -
  have "OVHCluster_ConvertTo c (HubOVHCluster d) = Inl e \<longleftrightarrow>
      convertEach convertListenerTo (listenersOf c) = Inl e"
    by (auto simp: OVHCluster_ConvertTo_def listenersOf_def split: sum.splits)
  moreover have "convertListenerTo l = Inl e \<longleftrightarrow> \<not> supportedProtocol (OVHListenerV1_Protocol l)
      \<and> (\<exists>p. convertProtocolToV1Alpha2 (OVHListenerV1_Protocol l) = Inl p
        \<and> e = Wrap (''listener '' @ strconv_Quote (OVHListenerV1_Name l) @ '': '') p '''')" for l
    by (auto simp: convertListenerTo_def convertProtocolToV1Alpha2_def supportedProtocol_def)
  ultimately show ?thesis
    by (simp add: convertEach_Inl_iff convertListenerTo_ok list_all_iff) blast
qed

text \<open>The fields of the hub that the old version does not have.\<close>

definition dropHubOnly :: "OVHCluster \<Rightarrow> OVHCluster" where
  "dropHubOnly h = h\<lparr>
     OVHCluster_Spec := (OVHCluster_Spec h)\<lparr>
       OVHClusterSpec_LoadBalancerConfig := (OVHClusterSpec_LoadBalancerConfig (OVHCluster_Spec h))\<lparr>
         OVHLoadBalancerConfig_ExistingLoadBalancerID := '''',
         OVHLoadBalancerConfig_ExistingFloatingIPID := ''''\<rparr>,
       OVHClusterSpec_FailureDomains := [], OVHClusterSpec_SecurityGroups := [],
       OVHClusterSpec_DefaultTags := [], OVHClusterSpec_DNSConfig := None\<rparr>,
     OVHCluster_Status := (OVHCluster_Status h)\<lparr>
       OVHClusterStatus_Initialization := zero_Initialization,
       OVHClusterStatus_FailureDomains := [], OVHClusterStatus_SecurityGroupIDs := [],
       OVHClusterStatus_DNSRecordID := 0\<rparr>\<rparr>"

definition hubListeners :: "OVHCluster \<Rightarrow> OVHListener list" where
  "hubListeners h =
     OVHLoadBalancerConfig_Listeners (OVHClusterSpec_LoadBalancerConfig (OVHCluster_Spec h))"

lemma listeners_forth:
  "list_all (\<lambda>l. supportedProtocol (OVHListener_Protocol l)) ls
    \<Longrightarrow> convertEach convertListenerTo (map convertListenerFrom ls) = Inr ls"
  by (induction ls) (auto simp: convertListenerTo_def convertListenerFrom_def
      convertProtocolToV1Alpha2_def supportedProtocol_def)

lemma cluster_spec_forth:
  "assignClusterSpecTo (assignClusterSpecFrom s (map convertListenerFrom ls) zero_OVHClusterSpecV1)
      ls zero_OVHClusterSpec
    = s\<lparr>OVHClusterSpec_LoadBalancerConfig := (OVHClusterSpec_LoadBalancerConfig s)\<lparr>
         OVHLoadBalancerConfig_ExistingLoadBalancerID := '''',
         OVHLoadBalancerConfig_ExistingFloatingIPID := ''''\<rparr>,
       OVHClusterSpec_FailureDomains := [], OVHClusterSpec_SecurityGroups := [],
       OVHClusterSpec_DefaultTags := [], OVHClusterSpec_DNSConfig := None\<rparr>"
  if "ls = OVHLoadBalancerConfig_Listeners (OVHClusterSpec_LoadBalancerConfig s)"
  using that by (cases "ls = []") (simp_all add: cluster_assign cluster_zero split: option.split)

lemma cluster_status_forth:
  "assignClusterStatusTo (assignClusterStatusFrom s zero_OVHClusterStatusV1) zero_OVHClusterStatus
    = s\<lparr>OVHClusterStatus_Initialization := zero_Initialization,
       OVHClusterStatus_FailureDomains := [], OVHClusterStatus_SecurityGroupIDs := [],
       OVHClusterStatus_DNSRecordID := 0\<rparr>"
  by (simp add: cluster_assign cluster_zero)

text \<open>C30: a hub cluster whose listeners use TCP, UDP or SCTP is served in the old version and read
  back with the hub-only fields, and no others, reset to their zero values.\<close>

theorem hub_roundtrip:
  assumes "list_all (\<lambda>l. supportedProtocol (OVHListener_Protocol l)) (hubListeners h)"
  shows "\<exists>c. OVHCluster_ConvertFrom zero_OVHClusterV1 (HubOVHCluster h) = Inr c
    \<and> OVHCluster_ConvertTo c (HubOVHCluster zero_OVHCluster) = Inr (dropHubOnly h)"
proof -
  let ?ls = "hubListeners h"
  let ?s = "assignClusterSpecFrom (OVHCluster_Spec h) (map convertListenerFrom ?ls)
    (OVHClusterV1_Spec zero_OVHClusterV1)"
  have ls: "OVHLoadBalancerConfigV1_Listeners (OVHClusterSpecV1_LoadBalancerConfig ?s)
      = map convertListenerFrom ?ls"
    by (auto simp: cluster_assign cluster_zero hubListeners_def)
  have z: "OVHCluster_Spec zero_OVHCluster = zero_OVHClusterSpec"
    "OVHClusterV1_Spec zero_OVHClusterV1 = zero_OVHClusterSpecV1"
    "OVHCluster_Status zero_OVHCluster = zero_OVHClusterStatus"
    "OVHClusterV1_Status zero_OVHClusterV1 = zero_OVHClusterStatusV1"
    by (simp_all add: zero_OVHCluster_def zero_OVHClusterV1_def)
  show ?thesis
    by (simp add: OVHCluster_ConvertFrom_def OVHCluster_ConvertTo_def Let_def
        hubListeners_def [symmetric] ls listeners_forth [OF assms])
      (simp add: z cluster_spec_forth cluster_status_forth hubListeners_def dropHubOnly_def)
qed

section \<open>Witnesses\<close>

definition sampleListener :: OVHListenerV1 where
  "sampleListener = \<lparr>OVHListenerV1_Name = ''api'', OVHListenerV1_Port = 6443,
     OVHListenerV1_Protocol = ''TCP'', OVHListenerV1_BackendPort = 6443\<rparr>"

definition sampleClusterV1 :: OVHClusterV1 where
  "sampleClusterV1 = zero_OVHClusterV1\<lparr>
     OVHClusterV1_Spec := zero_OVHClusterSpecV1\<lparr>OVHClusterSpecV1_Region := ''GRA9'',
       OVHClusterSpecV1_LoadBalancerConfig := zero_OVHLoadBalancerConfigV1\<lparr>
         OVHLoadBalancerConfigV1_Listeners := [sampleListener]\<rparr>\<rparr>,
     OVHClusterV1_Status := zero_OVHClusterStatusV1\<lparr>
       OVHClusterStatusV1_FailureReason := ''CreateError''\<rparr>\<rparr>"

theorem OVHCluster_ConvertTo_refused_witness:
  "OVHCluster_ConvertTo (sampleClusterV1\<lparr>OVHClusterV1_Spec := zero_OVHClusterSpecV1\<lparr>
       OVHClusterSpecV1_LoadBalancerConfig := zero_OVHLoadBalancerConfigV1\<lparr>
         OVHLoadBalancerConfigV1_Listeners :=
           [sampleListener, sampleListener\<lparr>OVHListenerV1_Protocol := ''QUIC''\<rparr>]\<rparr>\<rparr>\<rparr>)
     (HubOVHCluster zero_OVHCluster)
   = Inl (Wrap (''listener '' @ strconv_Quote ''api'' @ '': '')
       (Plain (''unknown protocol '' @ strconv_Quote ''QUIC'')) '''')"
  unfolding OVHCluster_ConvertTo_refused
  by (intro exI [of _ "[sampleListener]"] exI [of _ "sampleListener\<lparr>OVHListenerV1_Protocol := ''QUIC''\<rparr>"]
      exI [of _ "[]"] exI [of _ "Plain (''unknown protocol '' @ strconv_Quote ''QUIC'')"])
    (simp add: listenersOf_def sampleListener_def supportedProtocol_def convertProtocolToV1Alpha2_def)

theorem hub_roundtrip_witness:
  "list_all (\<lambda>l. supportedProtocol (OVHListener_Protocol l)) (hubListeners zero_OVHCluster) \<and>
   (\<exists>c. OVHCluster_ConvertFrom zero_OVHClusterV1 (HubOVHCluster zero_OVHCluster) = Inr c
    \<and> OVHCluster_ConvertTo c (HubOVHCluster zero_OVHCluster) = Inr (dropHubOnly zero_OVHCluster))"
proof -
  have "list_all (\<lambda>l. supportedProtocol (OVHListener_Protocol l)) (hubListeners zero_OVHCluster)"
    by (simp add: hubListeners_def cluster_zero)
  from this hub_roundtrip [OF this] show ?thesis by blast
qed

end
