(* ===== verification/Webhooks.thy ===== *)
theory Webhooks
  imports Conversion
begin

text \<open>
  The validating webhooks of both versions (\<^verbatim>\<open>api/*/*_webhook.go\<close>), and
  \<^verbatim>\<open>net.ParseIP\<close> of Go's library, which one of them calls. A validator returns an
  error or nothing; it never returns warnings.
\<close>

section \<open>IP addresses\<close>

text \<open>The loop of \<^verbatim>\<open>netip.parseIPv4Fields\<close>: \<open>fresh\<close> at the start and
  after a dot, then the value and the number of digits of the current octet and the octets read.\<close>

fun parseIPv4Fields :: "string \<Rightarrow> bool \<Rightarrow> nat \<Rightarrow> nat \<Rightarrow> nat list \<Rightarrow> nat list option" where
  "parseIPv4Fields [] fresh val digLen octets =
     (if length octets < 3 then None else Some (octets @ [val]))"
| "parseIPv4Fields (c # s) fresh val digLen octets =
     (let n = (of_char c :: nat) in
      if 48 \<le> n \<and> n \<le> 57 then
        (if digLen = 1 \<and> val = 0 then None
         else let v = val * 10 + (n - 48) in
           if v > 255 then None else parseIPv4Fields s False v (digLen + 1) octets)
      else if c = CHR ''.'' then
        (if fresh \<or> s = [] then None
         else if length octets = 3 then None
         else parseIPv4Fields s True 0 0 (octets @ [val]))
      else None)"

definition parseIPv4 :: "string \<Rightarrow> nat list option" where
  "parseIPv4 s = parseIPv4Fields s True 0 0 []"

text \<open>The loop of \<^verbatim>\<open>netip.parseIPv6\<close> at byte \<open>i\<close> of the address; \<open>ell\<close> says
  that an ellipsis was read. \<open>finishIPv6\<close> is the code after the loop.\<close>

definition finishIPv6 :: "string \<Rightarrow> nat \<Rightarrow> bool \<Rightarrow> bool" where
  "finishIPv6 s i ell = (s = [] \<and> (if i < 16 then ell else \<not> ell))"

function parseIPv6Groups :: "string \<Rightarrow> nat \<Rightarrow> bool \<Rightarrow> bool" where
  "parseIPv6Groups s i ell =
     (if i \<ge> 16 then finishIPv6 s i ell
      else let off = length (takeWhile isHexDigit s) in
        if off = 0 \<or> off > 4 then False
        else case drop off s of
            [] \<Rightarrow> finishIPv6 [] (i + 2) ell
          | c # t \<Rightarrow>
              if c = CHR ''.'' then
                (if \<not> ell \<and> i \<noteq> 12 then False
                 else if i + 4 > 16 then False
                 else if parseIPv4 s = None then False
                 else finishIPv6 [] (i + 4) ell)
              else if c \<noteq> CHR '':'' then False
              else (case t of
                  [] \<Rightarrow> False
                | d # u \<Rightarrow>
                    if d = CHR '':'' then
                      (if ell then False
                       else if u = [] then finishIPv6 [] (i + 2) True
                       else parseIPv6Groups u (i + 2) True)
                    else parseIPv6Groups t (i + 2) ell))"
  by pat_completeness auto
termination by (relation "measure (\<lambda>(s, i, ell). 16 - i)") auto

declare parseIPv6Groups.simps [simp del]

definition parseIPv6 :: "string \<Rightarrow> bool" where
  "parseIPv6 s =
     (if CHR ''%'' \<in> set s then False
      else if take 2 s = ''::'' then
        (if drop 2 s = [] then True else parseIPv6Groups (drop 2 s) 0 True)
      else parseIPv6Groups s 0 False)"

text \<open>\<^verbatim>\<open>net.ParseIP(s) != nil\<close>: the first of the characters dot, colon and percent
  decides; an address with a zone is refused.\<close>

definition net_ParseIP :: "string \<Rightarrow> bool" where
  "net_ParseIP s =
     (case dropWhile (\<lambda>c. c \<notin> {CHR ''.'', CHR '':'', CHR ''%''}) s of
        [] \<Rightarrow> False
      | c # _ \<Rightarrow>
          if c = CHR ''.'' then parseIPv4 s \<noteq> None
          else if c = CHR '':'' then parseIPv6 s
          else False)"

section \<open>Objects given to a webhook\<close>

datatype RuntimeObject =
  ObjOVHCluster OVHCluster | ObjOVHMachine OVHMachine
  | ObjOVHClusterV1 OVHClusterV1 | ObjOVHMachineV1 OVHMachineV1
  | ObjOther string \<comment> \<open>the name of its type\<close>

fun objectType :: "RuntimeObject \<Rightarrow> string" where
  "objectType (ObjOVHCluster _) = ''*v1alpha2.OVHCluster''"
| "objectType (ObjOVHMachine _) = ''*v1alpha2.OVHMachine''"
| "objectType (ObjOVHClusterV1 _) = ''*v1alpha1.OVHCluster''"
| "objectType (ObjOVHMachineV1 _) = ''*v1alpha1.OVHMachine''"
| "objectType (ObjOther t) = t"

text \<open>A failing check appends its message to \<^verbatim>\<open>errs\<close>.\<close>

definition check :: "bool \<Rightarrow> string \<Rightarrow> string list" where
  "check bad msg = (if bad then [msg] else [])"

lemma check_Nil [simp]: "check bad msg = [] \<longleftrightarrow> \<not> bad"
  by (simp add: check_def)

section \<open>v1alpha2\<close>

definition clusterProblems :: "OVHCluster \<Rightarrow> string list" where
  "clusterProblems c =
     (let spec = OVHCluster_Spec c; secret = OVHClusterSpec_IdentitySecret spec in
      check (OVHClusterSpec_ServiceName spec = '''') ''spec.serviceName is required'' @
      check (OVHClusterSpec_Region spec = '''') ''spec.region is required'' @
      check (SecretKey_Name secret = '''') ''spec.identitySecret.name is required'' @
      check (SecretKey_Namespace secret = '''') ''spec.identitySecret.namespace is required'' @
      check (OVHLoadBalancerConfig_SubnetID (OVHClusterSpec_LoadBalancerConfig spec) = ''''
             \<and> OVHClusterSpec_NetworkConfig spec = None)
        ''either spec.loadBalancerConfig.subnetID or spec.networkConfig must be provided'' @
      (case OVHClusterSpec_NetworkConfig spec of
         None \<Rightarrow> []
       | Some nc \<Rightarrow>
           check (OVHNetworkConfig_PrivateNetworkID nc = '''' \<and> OVHNetworkConfig_SubnetCIDR nc = '''')
             ''spec.networkConfig requires either privateNetworkID or subnetCIDR'' @
           check (OVHNetworkConfig_Gateway nc \<noteq> '''' \<and> \<not> net_ParseIP (OVHNetworkConfig_Gateway nc))
             (''spec.networkConfig.gateway '' @ strconv_Quote (OVHNetworkConfig_Gateway nc) @
              '' is not a valid IP address'')))"

definition validateOVHCluster :: "OVHCluster \<Rightarrow> gerror option" where
  "validateOVHCluster c =
     (let errs = clusterProblems c in
      if length errs > 0
      then Some (Plain (''validation failed for OVHCluster '' @
             ObjectMeta_Namespace (OVHCluster_ObjectMeta c) @ ''/'' @
             ObjectMeta_Name (OVHCluster_ObjectMeta c) @ '': '' @ strings_Join errs ''; ''))
      else None)"



definition OVHClusterValidator_ValidateDelete :: "RuntimeObject \<Rightarrow> gerror option" where
  "OVHClusterValidator_ValidateDelete obj = None"

fun volumeProblems :: "nat \<Rightarrow> OVHVolume list \<Rightarrow> string list" where
  "volumeProblems i [] = []"
| "volumeProblems i (vol # vols) =
     check (OVHVolume_Name vol = '''')
       (''spec.additionalVolumes['' @ formatUint i 10 @ ''].name is required'') @
     check (OVHVolume_SizeGB vol < 1)
       (''spec.additionalVolumes['' @ formatUint i 10 @ ''].sizeGB must be >= 1'') @
     volumeProblems (i + 1) vols"

definition machineProblems :: "OVHMachine \<Rightarrow> string list" where
  "machineProblems m =
     (let spec = OVHMachine_Spec m in
      check (OVHMachineSpec_FlavorName spec = '''') ''spec.flavorName is required'' @
      check (OVHMachineSpec_ImageName spec = '''') ''spec.imageName is required'' @
      check (OVHMachineSpec_RootDiskSize spec < 0) ''spec.rootDiskSize must be >= 0'' @
      volumeProblems 0 (OVHMachineSpec_AdditionalVolumes spec))"

definition validateOVHMachine :: "OVHMachine \<Rightarrow> gerror option" where
  "validateOVHMachine m =
     (let errs = machineProblems m in
      if length errs > 0
      then Some (Plain (''validation failed for OVHMachine '' @
             ObjectMeta_Namespace (OVHMachine_ObjectMeta m) @ ''/'' @
             ObjectMeta_Name (OVHMachine_ObjectMeta m) @ '': '' @ strings_Join errs ''; ''))
      else None)"

definition OVHMachineValidator_ValidateCreate :: "RuntimeObject \<Rightarrow> gerror option" where
  "OVHMachineValidator_ValidateCreate obj =
     (case obj of
        ObjOVHMachine m \<Rightarrow> validateOVHMachine m
      | _ \<Rightarrow> Some (Plain (''expected OVHMachine, got '' @ objectType obj)))"

definition OVHMachineValidator_ValidateUpdate ::
  "RuntimeObject \<Rightarrow> RuntimeObject \<Rightarrow> gerror option" where
  "OVHMachineValidator_ValidateUpdate oldObj newObj =
     (case newObj of
        ObjOVHMachine m \<Rightarrow> validateOVHMachine m
      | _ \<Rightarrow> Some (Plain (''expected OVHMachine, got '' @ objectType newObj)))"

definition OVHMachineValidator_ValidateDelete :: "RuntimeObject \<Rightarrow> gerror option" where
  "OVHMachineValidator_ValidateDelete obj = None"

section \<open>v1alpha1\<close>

definition clusterProblemsV1 :: "OVHClusterV1 \<Rightarrow> string list" where
  "clusterProblemsV1 c =
     (let spec = OVHClusterV1_Spec c; secret = OVHClusterSpecV1_IdentitySecret spec in
      check (OVHClusterSpecV1_ServiceName spec = '''') ''spec.serviceName is required'' @
      check (OVHClusterSpecV1_Region spec = '''') ''spec.region is required'' @
      check (SecretKeyV1_Name secret = '''') ''spec.identitySecret.name is required'' @
      check (SecretKeyV1_Namespace secret = '''') ''spec.identitySecret.namespace is required'' @
      check (OVHLoadBalancerConfigV1_SubnetID (OVHClusterSpecV1_LoadBalancerConfig spec) = ''''
             \<and> OVHClusterSpecV1_NetworkConfig spec = None)
        ''either spec.loadBalancerConfig.subnetID or spec.networkConfig must be provided'' @
      (case OVHClusterSpecV1_NetworkConfig spec of
         None \<Rightarrow> []
       | Some nc \<Rightarrow>
           check (OVHNetworkConfigV1_PrivateNetworkID nc = '''' \<and> OVHNetworkConfigV1_SubnetCIDR nc = '''')
             ''spec.networkConfig requires either privateNetworkID or subnetCIDR'' @
           check (OVHNetworkConfigV1_Gateway nc \<noteq> '''' \<and> \<not> net_ParseIP (OVHNetworkConfigV1_Gateway nc))
             (''spec.networkConfig.gateway '' @ strconv_Quote (OVHNetworkConfigV1_Gateway nc) @
              '' is not a valid IP address'')))"

definition validateOVHClusterV1 :: "OVHClusterV1 \<Rightarrow> gerror option" where
  "validateOVHClusterV1 c =
     (let errs = clusterProblemsV1 c in
      if length errs > 0
      then Some (Plain (''validation failed for OVHCluster '' @
             ObjectMeta_Namespace (OVHClusterV1_ObjectMeta c) @ ''/'' @
             ObjectMeta_Name (OVHClusterV1_ObjectMeta c) @ '': '' @ strings_Join errs ''; ''))
      else None)"

definition OVHClusterValidatorV1_ValidateCreate :: "RuntimeObject \<Rightarrow> gerror option" where
  "OVHClusterValidatorV1_ValidateCreate obj =
     (case obj of
        ObjOVHClusterV1 c \<Rightarrow> validateOVHClusterV1 c
      | _ \<Rightarrow> Some (Plain (''expected OVHCluster, got '' @ objectType obj)))"

definition OVHClusterValidatorV1_ValidateUpdate ::
  "RuntimeObject \<Rightarrow> RuntimeObject \<Rightarrow> gerror option" where
  "OVHClusterValidatorV1_ValidateUpdate oldObj newObj =
     (case newObj of
        ObjOVHClusterV1 c \<Rightarrow> validateOVHClusterV1 c
      | _ \<Rightarrow> Some (Plain (''expected OVHCluster, got '' @ objectType newObj)))"

definition OVHClusterValidatorV1_ValidateDelete :: "RuntimeObject \<Rightarrow> gerror option" where
  "OVHClusterValidatorV1_ValidateDelete obj = None"

fun volumeProblemsV1 :: "nat \<Rightarrow> OVHVolumeV1 list \<Rightarrow> string list" where
  "volumeProblemsV1 i [] = []"
| "volumeProblemsV1 i (vol # vols) =
     check (OVHVolumeV1_Name vol = '''')
       (''spec.additionalVolumes['' @ formatUint i 10 @ ''].name is required'') @
     check (OVHVolumeV1_SizeGB vol < 1)
       (''spec.additionalVolumes['' @ formatUint i 10 @ ''].sizeGB must be >= 1'') @
     volumeProblemsV1 (i + 1) vols"

definition machineProblemsV1 :: "OVHMachineV1 \<Rightarrow> string list" where
  "machineProblemsV1 m =
     (let spec = OVHMachineV1_Spec m in
      check (OVHMachineSpecV1_FlavorName spec = '''') ''spec.flavorName is required'' @
      check (OVHMachineSpecV1_ImageName spec = '''') ''spec.imageName is required'' @
      check (OVHMachineSpecV1_RootDiskSize spec < 0) ''spec.rootDiskSize must be >= 0'' @
      volumeProblemsV1 0 (OVHMachineSpecV1_AdditionalVolumes spec))"

definition validateOVHMachineV1 :: "OVHMachineV1 \<Rightarrow> gerror option" where
  "validateOVHMachineV1 m =
     (let errs = machineProblemsV1 m in
      if length errs > 0
      then Some (Plain (''validation failed for OVHMachine '' @
             ObjectMeta_Namespace (OVHMachineV1_ObjectMeta m) @ ''/'' @
             ObjectMeta_Name (OVHMachineV1_ObjectMeta m) @ '': '' @ strings_Join errs ''; ''))
      else None)"

definition OVHMachineValidatorV1_ValidateCreate :: "RuntimeObject \<Rightarrow> gerror option" where
  "OVHMachineValidatorV1_ValidateCreate obj =
     (case obj of
        ObjOVHMachineV1 m \<Rightarrow> validateOVHMachineV1 m
      | _ \<Rightarrow> Some (Plain (''expected OVHMachine, got '' @ objectType obj)))"

definition OVHMachineValidatorV1_ValidateUpdate ::
  "RuntimeObject \<Rightarrow> RuntimeObject \<Rightarrow> gerror option" where
  "OVHMachineValidatorV1_ValidateUpdate oldObj newObj =
     (case newObj of
        ObjOVHMachineV1 m \<Rightarrow> validateOVHMachineV1 m
      | _ \<Rightarrow> Some (Plain (''expected OVHMachine, got '' @ objectType newObj)))"

definition OVHMachineValidatorV1_ValidateDelete :: "RuntimeObject \<Rightarrow> gerror option" where
  "OVHMachineValidatorV1_ValidateDelete obj = None"

section \<open>What the validators accept\<close>


definition validMachine :: "OVHMachine \<Rightarrow> bool" where
  "validMachine m =
     (let spec = OVHMachine_Spec m in
      OVHMachineSpec_FlavorName spec \<noteq> '''' \<and> OVHMachineSpec_ImageName spec \<noteq> ''''
      \<and> OVHMachineSpec_RootDiskSize spec \<ge> 0
      \<and> list_all (\<lambda>v. OVHVolume_Name v \<noteq> '''' \<and> OVHVolume_SizeGB v \<ge> 1)
          (OVHMachineSpec_AdditionalVolumes spec))"

text \<open>
  The contract of a validator: on objects of its own type it accepts exactly the valid ones, on
  creation and on update alike, and it refuses every other object.
\<close>

locale admission =
  fixes create :: "RuntimeObject \<Rightarrow> gerror option"
    and update :: "RuntimeObject \<Rightarrow> RuntimeObject \<Rightarrow> gerror option"
    and inject :: "'o \<Rightarrow> RuntimeObject"
    and valid :: "'o \<Rightarrow> bool"
  assumes own: "create (inject x) = None \<longleftrightarrow> valid x"
    and foreign: "(\<And>x. obj \<noteq> inject x) \<Longrightarrow> create obj \<noteq> None"
    and same: "update old obj = create obj"
begin

lemma admitted_iff: "create obj = None \<longleftrightarrow> (\<exists>x. obj = inject x \<and> valid x)"
  using own foreign by metis

lemma stays_valid:
  "create obj = None \<Longrightarrow> list_all (\<lambda>u. update obj u = None) us
    \<Longrightarrow> list_all (\<lambda>u. \<exists>x. u = inject x \<and> valid x) (obj # us)"
  by (simp add: same admitted_iff [symmetric])

end

lemma volumeProblems_Nil:
  "volumeProblems i vs = [] \<longleftrightarrow> list_all (\<lambda>v. OVHVolume_Name v \<noteq> '''' \<and> OVHVolume_SizeGB v \<ge> 1) vs"
  by (induction i vs rule: volumeProblems.induct) auto


lemma validateOVHMachine_valid: "validateOVHMachine m = None \<longleftrightarrow> validMachine m"
  by (auto simp: validateOVHMachine_def machineProblems_def validMachine_def Let_def
      volumeProblems_Nil)


interpretation machine_admission: admission
  OVHMachineValidator_ValidateCreate OVHMachineValidator_ValidateUpdate ObjOVHMachine validMachine
  by unfold_locales
    (auto simp: OVHMachineValidator_ValidateCreate_def OVHMachineValidator_ValidateUpdate_def
      validateOVHMachine_valid split: RuntimeObject.splits)


text \<open>The machine webhook admits an object exactly when it is a hub machine with a flavor, an
  image, a root disk that is not negative, and only named volumes of at least one gigabyte.\<close>

lemma machine_admitted_iff:
  "OVHMachineValidator_ValidateCreate obj = None \<longleftrightarrow> (\<exists>m. obj = ObjOVHMachine m \<and> validMachine m)"
  by (rule machine_admission.admitted_iff)

section \<open>Validation and conversion\<close>

lemma volumeProblems_convert:
  "volumeProblems i (map convertVolumeTo vs) = volumeProblemsV1 i vs"
  by (induction i vs rule: volumeProblemsV1.induct) (auto simp: convertVolumeTo_def)

lemma clusterProblems_convert:
  "clusterProblems (h\<lparr>OVHCluster_Spec := assignClusterSpecTo (OVHClusterV1_Spec c) ls zero_OVHClusterSpec\<rparr>)
     = clusterProblemsV1 c"
  by (simp add: clusterProblems_def clusterProblemsV1_def Let_def cluster_assign cluster_zero
      convertNetworkConfigTo_def split: option.split)

text \<open>C32: a cluster of the old version that converts to the hub is judged by the hub's webhook
  exactly as by its own, with the same message; neither version can smuggle in a cluster that the
  other one refuses.\<close>

theorem cluster_validation_commutes:
  assumes "OVHCluster_ConvertTo c (HubOVHCluster zero_OVHCluster) = Inr h"
  shows "validateOVHCluster h = validateOVHClusterV1 c"
proof -
  from assms obtain ls where h: "h = zero_OVHCluster\<lparr>
      OVHCluster_ObjectMeta := OVHClusterV1_ObjectMeta c,
      OVHCluster_Status := assignClusterStatusTo (OVHClusterV1_Status c) zero_OVHClusterStatus,
      OVHCluster_Spec := assignClusterSpecTo (OVHClusterV1_Spec c) ls zero_OVHClusterSpec\<rparr>"
    by (auto simp: OVHCluster_ConvertTo_def zero_OVHCluster_def split: sum.splits)
  show ?thesis
    unfolding validateOVHCluster_def validateOVHClusterV1_def h clusterProblems_convert
    by (simp add: Let_def)
qed

text \<open>The same for machines, which always convert.\<close>

lemma machine_validation_commutes:
  "\<exists>h. OVHMachine_ConvertTo m (HubOVHMachine zero_OVHMachine) = Inr h
     \<and> validateOVHMachine h = validateOVHMachineV1 m"
  by (auto simp: OVHMachine_ConvertTo_def validateOVHMachine_def validateOVHMachineV1_def
      machineProblems_def machineProblemsV1_def convertMachineSpecTo_def zero_OVHMachine_def
      zero_OVHMachineSpec_def volumeProblems_convert Let_def)

theorem cluster_validation_commutes_witness:
  "\<exists>h. OVHCluster_ConvertTo sampleClusterV1 (HubOVHCluster zero_OVHCluster) = Inr h
     \<and> validateOVHCluster h = validateOVHClusterV1 sampleClusterV1
     \<and> validateOVHClusterV1 sampleClusterV1 \<noteq> None"
proof -
  obtain h where h: "OVHCluster_ConvertTo sampleClusterV1 (HubOVHCluster zero_OVHCluster) = Inr h"
    by (simp add: OVHCluster_ConvertTo_def sampleClusterV1_def sampleListener_def
        convertListenerTo_def convertProtocolToV1Alpha2_def)
  have "validateOVHClusterV1 sampleClusterV1 \<noteq> None"
    by (simp add: validateOVHClusterV1_def clusterProblemsV1_def sampleClusterV1_def
        zero_OVHClusterSpecV1_def check_def Let_def)
  with h cluster_validation_commutes [OF h] show ?thesis by auto
qed

end
