(* ===== verification/Util.thy ===== *)
theory Util
  imports Api_Types
begin

text \<open>
  \<^verbatim>\<open>util/util.go\<close> and \<^verbatim>\<open>util/cloudinit.go\<close>: resource names, provider IDs,
  the effective SSH key, user data, and the construction of a client from the identity secret.
\<close>

section \<open>Resource names\<close>

definition rfc1035Allowed :: "char \<Rightarrow> bool" where
  "rfc1035Allowed c =
     (let n = (of_char c :: nat) in
      97 \<le> n \<and> n \<le> 122 \<or> 48 \<le> n \<and> n \<le> 57 \<or> c = CHR ''-'')"

definition rfc1035Replace :: "string \<Rightarrow> string" where
  "rfc1035Replace s = map (\<lambda>c. if rfc1035Allowed c then c else CHR ''-'') s"

definition GenerateRFC1035Name :: "string list \<Rightarrow> string" where
  "GenerateRFC1035Name parts =
     (let name = strings_ToLower (strings_Join parts ''-'');
          name = rfc1035Replace name;
          name = strings_Trim name (CHR ''-'')
      in if length name > 63
         then strings_TrimRight (take 63 name) (CHR ''-'')
         else name)"

section \<open>Provider IDs\<close>

definition ProviderIDFromInstance :: "string \<Rightarrow> string \<Rightarrow> string" where
  "ProviderIDFromInstance region instanceID = ''ovhcloud://'' @ region @ ''/'' @ instanceID"

definition ParseProviderID :: "string \<Rightarrow> gerror + string \<times> string" where
  "ParseProviderID providerID =
     (if \<not> strings_HasPrefix providerID ''ovhcloud://''
      then Inl (Plain (''invalid providerID format: '' @ strconv_Quote providerID @
             '' (expected ovhcloud://<region>/<instanceID>)''))
      else (case strings_SplitN2 (strings_TrimPrefix providerID ''ovhcloud://'') (CHR ''/'') of
              [r, i] \<Rightarrow>
                if r = '''' \<or> i = ''''
                then Inl (Plain (''invalid providerID format: '' @ strconv_Quote providerID))
                else Inr (r, i)
            | _ \<Rightarrow> Inl (Plain (''invalid providerID format: '' @ strconv_Quote providerID))))"

section \<open>SSH keys and user data\<close>

definition GetSSHKeyName :: "string \<Rightarrow> string \<Rightarrow> string" where
  "GetSSHKeyName machineSSHKey clusterSSHKey =
     (if machineSSHKey \<noteq> '''' then machineSSHKey else clusterSSHKey)"

definition PrepareUserData :: "string \<Rightarrow> gerror + string" where
  "PrepareUserData bootstrapData =
     (if length bootstrapData = 0 then Inl (Plain ''bootstrap data is empty'')
      else Inr bootstrapData)"

section \<open>The client of a cluster\<close>

text \<open>\<open>getSecret\<close> is the read of a Secret through the Kubernetes client.\<close>

definition GetOVHClientFromCluster :: "(string \<Rightarrow> string \<Rightarrow> gerror + Secret)
    \<Rightarrow> (string \<Rightarrow> string \<Rightarrow> string \<Rightarrow> string \<Rightarrow> gerror + 'w api) \<Rightarrow> OVHCluster
    \<Rightarrow> gerror + 'w Client" where
  "GetOVHClientFromCluster getSecret goovh ovhCluster =
     (let secretRef = OVHClusterSpec_IdentitySecret (OVHCluster_Spec ovhCluster) in
      case getSecret (SecretKey_Namespace secretRef) (SecretKey_Name secretRef) of
        Inl e \<Rightarrow> Inl (Wrap (''getting OVH identity secret '' @ SecretKey_Namespace secretRef @ ''/'' @
                   SecretKey_Name secretRef @ '': '') e '''')
      | Inr secret \<Rightarrow>
          NewClientFromSecret goovh secret
            (OVHClusterSpec_ServiceName (OVHCluster_Spec ovhCluster))
            (OVHClusterSpec_Region (OVHCluster_Spec ovhCluster)))"

section \<open>Properties of names\<close>

lemma rfc1035Allowed_dash [simp]: "rfc1035Allowed (CHR ''-'')"
  by (simp add: rfc1035Allowed_def)

lemma rfc1035Allowed_lower: "rfc1035Allowed c \<Longrightarrow> toLowerChar c = c"
  by (auto simp: rfc1035Allowed_def toLowerChar_def Let_def)

lemma set_TrimRight: "set (strings_TrimRight s c) \<subseteq> set s"
  unfolding strings_TrimRight_def by (metis set_dropWhileD set_rev subsetI)

lemma set_TrimLeft: "set (strings_TrimLeft s c) \<subseteq> set s"
  unfolding strings_TrimLeft_def by (auto dest: set_dropWhileD)

lemma set_Trim: "set (strings_Trim s c) \<subseteq> set s"
  unfolding strings_Trim_def using set_TrimRight set_TrimLeft by fast

lemma hd_TrimLeft: "strings_TrimLeft s c \<noteq> [] \<Longrightarrow> hd (strings_TrimLeft s c) \<noteq> c"
  unfolding strings_TrimLeft_def using hd_dropWhile [of "\<lambda>x. x = c" s] by blast

lemma last_TrimRight: "strings_TrimRight s c \<noteq> [] \<Longrightarrow> last (strings_TrimRight s c) \<noteq> c"
  unfolding strings_TrimRight_def
  using hd_dropWhile [of "\<lambda>x. x = c" "rev s"] by (simp only: last_rev rev_is_Nil_conv) blast

lemma TrimRight_prefix: "\<exists>u. s = strings_TrimRight s c @ u"
  unfolding strings_TrimRight_def
  by (metis rev_append rev_rev_ident takeWhile_dropWhile_id)

lemma hd_TrimRight: "strings_TrimRight s c \<noteq> [] \<Longrightarrow> hd (strings_TrimRight s c) = hd s"
  by (metis TrimRight_prefix hd_append2)

lemma length_TrimRight: "length (strings_TrimRight s c) \<le> length s"
  by (metis TrimRight_prefix length_append le_add1)

lemma TrimRight_id: "s = [] \<or> last s \<noteq> c \<Longrightarrow> strings_TrimRight s c = s"
  unfolding strings_TrimRight_def by (cases s rule: rev_cases) auto

lemma TrimLeft_id: "s = [] \<or> hd s \<noteq> c \<Longrightarrow> strings_TrimLeft s c = s"
  unfolding strings_TrimLeft_def by (cases s) auto

lemma hd_Trim: "strings_Trim s c \<noteq> [] \<Longrightarrow> hd (strings_Trim s c) \<noteq> c"
  unfolding strings_Trim_def
  by (metis hd_TrimLeft hd_TrimRight TrimRight_id)

lemma last_Trim: "strings_Trim s c \<noteq> [] \<Longrightarrow> last (strings_Trim s c) \<noteq> c"
  unfolding strings_Trim_def by (rule last_TrimRight)

lemma set_rfc1035Replace: "c \<in> set (rfc1035Replace s) \<Longrightarrow> rfc1035Allowed c"
  by (auto simp: rfc1035Replace_def)

text \<open>What a well-formed resource name is: the alphabet, the length and the ends.\<close>

definition nameOK :: "string \<Rightarrow> bool" where
  "nameOK s \<longleftrightarrow> list_all rfc1035Allowed s \<and> length s \<le> 63
     \<and> (s \<noteq> [] \<longrightarrow> hd s \<noteq> CHR ''-'' \<and> last s \<noteq> CHR ''-'')"

lemma GenerateRFC1035Name_nameOK: "nameOK (GenerateRFC1035Name parts)"
proof -
  let ?n = "strings_Trim (rfc1035Replace (strings_ToLower (strings_Join parts ''-''))) (CHR ''-'')"
  have all: "\<forall>ch \<in> set ?n. rfc1035Allowed ch"
    using set_Trim set_rfc1035Replace by blast
  show ?thesis
  proof (cases "length ?n > 63")
    case True
    let ?m = "strings_TrimRight (take 63 ?n) (CHR ''-'')"
    have "\<forall>ch \<in> set ?m. rfc1035Allowed ch"
      using all set_TrimRight [of "take 63 ?n"] by (blast dest: in_set_takeD)
    moreover have "length ?m \<le> 63"
      using length_TrimRight [of "take 63 ?n"] by (auto intro: order_trans)
    moreover have "?m \<noteq> [] \<longrightarrow> hd ?m \<noteq> CHR ''-''"
    proof
      assume "?m \<noteq> []"
      then have "hd ?m = hd (take 63 ?n)" by (rule hd_TrimRight)
      also have "\<dots> = hd ?n" by (simp add: hd_take)
      also have "\<dots> \<noteq> CHR ''-''" using True by (intro hd_Trim) auto
      finally show "hd ?m \<noteq> CHR ''-''" .
    qed
    moreover have "?m \<noteq> [] \<longrightarrow> last ?m \<noteq> CHR ''-''"
      using last_TrimRight by blast
    ultimately show ?thesis
      using True by (simp add: nameOK_def GenerateRFC1035Name_def Let_def list_all_iff)
  next
    case False
    then show ?thesis
      using all hd_Trim last_Trim
      by (auto simp: nameOK_def GenerateRFC1035Name_def Let_def list_all_iff)
  qed
qed

lemma GenerateRFC1035Name_fixed:
  assumes "nameOK s"
  shows "GenerateRFC1035Name [s] = s"
proof -
  have "strings_ToLower s = s"
    using assms by (auto simp: nameOK_def list_all_iff strings_ToLower_def rfc1035Allowed_lower
        intro!: map_idI)
  moreover have "rfc1035Replace s = s"
    using assms by (auto simp: nameOK_def list_all_iff rfc1035Replace_def intro!: map_idI)
  moreover have "strings_Trim s (CHR ''-'') = s"
    using assms by (auto simp: nameOK_def strings_Trim_def TrimLeft_id TrimRight_id)
  ultimately show ?thesis
    using assms by (simp add: nameOK_def GenerateRFC1035Name_def)
qed

text \<open>Generating a name from a well-formed name gives that name back, so names are stable
  under regeneration.\<close>

lemma GenerateRFC1035Name_idempotent:
  "GenerateRFC1035Name [GenerateRFC1035Name parts] = GenerateRFC1035Name parts"
  by (intro GenerateRFC1035Name_fixed GenerateRFC1035Name_nameOK)

text \<open>C38: every generated resource name uses only lower-case letters, digits and hyphens, has at
  most 63 characters, and neither starts nor ends with a hyphen; every name of this form, so every
  generated name, is given back when a name is generated from it alone.\<close>

theorem GenerateRFC1035Name_ok:
  "nameOK (GenerateRFC1035Name parts)
   \<and> GenerateRFC1035Name [GenerateRFC1035Name parts] = GenerateRFC1035Name parts"
  by (intro conjI GenerateRFC1035Name_nameOK GenerateRFC1035Name_idempotent)

text \<open>Only the first 63 characters count: two machines whose names, behind the cluster's name, differ
  only later get the same instance name.\<close>

lemma GenerateRFC1035Name_cut:
  assumes "list_all rfc1035Allowed (s @ x)" and "63 \<le> length s" and "hd s \<noteq> CHR ''-''"
    and "x \<noteq> []" and "last x \<noteq> CHR ''-''"
  shows "GenerateRFC1035Name [s @ x] = strings_TrimRight (take 63 s) (CHR ''-'')"
proof -
  have allowed: "\<forall>ch \<in> set (s @ x). rfc1035Allowed ch" using assms(1) by (simp only: list_all_iff)
  then have "strings_ToLower (s @ x) = s @ x" unfolding strings_ToLower_def
    by (intro map_idI) (blast intro: rfc1035Allowed_lower)
  moreover have "rfc1035Replace (s @ x) = s @ x"
    unfolding rfc1035Replace_def using allowed by (intro map_idI) auto
  moreover have "strings_Trim (s @ x) (CHR ''-'') = s @ x"
    using assms(2-5) by (cases s) (auto simp: strings_Trim_def TrimLeft_id TrimRight_id)
  moreover have "63 < length (s @ x)" using assms(2,4) by (cases x) simp_all
  ultimately show ?thesis using assms(2) by (simp add: GenerateRFC1035Name_def)
qed

lemma GenerateRFC1035Name_collides:
  assumes "list_all rfc1035Allowed (c @ ''-'' @ m)" and "c \<noteq> []" and "hd c \<noteq> CHR ''-''"
    and "63 \<le> length (c @ ''-'' @ m)"
    and "list_all rfc1035Allowed x" "x \<noteq> []" "last x \<noteq> CHR ''-''"
    and "list_all rfc1035Allowed y" "y \<noteq> []" "last y \<noteq> CHR ''-''"
  shows "GenerateRFC1035Name [c, m @ x] = GenerateRFC1035Name [c, m @ y]"
proof -
  have "GenerateRFC1035Name [c, m @ z] = strings_TrimRight (take 63 (c @ ''-'' @ m)) (CHR ''-'')"
    if "list_all rfc1035Allowed z" "z \<noteq> []" "last z \<noteq> CHR ''-''" for z
    using GenerateRFC1035Name_cut [of "c @ ''-'' @ m" z] that assms(1-4) by (simp add: GenerateRFC1035Name_def)
  with assms(5-10) show ?thesis by metis
qed

section \<open>Properties of provider IDs\<close>

lemma ParseProviderID_prefix:
  "ParseProviderID (''ovhcloud://'' @ rest) =
     (case strings_SplitN2 rest (CHR ''/'') of
        [r, i] \<Rightarrow> if r = '''' \<or> i = ''''
          then Inl (Plain (''invalid providerID format: '' @ strconv_Quote (''ovhcloud://'' @ rest)))
          else Inr (r, i)
      | _ \<Rightarrow> Inl (Plain (''invalid providerID format: '' @ strconv_Quote (''ovhcloud://'' @ rest))))"
  unfolding ParseProviderID_def
  by (cases "strings_SplitN2 rest (CHR ''/'')" rule: list.exhaust)
    (simp_all add: strings_HasPrefix_def strings_TrimPrefix_def split: list.split)

lemma SplitN2_append:
  "c \<notin> set r \<Longrightarrow> strings_SplitN2 (r @ c # i) c = [r, i]"
  by (induction r) (auto simp: strings_SplitN2_def)

lemma SplitN2_pair:
  assumes "strings_SplitN2 s c = [r, i]"
  shows "s = r @ c # i \<and> c \<notin> set r"
proof -
  from assms have c: "c \<in> set s" and r: "r = takeWhile (\<lambda>x. x \<noteq> c) s"
    and i: "i = tl (dropWhile (\<lambda>x. x \<noteq> c) s)"
    by (auto simp: strings_SplitN2_def split: if_splits)
  from c have "dropWhile (\<lambda>x. x \<noteq> c) s \<noteq> []" by (simp add: dropWhile_eq_Nil_conv)
  then have "dropWhile (\<lambda>x. x \<noteq> c) s = c # i"
    unfolding i by (metis (mono_tags, lifting) hd_dropWhile list.collapse)
  then show ?thesis unfolding r by (metis (mono_tags, lifting) set_takeWhileD takeWhile_dropWhile_id)
qed

text \<open>C35: parsing inverts printing and printing inverts parsing: a provider ID parses to
  \<open>(r, i)\<close> exactly when it is the one printed for \<open>r\<close> and \<open>i\<close>, both are
  non-empty and the region contains no slash.\<close>

theorem ParseProviderID_iff:
  "ParseProviderID p = Inr (r, i) \<longleftrightarrow>
     p = ProviderIDFromInstance r i \<and> r \<noteq> '''' \<and> i \<noteq> '''' \<and> CHR ''/'' \<notin> set r"
proof
  assume p: "ParseProviderID p = Inr (r, i)"
  then have "strings_HasPrefix p ''ovhcloud://''"
    by (auto simp: ParseProviderID_def split: if_splits)
  then obtain rest where rest: "p = ''ovhcloud://'' @ rest"
    unfolding strings_HasPrefix_def by (metis append_take_drop_id)
  with p have "strings_SplitN2 rest (CHR ''/'') = [r, i] \<and> r \<noteq> '''' \<and> i \<noteq> ''''"
    by (auto simp del: append.simps simp: ParseProviderID_prefix split: list.splits if_splits)
  with rest show "p = ProviderIDFromInstance r i \<and> r \<noteq> '''' \<and> i \<noteq> '''' \<and> CHR ''/'' \<notin> set r"
    by (auto simp: ProviderIDFromInstance_def dest!: SplitN2_pair)
next
  assume p: "p = ProviderIDFromInstance r i \<and> r \<noteq> '''' \<and> i \<noteq> '''' \<and> CHR ''/'' \<notin> set r"
  then have "strings_SplitN2 (r @ ''/'' @ i) (CHR ''/'') = [r, i]"
    using SplitN2_append [of "CHR ''/''" r i] by simp
  with p show "ParseProviderID p = Inr (r, i)"
    unfolding ProviderIDFromInstance_def
    by (simp only: ParseProviderID_prefix) (simp split: list.splits)
qed

end
