(* ===== verification/Workload.thy ===== *)
theory Workload
  imports Util
begin

text \<open>
  \<^verbatim>\<open>util/node_init.go\<close>: the initialisation of a node of the workload cluster. The typed
  Kubernetes client is a parameter: a read or a patch of a node takes the state of the outside
  world and gives an answer and a new state. \<^verbatim>\<open>encoding/json\<close> is modelled on the one
  type that is marshalled, a list of taints.
\<close>

record Taint =
  Taint_Key :: string
  Taint_Value :: string
  Taint_Effect :: string
  Taint_TimeAdded :: "string option" \<comment> \<open>in its JSON form\<close>

record Node =
  Node_ProviderID :: string
  Node_Taints :: "Taint list"

record 'w Clientset =
  Clientset_getNode :: "string \<Rightarrow> 'w \<Rightarrow> (gerror + Node) \<times> 'w"
  Clientset_patchNode :: "string \<Rightarrow> string \<Rightarrow> 'w \<Rightarrow> (gerror + Node) \<times> 'w"

text \<open>A \<^verbatim>\<open>rest.Config\<close> is what \<^verbatim>\<open>kubernetes.NewForConfig\<close> makes of it.\<close>

record 'w RestConfig =
  RestConfig_newForConfig :: "gerror + 'w Clientset"

abbreviation uninitializedTaintKey :: string where
  "uninitializedTaintKey \<equiv> ''node.cloudprovider.kubernetes.io/uninitialized''"

section \<open>Taints\<close>

definition hasUninitializedTaint :: "Node \<Rightarrow> bool" where
  "hasUninitializedTaint node = list_ex (\<lambda>t. Taint_Key t = uninitializedTaintKey) (Node_Taints node)"

definition removeTaint :: "Taint list \<Rightarrow> Taint list" where
  "removeTaint taints = filter (\<lambda>t. Taint_Key t \<noteq> uninitializedTaintKey) taints"

text \<open>The JSON of a string: quotes, backslashes, control characters and the three characters
  that are unsafe in HTML are escaped.\<close>

definition jsonChar :: "char \<Rightarrow> string" where
  "jsonChar c =
     (let n = (of_char c :: nat); bs = char_of (92::nat);
          u = bs # ''u00'' @ [digitChar (n div 16), digitChar (n mod 16)] in
      if n = 34 \<or> n = 92 then [bs, c]
      else if n = 8 then bs # ''b'' else if n = 12 then bs # ''f''
      else if n = 10 then bs # ''n'' else if n = 13 then bs # ''r''
      else if n = 9 then bs # ''t''
      else if n < 32 \<or> n = 38 \<or> n = 60 \<or> n = 62 then u
      else [c])"

abbreviation dq :: string where "dq \<equiv> [char_of (34::nat)]"

definition jsonString :: "string \<Rightarrow> string" where
  "jsonString s = dq @ concat (map jsonChar s) @ dq"

definition jsonField :: "string \<Rightarrow> string \<Rightarrow> string" where
  "jsonField name val = dq @ name @ dq @ '':'' @ val"

definition jsonTaint :: "Taint \<Rightarrow> string" where
  "jsonTaint t =
     ''{'' @ strings_Join
       ([jsonField ''key'' (jsonString (Taint_Key t))] @
        (if Taint_Value t = '''' then [] else [jsonField ''value'' (jsonString (Taint_Value t))]) @
        [jsonField ''effect'' (jsonString (Taint_Effect t))] @
        (case Taint_TimeAdded t of None \<Rightarrow> [] | Some a \<Rightarrow> [jsonField ''timeAdded'' (jsonString a)]))
       '','' @ ''}''"

definition json_Marshal :: "Taint list \<Rightarrow> string" where
  "json_Marshal ts = ''['' @ strings_Join (map jsonTaint ts) '','' @ '']''"

section \<open>Node initialisation\<close>

definition providerIDPatch :: "string \<Rightarrow> string" where
  "providerIDPatch providerID =
     ''{'' @ dq @ ''spec'' @ dq @ '':{'' @ dq @ ''providerID'' @ dq @ '':'' @ strconv_Quote providerID @ ''}}''"

definition taintsPatch :: "Taint list \<Rightarrow> string" where
  "taintsPatch ts =
     ''{'' @ dq @ ''spec'' @ dq @ '':{'' @ dq @ ''taints'' @ dq @ '':'' @ json_Marshal ts @ ''}}''"

definition getNode :: "'w Clientset \<Rightarrow> string \<Rightarrow> ('o, 'w, gerror + Node) act" where
  "getNode cs name = do { _ \<leftarrow> emit (Kube (NodeGet name)); askEnv (Clientset_getNode cs name) }"

definition patchNode :: "'w Clientset \<Rightarrow> string \<Rightarrow> string \<Rightarrow> ('o, 'w, gerror + Node) act" where
  "patchNode cs name p =
     do { _ \<leftarrow> emit (Kube (NodePatch name p)); askEnv (Clientset_patchNode cs name p) }"

text \<open>The second half of the function: the removal of the taint on a fresh copy of the node.\<close>

definition removeNodeTaint :: "'w Clientset \<Rightarrow> string \<Rightarrow> ('o, 'w, unit) act" where
  "removeNodeTaint cs nodeName = do {
     r \<leftarrow> getNode cs nodeName;
     (case r of
        Inl e \<Rightarrow> ret ()
      | Inr node \<Rightarrow>
          let newTaints = removeTaint (Node_Taints node) in
          if length newTaints \<noteq> length (Node_Taints node)
          then do { _ \<leftarrow> patchNode cs nodeName (taintsPatch newTaints); ret () }
          else ret ())
   }"

definition initializeNode :: "'w RestConfig \<Rightarrow> string \<Rightarrow> string \<Rightarrow> ('o, 'w, unit) act" where
  "initializeNode workloadConfig nodeName providerID =
     (case RestConfig_newForConfig workloadConfig of
        Inl e \<Rightarrow> ret ()
      | Inr cs \<Rightarrow> do {
          r \<leftarrow> getNode cs nodeName;
          (case r of
             Inl e \<Rightarrow> ret ()
           | Inr node \<Rightarrow>
               let needsProviderID = Node_ProviderID node = '''';
                   needsTaintRemoval = hasUninitializedTaint node in
               if \<not> needsProviderID \<and> \<not> needsTaintRemoval then ret ()
               else do {
                 p \<leftarrow> (if needsProviderID then patchNode cs nodeName (providerIDPatch providerID)
                       else ret (Inr node));
                 (case p of
                    Inl e \<Rightarrow> ret ()
                  | Inr _ \<Rightarrow> if needsTaintRemoval then removeNodeTaint cs nodeName else ret ())
               })
        })"

definition InitializeWorkloadNode :: "'w RestConfig \<Rightarrow> string \<Rightarrow> string \<Rightarrow> ('o, 'w, unit) act" where
  "InitializeWorkloadNode workloadConfig nodeName providerID =
     (if providerID = '''' then ret ()
      else do {
        _ \<leftarrow> initializeNode workloadConfig nodeName providerID;
        emit (Observe NodeInitDuration [])
      })"

section \<open>Properties\<close>

lemma hasUninitializedTaint_iff:
  "hasUninitializedTaint node \<longleftrightarrow> removeTaint (Node_Taints node) \<noteq> Node_Taints node"
  unfolding hasUninitializedTaint_def removeTaint_def
  by (induction "Node_Taints node" arbitrary: node)
    (auto simp: list_ex_iff filter_id_conv)

lemma filter_length_iff: "length (filter P xs) = length xs \<longleftrightarrow> filter P xs = xs"
proof
  assume len: "length (filter P xs) = length xs"
  have "P x" if "x \<in> set xs" for x
    using that len length_filter_less [of x xs P] by force
  then show "filter P xs = xs" by (simp add: filter_id_conv)
qed simp

lemma removeTaint_length:
  "length (removeTaint ts) = length ts \<longleftrightarrow> removeTaint ts = ts"
  unfolding removeTaint_def by (rule filter_length_iff)

text \<open>The requests node initialisation may send.\<close>

definition nodeInitEvent :: "string \<Rightarrow> string \<Rightarrow> event \<Rightarrow> bool" where
  "nodeInitEvent nodeName providerID e \<longleftrightarrow>
     e = Kube (NodeGet nodeName) \<or> e = Kube (NodePatch nodeName (providerIDPatch providerID))
     \<or> (\<exists>ts. e = Kube (NodePatch nodeName (taintsPatch (removeTaint ts))))
     \<or> e = Observe NodeInitDuration []"

lemma emits_getNode [emits_intros]: "P (Kube (NodeGet name)) \<Longrightarrow> emits P (getNode cs name)"
  unfolding getNode_def by (intro emits_intros)

lemma emits_patchNode [emits_intros]:
  "P (Kube (NodePatch name p)) \<Longrightarrow> emits P (patchNode cs name p)"
  unfolding patchNode_def by (intro emits_intros)

lemma keepsObj_node [keepsObj_intros]: "keepsObj (getNode cs name)" "keepsObj (patchNode cs name p)"
  unfolding getNode_def patchNode_def by (intro keepsObj_intros)+

lemma InitializeWorkloadNode_emits:
  "emits (nodeInitEvent nodeName providerID) (InitializeWorkloadNode cfg nodeName providerID)"
  unfolding InitializeWorkloadNode_def initializeNode_def removeNodeTaint_def
  by (intro emits_intros) (auto simp: nodeInitEvent_def)

lemma InitializeWorkloadNode_keepsObj [keepsObj_intros]:
  "keepsObj (InitializeWorkloadNode cfg nodeName providerID)"
  unfolding InitializeWorkloadNode_def initializeNode_def removeNodeTaint_def
  by (intro keepsObj_intros)

lemma InitializeWorkloadNode_runs [runs_intros]:
  "(\<And>e. nodeInitEvent nodeName providerID e \<Longrightarrow> P e)
    \<Longrightarrow> runs I P (InitializeWorkloadNode cfg nodeName providerID)"
  by (rule runs_extern)
    (auto intro!: externI InitializeWorkloadNode_keepsObj intro: emits_mono InitializeWorkloadNode_emits)

text \<open>
  What the provider relies on of a workload API server: a read returns the stored node, or an error
  if there is none, and a merge patch of a stored node replaces the field it names. \<open>nodes\<close>
  reads the nodes out of the state of the world.
\<close>

definition honestNodes :: "'w Clientset \<Rightarrow> ('w \<Rightarrow> string \<Rightarrow> Node option) \<Rightarrow> string \<Rightarrow> string
    \<Rightarrow> Taint list \<Rightarrow> bool" where
  "honestNodes cs nodes n p ts \<longleftrightarrow>
     (\<forall>w. case nodes w n of
        None \<Rightarrow> \<exists>e. Clientset_getNode cs n w = (Inl e, w)
      | Some node \<Rightarrow>
          Clientset_getNode cs n w = (Inr node, w) \<and>
          (\<exists>a w'. Clientset_patchNode cs n (providerIDPatch p) w = (Inr a, w')
             \<and> nodes w' = (nodes w)(n \<mapsto> node\<lparr>Node_ProviderID := p\<rparr>)) \<and>
          (\<exists>a w'. Clientset_patchNode cs n (taintsPatch ts) w = (Inr a, w')
             \<and> nodes w' = (nodes w)(n \<mapsto> node\<lparr>Node_Taints := ts\<rparr>)))"

lemma removeNodeTaint_effect:
  assumes "honestNodes cs nodes n p ts" and "nodes (st_env s) n = Some x"
    and "ts = removeTaint (Node_Taints x)"
  shows "nodes (st_env (snd (run_state (removeNodeTaint cs n) s)))
    = (nodes (st_env s))(n \<mapsto> x\<lparr>Node_Taints := ts\<rparr>)"
proof -
  from assms(1,2) obtain a w' where
    "Clientset_getNode cs n (st_env s) = (Inr x, st_env s)"
    and "Clientset_patchNode cs n (taintsPatch ts) (st_env s) = (Inr a, w')"
    and "nodes w' = (nodes (st_env s))(n \<mapsto> x\<lparr>Node_Taints := ts\<rparr>)"
    unfolding honestNodes_def by (force dest: spec [of _ "st_env s"])
  with assms(2,3) show ?thesis
    by (auto simp: removeNodeTaint_def getNode_def patchNode_def Let_def removeTaint_length)
qed

text \<open>C27: on an API server that answers honestly, initialising an existing node gives it the
  machine's provider ID if and only if it had none, removes the uninitialised taint and no other,
  and changes nothing else in the cluster.\<close>

theorem InitializeWorkloadNode_effect:
  assumes "RestConfig_newForConfig cfg = Inr cs" and "providerID \<noteq> ''''"
    and "nodes (st_env s) n = Some x"
    and "honestNodes cs nodes n providerID (removeTaint (Node_Taints x))"
  shows "nodes (st_env (snd (run_state (InitializeWorkloadNode cfg n providerID) s)))
    = (nodes (st_env s))(n \<mapsto> x\<lparr>
        Node_ProviderID := (if Node_ProviderID x = '''' then providerID else Node_ProviderID x),
        Node_Taints := removeTaint (Node_Taints x)\<rparr>)"
proof -
  let ?ts = "removeTaint (Node_Taints x)"
  from assms(3,4) obtain a w' where
    get: "Clientset_getNode cs n (st_env s) = (Inr x, st_env s)"
    and patch: "Clientset_patchNode cs n (providerIDPatch providerID) (st_env s) = (Inr a, w')"
    and w': "nodes w' = (nodes (st_env s))(n \<mapsto> x\<lparr>Node_ProviderID := providerID\<rparr>)"
    unfolding honestNodes_def by (force dest: spec [of _ "st_env s"])
  have taint: "nodes (st_env (snd (run_state (removeNodeTaint cs n) t)))
      = (nodes (st_env t))(n \<mapsto> y\<lparr>Node_Taints := ?ts\<rparr>)"
    if "nodes (st_env t) n = Some y" "Node_Taints y = Node_Taints x" for t y
    using that removeNodeTaint_effect [OF assms(4) that(1)] by simp
  have id: "?ts = Node_Taints x" if "\<not> hasUninitializedTaint x"
    using that by (simp add: hasUninitializedTaint_iff)
  show ?thesis
    using assms(1-3) get patch w' id
    by (auto simp: InitializeWorkloadNode_def initializeNode_def getNode_def patchNode_def Let_def
        taint case_prod_beta map_upd_triv split: if_splits)
qed

section \<open>Witnesses\<close>

text \<open>A cluster of nodes stored in a map, patched with one provider ID and one list of taints.\<close>

definition sampleNodes :: "(string \<Rightarrow> Node option) Clientset" where
  "sampleNodes = \<lparr>
     Clientset_getNode = (\<lambda>n w. case w n of
         None \<Rightarrow> (Inl (StatusError ''NotFound'' ''node not found''), w) | Some x \<Rightarrow> (Inr x, w)),
     Clientset_patchNode = (\<lambda>n p w. case w n of
         None \<Rightarrow> (Inl (StatusError ''NotFound'' ''node not found''), w)
       | Some x \<Rightarrow>
           let y = (if p = providerIDPatch ''ovhcloud://GRA9/i-1''
                    then x\<lparr>Node_ProviderID := ''ovhcloud://GRA9/i-1''\<rparr>
                    else x\<lparr>Node_Taints := []\<rparr>)
           in (Inr y, w(n \<mapsto> y)))\<rparr>"

definition sampleNode :: Node where
  "sampleNode = \<lparr>Node_ProviderID = '''', Node_Taints = [\<lparr>Taint_Key = uninitializedTaintKey,
     Taint_Value = ''true'', Taint_Effect = ''NoSchedule'', Taint_TimeAdded = None\<rparr>]\<rparr>"

theorem InitializeWorkloadNode_effect_witness:
  "st_env (snd (run_state (InitializeWorkloadNode \<lparr>RestConfig_newForConfig = Inr sampleNodes\<rparr>
      ''a-b'' ''ovhcloud://GRA9/i-1'')
      \<lparr>st_obj = (), st_env = [''a-b'' \<mapsto> sampleNode], st_trace = []\<rparr>))
    = [''a-b'' \<mapsto> \<lparr>Node_ProviderID = ''ovhcloud://GRA9/i-1'', Node_Taints = []\<rparr>]"
proof -
  have none: "removeTaint (Node_Taints sampleNode) = []"
    by (simp add: removeTaint_def sampleNode_def)
  have "taintsPatch [] \<noteq> providerIDPatch ''ovhcloud://GRA9/i-1''"
    by (simp add: taintsPatch_def providerIDPatch_def)
  then have "honestNodes sampleNodes (\<lambda>w. w) ''a-b'' ''ovhcloud://GRA9/i-1''
      (removeTaint (Node_Taints sampleNode))"
    by (auto simp: honestNodes_def sampleNodes_def none Let_def split: option.split)
  from InitializeWorkloadNode_effect [OF _ _ _ this, of "\<lparr>RestConfig_newForConfig = Inr sampleNodes\<rparr>"
      "\<lparr>st_obj = (), st_env = [''a-b'' \<mapsto> sampleNode], st_trace = []\<rparr>"]
  show ?thesis
    by (simp add: none) (simp add: sampleNode_def)
qed

end
