(* ===== verification/Management.thy ===== *)
theory Management
  imports Workload
begin

text \<open>
  What the reconcilers use of the management cluster and of the libraries around it:
  controller-runtime's client and finalizer helpers, Cluster API's conditions, pause check,
  owner lookups and kubeconfig secrets, the OVH SDK's constructor, and \<^verbatim>\<open>time.Parse\<close>. All
  of it is code outside the repository and a parameter of the model: a value of \<open>Deps\<close>.
  The laws a property relies on are hypotheses of that property, stated by the predicates at the
  end of the theory.
\<close>

record 'w Deps =
  Deps_getSecret :: "string \<Rightarrow> string \<Rightarrow> gerror + Secret"
  Deps_goovh :: "string \<Rightarrow> string \<Rightarrow> string \<Rightarrow> string \<Rightarrow> gerror + 'w api"
  Deps_conditionsSet :: "Condition list \<Rightarrow> Condition \<Rightarrow> Condition list"
  Deps_conditionsIsTrue :: "Condition list \<Rightarrow> string \<Rightarrow> bool"
  Deps_ContainsFinalizer :: "string list \<Rightarrow> string \<Rightarrow> bool"
  Deps_AddFinalizer :: "string list \<Rightarrow> string \<Rightarrow> string list"
  Deps_RemoveFinalizer :: "string list \<Rightarrow> string \<Rightarrow> string list"
  Deps_IsPaused :: "Cluster \<Rightarrow> ObjectMeta \<Rightarrow> bool"
  Deps_IsControlPlaneMachine :: "Machine \<Rightarrow> bool"
  Deps_kubeconfigFromSecret :: "string \<Rightarrow> string \<Rightarrow> gerror + string"
  Deps_RESTConfigFromKubeConfig :: "string \<Rightarrow> gerror + 'w RestConfig"
  Deps_parseRFC3339 :: "string \<Rightarrow> bool"
  Deps_getOVHMachine :: "string \<Rightarrow> string \<Rightarrow> gerror + OVHMachine"
  Deps_getOVHCluster :: "string \<Rightarrow> string \<Rightarrow> gerror + OVHCluster"
  Deps_newMachinePatchHelper :: "OVHMachine \<Rightarrow> gerror option"
  Deps_patchMachine :: "OVHMachine \<Rightarrow> OVHMachine \<Rightarrow> gerror option"
  Deps_newClusterPatchHelper :: "OVHCluster \<Rightarrow> gerror option"
  Deps_patchCluster :: "OVHCluster \<Rightarrow> OVHCluster \<Rightarrow> gerror option"
  Deps_GetOwnerMachine :: "ObjectMeta \<Rightarrow> gerror + Machine option"
  Deps_GetClusterFromMetadata :: "Machine \<Rightarrow> gerror + Cluster option"
  Deps_GetOwnerCluster :: "ObjectMeta \<Rightarrow> gerror + Cluster option"
  Deps_listOVHClusters :: "gerror + OVHCluster list"

section \<open>Results\<close>

text \<open>\<^verbatim>\<open>ctrl.Result\<close>: the delay is in nanoseconds.\<close>

record Result =
  Result_RequeueAfter :: int

type_synonym outcome = "Result \<times> gerror option"

abbreviation requeueAfter :: "int \<Rightarrow> outcome" where
  "requeueAfter n \<equiv> (\<lparr>Result_RequeueAfter = n\<rparr>, None)"

abbreviation finished :: outcome where
  "finished \<equiv> requeueAfter 0"

abbreviation failed :: "gerror \<Rightarrow> outcome" where
  "failed e \<equiv> (\<lparr>Result_RequeueAfter = 0\<rparr>, Some e)"

definition requeueDelay :: int where "requeueDelay = 10 * second"
definition requeueDelayLong :: int where "requeueDelayLong = 30 * second"
definition apiServerPort :: int where "apiServerPort = 6443"

lemma requeueDelay_pos [simp]: "0 < requeueDelay" "0 < requeueDelayLong"
  by (simp_all add: requeueDelay_def requeueDelayLong_def)

section \<open>Documented behaviour of the libraries\<close>

text \<open>The finalizer helpers of controller-runtime, on the list of finalizers.\<close>

definition finalizersOK :: "'w Deps \<Rightarrow> bool" where
  "finalizersOK d \<longleftrightarrow>
     (\<forall>fs f. Deps_ContainsFinalizer d fs f \<longleftrightarrow> f \<in> set fs) \<and>
     (\<forall>fs f. set (Deps_AddFinalizer d fs f) = insert f (set fs)) \<and>
     (\<forall>fs f. set (Deps_RemoveFinalizer d fs f) = set fs - {f})"

lemma finalizersOK_removed: "finalizersOK d \<Longrightarrow> f \<notin> set (Deps_RemoveFinalizer d fs f)"
  by (simp add: finalizersOK_def)

text \<open>The condition helpers of Cluster API.\<close>

definition conditionsOK :: "'w Deps \<Rightarrow> bool" where
  "conditionsOK d \<longleftrightarrow>
     (\<forall>cs c t. Deps_conditionsIsTrue d (Deps_conditionsSet d cs c) t =
        (if t = Condition_Type c then Condition_Status c = ConditionTrue
         else Deps_conditionsIsTrue d cs t))"

text \<open>The pause check reads the object's annotations, not its status.\<close>

definition pauseAnnotation :: string where
  "pauseAnnotation = ''cluster.x-k8s.io/paused''"

definition pauseOK :: "'w Deps \<Rightarrow> bool" where
  "pauseOK d \<longleftrightarrow>
     (\<forall>c m. Deps_IsPaused d c m \<longleftrightarrow>
        Cluster_Paused c \<or> map_of (ObjectMeta_Annotations m) pauseAnnotation \<noteq> None)"

section \<open>The deletion protocol\<close>

text \<open>
  The contract both reconcilers keep with the API server, which drops an object only when its
  finalizers are gone: a deletion either leaves the finalizers alone and comes back (with an error or
  after \<open>delay\<close>), or it has \<open>settled\<close> everything and takes its finalizer off.
\<close>

locale deletion_protocol =
  fixes del :: "('o, 'w, 'e, outcome) eff"
    and finalizers :: "'o \<Rightarrow> string list"
    and fin :: string
    and remove :: "string list \<Rightarrow> string list"
    and settled :: "('o, 'w, 'e) st \<Rightarrow> ('o, 'w, 'e) st \<Rightarrow> bool"
    and delay :: int
  assumes outcome: "run_state del s = (r, t) \<Longrightarrow>
    finalizers (st_obj t) = finalizers (st_obj s) \<and> (snd r \<noteq> None \<or> r = requeueAfter delay)
    \<or> r = finished \<and> finalizers (st_obj t) = remove (finalizers (st_obj s)) \<and> settled s t"
begin

lemma released:
  assumes "run_state del s = (r, t)" and "fin \<in> set (finalizers (st_obj s))"
    and "fin \<notin> set (finalizers (st_obj t))"
  shows "settled s t"
  using outcome [OF assms(1)] assms(2,3) by auto

lemma comes_back:
  assumes "run_state del s = (r, t)" and "\<And>fs. fin \<notin> set (remove fs)"
    and "fin \<in> set (finalizers (st_obj t))"
  shows "snd r \<noteq> None \<or> r = requeueAfter delay"
  using outcome [OF assms(1)] assms(2,3) by auto

end

section \<open>An implementation\<close>

text \<open>
  The list functions below satisfy the laws; \<open>sampleDeps\<close> is a management cluster with one
  machine and one cluster, used where a property is applied to a concrete input.
\<close>

definition setCond :: "Condition list \<Rightarrow> Condition \<Rightarrow> Condition list" where
  "setCond cs c = c # filter (\<lambda>x. Condition_Type x \<noteq> Condition_Type c) cs"

definition condTrue :: "Condition list \<Rightarrow> string \<Rightarrow> bool" where
  "condTrue cs t =
     (case find (\<lambda>x. Condition_Type x = t) cs of
        None \<Rightarrow> False | Some c \<Rightarrow> Condition_Status c = ConditionTrue)"

lemma find_filter_other:
  "t \<noteq> u \<Longrightarrow> find (\<lambda>x. f x = t) (filter (\<lambda>x. f x \<noteq> u) xs) = find (\<lambda>x. f x = t) xs"
  by (induction xs) auto

lemma condTrue_setCond:
  "condTrue (setCond cs c) t =
     (if t = Condition_Type c then Condition_Status c = ConditionTrue else condTrue cs t)"
  by (simp add: condTrue_def setCond_def find_filter_other)

definition sampleCluster :: Cluster where
  "sampleCluster = \<lparr>Cluster_Namespace = ''ns'', Cluster_Name = ''a'', Cluster_Paused = False,
     Cluster_InfrastructureRefKind = ''OVHCluster'', Cluster_InfrastructureRefName = ''a'',
     Cluster_InfrastructureProvisioned = Some True\<rparr>"

definition sampleMachine :: Machine where
  "sampleMachine = \<lparr>Machine_Namespace = ''ns'', Machine_Name = ''m'', Machine_Labels = [],
     Machine_DataSecretName = Some ''boot''\<rparr>"

definition sampleSecret :: Secret where
  "sampleSecret = \<lparr>Secret_Namespace = ''ns'', Secret_Name = ''boot'',
     Secret_Data = (\<lambda>k. Some ''data'')\<rparr>"

definition sampleOVHCluster :: OVHCluster where
  "sampleOVHCluster = zero_OVHCluster\<lparr>
     OVHCluster_ObjectMeta := zero_ObjectMeta\<lparr>ObjectMeta_Namespace := ''ns'', ObjectMeta_Name := ''a'',
       ObjectMeta_Finalizers := [ClusterFinalizer]\<rparr>,
     OVHCluster_Spec := zero_OVHClusterSpec\<lparr>OVHClusterSpec_Region := ''GRA9'',
       OVHClusterSpec_ServiceName := ''p''\<rparr>\<rparr>"

definition sampleOVHMachine :: OVHMachine where
  "sampleOVHMachine = zero_OVHMachine\<lparr>
     OVHMachine_ObjectMeta := zero_ObjectMeta\<lparr>ObjectMeta_Namespace := ''ns'', ObjectMeta_Name := ''m'',
       ObjectMeta_Finalizers := [MachineFinalizer]\<rparr>,
     OVHMachine_Spec := zero_OVHMachineSpec\<lparr>OVHMachineSpec_FlavorName := ''b2-7'',
       OVHMachineSpec_ImageName := ''Ubuntu''\<rparr>\<rparr>"

definition sampleDeps :: "'w api \<Rightarrow> 'w Deps" where
  "sampleDeps api = \<lparr>
     Deps_getSecret = (\<lambda>ns n. Inr sampleSecret),
     Deps_goovh = (\<lambda>e k s c. Inr api),
     Deps_conditionsSet = setCond, Deps_conditionsIsTrue = condTrue,
     Deps_ContainsFinalizer = (\<lambda>fs f. f \<in> set fs),
     Deps_AddFinalizer = (\<lambda>fs f. if f \<in> set fs then fs else fs @ [f]),
     Deps_RemoveFinalizer = (\<lambda>fs f. filter (\<lambda>x. x \<noteq> f) fs),
     Deps_IsPaused = (\<lambda>c m. Cluster_Paused c
        \<or> map_of (ObjectMeta_Annotations m) pauseAnnotation \<noteq> None),
     Deps_IsControlPlaneMachine = (\<lambda>m. False),
     Deps_kubeconfigFromSecret = (\<lambda>ns n. Inl (StatusError ''NotFound'' ''secret not found'')),
     Deps_RESTConfigFromKubeConfig = (\<lambda>s. Inl (Plain ''invalid configuration'')),
     Deps_parseRFC3339 = (\<lambda>s. False),
     Deps_getOVHMachine = (\<lambda>ns n. Inr sampleOVHMachine),
     Deps_getOVHCluster = (\<lambda>ns n. Inr sampleOVHCluster),
     Deps_newMachinePatchHelper = (\<lambda>m. None), Deps_patchMachine = (\<lambda>m m'. None),
     Deps_newClusterPatchHelper = (\<lambda>c. None), Deps_patchCluster = (\<lambda>c c'. None),
     Deps_GetOwnerMachine = (\<lambda>m. Inr (Some sampleMachine)),
     Deps_GetClusterFromMetadata = (\<lambda>m. Inr (Some sampleCluster)),
     Deps_GetOwnerCluster = (\<lambda>m. Inr (Some sampleCluster)),
     Deps_listOVHClusters = Inr [sampleOVHCluster]\<rparr>"

lemma sampleDeps_ok: "finalizersOK (sampleDeps api)" "conditionsOK (sampleDeps api)"
  "pauseOK (sampleDeps api)"
  by (auto simp: finalizersOK_def conditionsOK_def pauseOK_def sampleDeps_def condTrue_setCond)

end
