(* ===== verification/Cluster_Controller.thy ===== *)
theory Cluster_Controller
  imports Management
begin

text \<open>
  The cluster reconciler (\<^verbatim>\<open>internal/controller/ovhcluster_controller.go\<close>). As for
  machines, \<^verbatim>\<open>scope.OVHCluster\<close> is the object of the state monad, deferred calls come
  after the body, and log lines are left out. The three methods that share their name with a method
  of the machine reconciler carry the prefix \<open>Cluster\<close>.
\<close>

record 'w ClusterScope =
  ClusterScope_Cluster :: Cluster
  ClusterScope_OVHClient :: "'w Client"

type_synonym ('w, 'a) cact = "(OVHCluster, 'w, 'a) act"

definition requeueTimeShort :: int where "requeueTimeShort = 30 * second"
definition requeueTimeMedium :: int where "requeueTimeMedium = 60 * second"
definition requeueTimeLong :: int where "requeueTimeLong = 180 * second"

lemma requeueTime_pos [simp]: "0 < requeueTimeShort" "0 < requeueTimeLong"
  by (simp_all add: requeueTimeShort_def requeueTimeLong_def)

abbreviation apiServerListenerName :: string where "apiServerListenerName \<equiv> ''api-server''"
abbreviation apiServerLBPort :: int where "apiServerLBPort \<equiv> 6443"
abbreviation apiServerProtocol :: string where "apiServerProtocol \<equiv> ''tcp''"
abbreviation lbAlgorithm :: string where "lbAlgorithm \<equiv> ''roundRobin''"
abbreviation rke2RegisterListenerName :: string where "rke2RegisterListenerName \<equiv> ''rke2-register''"
abbreviation rke2RegisterLBPort :: int where "rke2RegisterLBPort \<equiv> 9345"

abbreviation OVHConnectionReadyCondition :: string where
  "OVHConnectionReadyCondition \<equiv> ''OVHConnectionReady''"
abbreviation NetworkReadyCondition :: string where "NetworkReadyCondition \<equiv> ''NetworkReady''"
abbreviation NetworkCreatedByControllerCondition :: string where
  "NetworkCreatedByControllerCondition \<equiv> ''NetworkCreatedByController''"
abbreviation LoadBalancerReadyCondition :: string where
  "LoadBalancerReadyCondition \<equiv> ''LoadBalancerReady''"
abbreviation InfrastructureReadyCondition :: string where
  "InfrastructureReadyCondition \<equiv> ''InfrastructureReady''"

section \<open>Writing the cluster\<close>

definition setClusterStatus :: "(OVHClusterStatus \<Rightarrow> OVHClusterStatus) \<Rightarrow> ('w, unit) cact" where
  "setClusterStatus f = modifyObj (\<lambda>c. c\<lparr>OVHCluster_Status := f (OVHCluster_Status c)\<rparr>)"

definition setClusterCondition ::
  "'w Deps \<Rightarrow> string \<Rightarrow> ConditionStatus \<Rightarrow> string \<Rightarrow> string \<Rightarrow> ('w, unit) cact" where
  "setClusterCondition d type status reason message =
     setClusterStatus (\<lambda>s. s\<lparr>OVHClusterStatus_Conditions :=
       Deps_conditionsSet d (OVHClusterStatus_Conditions s)
         \<lparr>Condition_Type = type, Condition_Status = status, Condition_Reason = reason,
          Condition_Message = message\<rparr>\<rparr>)"

definition setClusterFinalizers :: "(string list \<Rightarrow> string list) \<Rightarrow> ('w, unit) cact" where
  "setClusterFinalizers f = modifyObj (\<lambda>c. c\<lparr>OVHCluster_ObjectMeta := (OVHCluster_ObjectMeta c)\<lparr>
     ObjectMeta_Finalizers := f (ObjectMeta_Finalizers (OVHCluster_ObjectMeta c))\<rparr>\<rparr>)"

abbreviation clusterFinalizers :: "OVHCluster \<Rightarrow> string list" where
  "clusterFinalizers c \<equiv> ObjectMeta_Finalizers (OVHCluster_ObjectMeta c)"

abbreviation clusterRegion :: "OVHCluster \<Rightarrow> string" where
  "clusterRegion c \<equiv> OVHClusterSpec_Region (OVHCluster_Spec c)"

abbreviation clusterEndpoint :: "OVHCluster \<Rightarrow> APIEndpoint" where
  "clusterEndpoint c \<equiv> OVHClusterSpec_ControlPlaneEndpoint (OVHCluster_Spec c)"

section \<open>Event mapping\<close>

record Request =
  Request_Namespace :: string
  Request_Name :: string

definition requestFor :: "OVHCluster \<Rightarrow> Request" where
  "requestFor c = \<lparr>Request_Namespace = ObjectMeta_Namespace (OVHCluster_ObjectMeta c),
     Request_Name = ObjectMeta_Name (OVHCluster_ObjectMeta c)\<rparr>"

text \<open>The field index of \<^verbatim>\<open>SetupWithManager\<close>; a listing with matching fields returns the
  clusters whose index contains the value.\<close>

definition identitySecretIndex :: "OVHCluster \<Rightarrow> string list" where
  "identitySecretIndex c =
     (let name = SecretKey_Name (OVHClusterSpec_IdentitySecret (OVHCluster_Spec c)) in
      if name = '''' then [] else [name])"

definition secretToOVHCluster :: "'w Deps \<Rightarrow> Secret \<Rightarrow> Request list" where
  "secretToOVHCluster d secret =
     (case Deps_listOVHClusters d of
        Inl e \<Rightarrow> []
      | Inr clusters \<Rightarrow>
          map requestFor
            (filter (\<lambda>c. SecretKey_Namespace (OVHClusterSpec_IdentitySecret (OVHCluster_Spec c)) =
                         Secret_Namespace secret)
              (filter (\<lambda>c. Secret_Name secret \<in> set (identitySecretIndex c)) clusters)))"

definition clusterToOVHCluster :: "Cluster \<Rightarrow> Request list" where
  "clusterToOVHCluster c =
     (if Cluster_InfrastructureRefKind c = '''' \<and> Cluster_InfrastructureRefName c = '''' then []
      else if Cluster_InfrastructureRefKind c \<noteq> ''OVHCluster'' then []
      else [\<lparr>Request_Namespace = Cluster_Namespace c, Request_Name = Cluster_InfrastructureRefName c\<rparr>])"

section \<open>Failure domains\<close>

definition discoverFailureDomains :: "OVHCluster \<Rightarrow> RegionInfo \<Rightarrow> FailureDomain list" where
  "discoverFailureDomains c info =
     (let wanted = OVHClusterSpec_FailureDomains (OVHCluster_Spec c) in
      if length wanted > 0
      then map (\<lambda>fd. \<lparr>FailureDomain_Name = fd, FailureDomain_ControlPlane = Some True\<rparr>) wanted
      else map (\<lambda>_. \<lparr>FailureDomain_Name = clusterRegion c, FailureDomain_ControlPlane = Some True\<rparr>)
             (filter (\<lambda>svc. RegionService_Name svc = ''instance'' \<and> RegionService_Status svc = ''UP'')
               (RegionInfo_Services info)))"

definition reconcileFailureDomains :: "'w ClusterScope \<Rightarrow> ('w, unit) cact" where
  "reconcileFailureDomains scope = do {
     c \<leftarrow> getObj;
     (if length (OVHClusterStatus_FailureDomains (OVHCluster_Status c)) > 0 then ret ()
      else do {
        r \<leftarrow> GetRegionInfo (ClusterScope_OVHClient scope);
        (case r of
           Inl e \<Rightarrow> ret ()
         | Inr info \<Rightarrow>
             let fds = discoverFailureDomains c info in
             if length fds > 0
             then setClusterStatus (\<lambda>s. s\<lparr>OVHClusterStatus_FailureDomains := fds\<rparr>)
             else ret ())
      })
   }"

section \<open>Security groups\<close>

definition ruleOpts :: "OVHSecurityRule \<Rightarrow> CreateSecurityGroupRuleOpts" where
  "ruleOpts rule = \<lparr>CreateSecurityGroupRuleOpts_Direction = OVHSecurityRule_Direction rule,
     CreateSecurityGroupRuleOpts_Protocol = OVHSecurityRule_Protocol rule,
     CreateSecurityGroupRuleOpts_PortRangeMin = OVHSecurityRule_PortRangeMin rule,
     CreateSecurityGroupRuleOpts_PortRangeMax = OVHSecurityRule_PortRangeMax rule,
     CreateSecurityGroupRuleOpts_RemoteIPPrefix = OVHSecurityRule_RemoteIPPrefix rule,
     CreateSecurityGroupRuleOpts_EtherType = OVHSecurityRule_EtherType rule\<rparr>"

definition sgName :: "'w ClusterScope \<Rightarrow> OVHSecurityGroup \<Rightarrow> string" where
  "sgName scope sg =
     ''capi-'' @ Cluster_Name (ClusterScope_Cluster scope) @ ''-'' @ OVHSecurityGroup_Name sg"

definition recordSG :: "string \<Rightarrow> string \<Rightarrow> ('w, unit) cact" where
  "recordSG name id' = setClusterStatus (\<lambda>s. s\<lparr>OVHClusterStatus_SecurityGroupIDs :=
     AList.update name id' (OVHClusterStatus_SecurityGroupIDs s)\<rparr>)"

text \<open>One round of the loop over the groups of the spec.\<close>

definition reconcileSecurityGroup ::
  "'w ClusterScope \<Rightarrow> (string \<times> string) list \<Rightarrow> OVHSecurityGroup \<Rightarrow> ('w, gerror option) cact" where
  "reconcileSecurityGroup scope existingByName sgSpec = do {
     c \<leftarrow> getObj;
     let name = OVHSecurityGroup_Name sgSpec;
     (if mapGet (OVHClusterStatus_SecurityGroupIDs (OVHCluster_Status c)) name \<noteq> '''' then ret None
      else case map_of existingByName (sgName scope sgSpec) of
          Some id' \<Rightarrow> do { _ \<leftarrow> recordSG name id'; ret None }
        | None \<Rightarrow> do {
            r \<leftarrow> CreateSecurityGroup (ClusterScope_OVHClient scope)
              \<lparr>CreateSecurityGroupOpts_Name = sgName scope sgSpec,
               CreateSecurityGroupOpts_Description =
                 ''CAPIOVH managed for cluster '' @ Cluster_Name (ClusterScope_Cluster scope)\<rparr>;
            (case r of
               Inl e \<Rightarrow> ret (Some (Wrap (''creating security group '' @ strconv_Quote (sgName scope sgSpec) @
                          '': '') e ''''))
             | Inr sg \<Rightarrow> do {
                 _ \<leftarrow> recordSG name (SecurityGroup_ID sg);
                 _ \<leftarrow> forEach (OVHSecurityGroup_Rules sgSpec) (\<lambda>rule. do {
                      _ \<leftarrow> CreateSecurityGroupRule (ClusterScope_OVHClient scope) (SecurityGroup_ID sg) (ruleOpts rule);
                      ret () });
                 ret None
               })
          })
   }"

primrec reconcileEachSecurityGroup ::
  "'w ClusterScope \<Rightarrow> (string \<times> string) list \<Rightarrow> OVHSecurityGroup list \<Rightarrow> ('w, gerror option) cact" where
  "reconcileEachSecurityGroup scope existingByName [] = ret None"
| "reconcileEachSecurityGroup scope existingByName (sg # sgs) = do {
     e \<leftarrow> reconcileSecurityGroup scope existingByName sg;
     (case e of
        Some err \<Rightarrow> ret (Some err)
      | None \<Rightarrow> reconcileEachSecurityGroup scope existingByName sgs)
   }"

text \<open>In \<^verbatim>\<open>existingByName\<close> a later group of the same name replaces an earlier one.\<close>

definition reconcileSecurityGroups :: "'w ClusterScope \<Rightarrow> ('w, gerror option) cact" where
  "reconcileSecurityGroups scope = do {
     c \<leftarrow> getObj;
     let wanted = OVHClusterSpec_SecurityGroups (OVHCluster_Spec c);
     (if length wanted = 0 then ret None
      else do {
        r \<leftarrow> ListSecurityGroups (ClusterScope_OVHClient scope);
        (case r of
           Inl e \<Rightarrow> ret (Some (Wrap ''listing security groups: '' e ''''))
         | Inr existing \<Rightarrow>
             reconcileEachSecurityGroup scope
               (rev (map (\<lambda>sg. (SecurityGroup_Name sg, SecurityGroup_ID sg)) existing)) wanted)
      })
   }"

section \<open>DNS and credentials\<close>

definition dnsOpts :: "'w ClusterScope \<Rightarrow> OVHDNSConfig \<Rightarrow> string \<Rightarrow> CreateDNSRecordOpts" where
  "dnsOpts scope dns host = \<lparr>CreateDNSRecordOpts_FieldType = ''A'',
     CreateDNSRecordOpts_SubDomain =
       (if OVHDNSConfig_RecordName dns = '''' then Cluster_Name (ClusterScope_Cluster scope)
        else OVHDNSConfig_RecordName dns),
     CreateDNSRecordOpts_Target = host,
     CreateDNSRecordOpts_TTL = (if OVHDNSConfig_TTL dns = 0 then 300 else OVHDNSConfig_TTL dns)\<rparr>"

definition reconcileDNS :: "'w ClusterScope \<Rightarrow> ('w, gerror option) cact" where
  "reconcileDNS scope = do {
     c \<leftarrow> getObj;
     (case OVHClusterSpec_DNSConfig (OVHCluster_Spec c) of
        None \<Rightarrow> ret None
      | Some dns \<Rightarrow>
          if OVHClusterStatus_DNSRecordID (OVHCluster_Status c) \<noteq> 0 then ret None
          else if APIEndpoint_Host (clusterEndpoint c) = '''' then ret None
          else do {
            r \<leftarrow> CreateDNSRecord (ClusterScope_OVHClient scope) (OVHDNSConfig_ZoneName dns)
              (dnsOpts scope dns (APIEndpoint_Host (clusterEndpoint c)));
            (case r of
               Inl e \<Rightarrow> ret (Some (Wrap ''creating DNS record: '' e ''''))
             | Inr rec \<Rightarrow> do {
                 _ \<leftarrow> setClusterStatus (\<lambda>s. s\<lparr>OVHClusterStatus_DNSRecordID := DNSRecord_ID rec\<rparr>);
                 _ \<leftarrow> RefreshDNSZone (ClusterScope_OVHClient scope) (OVHDNSConfig_ZoneName dns);
                 ret None
               })
          })
   }"

definition reconcileCredentials :: "'w Deps \<Rightarrow> 'w ClusterScope \<Rightarrow> ('w, gerror option) cact" where
  "reconcileCredentials d scope = do {
     e \<leftarrow> ValidateCredentials (ClusterScope_OVHClient scope);
     (case e of
        Some err \<Rightarrow> do {
          _ \<leftarrow> setClusterCondition d OVHConnectionReadyCondition ConditionFalse
               ''OVHAuthenticationFailed'' (''Failed to validate OVH credentials: '' @ Error_text err);
          ret (Some (Wrap ''validating OVH credentials: '' err ''''))
        }
      | None \<Rightarrow> do {
          _ \<leftarrow> setClusterCondition d OVHConnectionReadyCondition ConditionTrue
               OVHConnectionReadyCondition '''';
          ret None
        })
   }"

section \<open>The private network\<close>

abbreviation errNetworkNotReady :: gerror where
  "errNetworkNotReady \<equiv> Sentinel ''network not yet ACTIVE in region''"

definition subnetRange :: "string \<Rightarrow> string \<times> string" where
  "subnetRange cidr =
     (if CHR ''/'' \<notin> set cidr \<or> dropWhile (\<lambda>b. b \<noteq> CHR ''/'') cidr \<noteq> ''/24'' then ('''', '''')
      else let prefix = takeWhile (\<lambda>b. b \<noteq> CHR ''/'') cidr in
        if CHR ''.'' \<notin> set prefix then ('''', '''')
        else let base = rev (dropWhile (\<lambda>b. b \<noteq> CHR ''.'') (rev prefix)) in
          (base @ ''2'', base @ ''254''))"

text \<open>Step 1: the network of the status, the user's, or a new one.\<close>

definition ensureNetwork :: "'w Deps \<Rightarrow> 'w ClusterScope \<Rightarrow> OVHNetworkConfig \<Rightarrow> ('w, gerror option) cact" where
  "ensureNetwork d scope netConfig = do {
     c \<leftarrow> getObj;
     (if OVHClusterStatus_NetworkID (OVHCluster_Status c) \<noteq> '''' then ret None
      else if OVHNetworkConfig_PrivateNetworkID netConfig \<noteq> '''' then do {
        _ \<leftarrow> setClusterStatus (\<lambda>s. s\<lparr>OVHClusterStatus_NetworkID := OVHNetworkConfig_PrivateNetworkID netConfig\<rparr>);
        ret None
      }
      else do {
        r \<leftarrow> CreatePrivateNetwork (ClusterScope_OVHClient scope)
          \<lparr>CreateNetworkOpts_Name =
             GenerateRFC1035Name [''capi'', Cluster_Name (ClusterScope_Cluster scope), ''net''],
           CreateNetworkOpts_VlanID = OVHNetworkConfig_VlanID netConfig,
           CreateNetworkOpts_Regions = [clusterRegion c]\<rparr>;
        (case r of
           Inl e \<Rightarrow> do {
             _ \<leftarrow> setClusterCondition d NetworkReadyCondition ConditionFalse ''NetworkCreationFailed''
                  (''Failed to create network: '' @ Error_text e);
             ret (Some (Wrap ''creating private network: '' e ''''))
           }
         | Inr network \<Rightarrow> do {
             _ \<leftarrow> setClusterStatus (\<lambda>s. s\<lparr>OVHClusterStatus_NetworkID := PrivateNetwork_ID network\<rparr>);
             _ \<leftarrow> setClusterCondition d NetworkCreatedByControllerCondition ConditionTrue
                  NetworkCreatedByControllerCondition '''';
             ret None
           })
      })
   }"

definition regionStatus :: "PrivateNetwork \<Rightarrow> string \<Rightarrow> string" where
  "regionStatus net region =
     (case find (\<lambda>r. NetworkRegion_Region r = region) (PrivateNetwork_Regions net) of
        None \<Rightarrow> '''' | Some r \<Rightarrow> NetworkRegion_Status r)"

text \<open>Step 2: the network has to be ACTIVE in the region. When it vanished, both IDs are cleared
  before the message is formatted.\<close>

definition checkNetwork :: "'w Deps \<Rightarrow> 'w ClusterScope \<Rightarrow> ('w, gerror option) cact" where
  "checkNetwork d scope = do {
     c \<leftarrow> getObj;
     let region = clusterRegion c;
     let networkID = OVHClusterStatus_NetworkID (OVHCluster_Status c);
     r \<leftarrow> GetPrivateNetwork (ClusterScope_OVHClient scope) networkID;
     (case r of
        Inl e \<Rightarrow>
          if IsNotFound (Some e) then do {
            _ \<leftarrow> setClusterStatus (\<lambda>s. s\<lparr>OVHClusterStatus_NetworkID := '''', OVHClusterStatus_SubnetID := ''''\<rparr>);
            c' \<leftarrow> getObj;
            ret (Some (Plain (''network '' @ OVHClusterStatus_NetworkID (OVHCluster_Status c') @
                   '' vanished, will recreate'')))
          }
          else ret (Some (Wrap (''getting network '' @ networkID @ '': '') e ''''))
      | Inr net \<Rightarrow>
          if regionStatus net region \<noteq> ''ACTIVE'' then do {
            _ \<leftarrow> setClusterCondition d NetworkReadyCondition ConditionFalse ''NetworkCreationFailed''
                 (''Network '' @ PrivateNetwork_ID net @ '' status in '' @ region @ '' is '' @
                  strconv_Quote (regionStatus net region) @ '', waiting for ACTIVE'');
            ret (Some errNetworkNotReady)
          }
          else ret None)
   }"

text \<open>Step 3: the subnet of the status, the first existing one, or a new one.\<close>

definition ensureSubnet :: "'w ClusterScope \<Rightarrow> OVHNetworkConfig \<Rightarrow> ('w, gerror option) cact" where
  "ensureSubnet scope netConfig = do {
     c \<leftarrow> getObj;
     let networkID = OVHClusterStatus_NetworkID (OVHCluster_Status c);
     (if OVHClusterStatus_SubnetID (OVHCluster_Status c) \<noteq> '''' then ret None
      else do {
        r \<leftarrow> ListSubnets (ClusterScope_OVHClient scope) networkID;
        (case r of
           Inl e \<Rightarrow> ret (Some (Wrap ''listing subnets: '' e ''''))
         | Inr (subnet # _) \<Rightarrow> do {
             _ \<leftarrow> setClusterStatus (\<lambda>s. s\<lparr>OVHClusterStatus_SubnetID := Subnet_ID subnet\<rparr>);
             ret None
           }
         | Inr [] \<Rightarrow>
             if OVHNetworkConfig_SubnetCIDR netConfig = '''' then ret None
             else do {
               let range = subnetRange (OVHNetworkConfig_SubnetCIDR netConfig);
               r' \<leftarrow> CreateSubnet (ClusterScope_OVHClient scope) networkID
                 \<lparr>CreateSubnetOpts_Network = OVHNetworkConfig_SubnetCIDR netConfig,
                  CreateSubnetOpts_Start = fst range, CreateSubnetOpts_End = snd range,
                  CreateSubnetOpts_Region = clusterRegion c, CreateSubnetOpts_DHCP = True,
                  CreateSubnetOpts_NoGateway = False\<rparr>;
               (case r' of
                  Inl e \<Rightarrow> ret (Some (Wrap ''creating subnet: '' e ''''))
                | Inr subnet \<Rightarrow> do {
                    _ \<leftarrow> setClusterStatus (\<lambda>s. s\<lparr>OVHClusterStatus_SubnetID := Subnet_ID subnet\<rparr>);
                    ret None
                  })
             })
      })
   }"

text \<open>\<^verbatim>\<open>if err := ...; err != nil { return err }\<close>\<close>

definition andThen :: "('w, gerror option) cact \<Rightarrow> ('w, gerror option) cact \<Rightarrow> ('w, gerror option) cact" where
  "andThen m n = do { e \<leftarrow> m; (case e of Some err \<Rightarrow> ret (Some err) | None \<Rightarrow> n) }"

definition networkReady :: "'w Deps \<Rightarrow> ('w, gerror option) cact" where
  "networkReady d = do {
     _ \<leftarrow> setClusterCondition d NetworkReadyCondition ConditionTrue NetworkReadyCondition '''';
     ret None
   }"

definition reconcileNetwork :: "'w Deps \<Rightarrow> 'w ClusterScope \<Rightarrow> ('w, gerror option) cact" where
  "reconcileNetwork d scope = do {
     c \<leftarrow> getObj;
     (case OVHClusterSpec_NetworkConfig (OVHCluster_Spec c) of
        None \<Rightarrow> networkReady d
      | Some netConfig \<Rightarrow>
          andThen (ensureNetwork d scope netConfig)
            (andThen (checkNetwork d scope)
              (andThen (ensureSubnet scope netConfig) (networkReady d))))
   }"

section \<open>The gateway and the floating IP\<close>

definition gwName :: "'w ClusterScope \<Rightarrow> string" where
  "gwName scope = ''capi-'' @ Cluster_Name (ClusterScope_Cluster scope) @ ''-gw''"

text \<open>The gateway of the status, or the one found under the cluster's name.\<close>

definition discoverGateway :: "'w ClusterScope \<Rightarrow> ('w, gerror option) cact" where
  "discoverGateway scope = do {
     c \<leftarrow> getObj;
     (if OVHClusterStatus_GatewayID (OVHCluster_Status c) \<noteq> '''' then ret None
      else do {
        r \<leftarrow> ListGateways (ClusterScope_OVHClient scope);
        (case r of
           Inl e \<Rightarrow> ret (Some (Wrap ''listing gateways: '' e ''''))
         | Inr gws \<Rightarrow> do {
             _ \<leftarrow> (case find (\<lambda>gw. Gateway_Name gw = gwName scope) gws of
                    None \<Rightarrow> ret ()
                  | Some gw \<Rightarrow> setClusterStatus (\<lambda>s. s\<lparr>OVHClusterStatus_GatewayID := Gateway_ID gw\<rparr>));
             c' \<leftarrow> getObj;
             ret (if OVHClusterStatus_GatewayID (OVHCluster_Status c') = ''''
                  then Some (Plain (''no gateway named '' @ gwName scope @ '' found in region''))
                  else None)
           })
      })
   }"

definition ensureGatewayExposed :: "'w ClusterScope \<Rightarrow> ('w, gerror option) cact" where
  "ensureGatewayExposed scope = do {
     c \<leftarrow> getObj;
     (if OVHClusterStatus_GatewayExposed (OVHCluster_Status c) then ret None
      else andThen (discoverGateway scope) (do {
        c' \<leftarrow> getObj;
        e \<leftarrow> ExposeGateway (ClusterScope_OVHClient scope) (OVHClusterStatus_GatewayID (OVHCluster_Status c'));
        (case e of
           Some err \<Rightarrow> ret (Some (Wrap ''exposing gateway: '' err ''''))
         | None \<Rightarrow> do {
             _ \<leftarrow> setClusterStatus (\<lambda>s. s\<lparr>OVHClusterStatus_GatewayExposed := True\<rparr>);
             ret None
           })
      }))
   }"

definition associatedWith :: "string \<Rightarrow> FloatingIP \<Rightarrow> bool" where
  "associatedWith lbID fip =
     (case FloatingIP_AssociatedEntity fip of
        None \<Rightarrow> False | Some a \<Rightarrow> FloatingIPAssociation_ID a = lbID)"

definition recordFIP :: "string \<Rightarrow> ('w, unit) cact" where
  "recordFIP fipID = setClusterStatus (\<lambda>s. s\<lparr>OVHClusterStatus_FloatingIPID := fipID\<rparr>)"

text \<open>The floating IP that the listing associates with the load balancer; the empty string stands
  for one that is not ready.\<close>

definition listedFloatingIP :: "'w ClusterScope \<Rightarrow> LoadBalancer \<Rightarrow> ('w, string) cact" where
  "listedFloatingIP scope lb = do {
     r \<leftarrow> ListFloatingIPs (ClusterScope_OVHClient scope);
     (case (case r of Inl e \<Rightarrow> None | Inr fips \<Rightarrow> find (associatedWith (LoadBalancer_ID lb)) fips) of
        None \<Rightarrow> ret ''''
      | Some fip \<Rightarrow> do { _ \<leftarrow> recordFIP (FloatingIP_ID fip); ret (FloatingIP_IP fip) })
   }"

text \<open>After the allocation: the real ID is on the load balancer, or in the listing.\<close>

definition locateFloatingIP :: "'w ClusterScope \<Rightarrow> LoadBalancer \<Rightarrow> ('w, string) cact" where
  "locateFloatingIP scope lb = do {
     r \<leftarrow> GetLoadBalancer (ClusterScope_OVHClient scope) (LoadBalancer_ID lb);
     (case (case r of Inl e \<Rightarrow> None | Inr refreshedLB \<Rightarrow> LoadBalancer_FloatingIP refreshedLB) of
        Some ref \<Rightarrow>
          if FloatingIPRef_ID ref \<noteq> '''' then do {
            _ \<leftarrow> recordFIP (FloatingIPRef_ID ref);
            ret (FloatingIPRef_IP ref)
          }
          else listedFloatingIP scope lb
      | None \<Rightarrow> listedFloatingIP scope lb)
   }"

definition allocateFloatingIP :: "'w ClusterScope \<Rightarrow> LoadBalancer \<Rightarrow> ('w, gerror + string) cact" where
  "allocateFloatingIP scope lb =
     (if LoadBalancer_VIPAddress lb = '''' then ret (Inr '''')
      else do {
        r \<leftarrow> CreateLoadBalancerFloatingIP (ClusterScope_OVHClient scope) (LoadBalancer_ID lb)
          (LoadBalancer_VIPAddress lb) (gwName scope);
        (case r of
           Inl e \<Rightarrow> ret (Inl (Wrap ''allocating floating IP for LB: '' e ''''))
         | Inr fip \<Rightarrow> do {
             _ \<leftarrow> ensureGatewayExposed scope;
             ip \<leftarrow> locateFloatingIP scope lb;
             ret (Inr ip)
           })
      })"

text \<open>No recorded ID (or a stale one): look for an association, and allocate only without one.\<close>

definition discoverFloatingIP :: "'w ClusterScope \<Rightarrow> LoadBalancer \<Rightarrow> ('w, gerror + string) cact" where
  "discoverFloatingIP scope lb = do {
     r \<leftarrow> ListFloatingIPs (ClusterScope_OVHClient scope);
     (case (case r of Inl e \<Rightarrow> None | Inr fips \<Rightarrow> find (associatedWith (LoadBalancer_ID lb)) fips) of
        Some fip \<Rightarrow> do {
          _ \<leftarrow> recordFIP (FloatingIP_ID fip);
          _ \<leftarrow> (if FloatingIP_IP fip \<noteq> '''' then ensureGatewayExposed scope else ret None);
          ret (Inr (FloatingIP_IP fip))
        }
      | None \<Rightarrow> allocateFloatingIP scope lb)
   }"

text \<open>A recorded ID, of a floating IP that the load balancer does not show yet.\<close>

definition recordedFloatingIP :: "'w ClusterScope \<Rightarrow> LoadBalancer \<Rightarrow> ('w, gerror + string) cact" where
  "recordedFloatingIP scope lb = do {
     c \<leftarrow> getObj;
     let fipID = OVHClusterStatus_FloatingIPID (OVHCluster_Status c);
     (if fipID = '''' then discoverFloatingIP scope lb
      else do {
        _ \<leftarrow> ensureGatewayExposed scope;
        r \<leftarrow> GetFloatingIP (ClusterScope_OVHClient scope) fipID;
        (case r of
           Inr fip \<Rightarrow> ret (Inr (FloatingIP_IP fip))
         | Inl e \<Rightarrow>
             if IsNotFound (Some e) then do { _ \<leftarrow> recordFIP ''''; discoverFloatingIP scope lb }
             else ret (Inr ''''))
      })
   }"

definition reconcileFloatingIP :: "'w ClusterScope \<Rightarrow> LoadBalancer \<Rightarrow> ('w, gerror + string) cact" where
  "reconcileFloatingIP scope lb =
     (case LoadBalancer_FloatingIP lb of
        Some ref \<Rightarrow>
          if FloatingIPRef_IP ref \<noteq> '''' then do {
            _ \<leftarrow> recordFIP (FloatingIPRef_ID ref);
            _ \<leftarrow> ensureGatewayExposed scope;
            ret (Inr (FloatingIPRef_IP ref))
          }
          else recordedFloatingIP scope lb
      | None \<Rightarrow> recordedFloatingIP scope lb)"

section \<open>Listeners, pools and health monitors\<close>

definition ensurePoolHealthMonitor :: "'w ClusterScope \<Rightarrow> string \<Rightarrow> string \<Rightarrow> ('w, gerror option) cact" where
  "ensurePoolHealthMonitor scope poolID poolName = do {
     let hmName = poolName @ ''-hm'';
     r \<leftarrow> FindHealthMonitorByName (ClusterScope_OVHClient scope) hmName;
     (case r of
        Inl e \<Rightarrow> ret (Some (Wrap (''looking up health monitor '' @ strconv_Quote hmName @ '': '') e ''''))
      | Inr (Some existing) \<Rightarrow> ret None
      | Inr None \<Rightarrow> do {
          r' \<leftarrow> CreateHealthMonitor (ClusterScope_OVHClient scope)
            \<lparr>CreateHealthMonitorOpts_Name = hmName, CreateHealthMonitorOpts_MonitorType = ''tcp'',
             CreateHealthMonitorOpts_Delay = 5, CreateHealthMonitorOpts_Timeout = 3,
             CreateHealthMonitorOpts_MaxRetries = 2, CreateHealthMonitorOpts_PoolID = poolID\<rparr>;
          ret (case r' of
                 Inl e \<Rightarrow> Some (Wrap (''creating health monitor '' @ strconv_Quote hmName @ '': '') e '''')
               | Inr hm \<Rightarrow> None)
        })
   }"

text \<open>A \<^verbatim>\<open>*string\<close> into the status: how to read and how to write the field.\<close>

record statusPtr =
  statusPtr_read :: "OVHClusterStatus \<Rightarrow> string"
  statusPtr_write :: "string \<Rightarrow> OVHClusterStatus \<Rightarrow> OVHClusterStatus"

definition ensureListener :: "'w ClusterScope \<Rightarrow> string \<Rightarrow> int \<Rightarrow> statusPtr \<Rightarrow> ('w, gerror option) cact" where
  "ensureListener scope listenerName port listenerIDPtr = do {
     c \<leftarrow> getObj;
     let lbID = OVHClusterStatus_LoadBalancerID (OVHCluster_Status c);
     (if statusPtr_read listenerIDPtr (OVHCluster_Status c) \<noteq> '''' then ret None
      else do {
        r \<leftarrow> FindListenerByName (ClusterScope_OVHClient scope) lbID listenerName;
        (case r of
           Inl e \<Rightarrow> ret (Some (Wrap (''looking up '' @ listenerName @ '' listener: '') e ''''))
         | Inr (Some existing) \<Rightarrow> do {
             _ \<leftarrow> setClusterStatus (statusPtr_write listenerIDPtr (Listener_ID existing));
             ret None
           }
         | Inr None \<Rightarrow> do {
             r' \<leftarrow> CreateListener (ClusterScope_OVHClient scope)
               \<lparr>CreateListenerOpts_Name = listenerName, CreateListenerOpts_Protocol = apiServerProtocol,
                CreateListenerOpts_Port = port, CreateListenerOpts_LoadBalancerID = lbID,
                CreateListenerOpts_DefaultPoolID = ''''\<rparr>;
             (case r' of
                Inl e \<Rightarrow> ret (Some (Wrap (''creating '' @ listenerName @ '' listener: '') e ''''))
              | Inr listener \<Rightarrow> do {
                  _ \<leftarrow> setClusterStatus (statusPtr_write listenerIDPtr (Listener_ID listener));
                  ret None
                })
           })
      })
   }"

definition ensurePool :: "'w ClusterScope \<Rightarrow> string \<Rightarrow> statusPtr \<Rightarrow> statusPtr \<Rightarrow> ('w, gerror option) cact" where
  "ensurePool scope poolName listenerIDPtr poolIDPtr = do {
     c \<leftarrow> getObj;
     let lbID = OVHClusterStatus_LoadBalancerID (OVHCluster_Status c);
     (if statusPtr_read poolIDPtr (OVHCluster_Status c) \<noteq> '''' then ret None
      else do {
        r \<leftarrow> FindPoolByName (ClusterScope_OVHClient scope) lbID poolName;
        (case r of
           Inl e \<Rightarrow> ret (Some (Wrap (''looking up '' @ poolName @ '' pool: '') e ''''))
         | Inr (Some existing) \<Rightarrow> do {
             _ \<leftarrow> setClusterStatus (statusPtr_write poolIDPtr (Pool_ID existing));
             ret None
           }
         | Inr None \<Rightarrow> do {
             r' \<leftarrow> CreatePool (ClusterScope_OVHClient scope)
               \<lparr>CreatePoolOpts_Name = poolName, CreatePoolOpts_Protocol = apiServerProtocol,
                CreatePoolOpts_Algorithm = lbAlgorithm,
                CreatePoolOpts_ListenerID = statusPtr_read listenerIDPtr (OVHCluster_Status c),
                CreatePoolOpts_LoadBalancerID = lbID\<rparr>;
             (case r' of
                Inl e \<Rightarrow> ret (Some (Wrap (''creating '' @ poolName @ '' pool: '') e ''''))
              | Inr pool \<Rightarrow> do {
                  _ \<leftarrow> setClusterStatus (statusPtr_write poolIDPtr (Pool_ID pool));
                  ret None
                })
           })
      })
   }"

definition reconcileLBPort :: "'w ClusterScope \<Rightarrow> string \<Rightarrow> int \<Rightarrow> statusPtr \<Rightarrow> statusPtr
    \<Rightarrow> ('w, gerror option) cact" where
  "reconcileLBPort scope listenerName port listenerIDPtr poolIDPtr =
     andThen (ensureListener scope listenerName port listenerIDPtr)
       (andThen (ensurePool scope (listenerName @ ''-pool'') listenerIDPtr poolIDPtr) (do {
          c \<leftarrow> getObj;
          _ \<leftarrow> ensurePoolHealthMonitor scope (statusPtr_read poolIDPtr (OVHCluster_Status c))
               (listenerName @ ''-pool'');
          ret None
        }))"

section \<open>The load balancer\<close>

definition apiListenerPtr :: statusPtr where
  "apiListenerPtr = \<lparr>statusPtr_read = OVHClusterStatus_ListenerID,
     statusPtr_write = (\<lambda>v s. s\<lparr>OVHClusterStatus_ListenerID := v\<rparr>)\<rparr>"

definition apiPoolPtr :: statusPtr where
  "apiPoolPtr = \<lparr>statusPtr_read = OVHClusterStatus_PoolID,
     statusPtr_write = (\<lambda>v s. s\<lparr>OVHClusterStatus_PoolID := v\<rparr>)\<rparr>"

definition registerListenerPtr :: statusPtr where
  "registerListenerPtr = \<lparr>statusPtr_read = OVHClusterStatus_RegisterListenerID,
     statusPtr_write = (\<lambda>v s. s\<lparr>OVHClusterStatus_RegisterListenerID := v\<rparr>)\<rparr>"

definition registerPoolPtr :: statusPtr where
  "registerPoolPtr = \<lparr>statusPtr_read = OVHClusterStatus_RegisterPoolID,
     statusPtr_write = (\<lambda>v s. s\<lparr>OVHClusterStatus_RegisterPoolID := v\<rparr>)\<rparr>"

text \<open>The end of \<^verbatim>\<open>handleExistingLB\<close>: the endpoint is set once.\<close>

definition setEndpoint :: "string \<Rightarrow> ('w, unit) cact" where
  "setEndpoint endpointHost = do {
     c \<leftarrow> getObj;
     (if endpointHost \<noteq> '''' \<and> APIEndpoint_Host (clusterEndpoint c) = ''''
      then modifyObj (\<lambda>c. c\<lparr>OVHCluster_Spec := (OVHCluster_Spec c)\<lparr>
             OVHClusterSpec_ControlPlaneEndpoint :=
               \<lparr>APIEndpoint_Host = endpointHost, APIEndpoint_Port = apiServerLBPort\<rparr>\<rparr>\<rparr>)
      else ret ())
   }"

definition publishEndpoint :: "'w Deps \<Rightarrow> string \<Rightarrow> ('w, outcome) cact" where
  "publishEndpoint d endpointHost = do {
     _ \<leftarrow> setEndpoint endpointHost;
     _ \<leftarrow> setClusterCondition d LoadBalancerReadyCondition ConditionTrue LoadBalancerReadyCondition '''';
     ret finished
   }"

definition exposeLB :: "'w Deps \<Rightarrow> 'w ClusterScope \<Rightarrow> LoadBalancer \<Rightarrow> ('w, outcome) cact" where
  "exposeLB d scope lb = do {
     c \<leftarrow> getObj;
     (if OVHLoadBalancerConfig_FloatingNetworkID (OVHClusterSpec_LoadBalancerConfig (OVHCluster_Spec c)) = ''''
      then publishEndpoint d (LoadBalancer_VIPAddress lb)
      else do {
        r \<leftarrow> reconcileFloatingIP scope lb;
        (case r of
           Inl e \<Rightarrow> ret (\<lparr>Result_RequeueAfter = requeueTimeShort\<rparr>, Some e)
         | Inr fipIP \<Rightarrow>
             if fipIP = '''' then ret (requeueAfter requeueTimeShort) else publishEndpoint d fipIP)
      })
   }"

definition handleExistingLB :: "'w Deps \<Rightarrow> 'w ClusterScope \<Rightarrow> LoadBalancer \<Rightarrow> ('w, outcome) cact" where
  "handleExistingLB d scope lb =
     (if LoadBalancer_ProvisioningStatus lb \<noteq> LBProvisioningStatusActive then do {
        _ \<leftarrow> setClusterCondition d LoadBalancerReadyCondition ConditionFalse ''LoadBalancerNotReady''
             (''Load balancer provisioning: '' @ LoadBalancer_ProvisioningStatus lb);
        ret (requeueAfter requeueTimeShort)
      }
      else do {
        e \<leftarrow> andThen
          (reconcileLBPort scope apiServerListenerName apiServerLBPort apiListenerPtr apiPoolPtr)
          (reconcileLBPort scope rke2RegisterListenerName rke2RegisterLBPort registerListenerPtr registerPoolPtr);
        (case e of
           Some err \<Rightarrow> ret (failed err)
         | None \<Rightarrow> exposeLB d scope lb)
      })"

definition lbOpts :: "'w ClusterScope \<Rightarrow> string \<Rightarrow> string \<Rightarrow> string \<Rightarrow> CreateLoadBalancerOpts" where
  "lbOpts scope flavorID osNetID subnetID = \<lparr>
     CreateLoadBalancerOpts_Name =
       GenerateRFC1035Name [''capi'', Cluster_Name (ClusterScope_Cluster scope), ''lb''],
     CreateLoadBalancerOpts_FlavorID = flavorID,
     CreateLoadBalancerOpts_Network = \<lparr>LBNetworkConfig_Private = \<lparr>LBPrivateNetwork_Network =
       \<lparr>LBNetworkRef_ID = osNetID, LBNetworkRef_SubnetID = subnetID\<rparr>\<rparr>\<rparr>\<rparr>"

text \<open>From the call of \<^verbatim>\<open>CreateLoadBalancer\<close> on.\<close>

definition submitLB :: "'w Deps \<Rightarrow> 'w ClusterScope \<Rightarrow> CreateLoadBalancerOpts \<Rightarrow> ('w, outcome) cact" where
  "submitLB d scope opts = do {
     r \<leftarrow> CreateLoadBalancer (ClusterScope_OVHClient scope) opts;
     _ \<leftarrow> emit (Observe LBPollDuration []);
     (case r of
        Inl e \<Rightarrow> do {
          _ \<leftarrow> setClusterCondition d LoadBalancerReadyCondition ConditionFalse ''LoadBalancerCreationFailed''
               (''Failed to create load balancer: '' @ Error_text e);
          ret (failed (Wrap ''creating load balancer: '' e ''''))
        }
      | Inr lb \<Rightarrow> do {
          _ \<leftarrow> setClusterStatus (\<lambda>s. s\<lparr>OVHClusterStatus_LoadBalancerID := LoadBalancer_ID lb\<rparr>);
          ret (requeueAfter requeueTimeShort)
        })
   }"

definition lbSubnetID :: "OVHCluster \<Rightarrow> string" where
  "lbSubnetID c =
     (let configured = OVHLoadBalancerConfig_SubnetID (OVHClusterSpec_LoadBalancerConfig (OVHCluster_Spec c)) in
      if configured = '''' then OVHClusterStatus_SubnetID (OVHCluster_Status c) else configured)"

text \<open>The network and the subnet, after the flavor.\<close>

definition prepareLB :: "'w Deps \<Rightarrow> 'w ClusterScope \<Rightarrow> string \<Rightarrow> ('w, outcome) cact" where
  "prepareLB d scope flavorID = do {
     c \<leftarrow> getObj;
     let networkID = OVHClusterStatus_NetworkID (OVHCluster_Status c);
     (if lbSubnetID c = '''' \<or> networkID = ''''
      then ret (\<lparr>Result_RequeueAfter = requeueTimeShort\<rparr>,
             Some (Plain (''LB requires both networkID and subnetID, got network='' @
               strconv_Quote networkID @ '' subnet='' @ strconv_Quote (lbSubnetID c))))
      else do {
        r \<leftarrow> GetPrivateNetwork (ClusterScope_OVHClient scope) networkID;
        (case r of
           Inl e \<Rightarrow> ret (failed (Wrap ''resolving network for LB: '' e ''''))
         | Inr net \<Rightarrow>
             let osNetID = OpenStackIDForRegion net (clusterRegion c) in
             if osNetID = ''''
             then ret (failed (Plain (''no OpenStack ID for network '' @ networkID @ '' in region '' @ clusterRegion c)))
             else submitLB d scope (lbOpts scope flavorID osNetID (lbSubnetID c)))
      })
   }"

definition createLB :: "'w Deps \<Rightarrow> 'w ClusterScope \<Rightarrow> ('w, outcome) cact" where
  "createLB d scope = do {
     c \<leftarrow> getObj;
     let configured = OVHLoadBalancerConfig_FlavorName (OVHClusterSpec_LoadBalancerConfig (OVHCluster_Spec c));
     let lbFlavorName = (if configured = '''' then ''small'' else configured);
     r \<leftarrow> GetLBFlavorByName (ClusterScope_OVHClient scope) lbFlavorName;
     (case r of
        Inl e \<Rightarrow> do {
          _ \<leftarrow> setClusterCondition d LoadBalancerReadyCondition ConditionFalse ''LoadBalancerCreationFailed''
               (''LB flavor '' @ strconv_Quote lbFlavorName @ '' not found: '' @ Error_text e);
          ret (failed (Wrap (''resolving LB flavor '' @ strconv_Quote lbFlavorName @ '': '') e ''''))
        }
      | Inr lbFlavor \<Rightarrow> prepareLB d scope (LBFlavor_ID lbFlavor))
   }"

definition adoptLB :: "('w, unit) cact" where
  "adoptLB = do {
     c \<leftarrow> getObj;
     let cfg = OVHClusterSpec_LoadBalancerConfig (OVHCluster_Spec c);
     _ \<leftarrow> (if OVHLoadBalancerConfig_ExistingLoadBalancerID cfg \<noteq> ''''
             \<and> OVHClusterStatus_LoadBalancerID (OVHCluster_Status c) = ''''
          then setClusterStatus (\<lambda>s. s\<lparr>OVHClusterStatus_LoadBalancerID :=
                 OVHLoadBalancerConfig_ExistingLoadBalancerID cfg\<rparr>)
          else ret ());
     (if OVHLoadBalancerConfig_ExistingFloatingIPID cfg \<noteq> ''''
         \<and> OVHClusterStatus_FloatingIPID (OVHCluster_Status c) = ''''
      then recordFIP (OVHLoadBalancerConfig_ExistingFloatingIPID cfg)
      else ret ())
   }"

definition reconcileLoadBalancer :: "'w Deps \<Rightarrow> 'w ClusterScope \<Rightarrow> ('w, outcome) cact" where
  "reconcileLoadBalancer d scope = do {
     _ \<leftarrow> adoptLB;
     c \<leftarrow> getObj;
     let lbID = OVHClusterStatus_LoadBalancerID (OVHCluster_Status c);
     (if lbID = '''' then createLB d scope
      else do {
        r \<leftarrow> GetLoadBalancer (ClusterScope_OVHClient scope) lbID;
        (case r of
           Inr lb \<Rightarrow> handleExistingLB d scope lb
         | Inl e \<Rightarrow>
             if IsNotFound (Some e) then do {
               _ \<leftarrow> setClusterStatus (\<lambda>s. s\<lparr>OVHClusterStatus_LoadBalancerID := '''',
                    OVHClusterStatus_ListenerID := '''', OVHClusterStatus_PoolID := ''''\<rparr>);
               createLB d scope
             }
             else ret (failed (Wrap (''getting LB '' @ lbID @ '': '') e '''')))
      })
   }"

section \<open>Reconciling a cluster that is not being deleted\<close>

text \<open>From the load balancer on.\<close>

definition clusterEndGame :: "'w Deps \<Rightarrow> 'w ClusterScope \<Rightarrow> ('w, outcome) cact" where
  "clusterEndGame d scope = do {
     r \<leftarrow> reconcileLoadBalancer d scope;
     (if snd r \<noteq> None \<or> Result_RequeueAfter (fst r) > 0 then ret r
      else do {
        _ \<leftarrow> reconcileDNS scope;
        _ \<leftarrow> setClusterStatus (\<lambda>s. s\<lparr>OVHClusterStatus_Ready := True,
             OVHClusterStatus_Initialization := \<lparr>Initialization_Provisioned = Some True\<rparr>\<rparr>);
        _ \<leftarrow> setClusterCondition d InfrastructureReadyCondition ConditionTrue InfrastructureReadyCondition '''';
        ret (requeueAfter requeueTimeLong)
      })
   }"

definition clusterNormalBody :: "'w Deps \<Rightarrow> 'w ClusterScope \<Rightarrow> ('w, outcome) cact" where
  "clusterNormalBody d scope = do {
     c \<leftarrow> getObj;
     (if \<not> Deps_ContainsFinalizer d (clusterFinalizers c) ClusterFinalizer
         \<and> \<not> ObjectMeta_Deleting (OVHCluster_ObjectMeta c) then do {
        _ \<leftarrow> setClusterFinalizers (\<lambda>fs. Deps_AddFinalizer d fs ClusterFinalizer);
        ret finished
      }
      else do {
        e \<leftarrow> reconcileCredentials d scope;
        (case e of
           Some err \<Rightarrow> ret (\<lparr>Result_RequeueAfter = requeueTimeShort\<rparr>, Some err)
         | None \<Rightarrow> do {
             e' \<leftarrow> reconcileNetwork d scope;
             (case e' of
                Some err \<Rightarrow>
                  if errors_Is err ''network not yet ACTIVE in region''
                  then ret (requeueAfter requeueTimeShort)
                  else ret (\<lparr>Result_RequeueAfter = requeueTimeShort\<rparr>, Some err)
              | None \<Rightarrow> do {
                  _ \<leftarrow> reconcileFailureDomains scope;
                  _ \<leftarrow> reconcileSecurityGroups scope;
                  clusterEndGame d scope
                })
           })
      })
   }"

definition clusterKey :: "OVHCluster \<Rightarrow> string" where
  "clusterKey c = ObjectMeta_Namespace (OVHCluster_ObjectMeta c) @ ''/'' @
     ObjectMeta_Name (OVHCluster_ObjectMeta c)"

definition ClusterReconcileNormal :: "'w Deps \<Rightarrow> 'w ClusterScope \<Rightarrow> ('w, outcome) cact" where
  "ClusterReconcileNormal d scope = do {
     r \<leftarrow> clusterNormalBody d scope;
     _ \<leftarrow> emit (Observe ClusterReconcileDuration [''normal'']);
     c \<leftarrow> getObj;
     _ \<leftarrow> emit (SetGauge ClusterReady [clusterKey c]
          (if OVHClusterStatus_Ready (OVHCluster_Status c) then 1 else 0));
     ret r
   }"

section \<open>Reconciling a cluster that is being deleted\<close>

definition keepsCluster :: "OVHCluster \<Rightarrow> bool" where
  "keepsCluster c \<longleftrightarrow> mapGet (ObjectMeta_Annotations (OVHCluster_ObjectMeta c))
     ''capiovh.cluster.x-k8s.io/adoption-policy'' = ''keep''"

definition removeClusterFinalizer :: "'w Deps \<Rightarrow> ('w, outcome) cact" where
  "removeClusterFinalizer d = do {
     _ \<leftarrow> setClusterFinalizers (\<lambda>fs. Deps_RemoveFinalizer d fs ClusterFinalizer);
     ret finished
   }"

definition cleanupDNS :: "'w ClusterScope \<Rightarrow> ('w, unit) cact" where
  "cleanupDNS scope = do {
     c \<leftarrow> getObj;
     (case OVHClusterSpec_DNSConfig (OVHCluster_Spec c) of
        None \<Rightarrow> ret ()
      | Some dns \<Rightarrow>
          if OVHClusterStatus_DNSRecordID (OVHCluster_Status c) = 0 then ret ()
          else do {
            e \<leftarrow> DeleteDNSRecord (ClusterScope_OVHClient scope) (OVHDNSConfig_ZoneName dns)
              (OVHClusterStatus_DNSRecordID (OVHCluster_Status c));
            (case e of
               Some err \<Rightarrow> ret ()
             | None \<Rightarrow> do {
                 _ \<leftarrow> RefreshDNSZone (ClusterScope_OVHClient scope) (OVHDNSConfig_ZoneName dns);
                 setClusterStatus (\<lambda>s. s\<lparr>OVHClusterStatus_DNSRecordID := 0\<rparr>)
               })
          })
   }"

definition cleanupSecurityGroup :: "'w ClusterScope \<Rightarrow> string \<times> string \<Rightarrow> ('w, unit) cact" where
  "cleanupSecurityGroup scope sg = do {
     e \<leftarrow> DeleteSecurityGroup (ClusterScope_OVHClient scope) (snd sg);
     (case e of
        Some err \<Rightarrow> ret ()
      | None \<Rightarrow> setClusterStatus (\<lambda>s. s\<lparr>OVHClusterStatus_SecurityGroupIDs :=
          AList.delete (fst sg) (OVHClusterStatus_SecurityGroupIDs s)\<rparr>))
   }"

text \<open>The floating IPs to delete: the recorded one, and those attached to the load balancer. A
  repeated ID is taken once.\<close>

fun addMissing :: "string list \<Rightarrow> string list \<Rightarrow> string list" where
  "addMissing acc [] = acc"
| "addMissing acc (x # xs) = addMissing (if x \<in> set acc then acc else acc @ [x]) xs"

definition captureFloatingIPs :: "'w ClusterScope \<Rightarrow> ('w, string list) cact" where
  "captureFloatingIPs scope = do {
     c \<leftarrow> getObj;
     let fipID = OVHClusterStatus_FloatingIPID (OVHCluster_Status c);
     let lbID = OVHClusterStatus_LoadBalancerID (OVHCluster_Status c);
     let known = (if fipID \<noteq> '''' then [fipID] else []);
     (if lbID = '''' then ret known
      else do {
        r \<leftarrow> ListFloatingIPs (ClusterScope_OVHClient scope);
        ret (case r of
               Inl e \<Rightarrow> known
             | Inr fips \<Rightarrow> addMissing known (map FloatingIP_ID (filter (associatedWith lbID) fips)))
      })
   }"

definition deleteLB :: "'w ClusterScope \<Rightarrow> ('w, gerror option) cact" where
  "deleteLB scope = do {
     c \<leftarrow> getObj;
     let st = OVHCluster_Status c;
     (if OVHClusterStatus_LoadBalancerID st = '''' then ret None
      else do {
        _ \<leftarrow> (if OVHClusterStatus_PoolID st \<noteq> ''''
             then DeletePool (ClusterScope_OVHClient scope) (OVHClusterStatus_PoolID st) else ret None);
        _ \<leftarrow> (if OVHClusterStatus_ListenerID st \<noteq> ''''
             then DeleteListener (ClusterScope_OVHClient scope) (OVHClusterStatus_ListenerID st) else ret None);
        e \<leftarrow> DeleteLoadBalancer (ClusterScope_OVHClient scope) (OVHClusterStatus_LoadBalancerID st);
        ret (case e of None \<Rightarrow> None | Some err \<Rightarrow> Some (Wrap ''deleting LB: '' err ''''))
      })
   }"

definition cleanupOrphanLBs :: "'w ClusterScope \<Rightarrow> ('w, unit) cact" where
  "cleanupOrphanLBs scope = do {
     r \<leftarrow> ListLoadBalancersByPrefix (ClusterScope_OVHClient scope)
       (GenerateRFC1035Name [''capi'', Cluster_Name (ClusterScope_Cluster scope), ''lb'']);
     (case r of
        Inl e \<Rightarrow> ret ()
      | Inr orphans \<Rightarrow> forEach orphans (\<lambda>orphan. do {
          _ \<leftarrow> DeleteLoadBalancer (ClusterScope_OVHClient scope) (LoadBalancer_ID orphan);
          ret () }))
   }"

text \<open>Whether a floating IP is still there after its deletion.\<close>

definition lingers :: "gerror + FloatingIP \<Rightarrow> bool" where
  "lingers r =
     (case r of
        Inl e \<Rightarrow> False
      | Inr fip \<Rightarrow> \<not> (FloatingIP_AssociatedEntity fip = None \<and> FloatingIP_Status fip = ''down''))"

primrec cleanupFloatingIPs :: "'w ClusterScope \<Rightarrow> string list \<Rightarrow> ('w, bool) cact" where
  "cleanupFloatingIPs scope [] = ret False"
| "cleanupFloatingIPs scope (fipID # fips) = do {
     _ \<leftarrow> DeleteFloatingIP (ClusterScope_OVHClient scope) fipID;
     r \<leftarrow> GetFloatingIP (ClusterScope_OVHClient scope) fipID;
     requeue \<leftarrow> cleanupFloatingIPs scope fips;
     ret (lingers r \<or> requeue)
   }"

definition cleanupGateway :: "'w ClusterScope \<Rightarrow> ('w, unit) cact" where
  "cleanupGateway scope = do {
     r \<leftarrow> ListGateways (ClusterScope_OVHClient scope);
     (case (case r of Inl e \<Rightarrow> None | Inr gws \<Rightarrow> find (\<lambda>gw. Gateway_Name gw = gwName scope) gws) of
        None \<Rightarrow> ret ()
      | Some gw \<Rightarrow> do { _ \<leftarrow> DeleteGateway (ClusterScope_OVHClient scope) (Gateway_ID gw); ret () })
   }"

text \<open>The network, if the controller created it, and then the finalizer.\<close>

definition deleteNetwork :: "'w Deps \<Rightarrow> 'w ClusterScope \<Rightarrow> ('w, outcome) cact" where
  "deleteNetwork d scope = do {
     c \<leftarrow> getObj;
     let networkID = OVHClusterStatus_NetworkID (OVHCluster_Status c);
     (if Deps_conditionsIsTrue d (OVHClusterStatus_Conditions (OVHCluster_Status c))
           NetworkCreatedByControllerCondition \<and> networkID \<noteq> '''' then do {
        e \<leftarrow> DeletePrivateNetwork (ClusterScope_OVHClient scope) networkID;
        (case e of
           Some err \<Rightarrow> ret (requeueAfter requeueTimeShort)
         | None \<Rightarrow> removeClusterFinalizer d)
      }
      else removeClusterFinalizer d)
   }"

definition clusterDeleteBody :: "'w Deps \<Rightarrow> 'w ClusterScope \<Rightarrow> ('w, outcome) cact" where
  "clusterDeleteBody d scope = do {
     c \<leftarrow> getObj;
     (if keepsCluster c then removeClusterFinalizer d
      else do {
        _ \<leftarrow> cleanupDNS scope;
        c' \<leftarrow> getObj;
        _ \<leftarrow> forEach (OVHClusterStatus_SecurityGroupIDs (OVHCluster_Status c')) (cleanupSecurityGroup scope);
        fipsToDelete \<leftarrow> captureFloatingIPs scope;
        e \<leftarrow> deleteLB scope;
        (case e of
           Some err \<Rightarrow> ret (failed err)
         | None \<Rightarrow> do {
             _ \<leftarrow> cleanupOrphanLBs scope;
             requeue \<leftarrow> cleanupFloatingIPs scope fipsToDelete;
             (if requeue then ret (requeueAfter requeueTimeShort)
              else do {
                _ \<leftarrow> cleanupGateway scope;
                deleteNetwork d scope
              })
           })
      })
   }"

definition ClusterReconcileDelete :: "'w Deps \<Rightarrow> 'w ClusterScope \<Rightarrow> ('w, outcome) cact" where
  "ClusterReconcileDelete d scope = do {
     r \<leftarrow> clusterDeleteBody d scope;
     _ \<leftarrow> emit (Observe ClusterReconcileDuration [''delete'']);
     ret r
   }"

section \<open>The entry point\<close>

definition clusterReconcileFetched :: "'w Deps \<Rightarrow> OVHCluster \<Rightarrow> ('w, outcome) cact" where
  "clusterReconcileFetched d ovhCluster =
     (case Deps_GetOwnerCluster d (OVHCluster_ObjectMeta ovhCluster) of
        Inl e \<Rightarrow> ret (failed e)
      | Inr None \<Rightarrow> ret (requeueAfter requeueTimeShort)
      | Inr (Some ownerCluster) \<Rightarrow>
          (case GetOVHClientFromCluster (Deps_getSecret d) (Deps_goovh d) ovhCluster of
             Inl e \<Rightarrow> do {
               _ \<leftarrow> setClusterCondition d OVHConnectionReadyCondition ConditionFalse ''OVHConnectionFailed''
                    (''Failed to create OVH client: '' @ Error_text e);
               ret (requeueAfter requeueTimeShort)
             }
           | Inr ovhClient \<Rightarrow>
               let scope = \<lparr>ClusterScope_Cluster = ownerCluster, ClusterScope_OVHClient = ovhClient\<rparr> in
               if ObjectMeta_Deleting (OVHCluster_ObjectMeta ovhCluster)
               then ClusterReconcileDelete d scope
               else ClusterReconcileNormal d scope))"

definition ClusterReconcile :: "'w Deps \<Rightarrow> string \<Rightarrow> string \<Rightarrow> ('w, outcome) cact" where
  "ClusterReconcile d ns name =
     (case Deps_getOVHCluster d ns name of
        Inl e \<Rightarrow> if apierrors_IsNotFound e then ret finished else ret (failed e)
      | Inr ovhCluster \<Rightarrow> do {
          _ \<leftarrow> modifyObj (\<lambda>_. ovhCluster);
          (case Deps_newClusterPatchHelper d ovhCluster of
             Some e \<Rightarrow> ret (failed e)
           | None \<Rightarrow> do {
               r \<leftarrow> clusterReconcileFetched d ovhCluster;
               c \<leftarrow> getObj;
               ret (case Deps_patchCluster d ovhCluster c of
                      None \<Rightarrow> r
                    | Some patchErr \<Rightarrow> (if snd r = None then (fst r, Some patchErr) else r))
             })
        })"

end
