(* ===== verification/Startup.thy ===== *)
theory Startup
  imports Cluster_Controller "HOL-Library.Sublist"
begin

text \<open>
  The start of the process (\<^verbatim>\<open>cmd/main.go\<close>): the registration of the types in the scheme, the
  manager, the two controllers with what they watch, the webhooks, the probes, and the run of the
  manager. All of these are calls of libraries that succeed or return an error; the library is a
  parameter, and the calls are the events of the run.
\<close>

section \<open>What is registered\<close>

record GVK =
  GVK_Group :: string
  GVK_Version :: string
  GVK_Kind :: string





text \<open>Types of other packages, by their Go names.\<close>

datatype object = ClusterV1_Machine | ClusterV1_Cluster | CoreV1_Secret

datatype mapFunc =
  MachineToInfrastructureMapFunc GVK | ClusterToTypedObjectsMapper GVK | SecretToOVHCluster | ClusterToOVHCluster

datatype eventFilter = ResourceNotPaused | ClusterUnpaused

record Watch =
  Watch_Object :: object
  Watch_Map :: mapFunc
  Watch_Filters :: "eventFilter list"

record Controller =
  Controller_For :: GVK
  Controller_Watches :: "Watch list"

record Options =
  Options_MetricsBindAddress :: string
  Options_HealthProbeBindAddress :: string
  Options_LeaderElection :: bool
  Options_LeaderElectionID :: string
  Options_WebhookPort :: "nat option"

datatype package = ClientGo | InfraV1Alpha1 "GVK list" | InfraV1Alpha2 "GVK list" | ClusterAPI

datatype setupCall =
  AddToScheme package
  | GetConfig
  | NewManager Options
  | NewTypedObjectsMapper GVK
  | IndexField GVK string
  | CompleteController Controller
  | CompleteWebhook GVK
  | AddHealthzCheck string
  | AddReadyzCheck string
  | Start

text \<open>The command line, parsed.\<close>

record Flags =
  Flags_metricsAddr :: string
  Flags_probeAddr :: string
  Flags_enableWebhooks :: bool
  Flags_enableLeaderElection :: bool

definition defaultFlags :: Flags where
  "defaultFlags = \<lparr>Flags_metricsAddr = '':8080'', Flags_probeAddr = '':9440'',
     Flags_enableWebhooks = False, Flags_enableLeaderElection = False\<rparr>"

section \<open>The run\<close>

type_synonym 'w library = "setupCall \<Rightarrow> 'w \<Rightarrow> gerror option \<times> 'w"















section \<open>The plan of the start\<close>





text \<open>Following a plan: the calls made, the call that failed with its error, and the state after.\<close>

primrec walk :: "'w library \<Rightarrow> setupCall list \<Rightarrow> 'w \<Rightarrow> setupCall list \<times> (setupCall \<times> gerror) option \<times> 'w" where
  "walk lib [] w = ([], None, w)"
| "walk lib (c # cs) w =
     (case lib c w of
        (Some e, w') \<Rightarrow> ([c], Some (c, e), w')
      | (None, w') \<Rightarrow> (case walk lib cs w' of (made, f, w'') \<Rightarrow> (c # made, f, w'')))"





lemma walk_complete: "walk lib cs w = (made, None, w') \<Longrightarrow> made = cs"
  by (induction cs arbitrary: w made) (auto split: prod.splits option.splits)



















section \<open>Changed credentials\<close>

text \<open>The watch on secrets and the read of the credentials agree. \<open>getSecret'\<close> is the store after the
  event: it differs from the one before at the key of the event's secret only.\<close>

definition changedAt :: "Secret \<Rightarrow> (string \<Rightarrow> string \<Rightarrow> 'a) \<Rightarrow> (string \<Rightarrow> string \<Rightarrow> 'a) \<Rightarrow> bool" where
  "changedAt secret get get' \<longleftrightarrow>
     (\<forall>ns name. (ns, name) \<noteq> (Secret_Namespace secret, Secret_Name secret) \<longrightarrow> get ns name = get' ns name)"

text \<open>C34: no change of credentials is missed. When a secret changes and a listed cluster gets another
  client from the new secrets than from the old ones, the event enqueues that cluster; and only
  clusters that name this secret, in this namespace, are enqueued.\<close>

theorem secretToOVHCluster_complete:
  assumes "Deps_listOVHClusters d = Inr clusters" and "Secret_Name secret \<noteq> ''''"
    and "changedAt secret (Deps_getSecret d) getSecret'"
  shows "(\<forall>c \<in> set clusters.
      GetOVHClientFromCluster (Deps_getSecret d) goovh c \<noteq> GetOVHClientFromCluster getSecret' goovh c
      \<longrightarrow> requestFor c \<in> set (secretToOVHCluster d secret))
    \<and> (\<forall>r \<in> set (secretToOVHCluster d secret). \<exists>c \<in> set clusters. r = requestFor c
        \<and> OVHClusterSpec_IdentitySecret (OVHCluster_Spec c)
          = \<lparr>SecretKey_Namespace = Secret_Namespace secret, SecretKey_Name = Secret_Name secret\<rparr>)"
proof (intro conjI ballI impI)
  fix c :: OVHCluster
  let ?k = "OVHClusterSpec_IdentitySecret (OVHCluster_Spec c)"
  assume c: "c \<in> set clusters"
    and "GetOVHClientFromCluster (Deps_getSecret d) goovh c \<noteq> GetOVHClientFromCluster getSecret' goovh c"
  then have "Deps_getSecret d (SecretKey_Namespace ?k) (SecretKey_Name ?k)
      \<noteq> getSecret' (SecretKey_Namespace ?k) (SecretKey_Name ?k)"
    by (auto simp: GetOVHClientFromCluster_def Let_def)
  with assms(3) have "SecretKey_Namespace ?k = Secret_Namespace secret" "SecretKey_Name ?k = Secret_Name secret"
    by (auto simp: changedAt_def)
  with assms(1,2) c show "requestFor c \<in> set (secretToOVHCluster d secret)"
    by (auto simp: secretToOVHCluster_def identitySecretIndex_def Let_def)
next
  fix r
  assume "r \<in> set (secretToOVHCluster d secret)"
  with assms(1) show "\<exists>c \<in> set clusters. r = requestFor c \<and> OVHClusterSpec_IdentitySecret (OVHCluster_Spec c)
      = \<lparr>SecretKey_Namespace = Secret_Namespace secret, SecretKey_Name = Secret_Name secret\<rparr>"
    by (auto simp: secretToOVHCluster_def identitySecretIndex_def Let_def split: if_splits)
qed

section \<open>Witness\<close>

definition ownedCluster :: OVHCluster where
  "ownedCluster = sampleOVHCluster\<lparr>OVHCluster_Spec := zero_OVHClusterSpec\<lparr>OVHClusterSpec_IdentitySecret :=
     \<lparr>SecretKey_Namespace = ''ns'', SecretKey_Name = ''creds''\<rparr>\<rparr>\<rparr>"

abbreviation deletedSecret :: "string \<Rightarrow> string \<Rightarrow> gerror + Secret" where
  "deletedSecret ns name \<equiv>
     if (ns, name) = (''ns'', ''creds'') then Inl (StatusError ''NotFound'' ''secret not found'') else Inr sampleSecret"

theorem secretToOVHCluster_complete_witness:
  "\<lparr>Request_Namespace = ''ns'', Request_Name = ''a''\<rparr> \<in> set (secretToOVHCluster
     (sampleDeps (\<lambda>req (w :: unit). (Inl (Plain ''''), w))\<lparr>Deps_listOVHClusters := Inr [ownedCluster]\<rparr>)
     \<lparr>Secret_Namespace = ''ns'', Secret_Name = ''creds'', Secret_Data = (\<lambda>_. None)\<rparr>)"
proof -
  let ?api = "\<lambda>req (w :: unit). (Inl (Plain ''''), w)"
  let ?d = "sampleDeps ?api\<lparr>Deps_listOVHClusters := Inr [ownedCluster]\<rparr>"
  let ?secret = "\<lparr>Secret_Namespace = ''ns'', Secret_Name = ''creds'', Secret_Data = (\<lambda>_. None)\<rparr>"
  have "changedAt ?secret (Deps_getSecret ?d) deletedSecret" by (simp add: changedAt_def sampleDeps_def)
  from secretToOVHCluster_complete [OF _ _ this, of "[ownedCluster]" "\<lambda>e k s c. Inr ?api"]
  have "GetOVHClientFromCluster (Deps_getSecret ?d) (\<lambda>e k s c. Inr ?api) ownedCluster
      \<noteq> GetOVHClientFromCluster deletedSecret (\<lambda>e k s c. Inr ?api) ownedCluster
    \<Longrightarrow> requestFor ownedCluster \<in> set (secretToOVHCluster ?d ?secret)" by simp
  moreover have "GetOVHClientFromCluster (Deps_getSecret ?d) (\<lambda>e k s c. Inr ?api) ownedCluster
      \<noteq> GetOVHClientFromCluster deletedSecret (\<lambda>e k s c. Inr ?api) ownedCluster"
    by (auto simp: GetOVHClientFromCluster_def ownedCluster_def sampleDeps_def NewClientFromSecret_def NewClient_def
        Let_def split: sum.splits)
  ultimately show ?thesis
    by (simp add: requestFor_def ownedCluster_def sampleOVHCluster_def zero_ObjectMeta_def)
qed

end
