(* ===== verification/Machine_Controller.thy ===== *)
theory Machine_Controller
  imports Management
begin

text \<open>
  The machine reconciler (\<^verbatim>\<open>internal/controller/ovhmachine_controller.go\<close>). The object
  under reconciliation, \<^verbatim>\<open>scope.OVHMachine\<close>, is the object of the state monad; the rest of
  the scope is the record \<open>MachineScope\<close>, built by \<open>Reconcile\<close> with non-nil
  pointers, so the nil checks of the source are always passed. A deferred call comes after the
  body. Log lines are not modelled; metric updates are events.
\<close>

record 'w MachineScope =
  MachineScope_Cluster :: Cluster
  MachineScope_Machine :: Machine
  MachineScope_OVHCluster :: OVHCluster
  MachineScope_OVHClient :: "'w Client"

type_synonym ('w, 'a) mact = "(OVHMachine, 'w, 'a) act"

section \<open>Writing the machine\<close>

definition setStatus :: "(OVHMachineStatus \<Rightarrow> OVHMachineStatus) \<Rightarrow> ('w, unit) mact" where
  "setStatus f = modifyObj (\<lambda>m. m\<lparr>OVHMachine_Status := f (OVHMachine_Status m)\<rparr>)"

definition setCondition :: "'w Deps \<Rightarrow> string \<Rightarrow> ConditionStatus \<Rightarrow> string \<Rightarrow> string \<Rightarrow> ('w, unit) mact"
  where
  "setCondition d type status reason message =
     setStatus (\<lambda>s. s\<lparr>OVHMachineStatus_Conditions :=
       Deps_conditionsSet d (OVHMachineStatus_Conditions s)
         \<lparr>Condition_Type = type, Condition_Status = status, Condition_Reason = reason,
          Condition_Message = message\<rparr>\<rparr>)"

definition setFinalizers :: "(string list \<Rightarrow> string list) \<Rightarrow> ('w, unit) mact" where
  "setFinalizers f = modifyObj (\<lambda>m. m\<lparr>OVHMachine_ObjectMeta := (OVHMachine_ObjectMeta m)\<lparr>
     ObjectMeta_Finalizers := f (ObjectMeta_Finalizers (OVHMachine_ObjectMeta m))\<rparr>\<rparr>)"

abbreviation machineInitializationProvisioned :: Initialization where
  "machineInitializationProvisioned \<equiv> \<lparr>Initialization_Provisioned = Some True\<rparr>"

abbreviation machineInitializationNotProvisioned :: Initialization where
  "machineInitializationNotProvisioned \<equiv> \<lparr>Initialization_Provisioned = Some False\<rparr>"

abbreviation machineInstanceID :: "OVHMachine \<Rightarrow> string" where
  "machineInstanceID m \<equiv> OVHMachineStatus_InstanceID (OVHMachine_Status m)"

abbreviation machineReady :: "OVHMachine \<Rightarrow> bool" where
  "machineReady m \<equiv> OVHMachineStatus_Ready (OVHMachine_Status m)"

abbreviation machineProvisioned :: "OVHMachine \<Rightarrow> bool option" where
  "machineProvisioned m \<equiv>
     Initialization_Provisioned (OVHMachineStatus_Initialization (OVHMachine_Status m))"

abbreviation machineFinalizers :: "OVHMachine \<Rightarrow> string list" where
  "machineFinalizers m \<equiv> ObjectMeta_Finalizers (OVHMachine_ObjectMeta m)"

definition instanceName :: "'w MachineScope \<Rightarrow> OVHMachine \<Rightarrow> string" where
  "instanceName scope m = GenerateRFC1035Name
     [Cluster_Name (MachineScope_Cluster scope), ObjectMeta_Name (OVHMachine_ObjectMeta m)]"

section \<open>Bootstrap data and the workload cluster\<close>

definition getBootstrapData :: "'w Deps \<Rightarrow> 'w MachineScope \<Rightarrow> gerror + string" where
  "getBootstrapData d scope =
     (case Machine_DataSecretName (MachineScope_Machine scope) of
        None \<Rightarrow> Inl (Plain ''bootstrap data secret name is nil'')
      | Some name \<Rightarrow>
          let ns = Machine_Namespace (MachineScope_Machine scope); key = ns @ ''/'' @ name in
          case Deps_getSecret d ns name of
            Inl e \<Rightarrow> Inl (Wrap (''getting bootstrap secret '' @ key @ '': '') e '''')
          | Inr secret \<Rightarrow>
              (case Secret_Data secret ''value'' of
                 None \<Rightarrow> Inl (Plain (''bootstrap secret '' @ key @ '' missing '' @
                           [char_of (39::nat)] @ ''value'' @ [char_of (39::nat)] @ '' key''))
               | Some v \<Rightarrow> Inr v))"

definition getWorkloadRESTConfig :: "'w Deps \<Rightarrow> 'w MachineScope \<Rightarrow> gerror + 'w RestConfig option"
  where
  "getWorkloadRESTConfig d scope =
     (case Deps_kubeconfigFromSecret d (Cluster_Namespace (MachineScope_Cluster scope))
             (Cluster_Name (MachineScope_Cluster scope)) of
        Inl e \<Rightarrow> if apierrors_IsNotFound e then Inr None
                else Inl (Wrap ''reading kubeconfig secret: '' e '''')
      | Inr data \<Rightarrow>
          (case Deps_RESTConfigFromKubeConfig d data of
             Inl e \<Rightarrow> Inl (Wrap ''parsing kubeconfig: '' e '''')
           | Inr cfg \<Rightarrow> Inr (Some cfg)))"

section \<open>Load balancer pools\<close>

definition memberAt :: "string \<Rightarrow> int \<Rightarrow> Member \<Rightarrow> bool" where
  "memberAt addr port m \<longleftrightarrow> Member_Address m = addr \<and> Member_ProtocolPort m = port"

definition memberOpts :: "string \<Rightarrow> string \<Rightarrow> int \<Rightarrow> CreateMemberOpts" where
  "memberOpts name addr port = \<lparr>CreateMemberOpts_Name = name, CreateMemberOpts_Address = addr,
     CreateMemberOpts_ProtocolPort = port, CreateMemberOpts_SubnetID = '''', CreateMemberOpts_Weight = 1\<rparr>"

definition ensureRKE2RegisterPoolMember :: "'w MachineScope \<Rightarrow> string \<Rightarrow> ('w, unit) mact" where
  "ensureRKE2RegisterPoolMember scope privateIP =
     (let c = MachineScope_OVHClient scope;
          lbID = OVHClusterStatus_LoadBalancerID (OVHCluster_Status (MachineScope_OVHCluster scope)) in
      if lbID = '''' then ret ()
      else do {
        r \<leftarrow> FindPoolByName c lbID ''rke2-register-pool'';
        (case r of
           Inl e \<Rightarrow> ret ()
         | Inr None \<Rightarrow> ret ()
         | Inr (Some pool) \<Rightarrow> do {
             ms \<leftarrow> ListPoolMembers c (Pool_ID pool);
             (case (case ms of Inl e \<Rightarrow> None | Inr members \<Rightarrow> find (memberAt privateIP 9345) members) of
                Some member \<Rightarrow> setStatus (\<lambda>s. s\<lparr>OVHMachineStatus_RegisterPoolMemberID := Member_ID member\<rparr>)
              | None \<Rightarrow> do {
                  a \<leftarrow> AddPoolMember c (Pool_ID pool)
                    (memberOpts (Machine_Name (MachineScope_Machine scope)) privateIP 9345);
                  (case a of
                     Inl e \<Rightarrow> ret ()
                   | Inr regMember \<Rightarrow>
                       setStatus (\<lambda>s. s\<lparr>OVHMachineStatus_RegisterPoolMemberID := Member_ID regMember\<rparr>))
                })
           })
      })"

definition primaryPrivateIP :: "Instance \<Rightarrow> string" where
  "primaryPrivateIP instance' =
     (case find (\<lambda>ip. IPAddress_Version ip = 4 \<and> IPAddress_Type ip = ''private'')
             (Instance_IPAddresses instance') of
        None \<Rightarrow> '''' | Some ip \<Rightarrow> IPAddress_IP ip)"

text \<open>The API-server pool: the member found at the address, or the one that is added.\<close>

definition registerPoolMember :: "'w MachineScope \<Rightarrow> string \<Rightarrow> string \<Rightarrow> ('w, gerror option) mact" where
  "registerPoolMember scope poolID privateIP = do {
     ms \<leftarrow> ListPoolMembers (MachineScope_OVHClient scope) poolID;
     (case (case ms of Inl e \<Rightarrow> None | Inr members \<Rightarrow> find (memberAt privateIP 6443) members) of
        Some member \<Rightarrow> do {
          _ \<leftarrow> setStatus (\<lambda>s. s\<lparr>OVHMachineStatus_LBPoolMemberID := Member_ID member\<rparr>);
          ret None
        }
      | None \<Rightarrow> do {
          a \<leftarrow> AddPoolMember (MachineScope_OVHClient scope) poolID
            (memberOpts (Machine_Name (MachineScope_Machine scope)) privateIP 6443);
          (case a of
             Inl e \<Rightarrow> ret (Some (Wrap ''adding pool member: '' e ''''))
           | Inr member \<Rightarrow> do {
               _ \<leftarrow> setStatus (\<lambda>s. s\<lparr>OVHMachineStatus_LBPoolMemberID := Member_ID member\<rparr>);
               ret None
             })
        })
   }"

definition ensureLBPoolMember :: "'w Deps \<Rightarrow> 'w MachineScope \<Rightarrow> Instance \<Rightarrow> ('w, gerror option) mact" where
  "ensureLBPoolMember d scope instance' =
     (if \<not> Deps_IsControlPlaneMachine d (MachineScope_Machine scope) then ret None
      else
        let poolID = OVHClusterStatus_PoolID (OVHCluster_Status (MachineScope_OVHCluster scope));
            privateIP = primaryPrivateIP instance' in
        if poolID = '''' then ret (Some (Plain ''OVHCluster.Status.PoolID not set yet''))
        else if privateIP = ''''
        then ret (Some (Plain (''no IPv4 private address on instance '' @ Instance_ID instance')))
        else do {
          e \<leftarrow> registerPoolMember scope poolID privateIP;
          (case e of
             Some err \<Rightarrow> ret (Some err)
           | None \<Rightarrow> do { _ \<leftarrow> ensureRKE2RegisterPoolMember scope privateIP; ret None })
        })"

definition removeLBPoolMember :: "'w MachineScope \<Rightarrow> ('w, unit) mact" where
  "removeLBPoolMember scope = do {
     m \<leftarrow> getObj;
     let memberID = OVHMachineStatus_LBPoolMemberID (OVHMachine_Status m);
     let poolID = OVHClusterStatus_PoolID (OVHCluster_Status (MachineScope_OVHCluster scope));
     (if memberID = '''' \<or> poolID = '''' then ret ()
      else do {
        e \<leftarrow> RemovePoolMember (MachineScope_OVHClient scope) poolID memberID;
        (case e of
           Some err \<Rightarrow> ret ()
         | None \<Rightarrow> setStatus (\<lambda>s. s\<lparr>OVHMachineStatus_LBPoolMemberID := ''''\<rparr>))
      })
   }"

section \<open>An instance that exists\<close>

abbreviation InstanceCreatedCondition :: string where
  "InstanceCreatedCondition \<equiv> ''InstanceCreated''"
abbreviation InstanceProvisioningReadyCondition :: string where
  "InstanceProvisioningReadyCondition \<equiv> ''InstanceProvisioningReady''"
abbreviation InstanceRunningCondition :: string where
  "InstanceRunningCondition \<equiv> ''InstanceRunning''"
abbreviation InstanceProvisioningInProgressReason :: string where
  "InstanceProvisioningInProgressReason \<equiv> ''InstanceProvisioningInProgress''"
abbreviation InstanceProvisioningFailedReason :: string where
  "InstanceProvisioningFailedReason \<equiv> ''InstanceProvisioningFailed''"
abbreviation InstanceNotRunningReason :: string where
  "InstanceNotRunningReason \<equiv> ''InstanceNotRunning''"
abbreviation InfrastructureProvisioningInProgressReason :: string where
  "InfrastructureProvisioningInProgressReason \<equiv> ''InfrastructureProvisioningInProgress''"

definition machineAddresses :: "Instance \<Rightarrow> MachineAddress list" where
  "machineAddresses instance' =
     map (\<lambda>ip. \<lparr>MachineAddress_Type =
                  (if IPAddress_Type ip = ''public'' then ''ExternalIP'' else ''InternalIP''),
                MachineAddress_Address = IPAddress_IP ip\<rparr>)
       (filter (\<lambda>ip. IPAddress_Version ip = 4) (Instance_IPAddresses instance'))"

text \<open>The workload node gets the machine's provider ID, if the workload cluster can be reached.\<close>

definition initializeMachineNode :: "'w Deps \<Rightarrow> 'w MachineScope \<Rightarrow> Instance \<Rightarrow> ('w, unit) mact" where
  "initializeMachineNode d scope instance' =
     (case getWorkloadRESTConfig d scope of
        Inr (Some cfg) \<Rightarrow> do {
          m \<leftarrow> getObj;
          InitializeWorkloadNode cfg (Instance_Name instance')
            (OVHMachineSpec_ProviderID (OVHMachine_Spec m))
        }
      | _ \<Rightarrow> ret ())"

text \<open>The case \<^verbatim>\<open>InstanceStatusActive\<close> of the switch.\<close>

definition handleActive :: "'w Deps \<Rightarrow> 'w MachineScope \<Rightarrow> Instance \<Rightarrow> ('w, outcome) mact" where
  "handleActive d scope instance' = do {
     m \<leftarrow> getObj;
     _ \<leftarrow> (if \<not> machineReady m \<and> Instance_Created instance' \<noteq> ''''
             \<and> Deps_parseRFC3339 d (Instance_Created instance')
          then emit (Observe BootstrapWaitDuration []) else ret ());
     _ \<leftarrow> setStatus (\<lambda>s. s\<lparr>OVHMachineStatus_Addresses := machineAddresses instance'\<rparr>);
     _ \<leftarrow> modifyObj (\<lambda>m. m\<lparr>OVHMachine_Spec := (OVHMachine_Spec m)\<lparr>OVHMachineSpec_ProviderID :=
          ProviderIDFromInstance
            (OVHClusterSpec_Region (OVHCluster_Spec (MachineScope_OVHCluster scope)))
            (Instance_ID instance')\<rparr>\<rparr>);
     _ \<leftarrow> setStatus (\<lambda>s. s\<lparr>OVHMachineStatus_Ready := True,
          OVHMachineStatus_Initialization := machineInitializationProvisioned\<rparr>);
     _ \<leftarrow> setCondition d InstanceProvisioningReadyCondition ConditionTrue
          InstanceProvisioningReadyCondition '''';
     _ \<leftarrow> setCondition d InstanceRunningCondition ConditionTrue InstanceRunningCondition '''';
     _ \<leftarrow> ensureLBPoolMember d scope instance';
     _ \<leftarrow> initializeMachineNode d scope instance';
     ret finished
   }"

definition handleExistingInstance :: "'w Deps \<Rightarrow> 'w MachineScope \<Rightarrow> Instance \<Rightarrow> ('w, outcome) mact" where
  "handleExistingInstance d scope instance' = do {
     _ \<leftarrow> setStatus (\<lambda>s. s\<lparr>OVHMachineStatus_InstanceID := Instance_ID instance'\<rparr>);
     _ \<leftarrow> setCondition d InstanceCreatedCondition ConditionTrue InstanceCreatedCondition '''';
     (if Instance_Status instance' = InstanceStatusActive then handleActive d scope instance'
      else if Instance_Status instance' = InstanceStatusBuild then do {
        _ \<leftarrow> setCondition d InstanceProvisioningReadyCondition ConditionFalse
             InstanceProvisioningInProgressReason ''Instance is being provisioned (BUILD state)'';
        _ \<leftarrow> setCondition d InstanceRunningCondition ConditionFalse
             InstanceNotRunningReason ''Instance is not yet running'';
        _ \<leftarrow> setStatus (\<lambda>s. s\<lparr>OVHMachineStatus_Ready := False\<rparr>);
        ret (requeueAfter requeueDelayLong)
      }
      else if Instance_Status instance' = InstanceStatusError then do {
        _ \<leftarrow> setCondition d InstanceProvisioningReadyCondition ConditionFalse
             InstanceProvisioningFailedReason
             (''Instance provisioning failed: OVH instance '' @ Instance_ID instance' @
              '' is in ERROR state'');
        _ \<leftarrow> setStatus (\<lambda>s. s\<lparr>OVHMachineStatus_Ready := False\<rparr>);
        _ \<leftarrow> emit (Inc MachineCreateErrorsTotal);
        ret finished
      }
      else do {
        _ \<leftarrow> setStatus (\<lambda>s. s\<lparr>OVHMachineStatus_Ready := False\<rparr>);
        ret (requeueAfter requeueDelayLong)
      })
   }"

section \<open>Creating an instance\<close>

text \<open>The SSH key is optional: no name, no key.\<close>

definition resolveSSHKey :: "'w MachineScope \<Rightarrow> string \<Rightarrow> ('w, gerror + string) mact" where
  "resolveSSHKey scope sshKeyName =
     (if sshKeyName = '''' then ret (Inr '''')
      else do {
        r \<leftarrow> GetSSHKeyByName (MachineScope_OVHClient scope) sshKeyName;
        ret (case r of
               Inl e \<Rightarrow> Inl (Wrap (''resolving SSH key '' @ strconv_Quote sshKeyName @ '': '') e '''')
             | Inr key \<Rightarrow> Inr (SSHKey_ID key))
      })"

definition instanceNetworks :: "'w MachineScope \<Rightarrow> InstanceNetwork list" where
  "instanceNetworks scope =
     (let networkID = OVHClusterStatus_NetworkID (OVHCluster_Status (MachineScope_OVHCluster scope)) in
      if networkID \<noteq> '''' then [\<lparr>InstanceNetwork_NetworkID = networkID\<rparr>] else [])"

definition instanceOpts :: "'w MachineScope \<Rightarrow> OVHMachine \<Rightarrow> Flavor \<Rightarrow> Image \<Rightarrow> string \<Rightarrow> string
    \<Rightarrow> CreateInstanceOpts" where
  "instanceOpts scope m flavor img sshKeyID userData = \<lparr>
     CreateInstanceOpts_Name = instanceName scope m,
     CreateInstanceOpts_FlavorID = Flavor_ID flavor,
     CreateInstanceOpts_ImageID = Image_ID img,
     CreateInstanceOpts_Region = OVHClusterSpec_Region (OVHCluster_Spec (MachineScope_OVHCluster scope)),
     CreateInstanceOpts_SSHKeyID = sshKeyID,
     CreateInstanceOpts_UserData = userData,
     CreateInstanceOpts_Networks = instanceNetworks scope,
     CreateInstanceOpts_MonthlyBilling = False,
     CreateInstanceOpts_GroupID = ''''\<rparr>"

text \<open>From the call of \<^verbatim>\<open>CreateInstance\<close> on.\<close>

definition submitInstance :: "'w Deps \<Rightarrow> 'w MachineScope \<Rightarrow> CreateInstanceOpts \<Rightarrow> ('w, outcome) mact" where
  "submitInstance d scope opts = do {
     _ \<leftarrow> emit (Inc MachineCreateTotal);
     r \<leftarrow> CreateInstance (MachineScope_OVHClient scope) opts;
     (case r of
        Inl e \<Rightarrow> do {
          _ \<leftarrow> emit (Inc MachineCreateErrorsTotal);
          _ \<leftarrow> setCondition d InstanceCreatedCondition ConditionFalse InstanceProvisioningFailedReason
               (''Failed to create instance: '' @ Error_text e);
          ret (failed (Wrap ''creating OVH instance: '' e ''''))
        }
      | Inr instance' \<Rightarrow> do {
          _ \<leftarrow> setStatus (\<lambda>s. s\<lparr>OVHMachineStatus_InstanceID := Instance_ID instance'\<rparr>);
          _ \<leftarrow> setCondition d InstanceCreatedCondition ConditionTrue InstanceCreatedCondition '''';
          _ \<leftarrow> setCondition d InstanceProvisioningReadyCondition ConditionFalse
               InstanceProvisioningInProgressReason ''Instance created, waiting for ACTIVE state'';
          ret (requeueAfter requeueDelayLong)
        })
   }"

text \<open>The bootstrap data and the SSH key, after the flavor and the image.\<close>

definition prepareInstance :: "'w Deps \<Rightarrow> 'w MachineScope \<Rightarrow> Flavor \<Rightarrow> Image \<Rightarrow> ('w, outcome) mact" where
  "prepareInstance d scope flavor img = do {
     m \<leftarrow> getObj;
     (case getBootstrapData d scope of
        Inl e \<Rightarrow> ret (failed (Wrap ''getting bootstrap data: '' e ''''))
      | Inr bootstrapData \<Rightarrow>
          (case PrepareUserData bootstrapData of
             Inl e \<Rightarrow> ret (failed (Wrap ''preparing user data: '' e ''''))
           | Inr userData \<Rightarrow> do {
               k \<leftarrow> resolveSSHKey scope (GetSSHKeyName (OVHMachineSpec_SSHKeyName (OVHMachine_Spec m))
                 (OVHClusterSpec_SSHKeyName (OVHCluster_Spec (MachineScope_OVHCluster scope))));
               (case k of
                  Inl e \<Rightarrow> ret (failed e)
                | Inr sshKeyID \<Rightarrow>
                    submitInstance d scope (instanceOpts scope m flavor img sshKeyID userData))
             }))
   }"

definition createInstance :: "'w Deps \<Rightarrow> 'w MachineScope \<Rightarrow> ('w, outcome) mact" where
  "createInstance d scope = do {
     m \<leftarrow> getObj;
     let flavorName = OVHMachineSpec_FlavorName (OVHMachine_Spec m);
     let imageName = OVHMachineSpec_ImageName (OVHMachine_Spec m);
     f \<leftarrow> GetFlavorByName (MachineScope_OVHClient scope) flavorName;
     (case f of
        Inl e \<Rightarrow> ret (failed (Wrap (''resolving flavor '' @ strconv_Quote flavorName @ '': '') e ''''))
      | Inr flavor \<Rightarrow> do {
          i \<leftarrow> GetImageByName (MachineScope_OVHClient scope) imageName;
          (case i of
             Inl e \<Rightarrow> ret (failed (Wrap (''resolving image '' @ strconv_Quote imageName @ '': '') e ''''))
           | Inr img \<Rightarrow> prepareInstance d scope flavor img)
        })
   }"

section \<open>Reconciling a machine that is not being deleted\<close>

text \<open>The three lookups, in order: the recorded ID, the ID to adopt, the name.\<close>

definition findKnownInstance :: "'w MachineScope \<Rightarrow> ('w, gerror + Instance option) mact" where
  "findKnownInstance scope = do {
     m \<leftarrow> getObj;
     (if machineInstanceID m = '''' then ret (Inr None)
      else do {
        r \<leftarrow> GetInstance (MachineScope_OVHClient scope) (machineInstanceID m);
        (case r of
           Inl e \<Rightarrow>
             if IsNotFound (Some e) then do {
               _ \<leftarrow> setStatus (\<lambda>s. s\<lparr>OVHMachineStatus_InstanceID := ''''\<rparr>);
               ret (Inr None)
             }
             else ret (Inl (Wrap (''getting instance '' @ machineInstanceID m @ '': '') e ''''))
         | Inr inst \<Rightarrow> ret (Inr (Some inst)))
      })
   }"

definition adoptInstance :: "'w MachineScope \<Rightarrow> ('w, gerror + Instance option) mact" where
  "adoptInstance scope = do {
     m \<leftarrow> getObj;
     let existing = OVHMachineSpec_ExistingInstanceID (OVHMachine_Spec m);
     (if existing = '''' then ret (Inr None)
      else do {
        r \<leftarrow> GetInstance (MachineScope_OVHClient scope) existing;
        ret (case r of
               Inl e \<Rightarrow> Inl (Wrap (''adopting instance '' @ existing @ '': '') e '''')
             | Inr inst \<Rightarrow> Inr (Some inst))
      })
   }"

definition findNamedInstance :: "'w MachineScope \<Rightarrow> ('w, gerror + Instance option) mact" where
  "findNamedInstance scope = do {
     m \<leftarrow> getObj;
     r \<leftarrow> FindInstanceByName (MachineScope_OVHClient scope) (instanceName scope m);
     ret (case r of
            Inl e \<Rightarrow> Inl (Wrap (''finding instance by name '' @ instanceName scope m @ '': '') e '''')
          | Inr inst \<Rightarrow> Inr inst)
   }"

text \<open>\<^verbatim>\<open>if instance == nil { ... }\<close>\<close>

definition orElse :: "('w, gerror + Instance option) mact \<Rightarrow> ('w, gerror + Instance option) mact
    \<Rightarrow> ('w, gerror + Instance option) mact" where
  "orElse first next' = do {
     r \<leftarrow> first;
     (case r of
        Inl e \<Rightarrow> ret (Inl e)
      | Inr (Some inst) \<Rightarrow> ret (Inr (Some inst))
      | Inr None \<Rightarrow> next')
   }"

definition reconcileInstance :: "'w Deps \<Rightarrow> 'w MachineScope \<Rightarrow> ('w, outcome) mact" where
  "reconcileInstance d scope = do {
     r \<leftarrow> orElse (findKnownInstance scope) (orElse (adoptInstance scope) (findNamedInstance scope));
     (case r of
        Inl e \<Rightarrow> ret (failed e)
      | Inr (Some inst) \<Rightarrow> handleExistingInstance d scope inst
      | Inr None \<Rightarrow> createInstance d scope)
   }"

definition normalBody :: "'w Deps \<Rightarrow> 'w MachineScope \<Rightarrow> ('w, outcome) mact" where
  "normalBody d scope = do {
     m \<leftarrow> getObj;
     (if Deps_IsPaused d (MachineScope_Cluster scope) (OVHMachine_ObjectMeta m) then do {
        _ \<leftarrow> setStatus (\<lambda>s. s\<lparr>OVHMachineStatus_Ready := False,
             OVHMachineStatus_Initialization := machineInitializationNotProvisioned\<rparr>);
        ret finished
      }
      else if \<not> Deps_ContainsFinalizer d (machineFinalizers m) MachineFinalizer
              \<and> \<not> ObjectMeta_Deleting (OVHMachine_ObjectMeta m) then do {
        _ \<leftarrow> setFinalizers (\<lambda>fs. Deps_AddFinalizer d fs MachineFinalizer);
        _ \<leftarrow> setStatus (\<lambda>s. s\<lparr>OVHMachineStatus_Ready := False,
             OVHMachineStatus_Initialization := machineInitializationNotProvisioned\<rparr>);
        ret finished
      }
      else if Cluster_InfrastructureProvisioned (MachineScope_Cluster scope) \<noteq> Some True then do {
        _ \<leftarrow> setCondition d InstanceProvisioningReadyCondition ConditionFalse
             InfrastructureProvisioningInProgressReason ''Waiting for cluster infrastructure'';
        ret (requeueAfter requeueDelay)
      }
      else if Machine_DataSecretName (MachineScope_Machine scope) = None
      then ret (requeueAfter requeueDelay)
      else reconcileInstance d scope)
   }"

definition nsName :: "string \<Rightarrow> string \<Rightarrow> string" where
  "nsName ns name = ns @ ''/'' @ name"

definition ReconcileNormal :: "'w Deps \<Rightarrow> 'w MachineScope \<Rightarrow> ('w, outcome) mact" where
  "ReconcileNormal d scope = do {
     r \<leftarrow> normalBody d scope;
     _ \<leftarrow> emit (Observe MachineReconcileDuration [''normal'']);
     m \<leftarrow> getObj;
     _ \<leftarrow> emit (SetGauge MachineStatus
          [nsName (Cluster_Namespace (MachineScope_Cluster scope)) (Cluster_Name (MachineScope_Cluster scope)),
           nsName (ObjectMeta_Namespace (OVHMachine_ObjectMeta m)) (ObjectMeta_Name (OVHMachine_ObjectMeta m))]
          (if machineReady m then 1 else 0));
     ret r
   }"

section \<open>Reconciling a machine that is being deleted\<close>

abbreviation adoptionPolicy :: string where
  "adoptionPolicy \<equiv> ''capiovh.cluster.x-k8s.io/adoption-policy''"

definition keepsInstance :: "OVHMachine \<Rightarrow> bool" where
  "keepsInstance m \<longleftrightarrow>
     mapGet (ObjectMeta_Annotations (OVHMachine_ObjectMeta m)) adoptionPolicy = ''keep''"

definition deleteVolume :: "'w MachineScope \<Rightarrow> OVHMachine \<Rightarrow> string \<Rightarrow> ('w, unit) mact" where
  "deleteVolume scope m volID = do {
     _ \<leftarrow> (if machineInstanceID m \<noteq> ''''
          then DetachVolume (MachineScope_OVHClient scope) volID (machineInstanceID m)
          else ret None);
     _ \<leftarrow> DeleteVolume (MachineScope_OVHClient scope) volID;
     ret ()
   }"

definition removeMachineFinalizer :: "'w Deps \<Rightarrow> ('w, outcome) mact" where
  "removeMachineFinalizer d = do {
     _ \<leftarrow> setFinalizers (\<lambda>fs. Deps_RemoveFinalizer d fs MachineFinalizer);
     ret finished
   }"

definition deleteInstance :: "'w Deps \<Rightarrow> 'w MachineScope \<Rightarrow> ('w, outcome) mact" where
  "deleteInstance d scope = do {
     m \<leftarrow> getObj;
     (if machineInstanceID m = '''' then removeMachineFinalizer d
      else do {
        e \<leftarrow> DeleteInstance (MachineScope_OVHClient scope) (machineInstanceID m);
        (case e of
           Some err \<Rightarrow> do {
             _ \<leftarrow> emit (Inc MachineDeleteErrorsTotal);
             ret (failed (Wrap (''deleting instance '' @ machineInstanceID m @ '': '') err ''''))
           }
         | None \<Rightarrow> do {
             r \<leftarrow> GetInstance (MachineScope_OVHClient scope) (machineInstanceID m);
             (case r of
                Inl e \<Rightarrow> removeMachineFinalizer d
              | Inr inst \<Rightarrow>
                  if Instance_Status inst \<noteq> InstanceStatusDeleted then ret (requeueAfter requeueDelay)
                  else removeMachineFinalizer d)
           })
      })
   }"

definition deleteBody :: "'w Deps \<Rightarrow> 'w MachineScope \<Rightarrow> ('w, outcome) mact" where
  "deleteBody d scope = do {
     m \<leftarrow> getObj;
     (if keepsInstance m then removeMachineFinalizer d
      else do {
        _ \<leftarrow> emit (Inc MachineDeleteTotal);
        _ \<leftarrow> forEach (OVHMachineStatus_VolumeIDs (OVHMachine_Status m)) (deleteVolume scope m);
        _ \<leftarrow> removeLBPoolMember scope;
        deleteInstance d scope
      })
   }"

definition ReconcileDelete :: "'w Deps \<Rightarrow> 'w MachineScope \<Rightarrow> ('w, outcome) mact" where
  "ReconcileDelete d scope = do {
     r \<leftarrow> deleteBody d scope;
     _ \<leftarrow> emit (Observe MachineReconcileDuration [''delete'']);
     ret r
   }"

section \<open>The entry point\<close>

text \<open>Between the creation of the patch helper and the deferred patch.\<close>

definition reconcileFetched :: "'w Deps \<Rightarrow> OVHMachine \<Rightarrow> ('w, outcome) mact" where
  "reconcileFetched d ovhMachine =
     (case Deps_GetOwnerMachine d (OVHMachine_ObjectMeta ovhMachine) of
        Inl e \<Rightarrow> ret (failed e)
      | Inr None \<Rightarrow> ret (requeueAfter requeueDelay)
      | Inr (Some ownerMachine) \<Rightarrow>
          (case Deps_GetClusterFromMetadata d ownerMachine of
             Inl e \<Rightarrow> ret (failed e)
           | Inr None \<Rightarrow> ret finished
           | Inr (Some ownerCluster) \<Rightarrow>
               (case Deps_getOVHCluster d (Cluster_Namespace ownerCluster)
                       (Cluster_InfrastructureRefName ownerCluster) of
                  Inl e \<Rightarrow> ret (failed e)
                | Inr ovhCluster \<Rightarrow>
                    (case GetOVHClientFromCluster (Deps_getSecret d) (Deps_goovh d) ovhCluster of
                       Inl e \<Rightarrow> ret (requeueAfter requeueDelay)
                     | Inr ovhClient \<Rightarrow>
                         let scope = \<lparr>MachineScope_Cluster = ownerCluster,
                               MachineScope_Machine = ownerMachine,
                               MachineScope_OVHCluster = ovhCluster,
                               MachineScope_OVHClient = ovhClient\<rparr> in
                         if ObjectMeta_Deleting (OVHMachine_ObjectMeta ovhMachine)
                         then ReconcileDelete d scope
                         else ReconcileNormal d scope))))"

definition Reconcile :: "'w Deps \<Rightarrow> string \<Rightarrow> string \<Rightarrow> ('w, outcome) mact" where
  "Reconcile d ns name =
     (case Deps_getOVHMachine d ns name of
        Inl e \<Rightarrow> if apierrors_IsNotFound e then ret finished else ret (failed e)
      | Inr ovhMachine \<Rightarrow> do {
          _ \<leftarrow> modifyObj (\<lambda>_. ovhMachine);
          (case Deps_newMachinePatchHelper d ovhMachine of
             Some e \<Rightarrow> ret (failed e)
           | None \<Rightarrow> do {
               r \<leftarrow> reconcileFetched d ovhMachine;
               m \<leftarrow> getObj;
               ret (case Deps_patchMachine d ovhMachine m of
                      None \<Rightarrow> r
                    | Some patchErr \<Rightarrow> (if snd r = None then (fst r, Some patchErr) else r))
             })
        })"

end
