(* ===== verification/Metrics.thy ===== *)
theory Metrics
  imports Machine_Controller Cluster_Controller
begin

text \<open>
  The Prometheus collectors of \<^verbatim>\<open>internal/metrics/metrics.go\<close>: how each is declared, which
  are registered, and what an update has to look like. The library behind them panics on a malformed
  declaration, on a second registration of a name and on a wrong number of label values; the
  predicates \<open>declarable\<close> and \<open>typedUpdate\<close> state when it does not.
\<close>

section \<open>Declarations\<close>

datatype collectorKind = Counter | Gauge | Histogram "nat list option"

text \<open>\<open>Histogram None\<close> uses the library's default buckets.\<close>

record collector =
  collector_Kind :: collectorKind
  collector_Name :: string
  collector_Labels :: "string list"

fun collectorOf :: "metric \<Rightarrow> collector" where
  "collectorOf MachineCreateTotal =
     \<lparr>collector_Kind = Counter, collector_Name = ''machine_create_total'', collector_Labels = []\<rparr>"
| "collectorOf MachineCreateErrorsTotal =
     \<lparr>collector_Kind = Counter, collector_Name = ''machine_create_errors_total'', collector_Labels = []\<rparr>"
| "collectorOf MachineCreationDuration =
     \<lparr>collector_Kind = Histogram (Some [10, 30, 60, 120, 180, 300, 600]),
      collector_Name = ''machine_creation_duration_seconds'', collector_Labels = []\<rparr>"
| "collectorOf MachineDeleteTotal =
     \<lparr>collector_Kind = Counter, collector_Name = ''machine_delete_total'', collector_Labels = []\<rparr>"
| "collectorOf MachineDeleteErrorsTotal =
     \<lparr>collector_Kind = Counter, collector_Name = ''machine_delete_errors_total'', collector_Labels = []\<rparr>"
| "collectorOf MachineStatus =
     \<lparr>collector_Kind = Gauge, collector_Name = ''machine_status'',
      collector_Labels = [''cluster'', ''machine'']\<rparr>"
| "collectorOf MachineReconcileDuration =
     \<lparr>collector_Kind = Histogram None, collector_Name = ''machine_reconcile_duration_seconds'',
      collector_Labels = [''operation'']\<rparr>"
| "collectorOf ClusterReconcileDuration =
     \<lparr>collector_Kind = Histogram None, collector_Name = ''cluster_reconcile_duration_seconds'',
      collector_Labels = [''operation'']\<rparr>"
| "collectorOf ClusterReady =
     \<lparr>collector_Kind = Gauge, collector_Name = ''cluster_ready'', collector_Labels = [''cluster'']\<rparr>"
| "collectorOf NodeInitDuration =
     \<lparr>collector_Kind = Histogram (Some [1, 5, 10, 30, 60, 120, 300]),
      collector_Name = ''node_init_duration_seconds'', collector_Labels = []\<rparr>"
| "collectorOf EtcdMemberRemovalDuration =
     \<lparr>collector_Kind = Histogram (Some [1, 5, 10, 30, 60, 120]),
      collector_Name = ''etcd_member_removal_duration_seconds'', collector_Labels = []\<rparr>"
| "collectorOf BootstrapWaitDuration =
     \<lparr>collector_Kind = Histogram (Some [30, 60, 120, 180, 300, 600, 900]),
      collector_Name = ''bootstrap_wait_duration_seconds'', collector_Labels = []\<rparr>"
| "collectorOf LBPollDuration =
     \<lparr>collector_Kind = Histogram (Some [1, 5, 10, 30, 60, 110]),
      collector_Name = ''lb_poll_duration_seconds'', collector_Labels = []\<rparr>"
| "collectorOf OVHAPIRequestsTotal =
     \<lparr>collector_Kind = Counter, collector_Name = ''ovh_api_requests_total'',
      collector_Labels = [''endpoint'', ''outcome'']\<rparr>"
| "collectorOf OVHAPIRequestDuration =
     \<lparr>collector_Kind = Histogram None, collector_Name = ''ovh_api_request_duration_seconds'',
      collector_Labels = [''endpoint'']\<rparr>"

definition fullName :: "metric \<Rightarrow> string" where
  "fullName m = ''capiovh_'' @ collector_Name (collectorOf m)"

text \<open>The argument of \<^verbatim>\<open>MustRegister\<close>.\<close>

definition registered :: "metric list" where
  "registered =
     [MachineCreateTotal, MachineCreateErrorsTotal, MachineCreationDuration, MachineDeleteTotal,
      MachineDeleteErrorsTotal, MachineStatus, MachineReconcileDuration, ClusterReconcileDuration,
      ClusterReady, NodeInitDuration, EtcdMemberRemovalDuration, BootstrapWaitDuration, LBPollDuration,
      OVHAPIRequestsTotal, OVHAPIRequestDuration]"

text \<open>No collector is forgotten there, so the collectors are enumerable by that list.\<close>

lemma registered_UNIV: "set registered = UNIV"
  using metric.exhaust by (auto simp: registered_def)

lemma registered_distinct: "distinct registered"
  by (simp add: registered_def)

instantiation metric :: enum
begin

definition enum_metric :: "metric list" where
  "enum_metric = registered"

definition enum_all_metric :: "(metric \<Rightarrow> bool) \<Rightarrow> bool" where
  "enum_all_metric P = list_all P registered"

definition enum_ex_metric :: "(metric \<Rightarrow> bool) \<Rightarrow> bool" where
  "enum_ex_metric P = list_ex P registered"

instance
  by standard
    (simp_all add: enum_metric_def enum_all_metric_def enum_ex_metric_def registered_UNIV registered_distinct
      list_all_iff list_ex_iff)

end

section \<open>Well-formed declarations and updates\<close>

definition nameChar :: "char \<Rightarrow> bool" where
  "nameChar c = (let n = (of_char c :: nat) in 97 \<le> n \<and> n \<le> 122 \<or> n = 95)"

fun increasing :: "nat list \<Rightarrow> bool" where
  "increasing (x # y # xs) = (x < y \<and> increasing (y # xs))"
| "increasing xs = True"

definition bucketsOK :: "collectorKind \<Rightarrow> bool" where
  "bucketsOK k = (case k of Histogram (Some bs) \<Rightarrow> increasing bs | _ \<Rightarrow> True)"

definition declarable :: "metric \<Rightarrow> bool" where
  "declarable m \<longleftrightarrow> list_all nameChar (fullName m) \<and> distinct (collector_Labels (collectorOf m))
     \<and> bucketsOK (collector_Kind (collectorOf m))"

text \<open>The collectors that some code updates; the time to create an instance and the two collectors
  about requests to OVH are not among them.\<close>

definition live :: "metric list" where
  "live = filter (\<lambda>m. m \<notin> {MachineCreationDuration, OVHAPIRequestsTotal, OVHAPIRequestDuration}) registered"

text \<open>An update calls the method of its collector's kind, with one value per label.\<close>

fun typedUpdate :: "event \<Rightarrow> bool" where
  "typedUpdate (Inc m) = (m \<in> set live \<and> collector_Kind (collectorOf m) = Counter
     \<and> collector_Labels (collectorOf m) = [])"
| "typedUpdate (Observe m ls) = (m \<in> set live \<and> (\<exists>b. collector_Kind (collectorOf m) = Histogram b)
     \<and> length ls = length (collector_Labels (collectorOf m)))"
| "typedUpdate (SetGauge m ls n) = (m \<in> set live \<and> collector_Kind (collectorOf m) = Gauge
     \<and> length ls = length (collector_Labels (collectorOf m)) \<and> (n = 0 \<or> n = 1))"
| "typedUpdate _ = True"

text \<open>Registering the collectors does not panic.\<close>

lemma enum_all_metric_unfold: "(\<forall>m. P m) \<longleftrightarrow> list_all P registered"
  by (simp add: list_all_iff registered_UNIV)

lemma registration_ok:
  "distinct (map fullName registered)" "\<forall>m. declarable m"
  unfolding enum_all_metric_unfold
  by (simp_all add: registered_def fullName_def declarable_def bucketsOK_def nameChar_def)

lemmas updated = live_def registered_def

section \<open>The updates of the reconcilers\<close>

lemma emits_writes [emits_intros]:
  "emits P (setStatus f)" "emits P (setCondition d ty st re ms)" "emits P (setFinalizers g)"
  "emits P (setClusterStatus h)" "emits P (setClusterCondition d ty st re ms)"
  "emits P (setClusterFinalizers g)" "emits P (recordFIP x)" "emits P (recordSG x y)"
  unfolding setStatus_def setCondition_def setFinalizers_def setClusterStatus_def setClusterCondition_def
    setClusterFinalizers_def recordFIP_def recordSG_def
  by (simp_all add: emits_modifyObj)

lemma emits_andThen [emits_intros]: "emits P m \<Longrightarrow> emits P n \<Longrightarrow> emits P (andThen m n)"
  unfolding andThen_def by (intro emits_intros)

lemma typed_node [emits_intros]: "emits typedUpdate (InitializeWorkloadNode cfg name providerID)"
  by (rule emits_mono [OF InitializeWorkloadNode_emits])
    (auto simp: nodeInitEvent_def updated)

lemma typed_existing [emits_intros]: "emits typedUpdate (handleExistingInstance d scope inst)"
  unfolding handleExistingInstance_def handleActive_def ensureLBPoolMember_def registerPoolMember_def
    ensureRKE2RegisterPoolMember_def initializeMachineNode_def
  by (intro emits_intros) (simp_all add: updated)

lemma typed_create [emits_intros]: "emits typedUpdate (createInstance d scope)"
  unfolding createInstance_def prepareInstance_def resolveSSHKey_def submitInstance_def
  by (intro emits_intros) (simp_all add: updated)

lemma typed_ReconcileNormal: "emits typedUpdate (ReconcileNormal d scope)"
  unfolding ReconcileNormal_def normalBody_def reconcileInstance_def orElse_def findKnownInstance_def
    adoptInstance_def findNamedInstance_def
  by (intro emits_intros) (simp_all add: updated)

lemma typed_ReconcileDelete: "emits typedUpdate (ReconcileDelete d scope)"
  unfolding ReconcileDelete_def deleteBody_def removeLBPoolMember_def deleteInstance_def deleteVolume_def
    removeMachineFinalizer_def
  by (intro emits_intros) (simp_all add: updated)

lemma typed_Reconcile: "emits typedUpdate (Reconcile d ns name)"
  unfolding Reconcile_def reconcileFetched_def
  by (intro emits_intros typed_ReconcileNormal typed_ReconcileDelete)

lemma typed_network: "emits typedUpdate (reconcileNetwork d scope)"
  unfolding reconcileNetwork_def ensureNetwork_def checkNetwork_def ensureSubnet_def networkReady_def
  by (intro emits_intros) simp_all

lemma typed_gateway [emits_intros]: "emits typedUpdate (ensureGatewayExposed scope)"
  unfolding ensureGatewayExposed_def discoverGateway_def by (intro emits_intros) simp_all

lemma typed_floatingIP [emits_intros]: "emits typedUpdate (reconcileFloatingIP scope lb)"
  unfolding reconcileFloatingIP_def recordedFloatingIP_def discoverFloatingIP_def allocateFloatingIP_def
    locateFloatingIP_def listedFloatingIP_def
  by (intro emits_intros) simp_all

lemma typed_port [emits_intros]: "emits typedUpdate (reconcileLBPort scope name port p q)"
  unfolding reconcileLBPort_def ensureListener_def ensurePool_def ensurePoolHealthMonitor_def
  by (intro emits_intros) simp_all

lemma typed_loadBalancer: "emits typedUpdate (reconcileLoadBalancer d scope)"
  unfolding reconcileLoadBalancer_def adoptLB_def createLB_def prepareLB_def submitLB_def
    handleExistingLB_def exposeLB_def publishEndpoint_def setEndpoint_def
  by (intro emits_intros) (simp_all add: updated)

lemma typed_eachGroup [emits_intros]: "emits typedUpdate (reconcileEachSecurityGroup scope ex sgs)"
  by (induction sgs) (auto simp: reconcileSecurityGroup_def intro!: emits_intros)

lemma typed_ClusterReconcileNormal: "emits typedUpdate (ClusterReconcileNormal d scope)"
  unfolding ClusterReconcileNormal_def clusterNormalBody_def reconcileCredentials_def
    reconcileFailureDomains_def reconcileSecurityGroups_def clusterEndGame_def reconcileDNS_def
  by (intro emits_intros typed_network typed_loadBalancer) (simp_all add: updated)

lemma typed_floatingIPs [emits_intros]: "emits typedUpdate (cleanupFloatingIPs scope fips)"
  by (induction fips) (auto intro!: emits_intros)

lemma typed_ClusterReconcileDelete: "emits typedUpdate (ClusterReconcileDelete d scope)"
  unfolding ClusterReconcileDelete_def clusterDeleteBody_def cleanupDNS_def cleanupSecurityGroup_def
    captureFloatingIPs_def deleteLB_def cleanupOrphanLBs_def cleanupGateway_def deleteNetwork_def
    removeClusterFinalizer_def
  by (intro emits_intros) (simp_all add: updated)

lemma typed_ClusterReconcile: "emits typedUpdate (ClusterReconcile d ns name)"
  unfolding ClusterReconcile_def clusterReconcileFetched_def
  by (intro emits_intros typed_ClusterReconcileNormal typed_ClusterReconcileDelete)

end
