(* ===== verification/Effort.thy ===== *)
theory Effort
  imports Machine_Controller Cluster_Controller
begin

text \<open>
  How much work one call of a reconciler can cause. A meter weighs every event, and \<open>costs w u I k m\<close>
  says: a run of \<open>m\<close> that starts on an object with the property \<open>I\<close> weighs at most \<open>k\<close> units
  of \<open>u\<close>. The bounds of the client's operations and of the controllers are proved once, in the
  locale \<open>meter\<close>, and read off for two meters: the number of requests sent, and the time spent in
  pauses.
\<close>

named_theorems costs_intros \<open>rules for the weight of a computation\<close>

text \<open>One request per security group of the spec and one per rule.\<close>

definition groupEffort :: "OVHSecurityGroup list \<Rightarrow> nat" where
  "groupEffort sgs = (\<Sum>sg\<leftarrow>sgs. Suc (length (OVHSecurityGroup_Rules sg)))"

text \<open>The operations of a call of the machine reconciler, given what it fetched.\<close>

definition machineEffort :: "gerror + OVHMachine \<Rightarrow> nat" where
  "machineEffort r =
     (case r of
        Inl e \<Rightarrow> 0
      | Inr m \<Rightarrow> if ObjectMeta_Deleting (OVHMachine_ObjectMeta m)
               then length (OVHMachineStatus_VolumeIDs (OVHMachine_Status m)) * 2 + 3 else 8)"

section \<open>The weight of a computation\<close>

definition costs :: "('e \<Rightarrow> nat) \<Rightarrow> nat \<Rightarrow> ('o \<Rightarrow> bool) \<Rightarrow> nat \<Rightarrow> ('o, 'w, 'e, 'a) eff \<Rightarrow> bool" where
  "costs w u I k m \<longleftrightarrow>
     (\<forall>s. I (st_obj s) \<longrightarrow> I (st_obj (snd (run_state m s)))
        \<and> (\<exists>es. st_trace (snd (run_state m s)) = st_trace s @ es \<and> (\<Sum>e\<leftarrow>es. w e) \<le> k * u))"

lemma costsD:
  assumes "costs w u I k m" and "I (st_obj s)" and "run_state m s = (a, t)"
  obtains es where "I (st_obj t)" and "st_trace t = st_trace s @ es" and "(\<Sum>e\<leftarrow>es. w e) \<le> k * u"
  using assms unfolding costs_def by (metis snd_conv)

lemma costs_mono: "costs w u I j m \<Longrightarrow> j \<le> k \<Longrightarrow> costs w u I k m"
  unfolding costs_def by (meson mult_le_mono1 order_trans)

lemma costs_return [costs_intros]: "costs w u I 0 (ret x)"
  by (simp add: costs_def)

lemma costs_emit: "w e = 0 \<Longrightarrow> costs w u I 0 (emit e)"
  by (simp add: costs_def)

lemma costs_modifyObj [costs_intros]: "(\<And>x. I x \<Longrightarrow> I (f x)) \<Longrightarrow> costs w u I 0 (modifyObj f)"
  by (simp add: costs_def)

lemma costs_askEnv [costs_intros]: "costs w u I 0 (askEnv f)"
  by (simp add: costs_def)

lemma costs_bind:
  assumes "costs w u I j m" and "\<And>a. costs w u I k (f a)"
  shows "costs w u I (j + k) (State_Monad.bind m f)"
  unfolding costs_def
proof (intro allI impI)
  fix s
  obtain a t where m: "run_state m s = (a, t)" by fastforce
  obtain b v where f: "run_state (f a) t = (b, v)" by fastforce
  assume i: "I (st_obj s)"
  from costsD [OF assms(1) i m] obtain es where
    es: "I (st_obj t)" "st_trace t = st_trace s @ es" "(\<Sum>e\<leftarrow>es. w e) \<le> j * u" .
  from costsD [OF assms(2) es(1) f] obtain fs where
    fs: "I (st_obj v)" "st_trace v = st_trace t @ fs" "(\<Sum>e\<leftarrow>fs. w e) \<le> k * u" .
  have "st_trace v = st_trace s @ es @ fs" and "(\<Sum>e\<leftarrow>es @ fs. w e) \<le> (j + k) * u"
    using es fs by (simp_all add: add_mult_distrib)
  with m f fs(1) show "I (st_obj (snd (run_state (State_Monad.bind m f) s)))
      \<and> (\<exists>es. st_trace (snd (run_state (State_Monad.bind m f) s)) = st_trace s @ es
           \<and> (\<Sum>e\<leftarrow>es. w e) \<le> (j + k) * u)"
    by (metis case_prod_conv run_state_bind snd_conv)
qed

lemma costs_bind_getObj:
  "(\<And>x. I x \<Longrightarrow> costs w u I k (f x)) \<Longrightarrow> costs w u I k (State_Monad.bind getObj f)"
  by (simp add: costs_def)

lemma costs_map: "costs w u I k m \<Longrightarrow> costs w u I k (do { r \<leftarrow> m; ret (f r) })"
  using costs_bind [OF _ costs_return] by fastforce

lemma costs_overwrite:
  assumes "I x" and "costs w u I k m"
  shows "costs w u (\<lambda>_. True) k (do { _ \<leftarrow> modifyObj (\<lambda>_. x); m })"
  unfolding costs_def
proof (intro allI impI conjI)
  fix s
  obtain a t where m: "run_state m (s\<lparr>st_obj := x\<rparr>) = (a, t)" by fastforce
  with assms costsD [OF assms(2) _ m] obtain es where
    "st_trace t = st_trace s @ es" "(\<Sum>e\<leftarrow>es. w e) \<le> k * u" by auto
  with m show "\<exists>es. st_trace (snd (run_state (do { _ \<leftarrow> modifyObj (\<lambda>_. x); m }) s)) = st_trace s @ es
      \<and> (\<Sum>e\<leftarrow>es. w e) \<le> k * u"
    by simp
qed simp

lemma costs_if [costs_intros]:
  "costs w u I j m \<Longrightarrow> costs w u I k n \<Longrightarrow> costs w u I (max j k) (if b then m else n)"
  by (auto intro: costs_mono)

lemma costs_case_sum [costs_intros]:
  "(\<And>e. costs w u I j (f e)) \<Longrightarrow> (\<And>x. costs w u I k (g x))
    \<Longrightarrow> costs w u I (max j k) (case r of Inl e \<Rightarrow> f e | Inr x \<Rightarrow> g x)"
  by (cases r) (auto intro: costs_mono [OF _ max.cobounded1] costs_mono [OF _ max.cobounded2])

lemma costs_case_option [costs_intros]:
  "costs w u I j m \<Longrightarrow> (\<And>x. costs w u I k (g x))
    \<Longrightarrow> costs w u I (max j k) (case r of None \<Rightarrow> m | Some x \<Rightarrow> g x)"
  by (cases r) (auto intro: costs_mono [OF _ max.cobounded1] costs_mono [OF _ max.cobounded2])

lemma costs_case_prod [costs_intros]:
  "(\<And>x y. costs w u I k (f x y)) \<Longrightarrow> costs w u I k (case r of (x, y) \<Rightarrow> f x y)"
  by (cases r) simp

lemma costs_Let [costs_intros]: "(\<And>x. x = t \<Longrightarrow> costs w u I k (f x)) \<Longrightarrow> costs w u I k (let x = t in f x)"
  by simp

lemma costs_forEach:
  "(\<And>x. costs w u I k (body x)) \<Longrightarrow> costs w u I (length xs * k) (forEach xs body)"
  by (induction xs) (auto intro: costs_return costs_bind)

text \<open>Reading the object and running the rest comes before the plain rule for sequences.\<close>

lemmas costs_binds = costs_bind_getObj costs_bind

section \<open>The two loops of the client\<close>

text \<open>With the unit 1 the judgement is about plain weight.\<close>

lemma costs_free: "costs w u I k (ret x)"
  by (rule costs_mono [OF costs_return]) simp

lemma costs_silent:
  assumes "emits P m" and "keepsObj m" and "\<And>e. P e \<Longrightarrow> w e = 0"
  shows "costs w u I 0 m"
  unfolding costs_def
proof (intro allI impI conjI)
  fix s
  obtain a t where m: "run_state m s = (a, t)" by fastforce
  from emitsD [OF assms(1) m] obtain es where es: "st_trace t = st_trace s @ es" "\<forall>e \<in> set es. P e" .
  from es(2) assms(3) have "(\<Sum>e\<leftarrow>es. w e) = 0" by (simp add: sum_list_eq_0_iff)
  with m es(1) show "\<exists>es. st_trace (snd (run_state m s)) = st_trace s @ es \<and> (\<Sum>e\<leftarrow>es. w e) \<le> 0 * u"
    by auto
  assume "I (st_obj s)"
  with keepsObjD [OF assms(2) m] m show "I (st_obj (snd (run_state m s)))" by simp
qed

lemma costs_weigh: "costs w 1 I (w e) (emit e)"
  by (simp add: costs_def)

lemma costs_unit: "costs w 1 I j m \<Longrightarrow> j \<le> k * u \<Longrightarrow> costs w u I k m"
  by (simp add: costs_def) (meson order_trans)

lemma retryFrom_weight:
  assumes "costs w 1 I c fn"
  shows "k \<le> maxRetries \<Longrightarrow>
    costs w 1 I (Suc (maxRetries - k) * c + (\<Sum>i = k..<maxRetries. w (Sleep (backoff i)))) (retryFrom op fn k)"
proof (induction "maxRetries - k" arbitrary: k)
  case 0
  then have k: "k = maxRetries" by simp
  have "costs w 1 I (c + 0) (retryFrom op fn k)"
    by (subst retryFrom.simps, rule costs_bind [OF assms])
      (simp add: k costs_return split: sum.split del: One_nat_def)
  then show ?case by (simp add: k)
next
  case (Suc n)
  then have k: "k < maxRetries" by simp
  let ?rest = "Suc (maxRetries - Suc k) * c + (\<Sum>i = Suc k..<maxRetries. w (Sleep (backoff i)))"
  have split: "Suc (maxRetries - k) * c + (\<Sum>i = k..<maxRetries. w (Sleep (backoff i)))
      = c + (w (Sleep (backoff k)) + ?rest)"
    using k by (simp add: sum.atLeast_Suc_lessThan Suc_diff_Suc [symmetric])
  have "costs w 1 I ?rest (retryFrom op fn (Suc k))"
    using Suc by simp
  from costs_bind [OF costs_weigh this]
  have "costs w 1 I (w (Sleep (backoff k)) + ?rest)
      (do { _ \<leftarrow> emit (Sleep (backoff k)); retryFrom op fn (Suc k) })" .
  then show ?case
    unfolding split
    by (subst retryFrom.simps, intro costs_bind [OF assms])
      (simp add: k costs_free split: sum.split del: One_nat_def)
qed

lemma pollLoadBalancer_weight:
  assumes "costs w 1 I b (findLoadBalancerByName c name)"
  shows "k \<le> maxLookupAttempts \<Longrightarrow>
    costs w 1 I ((maxLookupAttempts - k) * b
        + (\<Sum>i = k..<maxLookupAttempts. w (Sleep (int (2 * (i + 1)) * second)))) (pollLoadBalancer c name k)"
proof (induction "maxLookupAttempts - k" arbitrary: k)
  case 0
  then show ?case
    by (subst pollLoadBalancer.simps) (auto intro: costs_intros)
next
  case (Suc n)
  then have k: "k < maxLookupAttempts" by simp
  let ?p = "w (Sleep (int (2 * (k + 1)) * second))"
  let ?rest = "(maxLookupAttempts - Suc k) * b
      + (\<Sum>i = Suc k..<maxLookupAttempts. w (Sleep (int (2 * (i + 1)) * second)))"
  have split: "(maxLookupAttempts - k) * b
        + (\<Sum>i = k..<maxLookupAttempts. w (Sleep (int (2 * (i + 1)) * second))) = b + (?p + ?rest)"
    using k by (simp add: sum.atLeast_Suc_lessThan Suc_diff_Suc [symmetric])
  have "costs w 1 I ?rest (pollLoadBalancer c name (Suc k))"
    using Suc by simp
  from costs_bind [OF costs_weigh this]
  have rest: "costs w 1 I (?p + ?rest)
      (do { _ \<leftarrow> emit (Sleep (int (2 * (k + 1)) * second)); pollLoadBalancer c name (Suc k) })" .
  show ?case
    unfolding split pollLoadBalancer.simps [of c name k] if_P [OF k]
    by (rule costs_bind [OF assms]) (use rest in \<open>simp add: costs_free split: sum.split option.split del: One_nat_def\<close>)
qed

section \<open>Meters\<close>

text \<open>
  A meter fits the client when one retried request, with all its pauses, weighs at most one unit, the
  pauses of the polling loop weigh two, and what the controllers do besides is free.
\<close>

locale meter =
  fixes w :: "event \<Rightarrow> nat" and u :: nat
  assumes request: "Suc maxRetries * w (Call r) + (\<Sum>i = 0..<maxRetries. w (Sleep (backoff i))) \<le> u"
    and polling: "(\<Sum>i = 0..<maxLookupAttempts. w (Sleep (int (2 * (i + 1)) * second))) \<le> 2 * u"
    and free: "w (Kube k) = 0" "w (Inc x) = 0" "w (Observe x l) = 0" "w (SetGauge x l n) = 0"
begin

lemma spends_free [costs_intros]:
  "costs w u I 0 (emit (Kube k))" "costs w u I 0 (emit (Inc x))" "costs w u I 0 (emit (Observe x l))"
  "costs w u I 0 (emit (SetGauge x l n))"
  by (simp_all add: costs_emit free)

lemma request_weight: "costs w 1 I u (retryWithBackoff op (exchange c req dec))"
proof (rule costs_mono)
  have "costs w 1 I (w (Call req) + (0 + 0)) (exchange c req dec)"
    unfolding exchange_def by (intro costs_bind costs_weigh costs_intros)
  then show "costs w 1 I (Suc (maxRetries - 0) * w (Call req) + (\<Sum>i = 0..<maxRetries. w (Sleep (backoff i))))
      (retryWithBackoff op (exchange c req dec))"
    unfolding retryWithBackoff_def by (intro retryFrom_weight) simp_all
qed (use request [of req] in simp)

lemma spends_request [costs_intros]: "costs w u I 1 (retryWithBackoff op (exchange c req dec))"
  by (rule costs_unit [OF request_weight]) simp

lemma spends_loadBalancer [costs_intros]: "costs w u I 14 (CreateLoadBalancer c opts)"
proof -
  have find: "costs w u I 1 (findLoadBalancerByName c name)" for name
    by (simp only: findLoadBalancerByName_def costs_map spends_request)
  have poll: "costs w u I 12 (pollLoadBalancer c name 0)" for name
  proof (rule costs_unit [OF pollLoadBalancer_weight])
    show "costs w 1 I u (findLoadBalancerByName c name)"
      unfolding findLoadBalancerByName_def by (rule costs_map [OF request_weight])
    show "(maxLookupAttempts - 0) * u
        + (\<Sum>i = 0..<maxLookupAttempts. w (Sleep (int (2 * (i + 1)) * second))) \<le> 12 * u"
      using polling by (simp add: maxLookupAttempts_def)
  qed simp
  show ?thesis
    unfolding CreateLoadBalancer_def
    by (rule costs_mono, (rule costs_binds costs_intros find poll spends_request)+) simp
qed

text \<open>An operation that only processes the answer of another costs what that one costs.\<close>

lemmas client_costs = spends_request costs_map

lemma spends_machine_client [costs_intros]:
  "costs w u I 1 (GetInstance c i)" "costs w u I 1 (DeleteInstance c i)"
  "costs w u I 1 (CreateInstance c iopts)" "costs w u I 1 (FindInstanceByName c name)"
  "costs w u I 1 (GetFlavorByName c name)" "costs w u I 1 (GetSSHKeyByName c name)"
  "costs w u I 1 (FindPoolByName c i name)" "costs w u I 1 (ListPoolMembers c i)"
  "costs w u I 1 (AddPoolMember c i mopts)" "costs w u I 1 (RemovePoolMember c i j)"
  "costs w u I 1 (DetachVolume c i j)" "costs w u I 1 (DeleteVolume c i)"
  by (simp_all only: client_costs GetInstance_def DeleteInstance_def CreateInstance_def
      FindInstanceByName_def ListInstances_def GetFlavorByName_def ListFlavors_def GetSSHKeyByName_def
      ListSSHKeys_def FindPoolByName_def ListPoolMembers_def AddPoolMember_def AddPoolMembers_def
      RemovePoolMember_def DetachVolume_def DeleteVolume_def)

lemma spends_image [costs_intros]: "costs w u I 2 (GetImageByName c name)"
  unfolding GetImageByName_def ListImages_def ListSnapshots_def
  by (rule costs_mono, (rule costs_binds costs_intros client_costs)+) simp

lemma spends_cluster_client [costs_intros]:
  "costs w u I 1 (GetPrivateNetwork c i)" "costs w u I 1 (CreatePrivateNetwork c nopts)"
  "costs w u I 1 (ListSubnets c i)" "costs w u I 1 (CreateSubnet c i sopts)"
  "costs w u I 1 (GetLBFlavorByName c name)" "costs w u I 1 (GetLoadBalancer c i)"
  "costs w u I 1 (FindListenerByName c i name)" "costs w u I 1 (CreateListener c lopts)"
  "costs w u I 1 (CreatePool c popts)" "costs w u I 1 (FindHealthMonitorByName c name)"
  "costs w u I 1 (CreateHealthMonitor c hopts)" "costs w u I 1 (ListGateways c)"
  "costs w u I 1 (ExposeGateway c i)" "costs w u I 1 (CreateLoadBalancerFloatingIP c i ip name)"
  "costs w u I 1 (ListFloatingIPs c)" "costs w u I 1 (GetFloatingIP c i)" "costs w u I 1 (GetRegionInfo c)"
  "costs w u I 1 (ListSecurityGroups c)" "costs w u I 1 (CreateSecurityGroup c gopts)"
  "costs w u I 1 (CreateSecurityGroupRule c i ropts)" "costs w u I 1 (CreateDNSRecord c zone dopts)"
  "costs w u I 1 (RefreshDNSZone c zone)"
  by (simp_all only: client_costs GetPrivateNetwork_def CreatePrivateNetwork_def ListSubnets_def
      CreateSubnet_def GetLBFlavorByName_def ListLBFlavors_def GetLoadBalancer_def FindListenerByName_def
      ListListeners_def CreateListener_def CreatePool_def FindHealthMonitorByName_def
      ListHealthMonitors_def CreateHealthMonitor_def ListGateways_def ExposeGateway_def
      CreateLoadBalancerFloatingIP_def ListFloatingIPs_def GetFloatingIP_def GetRegionInfo_def
      ListSecurityGroups_def CreateSecurityGroup_def CreateSecurityGroupRule_def CreateDNSRecord_def
      RefreshDNSZone_def)

lemma spends_credentials [costs_intros]: "costs w u I 1 (ValidateCredentials c)"
  unfolding ValidateCredentials_def by (rule costs_mono, (rule costs_binds costs_intros)+) simp

section \<open>The machine reconciler\<close>

lemma spends_node [costs_intros]: "costs w u I 0 (InitializeWorkloadNode cfg name providerID)"
  by (rule costs_silent [OF InitializeWorkloadNode_emits InitializeWorkloadNode_keepsObj])
    (auto simp: nodeInitEvent_def free)

abbreviation anything :: "OVHMachine \<Rightarrow> bool" where "anything \<equiv> \<lambda>_. True"

lemma spends_writes [costs_intros]:
  "costs w u anything 0 (setStatus f)" "costs w u anything 0 (setCondition d ty st re ms)"
  "costs w u anything 0 (setFinalizers g)"
  unfolding setStatus_def setCondition_def setFinalizers_def by (simp_all add: costs_modifyObj)

lemma spends_existing: "costs w u anything 5 (handleExistingInstance d scope inst)"
  unfolding handleExistingInstance_def handleActive_def ensureLBPoolMember_def registerPoolMember_def
    ensureRKE2RegisterPoolMember_def initializeMachineNode_def
  by (rule costs_mono, (rule costs_binds costs_intros TrueI)+) simp

lemma spends_create: "costs w u anything 5 (createInstance d scope)"
  unfolding createInstance_def prepareInstance_def resolveSSHKey_def submitInstance_def
  by (rule costs_mono, (rule costs_binds costs_intros)+) simp

lemma spends_ReconcileNormal: "costs w u anything 8 (ReconcileNormal d scope)"
  unfolding ReconcileNormal_def normalBody_def reconcileInstance_def orElse_def findKnownInstance_def
    adoptInstance_def findNamedInstance_def
  by (rule costs_mono, (rule costs_binds costs_intros spends_existing spends_create)+) simp

text \<open>The volumes to delete are those of the status, which a deletion does not change.\<close>

abbreviation volumes :: "string list \<Rightarrow> OVHMachine \<Rightarrow> bool" where
  "volumes vols m \<equiv> OVHMachineStatus_VolumeIDs (OVHMachine_Status m) = vols"

lemma spends_volume_writes [costs_intros]:
  "costs w u (volumes vols) 0 (setStatus (\<lambda>s. s\<lparr>OVHMachineStatus_LBPoolMemberID := x\<rparr>))"
  "costs w u (volumes vols) 0 (setFinalizers g)"
  unfolding setStatus_def setFinalizers_def by (simp_all add: costs_modifyObj)

lemma spends_volume: "costs w u I 2 (deleteVolume scope m i)"
  unfolding deleteVolume_def by (rule costs_mono, (rule costs_binds costs_intros)+) simp

lemma spends_volumes [costs_intros]:
  "volumes vols m \<Longrightarrow> costs w u (volumes vols) (length vols * 2)
     (forEach (OVHMachineStatus_VolumeIDs (OVHMachine_Status m)) (deleteVolume scope m))"
  by (simp add: costs_forEach spends_volume)

lemma spends_ReconcileDelete: "costs w u (volumes vols) (length vols * 2 + 3) (ReconcileDelete d scope)"
  unfolding ReconcileDelete_def deleteBody_def removeLBPoolMember_def deleteInstance_def
    removeMachineFinalizer_def
  by (rule costs_mono, (rule costs_binds costs_intros | assumption)+) simp

section \<open>The cluster reconciler\<close>

text \<open>Of the spec only the endpoint is written, so the security groups stay what they are.\<close>

abbreviation groups :: "OVHSecurityGroup list \<Rightarrow> OVHCluster \<Rightarrow> bool" where
  "groups sgs c \<equiv> OVHClusterSpec_SecurityGroups (OVHCluster_Spec c) = sgs"

lemma spends_cluster_writes [costs_intros]:
  "costs w u (groups sgs) 0 (setClusterStatus f)" "costs w u (groups sgs) 0 (setClusterFinalizers g)"
  "costs w u (groups sgs) 0 (setClusterCondition d ty st re ms)" "costs w u (groups sgs) 0 (recordFIP x)"
  "costs w u (groups sgs) 0 (recordSG x y)"
  unfolding setClusterStatus_def setClusterFinalizers_def setClusterCondition_def recordFIP_def recordSG_def
  by (simp_all add: costs_modifyObj)

lemma spends_endpoint [costs_intros]: "costs w u (groups sgs) 0 (setEndpoint host)"
  unfolding setEndpoint_def
  by (rule costs_mono, (rule costs_binds costs_intros)+) (simp_all add: costs_return)

lemma spends_andThen [costs_intros]:
  "costs w u I j m \<Longrightarrow> costs w u I k n \<Longrightarrow> costs w u I (j + k) (andThen m n)"
  unfolding andThen_def by (rule costs_mono, (rule costs_binds costs_intros | assumption)+) simp

lemma spends_case_list [costs_intros]:
  "costs w u I j m \<Longrightarrow> (\<And>x xs. costs w u I k (g x xs))
    \<Longrightarrow> costs w u I (max j k) (case r of [] \<Rightarrow> m | x # xs \<Rightarrow> g x xs)"
  by (cases r) (auto intro: costs_mono [OF _ max.cobounded1] costs_mono [OF _ max.cobounded2])

lemma spends_network: "costs w u (groups sgs) 4 (reconcileNetwork d scope)"
  unfolding reconcileNetwork_def ensureNetwork_def checkNetwork_def ensureSubnet_def networkReady_def
  by (rule costs_mono, (rule costs_binds costs_intros)+) simp

lemma spends_gateway [costs_intros]: "costs w u (groups sgs) 2 (ensureGatewayExposed scope)"
  unfolding ensureGatewayExposed_def discoverGateway_def
  by (rule costs_mono, (rule costs_binds costs_intros)+) simp

lemma spends_floatingIP [costs_intros]: "costs w u (groups sgs) 9 (reconcileFloatingIP scope lb)"
  unfolding reconcileFloatingIP_def recordedFloatingIP_def discoverFloatingIP_def allocateFloatingIP_def
    locateFloatingIP_def listedFloatingIP_def
  by (rule costs_mono, (rule costs_binds costs_intros)+) simp

lemma spends_port [costs_intros]: "costs w u (groups sgs) 6 (reconcileLBPort scope name port p q)"
  unfolding reconcileLBPort_def ensureListener_def ensurePool_def ensurePoolHealthMonitor_def
  by (rule costs_mono, (rule costs_binds costs_intros)+) simp

lemma spends_createLB [costs_intros]: "costs w u (groups sgs) 16 (createLB d scope)"
  unfolding createLB_def prepareLB_def submitLB_def
  by (rule costs_mono, (rule costs_binds costs_intros)+) simp

lemma spends_loadBalancerStep: "costs w u (groups sgs) 22 (reconcileLoadBalancer d scope)"
  unfolding reconcileLoadBalancer_def adoptLB_def handleExistingLB_def exposeLB_def publishEndpoint_def
  by (rule costs_mono, (rule costs_binds costs_intros)+) simp

lemma spends_rule: "costs w u I 1 (do { _ \<leftarrow> CreateSecurityGroupRule c i opts; ret () })"
  by (intro costs_map spends_cluster_client)

lemma spends_group [costs_intros]:
  "costs w u (groups sgs) (Suc (length (OVHSecurityGroup_Rules sg))) (reconcileSecurityGroup scope ex sg)"
  unfolding reconcileSecurityGroup_def
  by (rule costs_mono, (rule costs_binds costs_intros costs_forEach [OF spends_rule])+) simp

lemma spends_eachGroup [costs_intros]:
  "costs w u (groups sgs) (groupEffort xs) (reconcileEachSecurityGroup scope ex xs)"
proof (induction xs)
  case (Cons sg xs)
  show ?case
    unfolding reconcileEachSecurityGroup.simps
    by (rule costs_mono, (rule costs_binds costs_intros Cons.IH)+) (simp add: groupEffort_def)
qed (simp add: groupEffort_def costs_return)

lemma spends_groups: "costs w u (groups sgs) (Suc (groupEffort sgs)) (reconcileSecurityGroups scope)"
  unfolding reconcileSecurityGroups_def Let_def
  by (rule costs_bind_getObj, simp only:, rule costs_mono, (rule costs_binds costs_intros)+) simp

lemma spends_ClusterReconcileNormal:
  "costs w u (groups sgs) (31 + groupEffort sgs) (ClusterReconcileNormal d scope)"
  unfolding ClusterReconcileNormal_def clusterNormalBody_def reconcileCredentials_def
    reconcileFailureDomains_def clusterEndGame_def reconcileDNS_def
  by (rule costs_mono, (rule costs_binds costs_intros spends_network spends_groups spends_loadBalancerStep)+)
    simp

text \<open>The whole call: the object is fetched first, and the patch at the end is not a cloud request.\<close>

lemma spends_fetched:
  "ObjectMeta_Deleting (OVHMachine_ObjectMeta m)
    \<Longrightarrow> costs w u (volumes vols) (length vols * 2 + 3) (reconcileFetched d m)"
  "\<not> ObjectMeta_Deleting (OVHMachine_ObjectMeta m) \<Longrightarrow> costs w u anything 8 (reconcileFetched d m)"
  unfolding reconcileFetched_def Let_def
  by (auto simp: costs_free spends_ReconcileDelete spends_ReconcileNormal split: sum.split option.split)

lemma costs_fetch:
  assumes "costs w u I k (reconcileFetched d m)" and "I m" and "Deps_getOVHMachine d ns name = Inr m"
  shows "costs w u anything k (Reconcile d ns name)"
proof -
  have "costs w u I k (case Deps_newMachinePatchHelper d m of
       Some e \<Rightarrow> ret (failed e)
     | None \<Rightarrow> do { r \<leftarrow> reconcileFetched d m; m' \<leftarrow> getObj; ret (f r m') })" for f
    by (rule costs_mono, (rule costs_binds costs_intros assms(1))+) simp
  then show ?thesis
    unfolding Reconcile_def assms(3) sum.case by (rule costs_overwrite [of I, OF assms(2)])
qed

lemma spends_Reconcile: "costs w u anything (machineEffort (Deps_getOVHMachine d ns name)) (Reconcile d ns name)"
proof (cases "Deps_getOVHMachine d ns name")
  case (Inl e)
  then show ?thesis by (simp add: Reconcile_def machineEffort_def costs_return)
next
  case (Inr m)
  show ?thesis
    unfolding machineEffort_def Inr
    by (auto intro: costs_fetch [OF _ _ Inr] spends_fetched)
qed

end

section \<open>Requests and pauses\<close>

fun requestWeight :: "event \<Rightarrow> nat" where
  "requestWeight (Call r) = 1"
| "requestWeight _ = 0"

fun pauseWeight :: "event \<Rightarrow> nat" where
  "pauseWeight (Sleep n) = nat n"
| "pauseWeight _ = 0"

abbreviation pausePerRequest :: nat where "pausePerRequest \<equiv> 62000000000"

interpretation requests: meter requestWeight 6
  by unfold_locales (simp_all add: maxRetries_def)

interpretation pauses: meter pauseWeight pausePerRequest
  by unfold_locales
    (simp_all add: maxRetries_def maxLookupAttempts_def backoff_def initialBackoff_def maxBackoff_def
      atLeastLessThan_nat_numeral)

lemma costs_both:
  assumes "costs v j I k m" and "costs w u I k m" and "I (st_obj s)"
  shows "\<exists>es. st_trace (snd (run_state m s)) = st_trace s @ es
    \<and> (\<Sum>e\<leftarrow>es. v e) \<le> k * j \<and> (\<Sum>e\<leftarrow>es. w e) \<le> k * u"
  using assms unfolding costs_def by (metis same_append_eq)

text \<open>C20: one call of the machine reconciler always ends, and its cost is bounded by what was fetched:
  without an object it sends nothing; a live machine costs at most 48 requests and 496 seconds of
  pauses, whatever the cloud answers; a machine that is being deleted at most six requests and 62
  seconds for each of two operations per recorded volume and three more.\<close>

theorem Reconcile_effort:
  "\<exists>es. st_trace (snd (run_state (Reconcile d ns name) s)) = st_trace s @ es
     \<and> (\<Sum>e\<leftarrow>es. requestWeight e) \<le> machineEffort (Deps_getOVHMachine d ns name) * 6
     \<and> (\<Sum>e\<leftarrow>es. pauseWeight e) \<le> machineEffort (Deps_getOVHMachine d ns name) * pausePerRequest"
  by (rule costs_both [OF requests.spends_Reconcile pauses.spends_Reconcile]) simp

text \<open>C21: one reconcile of a live cluster always ends, after at most 31 operations and one more for every
  security group of the spec and every rule of it, each of at most six requests and 62 seconds of
  pauses; the polling for a new load balancer is among the 31.\<close>

theorem ClusterReconcileNormal_effort:
  "\<exists>es. st_trace (snd (run_state (ClusterReconcileNormal d scope) s)) = st_trace s @ es
     \<and> (\<Sum>e\<leftarrow>es. requestWeight e)
       \<le> (31 + groupEffort (OVHClusterSpec_SecurityGroups (OVHCluster_Spec (st_obj s)))) * 6
     \<and> (\<Sum>e\<leftarrow>es. pauseWeight e)
       \<le> (31 + groupEffort (OVHClusterSpec_SecurityGroups (OVHCluster_Spec (st_obj s)))) * pausePerRequest"
  by (rule costs_both [OF requests.spends_ClusterReconcileNormal pauses.spends_ClusterReconcileNormal]) simp

end
