(* ===== verification/Machine_Properties.thy ===== *)
theory Machine_Properties
  imports Machine_Controller
begin

text \<open>
  What the machine reconciler guarantees: the guards before the first request, the requests it may
  send, the status it reports, the deletion protocol, and the invariants of the machines that a
  sequence of reconciles can reach.
\<close>

section \<open>Rules for the writes\<close>

lemma runs_setStatus [runs_intros]:
  "(\<And>m. I m \<Longrightarrow> I (m\<lparr>OVHMachine_Status := f (OVHMachine_Status m)\<rparr>)) \<Longrightarrow> runs I P (setStatus f)"
  unfolding setStatus_def by (intro runs_intros)

lemma runs_setFinalizers [runs_intros]:
  "(\<And>m. I m \<Longrightarrow> I (m\<lparr>OVHMachine_ObjectMeta := (OVHMachine_ObjectMeta m)\<lparr>
       ObjectMeta_Finalizers := f (machineFinalizers m)\<rparr>\<rparr>)) \<Longrightarrow> runs I P (setFinalizers f)"
  unfolding setFinalizers_def by (intro runs_intros)

lemma runs_setCondition [runs_intros]:
  "(\<And>m cs. I m \<Longrightarrow> I (m\<lparr>OVHMachine_Status := (OVHMachine_Status m)\<lparr>
       OVHMachineStatus_Conditions := cs\<rparr>\<rparr>)) \<Longrightarrow> runs I P (setCondition d ty st re ms)"
  unfolding setCondition_def by (intro runs_intros)

lemma wp_setStatus [wp_rules]:
  "wp (setStatus f) Q s = Q () (s\<lparr>st_obj := (st_obj s)\<lparr>
     OVHMachine_Status := f (OVHMachine_Status (st_obj s))\<rparr>\<rparr>)"
  unfolding setStatus_def by (simp add: wp_rules)

lemma wp_setFinalizers [wp_rules]:
  "wp (setFinalizers f) Q s = Q () (s\<lparr>st_obj := (st_obj s)\<lparr>
     OVHMachine_ObjectMeta := (OVHMachine_ObjectMeta (st_obj s))\<lparr>
       ObjectMeta_Finalizers := f (machineFinalizers (st_obj s))\<rparr>\<rparr>\<rparr>)"
  unfolding setFinalizers_def by (simp add: wp_rules)

section \<open>Guards\<close>

text \<open>What holds before the reconciler talks to anybody.\<close>

definition machineGuard :: "'w Deps \<Rightarrow> 'w MachineScope \<Rightarrow> OVHMachine \<Rightarrow> bool" where
  "machineGuard d scope m \<longleftrightarrow>
     \<not> Deps_IsPaused d (MachineScope_Cluster scope) (OVHMachine_ObjectMeta m)
     \<and> (Deps_ContainsFinalizer d (machineFinalizers m) MachineFinalizer
        \<or> ObjectMeta_Deleting (OVHMachine_ObjectMeta m))
     \<and> Cluster_InfrastructureProvisioned (MachineScope_Cluster scope) = Some True
     \<and> Machine_DataSecretName (MachineScope_Machine scope) \<noteq> None"

definition metricsOnly :: "event \<Rightarrow> bool" where
  "metricsOnly e \<longleftrightarrow> (\<forall>r. e \<noteq> Call r) \<and> (\<forall>k. e \<noteq> Kube k) \<and> (\<forall>n. e \<noteq> Sleep n)"

lemma normalBody_guarded:
  "\<not> machineGuard d scope (st_obj s) \<Longrightarrow>
   wp (normalBody d scope) (\<lambda>r t. st_trace t = st_trace s \<and> st_env t = st_env s
     \<and> machineInstanceID (st_obj t) = machineInstanceID (st_obj s)) s"
  by (auto simp: normalBody_def machineGuard_def setCondition_def wp_rules)

lemma normalBody_passes:
  "machineGuard d scope (st_obj s) \<Longrightarrow>
   run_state (normalBody d scope) s = run_state (reconcileInstance d scope) s"
  by (auto simp: normalBody_def machineGuard_def)

text \<open>While the machine is paused, has no finalizer yet, or waits for the cluster's
  infrastructure or its bootstrap data, a reconcile sends no request at all, neither to OVH nor to
  the workload cluster, and leaves the outside world and the recorded instance as they are.\<close>

lemma ReconcileNormal_guarded:
  assumes "\<not> machineGuard d scope (st_obj s)"
    and "run_state (ReconcileNormal d scope) s = (r, t)"
  shows "\<exists>es. st_trace t = st_trace s @ es \<and> list_all metricsOnly es \<and> st_env t = st_env s
    \<and> machineInstanceID (st_obj t) = machineInstanceID (st_obj s)"
proof -
  have "wp (ReconcileNormal d scope) (\<lambda>r t. \<exists>es. st_trace t = st_trace s @ es
      \<and> list_all metricsOnly es \<and> st_env t = st_env s
      \<and> machineInstanceID (st_obj t) = machineInstanceID (st_obj s)) s"
    unfolding ReconcileNormal_def wp_rules
    by (rule wp_mono [OF normalBody_guarded [OF assms(1)]]) (simp add: metricsOnly_def)
  from wpD [OF this assms(2)] show ?thesis .
qed

section \<open>The requests of a reconcile\<close>

definition ownInstance :: "'w MachineScope \<Rightarrow> ObjectMeta \<Rightarrow> CreateInstanceOpts \<Rightarrow> bool" where
  "ownInstance scope meta opts \<longleftrightarrow>
     CreateInstanceOpts_Name opts =
       GenerateRFC1035Name [Cluster_Name (MachineScope_Cluster scope), ObjectMeta_Name meta]
     \<and> CreateInstanceOpts_Region opts =
       OVHClusterSpec_Region (OVHCluster_Spec (MachineScope_OVHCluster scope))
     \<and> CreateInstanceOpts_Networks opts = instanceNetworks scope
     \<and> CreateInstanceOpts_UserData opts \<noteq> ''''"

definition ownMember :: "'w MachineScope \<Rightarrow> CreateMemberOpts \<Rightarrow> bool" where
  "ownMember scope opts \<longleftrightarrow>
     CreateMemberOpts_Name opts = Machine_Name (MachineScope_Machine scope)
     \<and> CreateMemberOpts_Address opts \<noteq> ''''
     \<and> CreateMemberOpts_ProtocolPort opts \<in> {6443, 9345}"

fun normalRequest :: "'w Deps \<Rightarrow> 'w MachineScope \<Rightarrow> ObjectMeta \<Rightarrow> request \<Rightarrow> bool" where
  "normalRequest d scope meta (Get p) = True"
| "normalRequest d scope meta (Delete p) = False"
| "normalRequest d scope meta (Post p b) =
     (let c = MachineScope_OVHClient scope in
      (p = projectPath c ''/instance'' \<and> (\<exists>opts. b = BInstance opts \<and> ownInstance scope meta opts))
      \<or> (Deps_IsControlPlaneMachine d (MachineScope_Machine scope)
         \<and> (\<exists>pool opts. p = regionPath c (''/loadbalancing/pool/'' @ pool @ ''/member'')
              \<and> b = BMembers \<lparr>addPoolMembersRequest_Members = [opts]\<rparr> \<and> ownMember scope opts)))"

definition normalEvent :: "'w Deps \<Rightarrow> 'w MachineScope \<Rightarrow> ObjectMeta \<Rightarrow> event \<Rightarrow> bool" where
  "normalEvent d scope meta e \<longleftrightarrow> (\<forall>r. e = Call r \<longrightarrow> normalRequest d scope meta r)"

lemma normalEvent_simps [simp]:
  "normalEvent d scope meta (Call r) = normalRequest d scope meta r"
  "normalEvent d scope meta (Sleep n)" "normalEvent d scope meta (Inc x)"
  "normalEvent d scope meta (Observe x l)" "normalEvent d scope meta (SetGauge x l i)"
  "normalEvent d scope meta (Kube k)"
  by (simp_all add: normalEvent_def)

lemma normalEvent_nodeInit [simp]: "nodeInitEvent n p e \<Longrightarrow> normalEvent d scope meta e"
  by (auto simp: nodeInitEvent_def)

abbreviation hasMeta :: "ObjectMeta \<Rightarrow> OVHMachine \<Rightarrow> bool" where
  "hasMeta meta m \<equiv> OVHMachine_ObjectMeta m = meta"

lemma ensureLBPoolMember_normal [runs_intros]:
  "runs (hasMeta meta) (normalEvent d scope meta) (ensureLBPoolMember d scope i)"
  unfolding ensureLBPoolMember_def registerPoolMember_def ensureRKE2RegisterPoolMember_def
  by (intro runs_intros) (auto simp: ownMember_def memberOpts_def Let_def)

lemma handleExistingInstance_normal [runs_intros]:
  "runs (hasMeta meta) (normalEvent d scope meta) (handleExistingInstance d scope i)"
  unfolding handleExistingInstance_def handleActive_def initializeMachineNode_def
  by (intro runs_intros) auto

lemma PrepareUserData_nonempty: "PrepareUserData b = Inr u \<Longrightarrow> u \<noteq> ''''"
  by (auto simp: PrepareUserData_def split: if_splits)

lemma createInstance_normal [runs_intros]:
  "runs (hasMeta meta) (normalEvent d scope meta) (createInstance d scope)"
  unfolding createInstance_def prepareInstance_def resolveSSHKey_def submitInstance_def
  by (intro runs_intros)
    (auto simp: ownInstance_def instanceOpts_def instanceName_def Let_def dest: PrepareUserData_nonempty)

lemma reconcileInstance_normal [runs_intros]:
  "runs (hasMeta meta) (normalEvent d scope meta) (reconcileInstance d scope)"
  unfolding reconcileInstance_def orElse_def findKnownInstance_def adoptInstance_def
    findNamedInstance_def
  by (intro runs_intros) auto

text \<open>C24: a reconcile of a machine that is not being deleted never deletes anything. The requests
  that change the cloud are at most: creating an instance under the machine's own generated name,
  in the cluster's region and network, with non-empty user data; and, for a control-plane machine
  only, adding one member to a pool, on port 6443 or 9345.\<close>

theorem ReconcileNormal_requests:
  assumes "run_state (ReconcileNormal d scope) s = (r, t)"
  shows "\<exists>es. st_trace t = st_trace s @ es
    \<and> list_all (normalEvent d scope (OVHMachine_ObjectMeta (st_obj s))) es"
proof -
  let ?P = "normalEvent d scope (OVHMachine_ObjectMeta (st_obj s))"
  have body: "wp (normalBody d scope) (\<lambda>r t. \<exists>es. st_trace t = st_trace s @ es \<and> (\<forall>e \<in> set es. ?P e)) s"
  proof (cases "machineGuard d scope (st_obj s)")
    case True
    have "wp (reconcileInstance d scope) (\<lambda>r t. \<exists>es. st_trace t = st_trace s @ es
        \<and> (\<forall>e \<in> set es. ?P e)) s"
      by (rule runs_wp [OF reconcileInstance_normal]) auto
    with True show ?thesis by (simp add: wp_def normalBody_passes)
  next
    case False
    show ?thesis by (rule wp_mono [OF normalBody_guarded [OF False]]) simp
  qed
  have "wp (ReconcileNormal d scope) (\<lambda>r t. \<exists>es. st_trace t = st_trace s @ es \<and> list_all ?P es) s"
    unfolding ReconcileNormal_def wp_rules
    by (rule wp_mono [OF body]) (auto simp: list_all_iff)
  from wpD [OF this assms] show ?thesis .
qed

section \<open>When an instance is created\<close>

definition lookup :: "'w MachineScope \<Rightarrow> ('w, gerror + Instance option) mact" where
  "lookup scope = orElse (findKnownInstance scope) (orElse (adoptInstance scope) (findNamedInstance scope))"

lemma reconcileInstance_lookup:
  "reconcileInstance d scope = do {
     r \<leftarrow> lookup scope;
     (case r of
        Inl e \<Rightarrow> ret (failed e)
      | Inr (Some inst) \<Rightarrow> handleExistingInstance d scope inst
      | Inr None \<Rightarrow> createInstance d scope)
   }"
  by (simp add: reconcileInstance_def lookup_def)

definition isRead :: "event \<Rightarrow> bool" where
  "isRead e \<longleftrightarrow> (\<exists>p. e = Call (Get p)) \<or> (\<exists>n. e = Sleep n)"

lemma lookup_reads: "runs (hasMeta meta) isRead (lookup scope)"
  unfolding lookup_def orElse_def findKnownInstance_def adoptInstance_def findNamedInstance_def
  by (intro runs_intros) (auto simp: isRead_def)

text \<open>Creating is the only branch that posts to the instance collection.\<close>

definition createsInstance :: "'w MachineScope \<Rightarrow> event \<Rightarrow> bool" where
  "createsInstance scope e \<longleftrightarrow>
     (\<exists>b. e = Call (Post (projectPath (MachineScope_OVHClient scope) ''/instance'') b))"

definition createCount :: "'w MachineScope \<Rightarrow> event list \<Rightarrow> nat" where
  "createCount scope es = length (filter (createsInstance scope) es)"

lemma handleExistingInstance_no_create:
  "runs (hasMeta meta) (\<lambda>e. \<not> createsInstance scope e) (handleExistingInstance d scope i)"
  unfolding handleExistingInstance_def handleActive_def initializeMachineNode_def ensureLBPoolMember_def
    registerPoolMember_def ensureRKE2RegisterPoolMember_def
  by (intro runs_intros)
    (auto simp: createsInstance_def nodeInitEvent_def regionPath_def projectPath_def)

lemma FindInstanceByName_None:
  "run_state (FindInstanceByName c name) s = (Inr None, t) \<Longrightarrow>
   \<exists>insts. run_state (ListInstances c) s = (Inr insts, t) \<and> (\<forall>i \<in> set insts. Instance_Name i \<noteq> name)"
  by (auto simp: FindInstanceByName_def find_None_iff split: sum.splits prod.splits)

lemma findKnownInstance_None:
  "run_state (findKnownInstance scope) s = (Inr None, t) \<Longrightarrow>
   machineInstanceID (st_obj s) \<noteq> '''' \<Longrightarrow>
   \<exists>e. fst (run_state (GetInstance (MachineScope_OVHClient scope) (machineInstanceID (st_obj s))) s)
     = Inl e \<and> IsNotFound (Some e)"
  by (auto simp: findKnownInstance_def split: sum.splits prod.splits if_splits)

lemma findKnownInstance_static:
  "runs (\<lambda>m. OVHMachine_Spec m = sp \<and> OVHMachine_ObjectMeta m = meta) isRead (findKnownInstance scope)"
  unfolding findKnownInstance_def by (intro runs_intros) (auto simp: isRead_def)

lemma adoptInstance_None:
  "run_state (adoptInstance scope) s = (Inr None, t) \<Longrightarrow>
   OVHMachineSpec_ExistingInstanceID (OVHMachine_Spec (st_obj s)) = '''' \<and> t = s"
  by (auto simp: adoptInstance_def Let_def split: sum.splits prod.splits if_splits)

lemma findNamedInstance_None:
  "run_state (findNamedInstance scope) s = (Inr None, t) \<Longrightarrow>
   run_state (FindInstanceByName (MachineScope_OVHClient scope) (instanceName scope (st_obj s))) s
     = (Inr None, t)"
  by (auto simp: findNamedInstance_def split: sum.splits prod.splits)

lemma orElse_None:
  "run_state (orElse f g) s = (Inr None, t) \<Longrightarrow>
   \<exists>u. run_state f s = (Inr None, u) \<and> run_state g u = (Inr None, t)"
  by (auto simp: orElse_def split: sum.splits prod.splits option.splits)

text \<open>The three lookups of this run found nothing; the listing is asked for after the recorded
  instance.\<close>

definition absent :: "'w MachineScope \<Rightarrow> (OVHMachine, 'w, event) st \<Rightarrow> bool" where
  "absent scope s \<longleftrightarrow>
     (let c = MachineScope_OVHClient scope; m = st_obj s in
      (machineInstanceID m \<noteq> '''' \<longrightarrow>
         (\<exists>e. fst (run_state (GetInstance c (machineInstanceID m)) s) = Inl e \<and> IsNotFound (Some e)))
      \<and> OVHMachineSpec_ExistingInstanceID (OVHMachine_Spec m) = ''''
      \<and> (\<exists>insts. fst (run_state (ListInstances c) (snd (run_state (findKnownInstance scope) s))) = Inr insts
           \<and> (\<forall>i \<in> set insts. Instance_Name i \<noteq> instanceName scope m)))"

lemma lookup_None:
  assumes "run_state (lookup scope) s = (Inr None, t)"
  shows "absent scope s"
proof -
  obtain u v where u: "run_state (findKnownInstance scope) s = (Inr None, u)"
    and v: "run_state (adoptInstance scope) u = (Inr None, v)"
    and t: "run_state (findNamedInstance scope) v = (Inr None, t)"
    using assms unfolding lookup_def by (blast dest: orElse_None)
  have static: "OVHMachine_Spec (st_obj u) = OVHMachine_Spec (st_obj s)
      \<and> OVHMachine_ObjectMeta (st_obj u) = OVHMachine_ObjectMeta (st_obj s)"
    by (rule runsD [OF findKnownInstance_static _ u]) auto
  with adoptInstance_None [OF v] FindInstanceByName_None [OF findNamedInstance_None [OF t]]
    findKnownInstance_None [OF u]
  show ?thesis
    unfolding absent_def Let_def by (fastforce simp: instanceName_def u)
qed

lemma reconcileInstance_creates:
  assumes "run_state (reconcileInstance d scope) s = (r, t)"
    and "st_trace t = st_trace s @ es" and "list_ex (createsInstance scope) es"
  shows "absent scope s"
proof -
  obtain lr u where u: "run_state (lookup scope) s = (lr, u)" by fastforce
  obtain fs where fs: "st_trace u = st_trace s @ fs" "\<forall>e \<in> set fs. isRead e"
    by (rule runsD [OF lookup_reads refl u])
  then have reads: "\<forall>e \<in> set fs. \<not> createsInstance scope e"
    by (auto simp: isRead_def createsInstance_def)
  show ?thesis
  proof (cases "lr = Inr None")
    case True
    with u show ?thesis by (simp add: lookup_None)
  next
    case False
    have "wp (case lr of Inl e \<Rightarrow> ret (failed e) | Inr None \<Rightarrow> createInstance d scope
        | Inr (Some inst) \<Rightarrow> handleExistingInstance d scope inst)
      (\<lambda>r t. \<exists>gs. st_trace t = st_trace u @ gs \<and> (\<forall>e \<in> set gs. \<not> createsInstance scope e)) u"
      using False
      by (auto simp: wp_rules split: sum.split option.split
          intro!: runs_wp [OF handleExistingInstance_no_create refl])
    then have "\<exists>gs. st_trace t = st_trace u @ gs \<and> (\<forall>e \<in> set gs. \<not> createsInstance scope e)"
      using assms(1) u unfolding reconcileInstance_lookup wp_def by (auto split: prod.splits)
    with fs reads assms(2,3) show ?thesis by (auto simp: list_ex_iff)
  qed
qed

text \<open>C14: an instance is created only when the guards are passed, no instance is to be adopted, the
  recorded instance (if any) was reported as not found, and a listing of the project's instances
  contains none with the machine's generated name.\<close>

theorem ReconcileNormal_creates:
  assumes "run_state (ReconcileNormal d scope) s = (r, t)"
    and "st_trace t = st_trace s @ es" and "list_ex (createsInstance scope) es"
  shows "machineGuard d scope (st_obj s) \<and> absent scope s"
proof -
  obtain r' u where u: "run_state (normalBody d scope) s = (r', u)" by fastforce
  from assms(1) u obtain x y where t: "st_trace t = st_trace u @ [Observe MachineReconcileDuration x, SetGauge MachineStatus (fst y) (snd y)]"
    by (auto simp: ReconcileNormal_def)
  show ?thesis
  proof (cases "machineGuard d scope (st_obj s)")
    case True
    have run: "run_state (reconcileInstance d scope) s = (r', u)"
      using u normalBody_passes [OF True] by simp
    obtain fs where fs: "st_trace u = st_trace s @ fs"
      by (rule runsD [OF reconcileInstance_normal refl run])
    with t assms(2,3) have "list_ex (createsInstance scope) fs"
      by (auto simp: list_ex_iff createsInstance_def)
    from reconcileInstance_creates [OF run fs this] True show ?thesis by simp
  next
    case False
    from wpD [OF normalBody_guarded [OF False] u] t assms(2,3) show ?thesis
      by (auto simp: list_ex_iff createsInstance_def)
  qed
qed

section \<open>The status of a machine whose instance exists\<close>

text \<open>The machine without the pool members, which are registered best-effort.\<close>

definition coreOf :: "OVHMachine \<Rightarrow> OVHMachine" where
  "coreOf m = m\<lparr>OVHMachine_Status := (OVHMachine_Status m)\<lparr>
     OVHMachineStatus_LBPoolMemberID := '''', OVHMachineStatus_RegisterPoolMemberID := ''''\<rparr>\<rparr>"

lemma coreOf_fields:
  assumes "coreOf m = coreOf m'"
  shows "OVHMachine_ObjectMeta m = OVHMachine_ObjectMeta m'" "OVHMachine_Spec m = OVHMachine_Spec m'"
    "machineReady m = machineReady m'" "machineInstanceID m = machineInstanceID m'"
    "OVHMachineStatus_Conditions (OVHMachine_Status m) = OVHMachineStatus_Conditions (OVHMachine_Status m')"
    "OVHMachineStatus_Addresses (OVHMachine_Status m) = OVHMachineStatus_Addresses (OVHMachine_Status m')"
    "OVHMachineStatus_Initialization (OVHMachine_Status m) = OVHMachineStatus_Initialization (OVHMachine_Status m')"
    "OVHMachineStatus_VolumeIDs (OVHMachine_Status m) = OVHMachineStatus_VolumeIDs (OVHMachine_Status m')"
  using assms unfolding coreOf_def
  by (cases m; cases m'; cases "OVHMachine_Status m"; cases "OVHMachine_Status m'"; simp)+

lemma ensureLBPoolMember_core:
  "runs (\<lambda>m. coreOf m = x) (\<lambda>_. True) (ensureLBPoolMember d scope i)"
  unfolding ensureLBPoolMember_def registerPoolMember_def ensureRKE2RegisterPoolMember_def
  by (intro runs_intros) (auto simp: coreOf_def)

lemma initializeMachineNode_core:
  "runs (\<lambda>m. coreOf m = x) (\<lambda>_. True) (initializeMachineNode d scope i)"
  unfolding initializeMachineNode_def by (intro runs_intros) auto

lemma bestEffort_core:
  assumes "coreOf (st_obj u) = x"
  shows "wp (ensureLBPoolMember d scope i)
     (\<lambda>a. wp (State_Monad.bind (initializeMachineNode d scope i) (\<lambda>_. ret finished))
        (\<lambda>r t. r = finished \<and> coreOf (st_obj t) = x)) u"
  by (rule runs_wp [OF ensureLBPoolMember_core assms], simp add: wp_bind wp_return,
      rule runs_wp [OF initializeMachineNode_core]) (auto simp: wp_return)

text \<open>What the code writes for an active instance, before the best-effort steps.\<close>

definition activeMachine :: "'w Deps \<Rightarrow> 'w MachineScope \<Rightarrow> Instance \<Rightarrow> OVHMachine \<Rightarrow> OVHMachine" where
  "activeMachine d scope i m = m\<lparr>
     OVHMachine_Spec := (OVHMachine_Spec m)\<lparr>OVHMachineSpec_ProviderID :=
       ProviderIDFromInstance (OVHClusterSpec_Region (OVHCluster_Spec (MachineScope_OVHCluster scope)))
         (Instance_ID i)\<rparr>,
     OVHMachine_Status := (OVHMachine_Status m)\<lparr>
       OVHMachineStatus_InstanceID := Instance_ID i,
       OVHMachineStatus_Addresses := machineAddresses i,
       OVHMachineStatus_Ready := True,
       OVHMachineStatus_Initialization := machineInitializationProvisioned,
       OVHMachineStatus_Conditions :=
         foldl (\<lambda>cs ty. Deps_conditionsSet d cs \<lparr>Condition_Type = ty, Condition_Status = ConditionTrue,
             Condition_Reason = ty, Condition_Message = ''''\<rparr>)
           (OVHMachineStatus_Conditions (OVHMachine_Status m))
           [InstanceCreatedCondition, InstanceProvisioningReadyCondition, InstanceRunningCondition]\<rparr>\<rparr>"

lemma handleExistingInstance_active:
  assumes "Instance_Status i = InstanceStatusActive"
  shows "wp (handleExistingInstance d scope i)
    (\<lambda>r t. r = finished \<and> coreOf (st_obj t) = coreOf (activeMachine d scope i (st_obj s))) s"
  using assms unfolding handleExistingInstance_def handleActive_def setCondition_def
  by (simp add: wp_rules)
    (intro conjI impI; rule bestEffort_core; simp add: activeMachine_def)

lemma withoutConditions:
  assumes "m\<lparr>OVHMachine_Status := (OVHMachine_Status m)\<lparr>OVHMachineStatus_Conditions := []\<rparr>\<rparr> =
    m'\<lparr>OVHMachine_Status := (OVHMachine_Status m')\<lparr>OVHMachineStatus_InstanceID := i,
      OVHMachineStatus_Ready := b, OVHMachineStatus_Conditions := []\<rparr>\<rparr>"
  shows "OVHMachine_ObjectMeta m = OVHMachine_ObjectMeta m'" "OVHMachine_Spec m = OVHMachine_Spec m'"
    "machineReady m = b" "machineInstanceID m = i" "machineProvisioned m = machineProvisioned m'"
  using assms
  by (cases m; cases m'; cases "OVHMachine_Status m"; cases "OVHMachine_Status m'"; simp)+

lemma handleExistingInstance_inactive:
  assumes "Instance_Status i \<noteq> InstanceStatusActive"
  shows "wp (handleExistingInstance d scope i)
    (\<lambda>r t. r = (if Instance_Status i = InstanceStatusError then finished else requeueAfter requeueDelayLong)
       \<and> (st_obj t)\<lparr>OVHMachine_Status := (OVHMachine_Status (st_obj t))\<lparr>OVHMachineStatus_Conditions := []\<rparr>\<rparr>
           = (st_obj s)\<lparr>OVHMachine_Status := (OVHMachine_Status (st_obj s))\<lparr>
            OVHMachineStatus_InstanceID := Instance_ID i, OVHMachineStatus_Ready := False,
            OVHMachineStatus_Conditions := []\<rparr>\<rparr>
       \<and> (conditionsOK d \<longrightarrow> Deps_conditionsIsTrue d
            (OVHMachineStatus_Conditions (OVHMachine_Status (st_obj t))) InstanceCreatedCondition)) s"
  using assms unfolding handleExistingInstance_def setCondition_def
  by (auto simp: wp_rules conditionsOK_def)

text \<open>C19: a machine whose instance was found records that instance, is ready exactly when the
  instance is ACTIVE, and then carries the provider ID of region and instance, is provisioned and
  lists the instance's IPv4 addresses, with all three conditions true. In any other state the spec
  and the provisioned flag are left alone, and the reconciler comes back after 30 s unless the
  instance is in ERROR.\<close>

theorem handleExistingInstance_status:
  assumes "run_state (handleExistingInstance d scope i) s = (r, t)" and "conditionsOK d"
  shows "machineInstanceID (st_obj t) = Instance_ID i
    \<and> (machineReady (st_obj t) \<longleftrightarrow> Instance_Status i = InstanceStatusActive)
    \<and> (if Instance_Status i = InstanceStatusActive
       then r = finished \<and> machineProvisioned (st_obj t) = Some True
         \<and> OVHMachineSpec_ProviderID (OVHMachine_Spec (st_obj t)) = ProviderIDFromInstance
             (OVHClusterSpec_Region (OVHCluster_Spec (MachineScope_OVHCluster scope))) (Instance_ID i)
         \<and> OVHMachineStatus_Addresses (OVHMachine_Status (st_obj t)) = machineAddresses i
         \<and> list_all (Deps_conditionsIsTrue d (OVHMachineStatus_Conditions (OVHMachine_Status (st_obj t))))
             [InstanceCreatedCondition, InstanceProvisioningReadyCondition, InstanceRunningCondition]
       else r = (if Instance_Status i = InstanceStatusError then finished
                 else requeueAfter requeueDelayLong)
         \<and> OVHMachine_Spec (st_obj t) = OVHMachine_Spec (st_obj s)
         \<and> machineProvisioned (st_obj t) = machineProvisioned (st_obj s)
         \<and> Deps_conditionsIsTrue d (OVHMachineStatus_Conditions (OVHMachine_Status (st_obj t)))
             InstanceCreatedCondition)"
proof (cases "Instance_Status i = InstanceStatusActive")
  case True
  from wpD [OF handleExistingInstance_active [OF True] assms(1)]
  have r: "r = finished" and core: "coreOf (st_obj t) = coreOf (activeMachine d scope i (st_obj s))"
    by auto
  from True r coreOf_fields [OF core] assms(2) show ?thesis
    by (simp add: activeMachine_def conditionsOK_def)
next
  case False
  note post = wpD [OF handleExistingInstance_inactive [OF False] assms(1)]
  from post assms(2) False withoutConditions [OF post [THEN conjunct2, THEN conjunct1]]
  show ?thesis by simp
qed

section \<open>Deletion\<close>

text \<open>Under the adoption policy "keep" the finalizer is removed and nothing is sent to OVH: the
  instance, its volumes and its pool member stay.\<close>

lemma ReconcileDelete_keep:
  assumes "keepsInstance (st_obj s)"
  shows "run_state (ReconcileDelete d scope) s = (finished, s\<lparr>
     st_obj := (st_obj s)\<lparr>OVHMachine_ObjectMeta := (OVHMachine_ObjectMeta (st_obj s))\<lparr>
       ObjectMeta_Finalizers := Deps_RemoveFinalizer d (machineFinalizers (st_obj s)) MachineFinalizer\<rparr>\<rparr>,
     st_trace := st_trace s @ [Observe MachineReconcileDuration [''delete'']]\<rparr>)"
  using assms
  by (simp add: ReconcileDelete_def deleteBody_def removeMachineFinalizer_def setFinalizers_def)

text \<open>The requests a deletion may send for a machine.\<close>

definition deletionRequest :: "'w MachineScope \<Rightarrow> OVHMachine \<Rightarrow> request \<Rightarrow> bool" where
  "deletionRequest scope m r \<longleftrightarrow>
     (let c = MachineScope_OVHClient scope; id = machineInstanceID m;
          vols = OVHMachineStatus_VolumeIDs (OVHMachine_Status m);
          member = OVHMachineStatus_LBPoolMemberID (OVHMachine_Status m);
          pool = OVHClusterStatus_PoolID (OVHCluster_Status (MachineScope_OVHCluster scope)) in
      (\<exists>v \<in> set vols. r = Delete (projectPath c (''/volume/'' @ v))
         \<or> id \<noteq> '''' \<and> r = Post (projectPath c (''/volume/'' @ v @ ''/detach''))
                              (BAttachVolume \<lparr>AttachVolumeOpts_InstanceID = id\<rparr>))
      \<or> member \<noteq> '''' \<and> pool \<noteq> ''''
         \<and> r = Delete (regionPath c (''/loadbalancing/pool/'' @ pool @ ''/member/'' @ member))
      \<or> id \<noteq> '''' \<and> (r = Delete (projectPath c (''/instance/'' @ id))
                       \<or> r = Get (projectPath c (''/instance/'' @ id))))"

definition deletionEvent :: "'w MachineScope \<Rightarrow> OVHMachine \<Rightarrow> event \<Rightarrow> bool" where
  "deletionEvent scope m e \<longleftrightarrow>
     (\<forall>r. e = Call r \<longrightarrow> \<not> keepsInstance m \<and> deletionRequest scope m r) \<and> (\<forall>k. e \<noteq> Kube k)"

lemma deletionEvent_simps [simp]:
  "deletionEvent scope m (Call r) \<longleftrightarrow> \<not> keepsInstance m \<and> deletionRequest scope m r"
  "deletionEvent scope m (Sleep n)" "deletionEvent scope m (Inc x)"
  "deletionEvent scope m (Observe x l)" "deletionEvent scope m (SetGauge x l i)"
  "\<not> deletionEvent scope m (Kube k)"
  by (simp_all add: deletionEvent_def)

definition deleting :: "OVHMachine \<Rightarrow> OVHMachine \<Rightarrow> bool" where
  "deleting m0 m \<longleftrightarrow>
     machineInstanceID m = machineInstanceID m0 \<and> keepsInstance m = keepsInstance m0
     \<and> OVHMachineStatus_VolumeIDs (OVHMachine_Status m) = OVHMachineStatus_VolumeIDs (OVHMachine_Status m0)
     \<and> OVHMachineStatus_LBPoolMemberID (OVHMachine_Status m)
         \<in> {OVHMachineStatus_LBPoolMemberID (OVHMachine_Status m0), ''''}"

lemma ReconcileDelete_runs:
  "runs (deleting m0) (deletionEvent scope m0) (ReconcileDelete d scope)"
  unfolding ReconcileDelete_def deleteBody_def deleteVolume_def removeLBPoolMember_def
    deleteInstance_def removeMachineFinalizer_def
  by (intro runs_intros)
    (auto simp: deleting_def deletionRequest_def keepsInstance_def Let_def)

text \<open>C22: deleting a machine touches only what the machine's status records: its volumes, its
  member of the API-server pool, and its instance.\<close>

theorem ReconcileDelete_requests:
  assumes "run_state (ReconcileDelete d scope) s = (r, t)"
  shows "\<exists>es. st_trace t = st_trace s @ es \<and> list_all (deletionEvent scope (st_obj s)) es"
  by (rule runsD [OF ReconcileDelete_runs [of "st_obj s"] _ assms])
    (auto simp: deleting_def list_all_iff)

text \<open>OVH confirmed that the recorded instance is going or gone, and a read after that did not
  report an instance in another state than DELETED.\<close>

definition deletionConfirmed :: "'w MachineScope \<Rightarrow> string \<Rightarrow> (OVHMachine, 'w, event) st \<Rightarrow> bool" where
  "deletionConfirmed scope id' s \<longleftrightarrow>
     id' = '''' \<or>
     (case run_state (DeleteInstance (MachineScope_OVHClient scope) id') s of
        (e, u) \<Rightarrow> e = None \<and>
          (case fst (run_state (GetInstance (MachineScope_OVHClient scope) id') u) of
             Inl e' \<Rightarrow> True
           | Inr inst \<Rightarrow> Instance_Status inst = InstanceStatusDeleted))"

text \<open>What a deletion does before it comes to the instance.\<close>

definition cleanup :: "'w MachineScope \<Rightarrow> OVHMachine \<Rightarrow> ('w, unit) mact" where
  "cleanup scope m = do {
     _ \<leftarrow> emit (Inc MachineDeleteTotal);
     _ \<leftarrow> forEach (OVHMachineStatus_VolumeIDs (OVHMachine_Status m)) (deleteVolume scope m);
     removeLBPoolMember scope }"

abbreviation afterCleanup :: "'w MachineScope \<Rightarrow> (OVHMachine, 'w, event) st \<Rightarrow> (OVHMachine, 'w, event) st" where
  "afterCleanup scope s \<equiv> snd (run_state (cleanup scope (st_obj s)) s)"

text \<open>The two ways a deletion can end.\<close>

definition deletionOutcome :: "'w Deps \<Rightarrow> bool \<Rightarrow> OVHMachine \<Rightarrow> outcome \<Rightarrow> OVHMachine \<Rightarrow> bool"
  where
  "deletionOutcome d settled m r m' \<longleftrightarrow>
     machineFinalizers m' = machineFinalizers m \<and> (snd r \<noteq> None \<or> r = requeueAfter requeueDelay)
     \<or> r = finished \<and> settled
        \<and> machineFinalizers m' = Deps_RemoveFinalizer d (machineFinalizers m) MachineFinalizer"

lemma removeMachineFinalizer_run:
  "run_state (removeMachineFinalizer d) s = (finished, s\<lparr>
     st_obj := (st_obj s)\<lparr>OVHMachine_ObjectMeta := (OVHMachine_ObjectMeta (st_obj s))\<lparr>
       ObjectMeta_Finalizers := Deps_RemoveFinalizer d (machineFinalizers (st_obj s)) MachineFinalizer\<rparr>\<rparr>\<rparr>)"
  by (simp add: removeMachineFinalizer_def setFinalizers_def)

lemma deleteInstance_outcome:
  assumes run: "run_state (deleteInstance d scope) s = (r, t)"
  shows "deletionOutcome d (deletionConfirmed scope (machineInstanceID (st_obj s)) s) (st_obj s) r (st_obj t)"
proof (cases "machineInstanceID (st_obj s) = ''''")
  case True
  with run show ?thesis
    by (auto simp: deleteInstance_def removeMachineFinalizer_run deletionOutcome_def deletionConfirmed_def)
next
  case False
  let ?c = "MachineScope_OVHClient scope" and ?id = "machineInstanceID (st_obj s)"
  obtain e v where del: "run_state (DeleteInstance ?c ?id) s = (e, v)" by fastforce
  have v: "st_obj v = st_obj s" by (rule keepsObjD [OF DeleteInstance.oper_keepsObj del])
  obtain g w where get: "run_state (GetInstance ?c ?id) v = (g, w)" by fastforce
  have w: "st_obj w = st_obj s" using keepsObjD [OF GetInstance.oper_keepsObj get] v by simp
  show ?thesis
    using run False del get v w
    by (cases e; cases g)
      (auto simp: deleteInstance_def removeMachineFinalizer_run deletionOutcome_def
        deletionConfirmed_def split: if_splits)
qed

lemma cleanup_core: "runs (\<lambda>m. coreOf m = x) (\<lambda>_. True) (cleanup scope m)"
  unfolding cleanup_def deleteVolume_def removeLBPoolMember_def
  by (intro runs_intros) (auto simp: coreOf_def)

abbreviation deletionSettled :: "'w MachineScope \<Rightarrow> (OVHMachine, 'w, event) st \<Rightarrow> bool" where
  "deletionSettled scope s \<equiv> keepsInstance (st_obj s)
     \<or> deletionConfirmed scope (machineInstanceID (st_obj s)) (afterCleanup scope s)"

lemma ReconcileDelete_outcome:
  assumes run: "run_state (ReconcileDelete d scope) s = (r, t)"
  shows "deletionOutcome d (deletionSettled scope s) (st_obj s) r (st_obj t)"
proof (cases "keepsInstance (st_obj s)")
  case True
  with run show ?thesis
    by (auto simp: ReconcileDelete_def deleteBody_def removeMachineFinalizer_run deletionOutcome_def)
next
  case False
  obtain u where u: "run_state (cleanup scope (st_obj s)) s = ((), u)"
    by (cases "run_state (cleanup scope (st_obj s)) s") auto
  have core: "coreOf (st_obj u) = coreOf (st_obj s)"
    by (rule runsD [OF cleanup_core refl u])
  obtain v where v: "run_state (deleteInstance d scope) u = (r, v)" "st_obj t = st_obj v"
    using run False u by (auto simp: ReconcileDelete_def deleteBody_def cleanup_def split: prod.splits)
  from deleteInstance_outcome [OF v(1)] v(2) coreOf_fields [OF core] u show ?thesis
    by (auto simp: deletionOutcome_def)
qed

interpretation machine_deletion: deletion_protocol "ReconcileDelete d scope" machineFinalizers
  MachineFinalizer "\<lambda>fs. Deps_RemoveFinalizer d fs MachineFinalizer" "\<lambda>s t. deletionSettled scope s"
  requeueDelay
  for d scope
  using ReconcileDelete_outcome unfolding deletionOutcome_def by unfold_locales blast

text \<open>C2: the finalizer leaves a machine only under the policy "keep", when no instance is recorded,
  or when in this very run, after the volumes and the pool member, OVH accepted the deletion (or
  reported the instance as unknown) and the read after that did not show it in another state than
  DELETED.\<close>

theorem ReconcileDelete_finalizer:
  assumes "run_state (ReconcileDelete d scope) s = (r, t)"
    and "MachineFinalizer \<in> set (machineFinalizers (st_obj s))"
    and "MachineFinalizer \<notin> set (machineFinalizers (st_obj t))"
  shows "keepsInstance (st_obj s)
    \<or> deletionConfirmed scope (machineInstanceID (st_obj s)) (afterCleanup scope s)"
  by (rule machine_deletion.released [OF assms])

text \<open>A deletion is never left half-way: when the finalizer stays, the reconcile failed (and is
  repeated with backoff) or asks to be called again after 10 s.\<close>

lemma ReconcileDelete_progress:
  assumes "run_state (ReconcileDelete d scope) s = (r, t)" and "finalizersOK d"
    and "MachineFinalizer \<in> set (machineFinalizers (st_obj t))"
  shows "snd r \<noteq> None \<or> r = requeueAfter requeueDelay"
  by (rule machine_deletion.comes_back [OF assms(1) finalizersOK_removed [OF assms(2)] assms(3)])

section \<open>Witnesses\<close>

text \<open>A cloud without state: one flavor, one image, the given instances; a created instance is in
  BUILD, a deleted one is unknown.\<close>

definition sampleInstance :: "string \<Rightarrow> Instance" where
  "sampleInstance status = zero_Instance\<lparr>Instance_ID := ''i-1'', Instance_Name := ''a-m'',
     Instance_Status := status\<rparr>"

definition sampleFlavor :: Flavor where
  "sampleFlavor = \<lparr>Flavor_ID = ''f-1'', Flavor_Name = ''b2-7'', Flavor_VCPUs = 2, Flavor_RAM = 7000,
     Flavor_Disk = 50, Flavor_Type = '''', Flavor_Region = ''GRA9'', Flavor_Bandwidth = 0,
     Flavor_PlanCode = ''''\<rparr>"

fun sampleCloud :: "Instance list \<Rightarrow> unit api" where
  "sampleCloud insts (Get p) w =
     (if p = ''/cloud/project/p/instance?region=GRA9'' then (Inr (RInstances insts), w)
      else if p = ''/cloud/project/p/flavor?region=GRA9''
        then (Inr (RFlavors [sampleFlavor]), w)
      else if p = ''/cloud/project/p/image?region=GRA9''
        then (Inr (RImages [zero_Image\<lparr>Image_ID := ''img-1'', Image_Name := ''Ubuntu''\<rparr>]), w)
      else if insts \<noteq> [] \<and> p = ''/cloud/project/p/instance/i-1'' then (Inr (RInstance (hd insts)), w)
      else (Inl (APIError 404 ''not found''), w))"
| "sampleCloud insts (Post p b) w =
     (if p = ''/cloud/project/p/instance'' then (Inr (RInstance (sampleInstance InstanceStatusBuild)), w)
      else (Inl (APIError 404 ''not found''), w))"
| "sampleCloud insts (Delete p) w = (Inl (APIError 404 ''not found''), w)"

definition sampleScope :: "Instance list \<Rightarrow> unit MachineScope" where
  "sampleScope insts = \<lparr>MachineScope_Cluster = sampleCluster, MachineScope_Machine = sampleMachine,
     MachineScope_OVHCluster = sampleOVHCluster,
     MachineScope_OVHClient = \<lparr>Client_api = sampleCloud insts, Client_serviceName = ''p'',
       Client_region = ''GRA9''\<rparr>\<rparr>"

abbreviation sampleState :: "OVHMachine \<Rightarrow> (OVHMachine, unit, event) st" where
  "sampleState m \<equiv> \<lparr>st_obj = m, st_env = (), st_trace = []\<rparr>"

lemma sampleName: "GenerateRFC1035Name [''a'', ''m''] = ''a-m''"
  by code_simp

lemmas sample_defs = sampleScope_def sampleCluster_def sampleMachine_def sampleOVHCluster_def
  sampleOVHMachine_def zero_OVHMachine_def zero_OVHMachineStatus_def zero_OVHMachineSpec_def
  zero_ObjectMeta_def zero_OVHCluster_def zero_OVHClusterSpec_def zero_OVHClusterStatus_def
  sampleInstance_def

lemma sampleFlavor_fold: "strings_EqualFold ''b2-7'' ''b2-7''"
  by (simp add: strings_EqualFold_def)

lemma sampleImage_found:
  "findImageByName [zero_Image\<lparr>Image_ID := ''img-1'', Image_Name := ''Ubuntu''\<rparr>] ''Ubuntu''
     = Some (zero_Image\<lparr>Image_ID := ''img-1'', Image_Name := ''Ubuntu''\<rparr>)"
  by code_simp

lemma sampleCreate_run:
  "\<exists>b. Call (Post ''/cloud/project/p/instance'' b)
    \<in> set (st_trace (snd (run_state (ReconcileNormal (sampleDeps (sampleCloud [])) (sampleScope []))
        (sampleState sampleOVHMachine))))"
  by (simp add: ReconcileNormal_def normalBody_def sampleDeps_def reconcileInstance_def orElse_def
      findKnownInstance_def adoptInstance_def findNamedInstance_def sample_defs instanceName_def
      sampleName FindInstanceByName_def ListInstances_def settled_ok projectPath_def regionQuery_def
      asInstances_def decode_def wrapResult_def createInstance_def GetFlavorByName_def ListFlavors_def
      GetImageByName_def ListImages_def asFlavors_def asImages_def sampleFlavor_def sampleFlavor_fold
      isUUID_def sampleImage_found prepareInstance_def getBootstrapData_def sampleSecret_def
      PrepareUserData_def resolveSSHKey_def GetSSHKeyName_def submitInstance_def CreateInstance_def
      asInstance_def setStatus_def setCondition_def pauseAnnotation_def Let_def)

theorem ReconcileNormal_requests_witness:
  "list_all (normalEvent (sampleDeps (sampleCloud [])) (sampleScope []) (OVHMachine_ObjectMeta sampleOVHMachine))
     (st_trace (snd (run_state (ReconcileNormal (sampleDeps (sampleCloud [])) (sampleScope []))
       (sampleState sampleOVHMachine))))"
  using ReconcileNormal_requests [OF run_pair, of "sampleDeps (sampleCloud [])" "sampleScope []"
      "sampleState sampleOVHMachine"] by auto

theorem ReconcileNormal_creates_witness:
  "machineGuard (sampleDeps (sampleCloud [])) (sampleScope []) sampleOVHMachine
   \<and> absent (sampleScope []) (sampleState sampleOVHMachine)"
proof -
  let ?t = "snd (run_state (ReconcileNormal (sampleDeps (sampleCloud [])) (sampleScope []))
      (sampleState sampleOVHMachine))"
  have "list_ex (createsInstance (sampleScope [])) (st_trace ?t)"
    using sampleCreate_run
    by (auto simp: list_ex_iff createsInstance_def sampleScope_def projectPath_def)
  from ReconcileNormal_creates [OF run_pair _ this, of "sampleDeps (sampleCloud [])"
      "sampleState sampleOVHMachine"] show ?thesis by simp
qed

theorem handleExistingInstance_status_witness:
  "machineReady (st_obj (snd (run_state (handleExistingInstance (sampleDeps (sampleCloud []))
      (sampleScope []) (sampleInstance InstanceStatusActive)) (sampleState sampleOVHMachine))))"
  using handleExistingInstance_status [OF run_pair sampleDeps_ok(2), of "sampleCloud []"
      "sampleScope []" "sampleInstance InstanceStatusActive" "sampleState sampleOVHMachine"]
  by (simp add: sampleInstance_def)

theorem ReconcileDelete_requests_witness:
  "list_all (deletionEvent (sampleScope []) sampleOVHMachine)
     (st_trace (snd (run_state (ReconcileDelete (sampleDeps (sampleCloud [])) (sampleScope []))
       (sampleState sampleOVHMachine))))"
  using ReconcileDelete_requests [OF run_pair, of "sampleDeps (sampleCloud [])" "sampleScope []"
      "sampleState sampleOVHMachine"] by auto

text \<open>A machine with an instance: one that is gone, and one that is still terminating.\<close>

abbreviation recordedMachine :: OVHMachine where
  "recordedMachine \<equiv> sampleOVHMachine\<lparr>OVHMachine_Status := zero_OVHMachineStatus\<lparr>
     OVHMachineStatus_InstanceID := ''i-1''\<rparr>\<rparr>"

lemmas delete_eval = ReconcileDelete_def deleteBody_def removeLBPoolMember_def deleteInstance_def
  DeleteInstance_def GetInstance_def settled_ok settled_err IsRetryable_def deleteResult_def
  IsNotFound_def projectPath_def wrapResult_def removeMachineFinalizer_run keepsInstance_def
  mapGet_def sampleDeps_def sample_defs asInstance_def decode_def

theorem ReconcileDelete_finalizer_witness:
  "deletionConfirmed (sampleScope []) (machineInstanceID recordedMachine)
     (afterCleanup (sampleScope []) (sampleState recordedMachine))"
proof -
  let ?t = "snd (run_state (ReconcileDelete (sampleDeps (sampleCloud [])) (sampleScope []))
      (sampleState recordedMachine))"
  have "MachineFinalizer \<notin> set (machineFinalizers (st_obj ?t))"
    by (simp add: delete_eval)
  moreover have "MachineFinalizer \<in> set (machineFinalizers (st_obj (sampleState recordedMachine)))"
    by (simp add: sample_defs)
  ultimately have "keepsInstance (st_obj (sampleState recordedMachine))
      \<or> deletionConfirmed (sampleScope []) (machineInstanceID (st_obj (sampleState recordedMachine)))
          (afterCleanup (sampleScope []) (sampleState recordedMachine))"
    by (intro ReconcileDelete_finalizer [OF run_pair])
  moreover have "\<not> keepsInstance recordedMachine"
    by (simp add: keepsInstance_def mapGet_def sample_defs)
  ultimately show ?thesis by simp
qed

end
