(* ===== verification/Machine_Lifecycle.thy ===== *)
theory Machine_Lifecycle
  imports Machine_Properties
begin

text \<open>
  The machine object over time. A step is a reconcile whose patch reaches the API server, the
  request to delete the object, or an edit by a user, who may change the annotations and every
  field of the spec but the provider ID (which is the provider's to write). The environment of a
  reconcile (the libraries, the management cluster, the cloud and its state) may be a different one
  each time, taken from a set \<open>D\<close>.
\<close>

inductive machineStep :: "'w Deps set \<Rightarrow> OVHMachine \<Rightarrow> OVHMachine \<Rightarrow> bool" for D where
  reconcile:
    "d \<in> D \<Longrightarrow> Deps_getOVHMachine d ns name = Inr m \<Longrightarrow> Deps_newMachinePatchHelper d m = None
      \<Longrightarrow> run_state (Reconcile d ns name) s = (r, t) \<Longrightarrow> Deps_patchMachine d m (st_obj t) = None
      \<Longrightarrow> machineStep D m (st_obj t)"
| request_delete:
    "machineStep D m (m\<lparr>OVHMachine_ObjectMeta := (OVHMachine_ObjectMeta m)\<lparr>ObjectMeta_Deleting := True\<rparr>\<rparr>)"
| annotate:
    "machineStep D m (m\<lparr>OVHMachine_ObjectMeta := (OVHMachine_ObjectMeta m)\<lparr>ObjectMeta_Annotations := as\<rparr>\<rparr>)"
| edit:
    "OVHMachineSpec_ProviderID sp = OVHMachineSpec_ProviderID (OVHMachine_Spec m)
      \<Longrightarrow> machineStep D m (m\<lparr>OVHMachine_Spec := sp\<rparr>)"

text \<open>A machine starts with an empty status and no provider ID.\<close>

inductive machineReachable :: "'w Deps set \<Rightarrow> OVHMachine \<Rightarrow> bool" for D where
  created:
    "OVHMachine_Status m = zero_OVHMachineStatus \<Longrightarrow> OVHMachineSpec_ProviderID (OVHMachine_Spec m) = ''''
      \<Longrightarrow> machineReachable D m"
| stepped: "machineReachable D m \<Longrightarrow> machineStep D m m' \<Longrightarrow> machineReachable D m'"

section \<open>The invariant\<close>

definition hasProviderID :: "OVHMachine \<Rightarrow> bool" where
  "hasProviderID m \<longleftrightarrow>
     (\<exists>region i. OVHMachineSpec_ProviderID (OVHMachine_Spec m) = ProviderIDFromInstance region i)"

definition statusInv :: "OVHMachine \<Rightarrow> bool" where
  "statusInv m \<longleftrightarrow>
     (machineReady m \<longrightarrow> machineProvisioned m = Some True)
     \<and> (machineProvisioned m = Some True \<longrightarrow> hasProviderID m)"

definition finalizerInv :: "OVHMachine \<Rightarrow> bool" where
  "finalizerInv m \<longleftrightarrow>
     (machineInstanceID m \<noteq> '''' \<and> \<not> ObjectMeta_Deleting (OVHMachine_ObjectMeta m)
        \<longrightarrow> MachineFinalizer \<in> set (machineFinalizers m))"

definition machineInv :: "OVHMachine \<Rightarrow> bool" where
  "machineInv m \<longleftrightarrow> statusInv m \<and> finalizerInv m"

text \<open>Past the guards, the finalizer is there or the object is being deleted.\<close>

definition armed :: "OVHMachine \<Rightarrow> bool" where
  "armed m \<longleftrightarrow> statusInv m
     \<and> (MachineFinalizer \<in> set (machineFinalizers m) \<or> ObjectMeta_Deleting (OVHMachine_ObjectMeta m))"

lemma armed_inv: "armed m \<Longrightarrow> machineInv m"
  by (auto simp: armed_def machineInv_def finalizerInv_def)

lemmas inv_defs = armed_def statusInv_def hasProviderID_def

lemma lookup_armed: "runs armed (\<lambda>_. True) (lookup scope)"
  unfolding lookup_def orElse_def findKnownInstance_def adoptInstance_def findNamedInstance_def
  by (intro runs_intros) (auto simp: inv_defs)

lemma createInstance_armed: "runs armed (\<lambda>_. True) (createInstance d scope)"
  unfolding createInstance_def prepareInstance_def resolveSSHKey_def submitInstance_def
  by (intro runs_intros) (auto simp: inv_defs)

lemma handleExistingInstance_armed: "runs armed (\<lambda>_. True) (handleExistingInstance d scope i)"
proof -
  have "armed (st_obj t)" if "armed (st_obj s)"
    and run: "run_state (handleExistingInstance d scope i) s = (r, t)" for s r t
  proof (cases "Instance_Status i = InstanceStatusActive")
    case True
    from wpD [OF handleExistingInstance_active [OF True] run]
    have core: "coreOf (st_obj t) = coreOf (activeMachine d scope i (st_obj s))" by simp
    show ?thesis
      using that(1) unfolding inv_defs coreOf_fields [OF core] by (auto simp: activeMachine_def)
  next
    case False
    note post = wpD [OF handleExistingInstance_inactive [OF False] run]
    show ?thesis
      using that(1) unfolding inv_defs withoutConditions [OF post [THEN conjunct2, THEN conjunct1]]
      by simp
  qed
  moreover have "\<exists>es. st_trace (snd (run_state (handleExistingInstance d scope i) s)) = st_trace s @ es" for s
    using handleExistingInstance_normal [of "OVHMachine_ObjectMeta (st_obj s)" d scope i]
    unfolding runs_def by blast
  ultimately show ?thesis
    unfolding runs_def by (metis prod.collapse)
qed

lemma reconcileInstance_armed: "runs armed (\<lambda>_. True) (reconcileInstance d scope)"
  unfolding reconcileInstance_lookup
  by (intro runs_intros lookup_armed createInstance_armed handleExistingInstance_armed)

lemma normalBody_inv:
  assumes "finalizersOK d" and "machineInv (st_obj s)"
  shows "wp (normalBody d scope) (\<lambda>r t. machineInv (st_obj t)) s"
proof (cases "machineGuard d scope (st_obj s)")
  case True
  with assms have "armed (st_obj s)"
    by (auto simp: armed_def machineInv_def machineGuard_def finalizersOK_def)
  from runs_wp [OF reconcileInstance_armed this, of "\<lambda>r t. machineInv (st_obj t)"]
  show ?thesis
    using True by (auto simp: wp_def normalBody_passes armed_inv)
next
  case False
  with assms show ?thesis
    by (auto simp: normalBody_def machineGuard_def setCondition_def wp_rules machineInv_def
        statusInv_def finalizerInv_def hasProviderID_def finalizersOK_def)
qed

lemma ReconcileNormal_inv:
  assumes "finalizersOK d" and "machineInv (st_obj s)"
  shows "wp (ReconcileNormal d scope) (\<lambda>r t. machineInv (st_obj t)) s"
  unfolding ReconcileNormal_def wp_rules by (rule wp_mono [OF normalBody_inv [OF assms]]) simp

lemma ReconcileDelete_inv:
  "runs (\<lambda>m. machineInv m \<and> ObjectMeta_Deleting (OVHMachine_ObjectMeta m)) (\<lambda>_. True)
     (ReconcileDelete d scope)"
  unfolding ReconcileDelete_def deleteBody_def deleteVolume_def removeLBPoolMember_def
    deleteInstance_def removeMachineFinalizer_def
  by (intro runs_intros)
    (auto simp: machineInv_def statusInv_def finalizerInv_def hasProviderID_def)

lemma reconcileFetched_inv:
  assumes "finalizersOK d" and "machineInv m" and "st_obj s = m"
  shows "wp (reconcileFetched d m) (\<lambda>r t. machineInv (st_obj t)) s"
  unfolding reconcileFetched_def
  using assms ReconcileNormal_inv [OF assms(1)]
  by (auto simp: wp_rules Let_def split: sum.split option.split
      intro!: runs_wp [OF ReconcileDelete_inv])

lemma Reconcile_inv:
  assumes "finalizersOK d" and "machineInv m" and "Deps_getOVHMachine d ns name = Inr m"
    and "Deps_newMachinePatchHelper d m = None"
  shows "wp (Reconcile d ns name) (\<lambda>r t. machineInv (st_obj t)) s"
  unfolding Reconcile_def
  using assms by (auto simp: wp_rules intro!: wp_mono [OF reconcileFetched_inv])

lemma machineStep_inv:
  assumes "machineStep D m m'" and "\<forall>d \<in> D. finalizersOK d" and "machineInv m"
  shows "machineInv m'"
  using assms(1)
proof (cases rule: machineStep.cases)
  case (reconcile d ns name s r t)
  with assms(2,3) wpD [OF Reconcile_inv] show ?thesis by blast
qed (use assms(3) in \<open>auto simp: machineInv_def statusInv_def finalizerInv_def hasProviderID_def\<close>)

text \<open>C1: every machine that a sequence of reconciles and user edits can reach satisfies: if it is
  ready it is provisioned; if it is provisioned its provider ID is one that the provider wrote; and
  while an instance is recorded and the object is not being deleted, the finalizer is on it, so the
  instance cannot be orphaned by a deletion.\<close>

theorem reachable_machines:
  assumes "machineReachable D m" and "\<forall>d \<in> D. finalizersOK d"
  shows "machineInv m"
  using assms(1)
proof induction
  case (created m)
  then show ?case
    by (simp add: machineInv_def statusInv_def finalizerInv_def zero_OVHMachineStatus_def
        zero_Initialization_def)
next
  case (stepped m m')
  with assms(2) show ?case by (blast intro: machineStep_inv)
qed

section \<open>Witness\<close>

theorem reachable_machines_witness:
  "machineInv (st_obj (snd (run_state (Reconcile (sampleDeps (sampleCloud [])) ''ns'' ''m'')
     (sampleState sampleOVHMachine))))"
proof -
  let ?d = "sampleDeps (sampleCloud [])"
  let ?t = "snd (run_state (Reconcile ?d ''ns'' ''m'') (sampleState sampleOVHMachine))"
  have ok: "\<forall>d \<in> {?d}. finalizersOK d" by (simp add: sampleDeps_ok)
  have "machineReachable {?d} sampleOVHMachine"
    by (rule machineReachable.created) (simp_all add: sampleOVHMachine_def zero_OVHMachine_def zero_OVHMachineSpec_def)
  moreover have "machineStep {?d} sampleOVHMachine (st_obj ?t)"
    by (rule machineStep.reconcile [OF _ _ _ run_pair]) (simp_all add: sampleDeps_def)
  ultimately have "machineReachable {?d} (st_obj ?t)"
    by (rule machineReachable.stepped)
  from reachable_machines [OF this ok] show ?thesis .
qed

end
