(* ===== verification/Cluster_Properties.thy ===== *)
theory Cluster_Properties
  imports Cluster_Controller
begin

text \<open>
  What the cluster reconciler guarantees for a cluster that is not being deleted: the requests it may
  send, a control-plane endpoint that is written once, that it always comes back, when it reports the
  cluster as ready, that the security groups are recorded, and that nothing recorded is created again.
\<close>

section \<open>Rules for the writes\<close>

lemma runs_setClusterStatus [runs_intros]:
  "(\<And>c. I c \<Longrightarrow> I (c\<lparr>OVHCluster_Status := f (OVHCluster_Status c)\<rparr>)) \<Longrightarrow> runs I P (setClusterStatus f)"
  unfolding setClusterStatus_def by (intro runs_intros)

lemma runs_setClusterFinalizers [runs_intros]:
  "(\<And>c. I c \<Longrightarrow> I (c\<lparr>OVHCluster_ObjectMeta := (OVHCluster_ObjectMeta c)\<lparr>
       ObjectMeta_Finalizers := f (clusterFinalizers c)\<rparr>\<rparr>)) \<Longrightarrow> runs I P (setClusterFinalizers f)"
  unfolding setClusterFinalizers_def by (intro runs_intros)

lemma runs_setClusterCondition [runs_intros]:
  "(\<And>c. I c \<Longrightarrow> I (c\<lparr>OVHCluster_Status := (OVHCluster_Status c)\<lparr>OVHClusterStatus_Conditions :=
       Deps_conditionsSet d (OVHClusterStatus_Conditions (OVHCluster_Status c))
         \<lparr>Condition_Type = ty, Condition_Status = st, Condition_Reason = re, Condition_Message = ms\<rparr>\<rparr>\<rparr>))
    \<Longrightarrow> runs I P (setClusterCondition d ty st re ms)"
  unfolding setClusterCondition_def by (intro runs_intros)

lemma runs_andThen [runs_intros]: "runs I P m \<Longrightarrow> runs I P n \<Longrightarrow> runs I P (andThen m n)"
  unfolding andThen_def by (intro runs_intros)

lemma wp_setClusterStatus [wp_rules]:
  "wp (setClusterStatus f) Q s = Q () (s\<lparr>st_obj := (st_obj s)\<lparr>
     OVHCluster_Status := f (OVHCluster_Status (st_obj s))\<rparr>\<rparr>)"
  unfolding setClusterStatus_def by (simp add: wp_rules)

lemma wp_setClusterFinalizers [wp_rules]:
  "wp (setClusterFinalizers f) Q s = Q () (s\<lparr>st_obj := (st_obj s)\<lparr>
     OVHCluster_ObjectMeta := (OVHCluster_ObjectMeta (st_obj s))\<lparr>
       ObjectMeta_Finalizers := f (clusterFinalizers (st_obj s))\<rparr>\<rparr>\<rparr>)"
  unfolding setClusterFinalizers_def by (simp add: wp_rules)

lemmas network_defs = reconcileNetwork_def ensureNetwork_def checkNetwork_def ensureSubnet_def
  networkReady_def

lemmas gateway_defs = ensureGatewayExposed_def discoverGateway_def

lemmas fip_defs = reconcileFloatingIP_def recordedFloatingIP_def discoverFloatingIP_def
  allocateFloatingIP_def locateFloatingIP_def listedFloatingIP_def recordFIP_def

lemmas port_defs = reconcileLBPort_def ensureListener_def ensurePool_def ensurePoolHealthMonitor_def

lemmas lb_defs = reconcileLoadBalancer_def adoptLB_def createLB_def prepareLB_def submitLB_def
  handleExistingLB_def exposeLB_def publishEndpoint_def setEndpoint_def

lemmas sg_defs = reconcileSecurityGroups_def reconcileSecurityGroup_def recordSG_def

lemmas ptr_defs = apiListenerPtr_def apiPoolPtr_def registerListenerPtr_def registerPoolPtr_def

lemma runs_eachSecurityGroup [runs_intros]:
  "(\<And>sg. sg \<in> set sgs \<Longrightarrow> runs I P (reconcileSecurityGroup scope ex sg))
    \<Longrightarrow> runs I P (reconcileEachSecurityGroup scope ex sgs)"
  by (induction sgs) (auto intro!: runs_intros)

section \<open>The requests of a reconcile\<close>

definition clusterResource :: "'w ClusterScope \<Rightarrow> string \<Rightarrow> string" where
  "clusterResource scope kind =
     GenerateRFC1035Name [''capi'', Cluster_Name (ClusterScope_Cluster scope), kind]"

fun clusterBody :: "'w ClusterScope \<Rightarrow> string \<Rightarrow> body \<Rightarrow> bool" where
  "clusterBody scope region (BNetwork o') \<longleftrightarrow>
     CreateNetworkOpts_Name o' = clusterResource scope ''net'' \<and> CreateNetworkOpts_Regions o' = [region]"
| "clusterBody scope region (BSubnet o') \<longleftrightarrow> CreateSubnetOpts_Region o' = region"
| "clusterBody scope region (BLoadBalancer o') \<longleftrightarrow>
     CreateLoadBalancerOpts_Name o' = clusterResource scope ''lb''"
| "clusterBody scope region (BLBFloatingIP ip gw) \<longleftrightarrow>
     ip \<noteq> '''' \<and> gw = [(''model'', ''s''), (''name'', gwName scope)]"
| "clusterBody scope region (BListener o') \<longleftrightarrow>
     (CreateListenerOpts_Name o', CreateListenerOpts_Port o')
       \<in> {(apiServerListenerName, 6443), (rke2RegisterListenerName, 9345)}"
| "clusterBody scope region (BPool o') \<longleftrightarrow>
     CreatePoolOpts_Name o' \<in> {apiServerListenerName @ ''-pool'', rke2RegisterListenerName @ ''-pool''}"
| "clusterBody scope region (BHealthMonitor o') \<longleftrightarrow>
     CreateHealthMonitorOpts_MonitorType o' = ''tcp'' \<and> CreateHealthMonitorOpts_Delay o' > 0"
| "clusterBody scope region (BSecurityGroup o') \<longleftrightarrow>
     (\<exists>sg. CreateSecurityGroupOpts_Name o' = sgName scope sg)"
| "clusterBody scope region (BSecurityGroupRule o') \<longleftrightarrow> True"
| "clusterBody scope region (BDNSRecord o') \<longleftrightarrow>
     CreateDNSRecordOpts_FieldType o' = ''A'' \<and> CreateDNSRecordOpts_Target o' \<noteq> ''''
     \<and> CreateDNSRecordOpts_TTL o' \<noteq> 0"
| "clusterBody scope region BNone \<longleftrightarrow> True"
| "clusterBody scope region b \<longleftrightarrow> False"

fun clusterRequest :: "'w ClusterScope \<Rightarrow> string \<Rightarrow> request \<Rightarrow> bool" where
  "clusterRequest scope region (Get p) = True"
| "clusterRequest scope region (Delete p) = False"
| "clusterRequest scope region (Post p b) = clusterBody scope region b"

definition clusterEvent :: "'w ClusterScope \<Rightarrow> string \<Rightarrow> event \<Rightarrow> bool" where
  "clusterEvent scope region e \<longleftrightarrow>
     (\<forall>r. e = Call r \<longrightarrow> clusterRequest scope region r) \<and> (\<forall>k. e \<noteq> Kube k)"

lemma clusterEvent_simps [simp]:
  "clusterEvent scope region (Call r) = clusterRequest scope region r"
  "clusterEvent scope region (Sleep n)" "clusterEvent scope region (Inc x)"
  "clusterEvent scope region (Observe x l)" "clusterEvent scope region (SetGauge x l i)"
  "\<not> clusterEvent scope region (Kube k)"
  by (simp_all add: clusterEvent_def)










section \<open>The control-plane endpoint\<close>

definition specSansEndpoint :: "OVHCluster \<Rightarrow> OVHClusterSpec" where
  "specSansEndpoint c = (OVHCluster_Spec c)\<lparr>OVHClusterSpec_ControlPlaneEndpoint := zero_APIEndpoint\<rparr>"

definition endpointOK :: "OVHCluster \<Rightarrow> OVHCluster \<Rightarrow> bool" where
  "endpointOK c0 c \<longleftrightarrow>
     specSansEndpoint c = specSansEndpoint c0
     \<and> (clusterEndpoint c = clusterEndpoint c0
        \<or> APIEndpoint_Host (clusterEndpoint c0) = '''' \<and> APIEndpoint_Host (clusterEndpoint c) \<noteq> ''''
          \<and> APIEndpoint_Port (clusterEndpoint c) = 6443)"

lemma endpointOK_status [simp]:
  "endpointOK c0 (c\<lparr>OVHCluster_Status := x\<rparr>) = endpointOK c0 c"
  "endpointOK c0 (c\<lparr>OVHCluster_ObjectMeta := m\<rparr>) = endpointOK c0 c"
  by (simp_all add: endpointOK_def specSansEndpoint_def)

lemma endpointOK_set:
  "endpointOK c0 c \<Longrightarrow> h \<noteq> '''' \<Longrightarrow> APIEndpoint_Host (clusterEndpoint c) = '''' \<Longrightarrow>
   endpointOK c0 (c\<lparr>OVHCluster_Spec := (OVHCluster_Spec c)\<lparr>OVHClusterSpec_ControlPlaneEndpoint :=
     \<lparr>APIEndpoint_Host = h, APIEndpoint_Port = 6443\<rparr>\<rparr>\<rparr>)"
  by (auto simp: endpointOK_def specSansEndpoint_def)

text \<open>The one write to the spec is guarded by a read of the same object.\<close>

lemma setEndpoint_endpoint: "runs (endpointOK c0) (\<lambda>_. True) (setEndpoint h)"
  unfolding runs_def setEndpoint_def by (auto simp: endpointOK_set)

lemma ensureGatewayExposed_endpoint: "runs (endpointOK c0) (\<lambda>_. True) (ensureGatewayExposed scope)"
  unfolding gateway_defs by (intro runs_intros) auto

lemma reconcileFloatingIP_endpoint: "runs (endpointOK c0) (\<lambda>_. True) (reconcileFloatingIP scope lb)"
  unfolding fip_defs by (intro runs_intros ensureGatewayExposed_endpoint) auto

lemma reconcileLBPort_endpoint: "runs (endpointOK c0) (\<lambda>_. True) (reconcileLBPort scope n p lp pp)"
  unfolding port_defs by (intro runs_intros) auto

lemma reconcileLoadBalancer_endpoint:
  "runs (endpointOK c0) (\<lambda>_. True) (reconcileLoadBalancer d scope)"
  unfolding reconcileLoadBalancer_def adoptLB_def createLB_def prepareLB_def submitLB_def
    handleExistingLB_def exposeLB_def recordFIP_def publishEndpoint_def
  by (intro runs_intros setEndpoint_endpoint reconcileFloatingIP_endpoint reconcileLBPort_endpoint)
    auto

lemma reconcileNetwork_endpoint: "runs (endpointOK c0) (\<lambda>_. True) (reconcileNetwork d scope)"
  unfolding network_defs by (intro runs_intros) auto

lemma reconcileSecurityGroup_endpoint:
  "runs (endpointOK c0) (\<lambda>_. True) (reconcileSecurityGroup scope ex sg)"
  unfolding sg_defs by (intro runs_intros) auto

lemma reconcileSecurityGroups_endpoint:
  "runs (endpointOK c0) (\<lambda>_. True) (reconcileSecurityGroups scope)"
  unfolding reconcileSecurityGroups_def
  by (intro runs_intros reconcileSecurityGroup_endpoint) auto

lemma ClusterReconcileNormal_endpoint:
  "runs (endpointOK c0) (\<lambda>_. True) (ClusterReconcileNormal d scope)"
  unfolding ClusterReconcileNormal_def clusterNormalBody_def clusterEndGame_def
    reconcileCredentials_def reconcileFailureDomains_def reconcileDNS_def
  by (intro runs_intros reconcileNetwork_endpoint reconcileLoadBalancer_endpoint
      reconcileSecurityGroups_endpoint) auto

text \<open>C17: a reconcile changes nothing in the spec but the control-plane endpoint, and that only once:
  an endpoint with a host is never changed, and a new one has a host and port 6443.\<close>

theorem control_plane_endpoint_once:
  assumes "run_state (ClusterReconcileNormal d scope) s = (r, t)"
  shows "specSansEndpoint (st_obj t) = specSansEndpoint (st_obj s)
    \<and> (if APIEndpoint_Host (clusterEndpoint (st_obj s)) \<noteq> ''''
       then clusterEndpoint (st_obj t) = clusterEndpoint (st_obj s)
       else clusterEndpoint (st_obj t) = clusterEndpoint (st_obj s)
         \<or> APIEndpoint_Host (clusterEndpoint (st_obj t)) \<noteq> ''''
           \<and> APIEndpoint_Port (clusterEndpoint (st_obj t)) = 6443)"
proof -
  have "endpointOK (st_obj s) (st_obj t)"
    by (rule runsD [OF ClusterReconcileNormal_endpoint _ assms, of "st_obj s"])
      (simp_all add: endpointOK_def)
  then show ?thesis by (auto simp: endpointOK_def)
qed

section \<open>Coming back\<close>

lemma clusterEndGame_result:
  "run_state (clusterEndGame d scope) s = (r, t) \<Longrightarrow>
   snd r \<noteq> None \<or> 0 < Result_RequeueAfter (fst r)"
  by (auto simp: clusterEndGame_def split: prod.splits if_splits)

text \<open>The reconciler never stops looking at a live cluster: every reconcile ends in an error, in
  a request to be called again, or in the first write of the finalizer (which triggers the next
  reconcile).\<close>

lemma ClusterReconcileNormal_requeues:
  assumes "run_state (ClusterReconcileNormal d scope) s = (r, t)"
  shows "snd r \<noteq> None \<or> 0 < Result_RequeueAfter (fst r)
    \<or> \<not> Deps_ContainsFinalizer d (clusterFinalizers (st_obj s)) ClusterFinalizer
      \<and> clusterFinalizers (st_obj t) = Deps_AddFinalizer d (clusterFinalizers (st_obj s)) ClusterFinalizer"
proof -
  from assms obtain u where u: "run_state (clusterNormalBody d scope) s = (r, u)" "st_obj t = st_obj u"
    by (auto simp: ClusterReconcileNormal_def split: prod.splits)
  then show ?thesis
    by (auto simp: clusterNormalBody_def setClusterFinalizers_def
        split: prod.splits if_splits option.splits dest!: clusterEndGame_result)
qed

section \<open>Readiness\<close>

text \<open>\<open>ends Q m\<close>: whatever the start, the computation ends with a result and an object that
  satisfy \<open>Q\<close>. The rules look at the last statement of each path.\<close>

definition ends :: "('a \<Rightarrow> OVHCluster \<Rightarrow> bool) \<Rightarrow> ('w, 'a) cact \<Rightarrow> bool" where
  "ends Q m \<longleftrightarrow> (\<forall>s. Q (fst (run_state m s)) (st_obj (snd (run_state m s))))"

named_theorems ends_intros \<open>introduction rules for what holds at the end\<close>

lemma endsD: "ends Q m \<Longrightarrow> run_state m s = (a, t) \<Longrightarrow> Q a (st_obj t)"
  unfolding ends_def by (metis fst_conv snd_conv)

lemma ends_return [ends_intros]: "(\<And>c. Q x c) \<Longrightarrow> ends Q (ret x)"
  by (simp add: ends_def)

lemma ends_bind [ends_intros]: "(\<And>a. ends Q (f a)) \<Longrightarrow> ends Q (State_Monad.bind m f)"
  by (simp add: ends_def split: prod.split)

lemma ends_if [ends_intros]:
  "(b \<Longrightarrow> ends Q m) \<Longrightarrow> (\<not> b \<Longrightarrow> ends Q n) \<Longrightarrow> ends Q (if b then m else n)"
  by simp

lemma ends_case_sum [ends_intros]:
  "(\<And>e. ends Q (f e)) \<Longrightarrow> (\<And>x. ends Q (g x)) \<Longrightarrow> ends Q (case r of Inl e \<Rightarrow> f e | Inr x \<Rightarrow> g x)"
  by (cases r) simp_all

lemma ends_case_option [ends_intros]:
  "ends Q m \<Longrightarrow> (\<And>x. ends Q (g x)) \<Longrightarrow> ends Q (case r of None \<Rightarrow> m | Some x \<Rightarrow> g x)"
  by (cases r) simp_all

lemma ends_Let [ends_intros]: "(\<And>x. ends Q (f x)) \<Longrightarrow> ends Q (let x = t in f x)"
  by simp

lemma ends_andThen [ends_intros]:
  "ends Q n \<Longrightarrow> (\<And>e c. Q (Some e) c) \<Longrightarrow> ends Q (andThen m n)"
  unfolding andThen_def by (intro ends_intros) auto

lemma ends_setClusterCondition:
  "(\<And>c. Q x (c\<lparr>OVHCluster_Status := (OVHCluster_Status c)\<lparr>OVHClusterStatus_Conditions :=
       Deps_conditionsSet d (OVHClusterStatus_Conditions (OVHCluster_Status c))
         \<lparr>Condition_Type = ty, Condition_Status = st, Condition_Reason = re, Condition_Message = ms\<rparr>\<rparr>\<rparr>))
    \<Longrightarrow> ends Q (do { _ \<leftarrow> setClusterCondition d ty st re ms; ret x })"
  by (simp add: ends_def setClusterCondition_def setClusterStatus_def)

abbreviation isTrue :: "'w Deps \<Rightarrow> string \<Rightarrow> OVHCluster \<Rightarrow> bool" where
  "isTrue d ty c \<equiv> Deps_conditionsIsTrue d (OVHClusterStatus_Conditions (OVHCluster_Status c)) ty"

abbreviation isReady :: "OVHCluster \<Rightarrow> bool" where
  "isReady c \<equiv> OVHClusterStatus_Ready (OVHCluster_Status c)"

abbreviation isProvisioned :: "OVHCluster \<Rightarrow> bool" where
  "isProvisioned c \<equiv>
     Initialization_Provisioned (OVHClusterStatus_Initialization (OVHCluster_Status c)) = Some True"

lemma isTrue_set:
  "conditionsOK d \<Longrightarrow> Deps_conditionsIsTrue d (Deps_conditionsSet d cs c) t =
     (if t = Condition_Type c then Condition_Status c = ConditionTrue else Deps_conditionsIsTrue d cs t)"
  by (simp add: conditionsOK_def)

text \<open>A step that succeeds leaves its own condition true.\<close>

lemma reconcileCredentials_true:
  "conditionsOK d \<Longrightarrow> ends (\<lambda>e c. e = None \<longrightarrow> isTrue d OVHConnectionReadyCondition c)
     (reconcileCredentials d scope)"
  unfolding reconcileCredentials_def
  by (rule ends_setClusterCondition ends_bind ends_case_option | simp add: isTrue_set)+

lemma reconcileNetwork_true:
  "conditionsOK d \<Longrightarrow> ends (\<lambda>e c. e = None \<longrightarrow> isTrue d NetworkReadyCondition c)
     (reconcileNetwork d scope)"
  unfolding reconcileNetwork_def networkReady_def
  by (rule ends_setClusterCondition ends_bind ends_case_option ends_andThen | simp add: isTrue_set)+

lemma reconcileLoadBalancer_true:
  "conditionsOK d \<Longrightarrow> ends (\<lambda>r c. snd r = None \<and> \<not> 0 < Result_RequeueAfter (fst r)
       \<longrightarrow> isTrue d LoadBalancerReadyCondition c) (reconcileLoadBalancer d scope)"
  unfolding reconcileLoadBalancer_def createLB_def prepareLB_def submitLB_def handleExistingLB_def
    exposeLB_def publishEndpoint_def Let_def
  by (rule ends_setClusterCondition ends_bind ends_case_option ends_case_sum ends_if ends_return
      | simp add: isTrue_set)+

text \<open>And it leaves the conditions of the steps before it, and the readiness, as they are.\<close>

definition holding :: "'w Deps \<Rightarrow> string set \<Rightarrow> bool \<Rightarrow> OVHCluster \<Rightarrow> bool" where
  "holding d tys ready c \<longleftrightarrow> isReady c = ready \<and> (\<forall>ty \<in> tys. isTrue d ty c)"

lemma reconcileCredentials_holding:
  "runs (holding d {} ready) (\<lambda>_. True) (reconcileCredentials d scope)"
  unfolding reconcileCredentials_def by (intro runs_intros) (auto simp: holding_def)

lemma reconcileNetwork_holding:
  "conditionsOK d \<Longrightarrow> runs (holding d {OVHConnectionReadyCondition} ready) (\<lambda>_. True) (reconcileNetwork d scope)"
  unfolding network_defs by (intro runs_intros) (auto simp: holding_def isTrue_set)

lemma reconcileFailureDomains_holding:
  "runs (holding d tys ready) (\<lambda>_. True) (reconcileFailureDomains scope)"
  unfolding reconcileFailureDomains_def by (intro runs_intros) (auto simp: holding_def)

lemma reconcileSecurityGroup_holding:
  "runs (holding d tys ready) (\<lambda>_. True) (reconcileSecurityGroup scope ex sg)"
  unfolding sg_defs by (intro runs_intros) (auto simp: holding_def)

lemma reconcileSecurityGroups_holding:
  "runs (holding d tys ready) (\<lambda>_. True) (reconcileSecurityGroups scope)"
  unfolding reconcileSecurityGroups_def
  by (intro runs_intros reconcileSecurityGroup_holding) (auto simp: holding_def)

lemma reconcileDNS_holding: "runs (holding d tys ready) (\<lambda>_. True) (reconcileDNS scope)"
  unfolding reconcileDNS_def by (intro runs_intros) (auto simp: holding_def)

lemma reconcileFloatingIP_holding:
  "runs (holding d tys ready) (\<lambda>_. True) (reconcileFloatingIP scope lb)"
  unfolding fip_defs gateway_defs by (intro runs_intros) (auto simp: holding_def)

lemma reconcileLBPort_holding:
  "(\<And>c v. holding d tys ready c \<Longrightarrow>
      holding d tys ready (c\<lparr>OVHCluster_Status := statusPtr_write lp v (OVHCluster_Status c)\<rparr>)) \<Longrightarrow>
   (\<And>c v. holding d tys ready c \<Longrightarrow>
      holding d tys ready (c\<lparr>OVHCluster_Status := statusPtr_write pp v (OVHCluster_Status c)\<rparr>)) \<Longrightarrow>
   runs (holding d tys ready) (\<lambda>_. True) (reconcileLBPort scope n p lp pp)"
  unfolding port_defs by (intro runs_intros) auto

lemma reconcileLoadBalancer_holding:
  "conditionsOK d \<Longrightarrow> LoadBalancerReadyCondition \<notin> tys \<Longrightarrow>
   runs (holding d tys ready) (\<lambda>_. True) (reconcileLoadBalancer d scope)"
  unfolding lb_defs recordFIP_def
  by (intro runs_intros reconcileFloatingIP_holding reconcileLBPort_holding)
    (auto simp: holding_def isTrue_set ptr_defs)

definition allReady :: "'w Deps \<Rightarrow> OVHCluster \<Rightarrow> bool" where
  "allReady d c \<longleftrightarrow> isReady c \<and> isProvisioned c \<and>
     list_all (\<lambda>ty. isTrue d ty c) [OVHConnectionReadyCondition, NetworkReadyCondition,
       LoadBalancerReadyCondition, InfrastructureReadyCondition]"

abbreviation readyOrSame :: "'w Deps \<Rightarrow> bool \<Rightarrow> outcome \<Rightarrow> OVHCluster \<Rightarrow> bool" where
  "readyOrSame d ready r c \<equiv>
     isReady c = ready \<and> r \<noteq> requeueAfter requeueTimeLong
     \<or> r = requeueAfter requeueTimeLong \<and> allReady d c"

lemma requeueTime_distinct [simp]: "requeueTimeShort \<noteq> requeueTimeLong"
  "requeueTimeLong \<noteq> 0" "0 \<noteq> requeueTimeLong"
  by (simp_all add: requeueTimeShort_def requeueTimeLong_def)

lemma reconcileLoadBalancer_short:
  "ends (\<lambda>r c. r \<noteq> requeueAfter requeueTimeLong) (reconcileLoadBalancer d scope)"
  unfolding reconcileLoadBalancer_def createLB_def prepareLB_def submitLB_def handleExistingLB_def
    exposeLB_def publishEndpoint_def Let_def
  by (intro ends_intros) simp_all

lemma clusterEndGame_ready:
  assumes ok: "conditionsOK d" and run: "run_state (clusterEndGame d scope) s = (r, t)"
    and pre: "holding d {OVHConnectionReadyCondition, NetworkReadyCondition} ready (st_obj s)"
  shows "readyOrSame d ready r (st_obj t)"
proof -
  let ?tys = "{OVHConnectionReadyCondition, NetworkReadyCondition}"
  obtain r1 u where u: "run_state (reconcileLoadBalancer d scope) s = (r1, u)" by fastforce
  have hu: "holding d ?tys ready (st_obj u)"
    by (rule runsD [OF reconcileLoadBalancer_holding [OF ok] pre u]) auto
  have short: "r1 \<noteq> requeueAfter requeueTimeLong" by (rule endsD [OF reconcileLoadBalancer_short u])
  show ?thesis
  proof (cases "snd r1 \<noteq> None \<or> 0 < Result_RequeueAfter (fst r1)")
    case True
    with run u hu short show ?thesis by (auto simp: clusterEndGame_def holding_def)
  next
    case False
    with endsD [OF reconcileLoadBalancer_true [OF ok] u] hu
    have hl: "holding d (insert LoadBalancerReadyCondition ?tys) ready (st_obj u)"
      by (auto simp: holding_def)
    obtain e v where v: "run_state (reconcileDNS scope) u = (e, v)" by fastforce
    have "holding d (insert LoadBalancerReadyCondition ?tys) ready (st_obj v)"
      by (rule runsD [OF reconcileDNS_holding hl v])
    with run u v False show ?thesis
      by (auto simp: clusterEndGame_def setClusterStatus_def setClusterCondition_def allReady_def
          holding_def isTrue_set [OF ok])
  qed
qed

lemma afterNetwork_ready:
  assumes ok: "conditionsOK d"
    and run: "run_state (do { _ \<leftarrow> reconcileFailureDomains scope; _ \<leftarrow> reconcileSecurityGroups scope;
      clusterEndGame d scope }) s = (r, t)"
    and pre: "holding d {OVHConnectionReadyCondition, NetworkReadyCondition} ready (st_obj s)"
  shows "readyOrSame d ready r (st_obj t)"
proof -
  obtain u where u: "run_state (reconcileFailureDomains scope) s = ((), u)"
    by (cases "run_state (reconcileFailureDomains scope) s") auto
  obtain e v where v: "run_state (reconcileSecurityGroups scope) u = (e, v)" by fastforce
  have "holding d {OVHConnectionReadyCondition, NetworkReadyCondition} ready (st_obj u)"
    by (rule runsD [OF reconcileFailureDomains_holding pre u])
  then have hv: "holding d {OVHConnectionReadyCondition, NetworkReadyCondition} ready (st_obj v)"
    by (rule runsD [OF reconcileSecurityGroups_holding _ v])
  have "run_state (clusterEndGame d scope) v = (r, t)" using run u v by simp
  from clusterEndGame_ready [OF ok this hv] show ?thesis .
qed

lemma clusterNormalBody_ready:
  assumes ok: "conditionsOK d" and run: "run_state (clusterNormalBody d scope) s = (r, t)"
  shows "readyOrSame d (isReady (st_obj s)) r (st_obj t)"
proof (cases "\<not> Deps_ContainsFinalizer d (clusterFinalizers (st_obj s)) ClusterFinalizer
    \<and> \<not> ObjectMeta_Deleting (OVHCluster_ObjectMeta (st_obj s))")
  case True
  with run show ?thesis by (auto simp: clusterNormalBody_def setClusterFinalizers_def)
next
  case False
  let ?ready = "isReady (st_obj s)"
  obtain e u where u: "run_state (reconcileCredentials d scope) s = (e, u)" by fastforce
  obtain e' v where v: "run_state (reconcileNetwork d scope) u = (e', v)" by fastforce
  have hu: "holding d {} ?ready (st_obj u)"
    by (rule runsD [OF reconcileCredentials_holding _ u]) (simp_all add: holding_def)
  show ?thesis
  proof (cases e)
    case None
    with hu endsD [OF reconcileCredentials_true [OF ok] u]
    have "holding d {OVHConnectionReadyCondition} ?ready (st_obj u)" by (simp add: holding_def)
    then have hv: "holding d {OVHConnectionReadyCondition} ?ready (st_obj v)"
      by (rule runsD [OF reconcileNetwork_holding [OF ok] _ v])
    show ?thesis
    proof (cases e')
      case None
      with hv endsD [OF reconcileNetwork_true [OF ok] v]
      have "holding d {OVHConnectionReadyCondition, NetworkReadyCondition} ?ready (st_obj v)"
        by (simp add: holding_def)
      from afterNetwork_ready [OF ok _ this] run u v False \<open>e = None\<close> None show ?thesis
        by (simp add: clusterNormalBody_def)
    qed (use run u v False \<open>e = None\<close> hv in
        \<open>auto simp: clusterNormalBody_def holding_def split: if_splits\<close>)
  qed (use run u False hu in \<open>auto simp: clusterNormalBody_def holding_def\<close>)
qed

text \<open>C16: a reconcile makes a cluster ready only by going through every step: it then ends with the
  long requeue, the cluster is provisioned, and the conditions on the connection, the network, the
  load balancer and the infrastructure are all true. On every other way out the readiness is what it
  was. The readiness gauge always shows the status it leaves behind.\<close>

theorem ClusterReconcileNormal_ready:
  assumes "conditionsOK d" and "run_state (ClusterReconcileNormal d scope) s = (r, t)"
  shows "(if r = requeueAfter requeueTimeLong then allReady d (st_obj t)
      else isReady (st_obj t) = isReady (st_obj s))
    \<and> last (st_trace t) = SetGauge ClusterReady [clusterKey (st_obj t)] (if isReady (st_obj t) then 1 else 0)"
proof -
  obtain u where u: "run_state (clusterNormalBody d scope) s = (r, u)" "st_obj t = st_obj u"
    using assms(2) by (auto simp: ClusterReconcileNormal_def split: prod.splits)
  have "last (st_trace t) = SetGauge ClusterReady [clusterKey (st_obj t)] (if isReady (st_obj t) then 1 else 0)"
    using assms(2) by (auto simp: ClusterReconcileNormal_def split: prod.splits)
  with clusterNormalBody_ready [OF assms(1) u(1)] u(2) show ?thesis by auto
qed

section \<open>Security groups\<close>

definition sgRecorded :: "OVHCluster \<Rightarrow> string \<Rightarrow> bool" where
  "sgRecorded c name \<longleftrightarrow> name \<in> fst ` set (OVHClusterStatus_SecurityGroupIDs (OVHCluster_Status c))"

lemma mapGet_recorded:
  "mapGet m k \<noteq> '''' \<Longrightarrow> k \<in> fst ` set m"
  by (auto simp: mapGet_def split: option.splits dest: map_of_SomeD intro: rev_image_eqI)

lemma reconcileSecurityGroup_keeps_recorded:
  "runs (\<lambda>c. sgRecorded c name) (\<lambda>_. True) (reconcileSecurityGroup scope ex sg)"
  unfolding sg_defs
  by (intro runs_intros) (auto simp: sgRecorded_def dom_update [unfolded dom_map_of_conv_image_fst])

lemma mapGet_update [simp]:
  "mapGet (AList.update k v m) k' = (if k' = k then v else mapGet m k')"
  by (simp add: mapGet_def update_conv')

lemma reconcileSecurityGroup_keeps_id:
  "v \<noteq> '''' \<Longrightarrow>
   runs (\<lambda>c. mapGet (OVHClusterStatus_SecurityGroupIDs (OVHCluster_Status c)) name = v) (\<lambda>_. True)
     (reconcileSecurityGroup scope ex sg)"
  unfolding sg_defs by (intro runs_intros) auto

lemma createRules_keepsObj:
  "keepsObj (forEach rules (\<lambda>rule. do {
     _ \<leftarrow> CreateSecurityGroupRule client i (ruleOpts rule); ret () }))"
  by (intro keepsObj_intros CreateSecurityGroupRule.oper_keepsObj)

lemma reconcileSecurityGroup_records:
  "run_state (reconcileSecurityGroup scope ex sg) s = (None, t) \<Longrightarrow>
   sgRecorded (st_obj t) (OVHSecurityGroup_Name sg)"
  by (auto simp: reconcileSecurityGroup_def recordSG_def setClusterStatus_def Let_def sgRecorded_def
      dom_update [unfolded dom_map_of_conv_image_fst]
      dest!: mapGet_recorded keepsObjD [OF createRules_keepsObj]
      split: if_splits option.splits sum.splits prod.splits)

lemma reconcileEachSecurityGroup_records:
  "run_state (reconcileEachSecurityGroup scope ex sgs) s = (None, t) \<Longrightarrow>
   (\<forall>sg \<in> set sgs. sgRecorded (st_obj t) (OVHSecurityGroup_Name sg))"
proof (induction sgs arbitrary: s)
  case (Cons sg sgs)
  then obtain u where u: "run_state (reconcileSecurityGroup scope ex sg) s = (None, u)"
    and t: "run_state (reconcileEachSecurityGroup scope ex sgs) u = (None, t)"
    by (auto split: prod.splits option.splits)
  have "runs (\<lambda>c. sgRecorded c (OVHSecurityGroup_Name sg)) (\<lambda>_. True) (reconcileEachSecurityGroup scope ex sgs)"
    by (intro runs_intros reconcileSecurityGroup_keeps_recorded)
  from runsD [OF this reconcileSecurityGroup_records [OF u] t] Cons.IH [OF t] show ?case by auto
qed simp

text \<open>When the security groups reconcile without an error, every group of the spec has an entry
  in the status. Whatever the result, an ID that was recorded before is kept.\<close>

lemma reconcileSecurityGroups_recorded:
  assumes "run_state (reconcileSecurityGroups scope) s = (e, t)"
  shows "(e = None \<longrightarrow> (\<forall>sg \<in> set (OVHClusterSpec_SecurityGroups (OVHCluster_Spec (st_obj s))).
      sgRecorded (st_obj t) (OVHSecurityGroup_Name sg)))
    \<and> (\<forall>name. mapGet (OVHClusterStatus_SecurityGroupIDs (OVHCluster_Status (st_obj s))) name \<noteq> ''''
      \<longrightarrow> mapGet (OVHClusterStatus_SecurityGroupIDs (OVHCluster_Status (st_obj t))) name =
          mapGet (OVHClusterStatus_SecurityGroupIDs (OVHCluster_Status (st_obj s))) name)"
proof (intro conjI allI impI)
  show "\<forall>sg \<in> set (OVHClusterSpec_SecurityGroups (OVHCluster_Spec (st_obj s))).
      sgRecorded (st_obj t) (OVHSecurityGroup_Name sg)" if "e = None"
    using assms that reconcileEachSecurityGroup_records
    by (fastforce simp: reconcileSecurityGroups_def Let_def split: if_splits sum.splits prod.splits)
next
  let ?ids = "\<lambda>c. OVHClusterStatus_SecurityGroupIDs (OVHCluster_Status c)"
  fix name
  assume "mapGet (?ids (st_obj s)) name \<noteq> ''''"
  then have "runs (\<lambda>c. mapGet (?ids c) name = mapGet (?ids (st_obj s)) name) (\<lambda>_. True)
      (reconcileSecurityGroups scope)"
    unfolding reconcileSecurityGroups_def
    by (intro runs_intros reconcileSecurityGroup_keeps_id) auto
  from runsD [OF this refl assms] show "mapGet (?ids (st_obj t)) name = mapGet (?ids (st_obj s)) name" .
qed

section \<open>Nothing is created twice\<close>

text \<open>\<open>triple I P m Q\<close> is \<open>runs\<close> with a postcondition that may depend on the result: a
  step that fails may give up the invariant, because the steps after it are skipped.\<close>

definition triple :: "(OVHCluster \<Rightarrow> bool) \<Rightarrow> (event \<Rightarrow> bool) \<Rightarrow> ('w, 'a) cact
    \<Rightarrow> ('a \<Rightarrow> OVHCluster \<Rightarrow> bool) \<Rightarrow> bool" where
  "triple I P m Q \<longleftrightarrow>
     (\<forall>s. I (st_obj s) \<longrightarrow> Q (fst (run_state m s)) (st_obj (snd (run_state m s)))
        \<and> (\<exists>es. st_trace (snd (run_state m s)) = st_trace s @ es \<and> (\<forall>e \<in> set es. P e)))"

lemma tripleD:
  assumes "triple I P m Q" and "I (st_obj s)" and "run_state m s = (a, t)"
  obtains es where "Q a (st_obj t)" and "st_trace t = st_trace s @ es" and "\<forall>e \<in> set es. P e"
  using assms unfolding triple_def by (metis fst_conv snd_conv)

lemma triple_runs: "runs I P m \<Longrightarrow> triple I P m (\<lambda>_. I)"
  by (simp add: triple_def runs_def)

lemma triple_conseq:
  "triple I P m Q \<Longrightarrow> (\<And>c. J c \<Longrightarrow> I c) \<Longrightarrow> (\<And>a c. Q a c \<Longrightarrow> R a c) \<Longrightarrow> triple J P m R"
  unfolding triple_def by blast

lemma triple_return: "(\<And>c. I c \<Longrightarrow> Q x c) \<Longrightarrow> triple I P (ret x) Q"
  by (simp add: triple_def)

lemma triple_bind:
  assumes "triple I P m R" and "\<And>a. triple (R a) P (f a) Q"
  shows "triple I P (State_Monad.bind m f) Q"
  unfolding triple_def
proof (intro allI impI)
  fix s
  obtain a t where m: "run_state m s = (a, t)" by fastforce
  obtain b u where f: "run_state (f a) t = (b, u)" by fastforce
  assume i: "I (st_obj s)"
  from tripleD [OF assms(1) i m] obtain es where
    es: "R a (st_obj t)" "st_trace t = st_trace s @ es" "\<forall>e \<in> set es. P e" .
  from tripleD [OF assms(2) es(1) f] obtain fs where
    fs: "Q b (st_obj u)" "st_trace u = st_trace t @ fs" "\<forall>e \<in> set fs. P e" .
  from m f es fs show "Q (fst (run_state (State_Monad.bind m f) s)) (st_obj (snd (run_state (State_Monad.bind m f) s)))
      \<and> (\<exists>es. st_trace (snd (run_state (State_Monad.bind m f) s)) = st_trace s @ es
        \<and> (\<forall>e \<in> set es. P e))"
    by (auto intro!: exI [of _ "es @ fs"])
qed

lemma triple_bind_getObj:
  "(\<And>x. I x \<Longrightarrow> triple I P (f x) Q) \<Longrightarrow> triple I P (State_Monad.bind getObj f) Q"
  unfolding triple_def by simp

lemma triple_bind_runs:
  "runs I P m \<Longrightarrow> (\<And>a. triple I P (f a) Q) \<Longrightarrow> triple I P (State_Monad.bind m f) Q"
  by (rule triple_bind [OF triple_runs])

lemma triple_passed: "runs I P m \<Longrightarrow> triple I P m (\<lambda>e c. e = None \<longrightarrow> I c)"
  by (simp add: triple_def runs_def)

lemma triple_andThen:
  assumes "triple I P m (\<lambda>e c. e = None \<longrightarrow> R c)" and "triple R P n (\<lambda>e c. e = None \<longrightarrow> Q c)"
  shows "triple I P (andThen m n) (\<lambda>e c. e = None \<longrightarrow> Q c)"
  unfolding andThen_def
proof (rule triple_bind [OF assms(1)])
  show "triple (\<lambda>c. a = None \<longrightarrow> R c) P (case a of Some err \<Rightarrow> ret (Some err) | None \<Rightarrow> n)
      (\<lambda>e c. e = None \<longrightarrow> Q c)" for a
    by (cases a) (auto intro: triple_return triple_conseq [OF assms(2)])
qed

text \<open>What the status must lack for a POST of each kind.\<close>

fun missing :: "'w ClusterScope \<Rightarrow> OVHCluster \<Rightarrow> body \<Rightarrow> bool" where
  "missing scope c (BNetwork o') \<longleftrightarrow> OVHClusterStatus_NetworkID (OVHCluster_Status c) = ''''"
| "missing scope c (BSubnet o') \<longleftrightarrow> OVHClusterStatus_SubnetID (OVHCluster_Status c) = ''''"
| "missing scope c (BListener o') \<longleftrightarrow>
     (if CreateListenerOpts_Name o' = apiServerListenerName
      then OVHClusterStatus_ListenerID (OVHCluster_Status c) = ''''
      else OVHClusterStatus_RegisterListenerID (OVHCluster_Status c) = '''')"
| "missing scope c (BPool o') \<longleftrightarrow>
     (if CreatePoolOpts_Name o' = apiServerListenerName @ ''-pool''
      then OVHClusterStatus_PoolID (OVHCluster_Status c) = ''''
      else OVHClusterStatus_RegisterPoolID (OVHCluster_Status c) = '''')"
| "missing scope c (BDNSRecord o') \<longleftrightarrow> OVHClusterStatus_DNSRecordID (OVHCluster_Status c) = 0"
| "missing scope c (BSecurityGroup o') \<longleftrightarrow>
     (\<exists>sg \<in> set (OVHClusterSpec_SecurityGroups (OVHCluster_Spec c)).
        CreateSecurityGroupOpts_Name o' = sgName scope sg
        \<and> mapGet (OVHClusterStatus_SecurityGroupIDs (OVHCluster_Status c)) (OVHSecurityGroup_Name sg) = '''')"
| "missing scope c (BLBFloatingIP ip gw) \<longleftrightarrow>
     OVHLoadBalancerConfig_FloatingNetworkID (OVHClusterSpec_LoadBalancerConfig (OVHCluster_Spec c)) \<noteq> ''''"
| "missing scope c b \<longleftrightarrow> True"

definition missingEvent :: "'w ClusterScope \<Rightarrow> OVHCluster \<Rightarrow> event \<Rightarrow> bool" where
  "missingEvent scope c e \<longleftrightarrow> (\<forall>p b. e = Call (Post p b) \<longrightarrow> missing scope c b)"

lemma missingEvent_simps [simp]:
  "missingEvent scope c (Call (Post p b)) = missing scope c b"
  "missingEvent scope c (Call (Get p))" "missingEvent scope c (Call (Delete p))"
  "missingEvent scope c (Sleep n)" "missingEvent scope c (Inc x)"
  "missingEvent scope c (Observe x l)" "missingEvent scope c (SetGauge x l i)"
  by (simp_all add: missingEvent_def)

text \<open>What is recorded stays recorded.\<close>

definition recorded :: "OVHCluster \<Rightarrow> OVHCluster \<Rightarrow> bool" where
  "recorded c0 c \<longleftrightarrow>
     list_all (\<lambda>f. f (OVHCluster_Status c) = '''' \<longrightarrow> f (OVHCluster_Status c0) = '''')
       [OVHClusterStatus_NetworkID, OVHClusterStatus_SubnetID, OVHClusterStatus_ListenerID,
        OVHClusterStatus_PoolID, OVHClusterStatus_RegisterListenerID, OVHClusterStatus_RegisterPoolID]
     \<and> (OVHClusterStatus_DNSRecordID (OVHCluster_Status c) = 0 \<longrightarrow>
         OVHClusterStatus_DNSRecordID (OVHCluster_Status c0) = 0)
     \<and> (\<forall>n. mapGet (OVHClusterStatus_SecurityGroupIDs (OVHCluster_Status c)) n = '''' \<longrightarrow>
         mapGet (OVHClusterStatus_SecurityGroupIDs (OVHCluster_Status c0)) n = '''')
     \<and> specSansEndpoint c = specSansEndpoint c0"

lemma specSansEndpoint_fields:
  assumes "specSansEndpoint c = specSansEndpoint c0"
  shows "OVHClusterSpec_SecurityGroups (OVHCluster_Spec c) = OVHClusterSpec_SecurityGroups (OVHCluster_Spec c0)"
    "OVHClusterSpec_LoadBalancerConfig (OVHCluster_Spec c) = OVHClusterSpec_LoadBalancerConfig (OVHCluster_Spec c0)"
  using arg_cong [OF assms, of OVHClusterSpec_SecurityGroups]
    arg_cong [OF assms, of OVHClusterSpec_LoadBalancerConfig]
  by (simp_all add: specSansEndpoint_def)

lemma specSansEndpoint_status [simp]:
  "specSansEndpoint (c\<lparr>OVHCluster_Status := x\<rparr>) = specSansEndpoint c"
  "specSansEndpoint (c\<lparr>OVHCluster_ObjectMeta := m\<rparr>) = specSansEndpoint c"
  "specSansEndpoint (c\<lparr>OVHCluster_Spec := (OVHCluster_Spec c)\<lparr>OVHClusterSpec_ControlPlaneEndpoint := a\<rparr>\<rparr>)
     = specSansEndpoint c"
  by (simp_all add: specSansEndpoint_def)

lemma ensureNetwork_missing:
  "runs (recorded c0) (missingEvent scope c0) (ensureNetwork d scope cfg)"
  unfolding ensureNetwork_def by (intro runs_intros) (auto simp: recorded_def)

lemma ensureSubnet_missing:
  "runs (recorded c0) (missingEvent scope c0) (ensureSubnet scope cfg)"
  unfolding ensureSubnet_def by (intro runs_intros) (auto simp: recorded_def)

lemma checkNetwork_passed:
  "run_state (checkNetwork d scope) s = (None, t) \<Longrightarrow> st_obj t = st_obj s"
  by (auto simp: checkNetwork_def Let_def dest: keepsObjD [OF GetPrivateNetwork.oper_keepsObj]
      split: sum.splits if_splits prod.splits)

lemma checkNetwork_missing:
  "triple (recorded c0) (missingEvent scope c0) (checkNetwork d scope) (\<lambda>e c. e = None \<longrightarrow> recorded c0 c)"
proof -
  have "runs (\<lambda>_. True) (missingEvent scope c0) (checkNetwork d scope)"
    unfolding checkNetwork_def by (intro runs_intros) auto
  then show ?thesis
    unfolding triple_def runs_def by (metis checkNetwork_passed prod.collapse)
qed

lemma reconcileNetwork_missing:
  "triple (recorded c0) (missingEvent scope c0) (reconcileNetwork d scope) (\<lambda>e c. e = None \<longrightarrow> recorded c0 c)"
proof -
  have ready: "triple (recorded c0) (missingEvent scope c0) (networkReady d) (\<lambda>e c. e = None \<longrightarrow> recorded c0 c)"
    unfolding networkReady_def
    by (rule triple_passed) (intro runs_intros, auto simp: recorded_def)
  have "triple (recorded c0) (missingEvent scope c0) (andThen (ensureNetwork d scope cfg)
      (andThen (checkNetwork d scope) (andThen (ensureSubnet scope cfg) (networkReady d))))
      (\<lambda>e c. e = None \<longrightarrow> recorded c0 c)" for cfg
    by (rule triple_andThen [OF triple_passed [OF ensureNetwork_missing]
          triple_andThen [OF checkNetwork_missing
            triple_andThen [OF triple_passed [OF ensureSubnet_missing] ready]]])
  with ready show ?thesis
    unfolding reconcileNetwork_def by (intro triple_bind_getObj) (simp split: option.split)
qed

lemma reconcileSecurityGroup_missing:
  "sg \<in> set (OVHClusterSpec_SecurityGroups (OVHCluster_Spec c0)) \<Longrightarrow>
   runs (recorded c0) (missingEvent scope c0) (reconcileSecurityGroup scope ex sg)"
  unfolding sg_defs by (intro runs_intros) (auto simp: recorded_def)

lemma reconcileSecurityGroups_missing:
  "runs (recorded c0) (missingEvent scope c0) (reconcileSecurityGroups scope)"
  unfolding reconcileSecurityGroups_def
  by (intro runs_intros reconcileSecurityGroup_missing)
    (auto simp: recorded_def dest: specSansEndpoint_fields)

lemma reconcileFailureDomains_missing:
  "runs (recorded c0) (missingEvent scope c0) (reconcileFailureDomains scope)"
  unfolding reconcileFailureDomains_def by (intro runs_intros) (auto simp: recorded_def)

lemma reconcileDNS_missing: "runs (recorded c0) (missingEvent scope c0) (reconcileDNS scope)"
  unfolding reconcileDNS_def by (intro runs_intros) (auto simp: recorded_def)

lemma reconcileFloatingIP_missing:
  "OVHLoadBalancerConfig_FloatingNetworkID (OVHClusterSpec_LoadBalancerConfig (OVHCluster_Spec c0)) \<noteq> '''' \<Longrightarrow>
   runs (recorded c0) (missingEvent scope c0) (reconcileFloatingIP scope lb)"
  unfolding fip_defs gateway_defs by (intro runs_intros) (auto simp: recorded_def)

lemma apiPort_missing:
  "runs (recorded c0) (missingEvent scope c0)
     (reconcileLBPort scope apiServerListenerName port apiListenerPtr apiPoolPtr)"
  unfolding port_defs ptr_defs by (intro runs_intros) (simp_all add: recorded_def)

lemma registerPort_missing:
  "runs (recorded c0) (missingEvent scope c0)
     (reconcileLBPort scope rke2RegisterListenerName port registerListenerPtr registerPoolPtr)"
  unfolding port_defs ptr_defs by (intro runs_intros) (simp_all add: recorded_def)

lemma handleExistingLB_missing:
  "runs (recorded c0) (missingEvent scope c0) (handleExistingLB d scope lb)"
  unfolding handleExistingLB_def exposeLB_def publishEndpoint_def setEndpoint_def
  by (intro runs_intros reconcileFloatingIP_missing apiPort_missing registerPort_missing)
    (auto simp: recorded_def dest: specSansEndpoint_fields)

lemma createLB_missing:
  "runs (\<lambda>_. True) (missingEvent scope c0) (createLB d scope)"
  unfolding createLB_def prepareLB_def submitLB_def by (intro runs_intros) auto

lemma adoptLB_missing: "runs (recorded c0) (missingEvent scope c0) adoptLB"
  unfolding adoptLB_def recordFIP_def by (intro runs_intros) (auto simp: recorded_def)

text \<open>A load balancer that is gone takes the recorded listener and pool with it, and then the
  reconcile stops short of the listeners.\<close>

lemma createLB_stops:
  "ends (\<lambda>r c. snd r \<noteq> None \<or> 0 < Result_RequeueAfter (fst r)) (createLB d scope)"
  unfolding createLB_def prepareLB_def submitLB_def Let_def by (intro ends_intros) simp_all

abbreviation lbDone :: "OVHCluster \<Rightarrow> outcome \<Rightarrow> OVHCluster \<Rightarrow> bool" where
  "lbDone c0 r c \<equiv> snd r = None \<and> \<not> 0 < Result_RequeueAfter (fst r) \<longrightarrow> recorded c0 c"

lemma createLB_triple: "triple I (missingEvent scope c0) (createLB d scope) (lbDone c0)"
  using createLB_missing [of scope c0 d] createLB_stops [of d scope]
  unfolding triple_def runs_def ends_def by blast

lemma reconcileLoadBalancer_missing:
  "triple (recorded c0) (missingEvent scope c0) (reconcileLoadBalancer d scope) (lbDone c0)"
proof -
  have fail: "triple I (missingEvent scope c0) (ret (failed e)) (lbDone c0)" for I e
    by (rule triple_return) simp
  have gone: "triple (recorded c0) (missingEvent scope c0)
      (do { _ \<leftarrow> setClusterStatus f; createLB d scope }) (lbDone c0)" for f
  proof (rule triple_bind)
    show "triple (recorded c0) (missingEvent scope c0) (setClusterStatus f) (\<lambda>_ _. True)"
      by (simp add: triple_def setClusterStatus_def)
  qed (rule createLB_triple)
  show ?thesis
    unfolding reconcileLoadBalancer_def Let_def
    by (intro triple_bind_runs [OF adoptLB_missing] triple_bind_getObj)
      (auto split: sum.split intro!: createLB_triple triple_bind_runs gone fail
        triple_conseq [OF triple_runs [OF handleExistingLB_missing]] runs_intros)
qed

lemma clusterEndGame_missing:
  "triple (recorded c0) (missingEvent scope c0) (clusterEndGame d scope) (\<lambda>_ _. True)"
  unfolding clusterEndGame_def
proof (rule triple_bind [OF reconcileLoadBalancer_missing])
  fix r
  have "runs (recorded c0) (missingEvent scope c0) (do {
        _ \<leftarrow> reconcileDNS scope;
        _ \<leftarrow> setClusterStatus (\<lambda>s. s\<lparr>OVHClusterStatus_Ready := True,
             OVHClusterStatus_Initialization := \<lparr>Initialization_Provisioned = Some True\<rparr>\<rparr>);
        _ \<leftarrow> setClusterCondition d InfrastructureReadyCondition ConditionTrue InfrastructureReadyCondition '''';
        ret (requeueAfter requeueTimeLong) })"
    by (intro runs_intros reconcileDNS_missing) (auto simp: recorded_def)
  note rest = triple_conseq [OF triple_runs [OF this], of "lbDone c0 r" "\<lambda>_ _. True"]
  show "triple (lbDone c0 r) (missingEvent scope c0)
      (if snd r \<noteq> None \<or> 0 < Result_RequeueAfter (fst r) then ret r
       else do {
        _ \<leftarrow> reconcileDNS scope;
        _ \<leftarrow> setClusterStatus (\<lambda>s. s\<lparr>OVHClusterStatus_Ready := True,
             OVHClusterStatus_Initialization := \<lparr>Initialization_Provisioned = Some True\<rparr>\<rparr>);
        _ \<leftarrow> setClusterCondition d InfrastructureReadyCondition ConditionTrue InfrastructureReadyCondition '''';
        ret (requeueAfter requeueTimeLong) }) (\<lambda>_ _. True)"
    using rest by (cases "snd r \<noteq> None \<or> 0 < Result_RequeueAfter (fst r)") (auto intro: triple_return)
qed

lemma clusterNormalBody_missing:
  "triple (recorded c0) (missingEvent scope c0) (clusterNormalBody d scope) (\<lambda>_ _. True)"
proof -
  have stop: "triple I (missingEvent scope c0) (ret r) (\<lambda>_ _. True)" for I and r :: outcome
    by (rule triple_return) simp
  have creds: "runs (recorded c0) (missingEvent scope c0) (reconcileCredentials d scope)"
    unfolding reconcileCredentials_def by (intro runs_intros) (auto simp: recorded_def)
  have tail: "triple (recorded c0) (missingEvent scope c0) (do {
      _ \<leftarrow> reconcileFailureDomains scope; _ \<leftarrow> reconcileSecurityGroups scope; clusterEndGame d scope })
      (\<lambda>_ _. True)"
    by (intro triple_bind_runs reconcileFailureDomains_missing reconcileSecurityGroups_missing
        clusterEndGame_missing)
  have net: "triple (recorded c0) (missingEvent scope c0) (do {
      e' \<leftarrow> reconcileNetwork d scope;
      (case e' of
         Some err \<Rightarrow> if errors_Is err ''network not yet ACTIVE in region'' then ret (requeueAfter requeueTimeShort)
                     else ret (\<lparr>Result_RequeueAfter = requeueTimeShort\<rparr>, Some err)
       | None \<Rightarrow> do { _ \<leftarrow> reconcileFailureDomains scope; _ \<leftarrow> reconcileSecurityGroups scope;
                     clusterEndGame d scope }) }) (\<lambda>_ _. True)"
    by (rule triple_bind [OF reconcileNetwork_missing]) (simp add: tail stop split: option.split)
  have arm: "runs (recorded c0) (missingEvent scope c0) (setClusterFinalizers f)" for f
    by (intro runs_intros) (simp add: recorded_def)
  show ?thesis
    unfolding clusterNormalBody_def
    by (intro triple_bind_getObj)
      (auto split: option.split intro!: stop triple_bind_runs [OF arm] triple_bind_runs [OF creds] net)
qed

text \<open>C15: a reconcile creates a network, a subnet, a listener, a pool, a DNS record or a security
  group only if the status it started from has none recorded for it, and asks for a floating IP only
  if the spec names a floating network.\<close>

theorem ClusterReconcileNormal_creates_missing:
  assumes "run_state (ClusterReconcileNormal d scope) s = (r, t)"
  shows "\<exists>es. st_trace t = st_trace s @ es \<and> list_all (missingEvent scope (st_obj s)) es"
proof -
  obtain r' u where u: "run_state (clusterNormalBody d scope) s = (r', u)" by fastforce
  have "recorded (st_obj s) (st_obj s)" by (simp add: recorded_def)
  from tripleD [OF clusterNormalBody_missing this u] obtain es where
    "st_trace u = st_trace s @ es" "\<forall>e \<in> set es. missingEvent scope (st_obj s) e" .
  with assms u show ?thesis
    by (auto simp: ClusterReconcileNormal_def list_all_iff)
qed

section \<open>Witnesses\<close>

text \<open>A cloud that answers every request with one error code.\<close>

definition refusing :: "int \<Rightarrow> unit api" where
  "refusing code = (\<lambda>req w. (Inl (APIError code ''refused''), w))"

definition sampleClusterScope :: "unit api \<Rightarrow> unit ClusterScope" where
  "sampleClusterScope api = \<lparr>ClusterScope_Cluster = sampleCluster,
     ClusterScope_OVHClient = \<lparr>Client_api = api, Client_serviceName = ''p'', Client_region = ''GRA9''\<rparr>\<rparr>"

abbreviation clusterState :: "OVHCluster \<Rightarrow> (OVHCluster, unit, event) st" where
  "clusterState c \<equiv> \<lparr>st_obj = c, st_env = (), st_trace = []\<rparr>"

abbreviation sampleNormal :: "OVHCluster \<Rightarrow> outcome \<times> (OVHCluster, unit, event) st" where
  "sampleNormal c \<equiv> run_state (ClusterReconcileNormal (sampleDeps (refusing 404))
     (sampleClusterScope (refusing 404))) (clusterState c)"


theorem control_plane_endpoint_once_witness:
  "specSansEndpoint (st_obj (snd (sampleNormal sampleOVHCluster))) = specSansEndpoint sampleOVHCluster"
  using control_plane_endpoint_once [OF run_pair, of "sampleDeps (refusing 404)"
      "sampleClusterScope (refusing 404)" "clusterState sampleOVHCluster"] by simp

text \<open>A cloud in which the cluster of the witness gets ready: the load balancer is active, and its
  listeners, pools and monitors exist.\<close>

definition activeLB :: LoadBalancer where
  "activeLB = \<lparr>LoadBalancer_ID = ''lb-1'', LoadBalancer_Name = ''capi-a-lb'', LoadBalancer_CreatedAt = '''',
     LoadBalancer_UpdatedAt = '''', LoadBalancer_Region = ''GRA9'', LoadBalancer_FlavorID = '''',
     LoadBalancer_OperatingStatus = '''', LoadBalancer_ProvisioningStatus = LBProvisioningStatusActive,
     LoadBalancer_VIPAddress = ''10.0.0.5'', LoadBalancer_VIPNetworkID = '''', LoadBalancer_VIPSubnetID = '''',
     LoadBalancer_FloatingIP = None, LoadBalancer_Listeners = []\<rparr>"

fun steadyCloud :: "unit api" where
  "steadyCloud (Get p) w =
     (if p = ''/cloud/project/p/region'' then (Inr (RStrings [''GRA9'']), w)
      else if p = ''/cloud/project/p/region/GRA9/loadbalancing/loadbalancer/lb-1''
        then (Inr (RLoadBalancer activeLB), w)
      else (Inl (APIError 404 ''not found''), w))"
| "steadyCloud (Post p b) w = (Inl (APIError 404 ''not found''), w)"
| "steadyCloud (Delete p) w = (Inl (APIError 404 ''not found''), w)"

definition steadyCluster :: OVHCluster where
  "steadyCluster = sampleOVHCluster\<lparr>OVHCluster_Status := zero_OVHClusterStatus\<lparr>
     OVHClusterStatus_LoadBalancerID := ''lb-1'', OVHClusterStatus_ListenerID := ''l-1'',
     OVHClusterStatus_PoolID := ''p-1'', OVHClusterStatus_RegisterListenerID := ''l-2'',
     OVHClusterStatus_RegisterPoolID := ''p-2''\<rparr>\<rparr>"

abbreviation steadyRun :: "outcome \<times> (OVHCluster, unit, event) st" where
  "steadyRun \<equiv> run_state (ClusterReconcileNormal (sampleDeps steadyCloud)
     (sampleClusterScope steadyCloud)) (clusterState steadyCluster)"

lemma wrapped_notFound [simp]: "\<not> IsRetryable (Some (APIError 404 m))"
  by (simp add: IsRetryable_def)

lemmas steady_eval = ClusterReconcileNormal_def clusterNormalBody_def clusterEndGame_def
  reconcileCredentials_def ValidateCredentials_def reconcileNetwork_def networkReady_def
  reconcileFailureDomains_def GetRegionInfo_def reconcileSecurityGroups_def reconcileLoadBalancer_def
  adoptLB_def GetLoadBalancer_def handleExistingLB_def port_defs ptr_defs FindHealthMonitorByName_def
  ListHealthMonitors_def exposeLB_def publishEndpoint_def setEndpoint_def reconcileDNS_def andThen_def
  setClusterCondition_def setClusterStatus_def sampleDeps_def sampleClusterScope_def steadyCluster_def
  sampleOVHCluster_def zero_OVHCluster_def zero_OVHClusterSpec_def zero_OVHClusterStatus_def
  zero_ObjectMeta_def activeLB_def settled_ok settled_err asStrings_def asLoadBalancer_def decode_def
  wrapResult_def projectPath_def regionPath_def zero_OVHLoadBalancerConfig_def zero_APIEndpoint_def Let_def

lemma steadyRun_result: "fst steadyRun = requeueAfter requeueTimeLong"
  by (simp add: steady_eval)

theorem ClusterReconcileNormal_ready_witness:
  "allReady (sampleDeps steadyCloud) (st_obj (snd steadyRun))"
  using ClusterReconcileNormal_ready [OF sampleDeps_ok(2) run_pair, of steadyCloud
      "sampleClusterScope steadyCloud" "clusterState steadyCluster"] steadyRun_result by simp

theorem ClusterReconcileNormal_creates_missing_witness:
  "list_all (missingEvent (sampleClusterScope steadyCloud) steadyCluster) (st_trace (snd steadyRun))"
  using ClusterReconcileNormal_creates_missing [OF run_pair, of "sampleDeps steadyCloud"
      "sampleClusterScope steadyCloud" "clusterState steadyCluster"] by auto

end
