(* ===== verification/Cluster_Deletion.thy ===== *)
theory Cluster_Deletion
  imports Cluster_Properties
begin

text \<open>
  What the cluster reconciler guarantees when a cluster is deleted: the policy "keep", the requests
  a deletion may send, what has been taken down when the finalizer goes, and that a deletion that is
  not finished comes back.
\<close>

section \<open>The requests of a deletion\<close>

lemma runs_cleanupFloatingIPs:
  assumes "\<And>f. f \<in> set fips \<Longrightarrow>
      P (Call (Delete (regionPath (ClusterScope_OVHClient scope) (''/floatingIp/'' @ f))))"
    and "\<And>f. f \<in> set fips \<Longrightarrow>
      P (Call (Get (regionPath (ClusterScope_OVHClient scope) (''/floatingip/'' @ f))))"
    and "\<And>n. P (Sleep n)"
  shows "runs I P (cleanupFloatingIPs scope fips)"
  using assms(1,2)
proof (induction fips)
  case (Cons f fips)
  have "runs I P (cleanupFloatingIPs scope fips)"
    by (rule Cons.IH) (simp_all only: Cons.prems list.set_intros)
  then show ?case
    unfolding cleanupFloatingIPs.simps
    by (intro runs_intros) (simp_all only: Cons.prems list.set_intros assms(3))
qed (simp add: runs_return)

text \<open>Under the adoption policy "keep" the finalizer is removed and nothing is sent to OVH.\<close>

lemma ClusterReconcileDelete_keep:
  assumes "keepsCluster (st_obj s)"
  shows "run_state (ClusterReconcileDelete d scope) s = (finished, s\<lparr>
     st_obj := (st_obj s)\<lparr>OVHCluster_ObjectMeta := (OVHCluster_ObjectMeta (st_obj s))\<lparr>
       ObjectMeta_Finalizers := Deps_RemoveFinalizer d (clusterFinalizers (st_obj s)) ClusterFinalizer\<rparr>\<rparr>,
     st_trace := st_trace s @ [Observe ClusterReconcileDuration [''delete'']]\<rparr>)"
  using assms
  by (simp add: ClusterReconcileDelete_def clusterDeleteBody_def removeClusterFinalizer_def
      setClusterFinalizers_def)

definition clusterDeletion :: "'w Deps \<Rightarrow> 'w ClusterScope \<Rightarrow> OVHCluster \<Rightarrow> string \<Rightarrow> bool" where
  "clusterDeletion d scope c p \<longleftrightarrow>
     (let client = ClusterScope_OVHClient scope; st = OVHCluster_Status c in
      (\<exists>dns. OVHClusterSpec_DNSConfig (OVHCluster_Spec c) = Some dns
         \<and> OVHClusterStatus_DNSRecordID st \<noteq> 0
         \<and> p = ''/domain/zone/'' @ OVHDNSConfig_ZoneName dns @ ''/record/'' @
             formatInt (OVHClusterStatus_DNSRecordID st))
      \<or> (\<exists>sg \<in> set (OVHClusterStatus_SecurityGroupIDs st).
           p = regionPath client (''/network/security/group/'' @ snd sg))
      \<or> OVHClusterStatus_LoadBalancerID st \<noteq> '''' \<and>
          (OVHClusterStatus_PoolID st \<noteq> ''''
             \<and> p = regionPath client (''/loadbalancing/pool/'' @ OVHClusterStatus_PoolID st)
           \<or> OVHClusterStatus_ListenerID st \<noteq> ''''
             \<and> p = regionPath client (''/loadbalancing/listener/'' @ OVHClusterStatus_ListenerID st))
      \<or> (\<exists>lb. p = regionPath client (''/loadbalancing/loadbalancer/'' @ lb))
      \<or> (\<exists>fip. p = regionPath client (''/floatingIp/'' @ fip))
      \<or> (\<exists>gw. p = regionPath client (''/gateway/'' @ gw))
      \<or> OVHClusterStatus_NetworkID st \<noteq> '''' \<and> isTrue d NetworkCreatedByControllerCondition c
          \<and> p = projectPath client (''/network/private/'' @ OVHClusterStatus_NetworkID st))"

definition clusterDeletionEvent :: "'w Deps \<Rightarrow> 'w ClusterScope \<Rightarrow> OVHCluster \<Rightarrow> event \<Rightarrow> bool" where
  "clusterDeletionEvent d scope c e \<longleftrightarrow>
     (\<forall>p. e = Call (Delete p) \<longrightarrow> \<not> keepsCluster c \<and> clusterDeletion d scope c p)
     \<and> (\<forall>p b. e = Call (Post p b) \<longrightarrow> (\<exists>dns. OVHClusterSpec_DNSConfig (OVHCluster_Spec c) = Some dns
          \<and> p = ''/domain/zone/'' @ OVHDNSConfig_ZoneName dns @ ''/refresh'' \<and> b = BNone))
     \<and> (\<forall>k. e \<noteq> Kube k)"

lemma clusterDeletionEvent_simps [simp]:
  "clusterDeletionEvent d scope c (Call (Delete p)) \<longleftrightarrow> \<not> keepsCluster c \<and> clusterDeletion d scope c p"
  "clusterDeletionEvent d scope c (Call (Post p b)) \<longleftrightarrow>
     (\<exists>dns. OVHClusterSpec_DNSConfig (OVHCluster_Spec c) = Some dns
        \<and> p = ''/domain/zone/'' @ OVHDNSConfig_ZoneName dns @ ''/refresh'' \<and> b = BNone)"
  "clusterDeletionEvent d scope c (Call (Get p))"
  "clusterDeletionEvent d scope c (Sleep n)" "clusterDeletionEvent d scope c (Inc x)"
  "clusterDeletionEvent d scope c (Observe x l)" "clusterDeletionEvent d scope c (SetGauge x l i)"
  by (simp_all add: clusterDeletionEvent_def)

text \<open>What a deletion leaves as it is until the finalizer goes, and what it only removes.\<close>

definition sameResources :: "OVHCluster \<Rightarrow> OVHCluster \<Rightarrow> bool" where
  "sameResources c0 c \<longleftrightarrow>
     OVHCluster_Spec c = OVHCluster_Spec c0 \<and> keepsCluster c = keepsCluster c0
     \<and> list_all (\<lambda>f. f (OVHCluster_Status c) = f (OVHCluster_Status c0))
         [OVHClusterStatus_LoadBalancerID, OVHClusterStatus_PoolID, OVHClusterStatus_ListenerID,
          OVHClusterStatus_FloatingIPID, OVHClusterStatus_NetworkID]
     \<and> OVHClusterStatus_Conditions (OVHCluster_Status c) = OVHClusterStatus_Conditions (OVHCluster_Status c0)
     \<and> OVHClusterStatus_DNSRecordID (OVHCluster_Status c)
         \<in> {OVHClusterStatus_DNSRecordID (OVHCluster_Status c0), 0}
     \<and> set (OVHClusterStatus_SecurityGroupIDs (OVHCluster_Status c))
         \<subseteq> set (OVHClusterStatus_SecurityGroupIDs (OVHCluster_Status c0))"

lemma set_AList_delete: "set (AList.delete k m) \<subseteq> set m"
  by (auto simp: AList.delete_eq)

lemma keepsCluster_writes [simp]:
  "keepsCluster (c\<lparr>OVHCluster_Status := x\<rparr>) = keepsCluster c"
  "keepsCluster (c\<lparr>OVHCluster_ObjectMeta := (OVHCluster_ObjectMeta c)\<lparr>ObjectMeta_Finalizers := fs\<rparr>\<rparr>) =
     keepsCluster c"
  by (simp_all add: keepsCluster_def)

abbreviation tearsDown :: "'w Deps \<Rightarrow> 'w ClusterScope \<Rightarrow> OVHCluster \<Rightarrow> ('w, 'a) cact \<Rightarrow> bool" where
  "tearsDown d scope c0 m \<equiv> runs (sameResources c0) (clusterDeletionEvent d scope c0) m"

lemma cleanupDNS_tears: "\<not> keepsCluster c0 \<Longrightarrow> tearsDown d scope c0 (cleanupDNS scope)"
  unfolding cleanupDNS_def
  by (intro runs_intros) (auto simp: sameResources_def clusterDeletion_def Let_def)

lemma cleanupSecurityGroup_tears:
  "\<not> keepsCluster c0 \<Longrightarrow> sg \<in> set (OVHClusterStatus_SecurityGroupIDs (OVHCluster_Status c0)) \<Longrightarrow>
   tearsDown d scope c0 (cleanupSecurityGroup scope sg)"
  unfolding cleanupSecurityGroup_def
  by (intro runs_intros)
    (auto simp: sameResources_def clusterDeletion_def Let_def dest: set_AList_delete [THEN subsetD])

lemma captureFloatingIPs_tears: "tearsDown d scope c0 (captureFloatingIPs scope)"
  unfolding captureFloatingIPs_def by (intro runs_intros) auto

lemma deleteLB_tears: "\<not> keepsCluster c0 \<Longrightarrow> tearsDown d scope c0 (deleteLB scope)"
  unfolding deleteLB_def
  by (intro runs_intros) (auto simp: sameResources_def clusterDeletion_def Let_def)

lemma cleanupOrphanLBs_tears: "\<not> keepsCluster c0 \<Longrightarrow> tearsDown d scope c0 (cleanupOrphanLBs scope)"
  unfolding cleanupOrphanLBs_def by (intro runs_intros) (auto simp: clusterDeletion_def Let_def)

lemma cleanupFloatingIPs_tears:
  "\<not> keepsCluster c0 \<Longrightarrow> tearsDown d scope c0 (cleanupFloatingIPs scope fips)"
  by (rule runs_cleanupFloatingIPs) (auto simp: clusterDeletion_def Let_def)

lemma cleanupGateway_tears: "\<not> keepsCluster c0 \<Longrightarrow> tearsDown d scope c0 (cleanupGateway scope)"
  unfolding cleanupGateway_def by (intro runs_intros) (auto simp: clusterDeletion_def Let_def)

lemma removeClusterFinalizer_tears: "tearsDown d scope c0 (removeClusterFinalizer d)"
  unfolding removeClusterFinalizer_def by (intro runs_intros) (auto simp: sameResources_def)

lemma deleteNetwork_tears: "\<not> keepsCluster c0 \<Longrightarrow> tearsDown d scope c0 (deleteNetwork d scope)"
  unfolding deleteNetwork_def
  by (intro runs_intros removeClusterFinalizer_tears) (auto simp: sameResources_def clusterDeletion_def Let_def)

lemmas tears = cleanupDNS_tears cleanupSecurityGroup_tears captureFloatingIPs_tears deleteLB_tears
  cleanupOrphanLBs_tears cleanupFloatingIPs_tears cleanupGateway_tears removeClusterFinalizer_tears
  deleteNetwork_tears



section \<open>The end of a deletion\<close>

text \<open>\<open>performed m a s t\<close>: between \<open>s\<close> and \<open>t\<close> the operation \<open>m\<close> ran and
  returned \<open>a\<close>; its requests are part of the trace.\<close>

definition extends :: "('o, 'w, 'e) st \<Rightarrow> ('o, 'w, 'e) st \<Rightarrow> bool" where
  "extends s t \<longleftrightarrow> (\<exists>es. st_trace t = st_trace s @ es)"

definition performed :: "('o, 'w, 'e, 'a) eff \<Rightarrow> 'a \<Rightarrow> ('o, 'w, 'e) st \<Rightarrow> ('o, 'w, 'e) st \<Rightarrow> bool" where
  "performed m a s t \<longleftrightarrow> (\<exists>u v. extends s u \<and> run_state m u = (a, v) \<and> extends v t)"

lemma extends_refl [simp]: "extends s s" by (simp add: extends_def)

lemma extends_trans: "extends s t \<Longrightarrow> extends t u \<Longrightarrow> extends s u"
  by (auto simp: extends_def)

lemma performed_run: "run_state m s = (a, t) \<Longrightarrow> performed m a s t"
  unfolding performed_def by (blast intro: extends_refl)

lemma performed_widen: "extends s s' \<Longrightarrow> performed m a s' t' \<Longrightarrow> extends t' t \<Longrightarrow> performed m a s t"
  unfolding performed_def by (meson extends_trans)

lemma runs_extends: "runs I P m \<Longrightarrow> I (st_obj s) \<Longrightarrow> run_state m s = (a, t) \<Longrightarrow> extends s t \<and> I (st_obj t)"
  by (auto simp: extends_def elim: runsD)

lemma grows_extends: "runs (\<lambda>_. True) (\<lambda>_. True) m \<Longrightarrow> run_state m s = (a, t) \<Longrightarrow> extends s t"
  by (blast dest: runs_extends)

lemma emits_extends: "emits P m \<Longrightarrow> run_state m s = (a, t) \<Longrightarrow> extends s t"
  by (auto simp: extends_def elim: emitsD)

text \<open>Every round of a loop is performed.\<close>

lemma forEach_performed:
  "run_state (forEach xs body) s = ((), t) \<Longrightarrow> (\<And>x. emits (\<lambda>_. True) (body x)) \<Longrightarrow> x \<in> set xs \<Longrightarrow>
   performed (body x) () s t"
proof (induction xs arbitrary: s)
  case (Cons y xs)
  obtain u where u: "run_state (body y) s = ((), u)" by (cases "run_state (body y) s") auto
  with Cons.prems(1) have rest: "run_state (forEach xs body) u = ((), t)" by simp
  have "extends u t"
    by (rule emits_extends [OF emits_forEach rest]) (rule Cons.prems(2))
  moreover have "extends s u" by (rule emits_extends [OF Cons.prems(2) u])
  ultimately show ?case
    using Cons.IH [OF rest Cons.prems(2)] Cons.prems(3) performed_run [OF u]
    by (auto intro: performed_widen performed_widen [OF extends_refl])
qed simp

text \<open>What has happened when the finalizer goes.\<close>

definition tornDown :: "'w Deps \<Rightarrow> 'w ClusterScope \<Rightarrow> (OVHCluster, 'w, event) st \<Rightarrow>
    (OVHCluster, 'w, event) st \<Rightarrow> bool" where
  "tornDown d scope s t \<longleftrightarrow>
     (let client = ClusterScope_OVHClient scope; st = OVHCluster_Status (st_obj s);
          lb = OVHClusterStatus_LoadBalancerID st; fip = OVHClusterStatus_FloatingIPID st;
          net = OVHClusterStatus_NetworkID st in
      (\<forall>sg \<in> set (OVHClusterStatus_SecurityGroupIDs st). \<exists>e. performed (DeleteSecurityGroup client (snd sg)) e s t)
      \<and> (lb \<noteq> '''' \<longrightarrow> performed (DeleteLoadBalancer client lb) None s t)
      \<and> (fip \<noteq> '''' \<longrightarrow> (\<exists>e. performed (DeleteFloatingIP client fip) e s t)
           \<and> (\<exists>g. performed (GetFloatingIP client fip) g s t \<and> \<not> lingers g))
      \<and> (net \<noteq> '''' \<and> isTrue d NetworkCreatedByControllerCondition (st_obj s)
           \<longrightarrow> performed (DeletePrivateNetwork client net) None s t))"

lemma deleteLB_performed:
  assumes "run_state (deleteLB scope) s = (None, t)"
    and "OVHClusterStatus_LoadBalancerID (OVHCluster_Status (st_obj s)) = lb" and "lb \<noteq> ''''"
  shows "performed (DeleteLoadBalancer (ClusterScope_OVHClient scope) lb) None s t"
proof -
  let ?c = "ClusterScope_OVHClient scope" and ?st = "OVHCluster_Status (st_obj s)"
  let ?pre = "do {
      _ \<leftarrow> (if OVHClusterStatus_PoolID ?st \<noteq> '''' then DeletePool ?c (OVHClusterStatus_PoolID ?st) else ret None);
      (if OVHClusterStatus_ListenerID ?st \<noteq> '''' then DeleteListener ?c (OVHClusterStatus_ListenerID ?st) else ret None) }"
  obtain x u where u: "run_state ?pre s = (x, u)" by fastforce
  have "runs (\<lambda>_. True) (\<lambda>_. True) ?pre" by (intro runs_intros) auto
  then have "extends s u" using u by (rule grows_extends)
  moreover have "run_state (DeleteLoadBalancer ?c lb) u = (None, t)"
    using assms u by (auto simp: deleteLB_def Let_def split: prod.splits option.splits)
  ultimately show ?thesis unfolding performed_def by (blast intro: extends_refl)
qed

lemma cleanupFloatingIPs_performed:
  "run_state (cleanupFloatingIPs scope fips) s = (False, t) \<Longrightarrow> fip \<in> set fips \<Longrightarrow>
   (\<exists>e. performed (DeleteFloatingIP (ClusterScope_OVHClient scope) fip) e s t)
   \<and> (\<exists>g. performed (GetFloatingIP (ClusterScope_OVHClient scope) fip) g s t \<and> \<not> lingers g)"
proof (induction fips arbitrary: s)
  case (Cons f fips)
  let ?c = "ClusterScope_OVHClient scope"
  obtain e u where u: "run_state (DeleteFloatingIP ?c f) s = (e, u)" by fastforce
  obtain g v where v: "run_state (GetFloatingIP ?c f) u = (g, v)" by fastforce
  from Cons.prems(1) u v have g: "\<not> lingers g"
    and rest: "run_state (cleanupFloatingIPs scope fips) v = (False, t)"
    by (auto split: prod.splits)
  have ext: "extends s u" "extends u v"
    by (rule grows_extends [OF _ u], intro runs_intros, simp_all)
      (rule grows_extends [OF _ v], intro runs_intros, simp_all)
  have vt: "extends v t"
    by (rule grows_extends [OF runs_cleanupFloatingIPs rest]) simp_all
  note here = performed_widen [OF extends_refl performed_run [OF u] extends_trans [OF ext(2) vt]]
    performed_widen [OF ext(1) performed_run [OF v] vt]
  show ?case
  proof (cases "fip = f")
    case True
    with here g show ?thesis by blast
  next
    case False
    with Cons.prems(2) Cons.IH [OF rest] show ?thesis
      by (auto intro: performed_widen [OF extends_trans [OF ext] _ extends_refl])
  qed
qed simp

lemma captureFloatingIPs_recorded:
  assumes "run_state (captureFloatingIPs scope) s = (fips, t)"
    and "OVHClusterStatus_FloatingIPID (OVHCluster_Status (st_obj s)) \<noteq> ''''"
  shows "OVHClusterStatus_FloatingIPID (OVHCluster_Status (st_obj s)) \<in> set fips"
proof -
  have add: "set acc \<subseteq> set (addMissing acc xs)" for acc xs
    by (induction acc xs rule: addMissing.induct) auto
  show ?thesis
    using assms add by (fastforce simp: captureFloatingIPs_def Let_def split: if_splits sum.splits prod.splits)
qed

lemma removeClusterFinalizer_run:
  "run_state (removeClusterFinalizer d) s = (finished, s\<lparr>
     st_obj := (st_obj s)\<lparr>OVHCluster_ObjectMeta := (OVHCluster_ObjectMeta (st_obj s))\<lparr>
       ObjectMeta_Finalizers := Deps_RemoveFinalizer d (clusterFinalizers (st_obj s)) ClusterFinalizer\<rparr>\<rparr>\<rparr>)"
  by (simp add: removeClusterFinalizer_def setClusterFinalizers_def)

lemma deleteNetwork_outcome:
  assumes run: "run_state (deleteNetwork d scope) s = (r, t)"
  shows "clusterFinalizers (st_obj t) = clusterFinalizers (st_obj s) \<and> r = requeueAfter requeueTimeShort
    \<or> r = finished
      \<and> clusterFinalizers (st_obj t) = Deps_RemoveFinalizer d (clusterFinalizers (st_obj s)) ClusterFinalizer
      \<and> (isTrue d NetworkCreatedByControllerCondition (st_obj s)
           \<and> OVHClusterStatus_NetworkID (OVHCluster_Status (st_obj s)) \<noteq> ''''
         \<longrightarrow> performed (DeletePrivateNetwork (ClusterScope_OVHClient scope)
               (OVHClusterStatus_NetworkID (OVHCluster_Status (st_obj s)))) None s t)"
proof -
  let ?del = "DeletePrivateNetwork (ClusterScope_OVHClient scope)
               (OVHClusterStatus_NetworkID (OVHCluster_Status (st_obj s)))"
  obtain e u where u: "run_state ?del s = (e, u)" by fastforce
  have obj: "st_obj u = st_obj s" by (rule keepsObjD [OF DeletePrivateNetwork.oper_keepsObj u])
  have "performed ?del e s (u\<lparr>st_obj := c\<rparr>)" for c
    by (rule performed_widen [OF extends_refl performed_run [OF u]]) (simp add: extends_def)
  with run u obj show ?thesis
    by (auto simp: deleteNetwork_def removeClusterFinalizer_run Let_def split: if_splits option.splits)
qed

lemma runs_conj: "runs I P m \<Longrightarrow> runs J R m \<Longrightarrow> runs (\<lambda>c. I c \<and> J c) P m"
  unfolding runs_def by blast

definition stage :: "OVHCluster \<Rightarrow> OVHCluster \<Rightarrow> bool" where
  "stage c0 c \<longleftrightarrow> sameResources c0 c \<and> clusterFinalizers c = clusterFinalizers c0"

lemma teardown_finalizers:
  "runs (\<lambda>c. clusterFinalizers c = fs) (\<lambda>_. True) (cleanupDNS scope)"
  "runs (\<lambda>c. clusterFinalizers c = fs) (\<lambda>_. True) (cleanupSecurityGroup scope sg)"
  "runs (\<lambda>c. clusterFinalizers c = fs) (\<lambda>_. True) (captureFloatingIPs scope)"
  "runs (\<lambda>c. clusterFinalizers c = fs) (\<lambda>_. True) (deleteLB scope)"
  "runs (\<lambda>c. clusterFinalizers c = fs) (\<lambda>_. True) (cleanupOrphanLBs scope)"
  "runs (\<lambda>c. clusterFinalizers c = fs) (\<lambda>_. True) (cleanupFloatingIPs scope fips)"
  "runs (\<lambda>c. clusterFinalizers c = fs) (\<lambda>_. True) (cleanupGateway scope)"
  unfolding cleanupDNS_def cleanupSecurityGroup_def captureFloatingIPs_def deleteLB_def
    cleanupOrphanLBs_def cleanupGateway_def
  by (intro runs_intros runs_cleanupFloatingIPs; simp)+

lemma stageI:
  "tearsDown d scope c0 m \<Longrightarrow> runs (\<lambda>c. clusterFinalizers c = clusterFinalizers c0) (\<lambda>_. True) m \<Longrightarrow>
   run_state m s = (a, t) \<Longrightarrow> stage c0 (st_obj s) \<Longrightarrow> extends s t \<and> stage c0 (st_obj t)"
  unfolding stage_def by (rule runs_extends [OF runs_conj])

lemma loop_finalizers:
  "runs (\<lambda>c. clusterFinalizers c = fs) (\<lambda>_. True) (forEach sgs (cleanupSecurityGroup scope))"
  by (intro runs_intros teardown_finalizers)

lemma loop_tears:
  "\<not> keepsCluster c0 \<Longrightarrow> set sgs \<subseteq> set (OVHClusterStatus_SecurityGroupIDs (OVHCluster_Status c0)) \<Longrightarrow>
   tearsDown d scope c0 (forEach sgs (cleanupSecurityGroup scope))"
  by (intro runs_intros tears) auto

lemma performed_first:
  assumes "run_state (State_Monad.bind m f) s = (b, t)" and "\<And>a. runs (\<lambda>_. True) (\<lambda>_. True) (f a)"
  shows "\<exists>a. performed m a s t"
proof -
  obtain a u where u: "run_state m s = (a, u)" by fastforce
  with assms(1) have "run_state (f a) u = (b, t)" by simp
  with assms(2) have "extends u t" by (rule grows_extends)
  with performed_run [OF u] show ?thesis by (blast intro: performed_widen extends_refl)
qed

lemma cleanupSecurityGroup_performed:
  "run_state (cleanupSecurityGroup scope sg) s = (x, t) \<Longrightarrow>
   \<exists>e. performed (DeleteSecurityGroup (ClusterScope_OVHClient scope) (snd sg)) e s t"
  unfolding cleanupSecurityGroup_def by (erule performed_first) (intro runs_intros, simp)

lemma loop_performed:
  assumes run: "run_state (forEach sgs (cleanupSecurityGroup scope)) s = ((), t)" and "sg \<in> set sgs"
  shows "\<exists>e. performed (DeleteSecurityGroup (ClusterScope_OVHClient scope) (snd sg)) e s t"
proof -
  have "emits (\<lambda>_. True) (cleanupSecurityGroup scope x)" for x
    using teardown_finalizers(2) unfolding emits_def runs_def by blast
  from forEach_performed [OF run this assms(2)] obtain u v where
    uv: "extends s u" "run_state (cleanupSecurityGroup scope sg) u = ((), v)" "extends v t"
    unfolding performed_def by blast
  from cleanupSecurityGroup_performed [OF uv(2)] uv(1,3) show ?thesis by (blast intro: performed_widen)
qed

text \<open>The way through a deletion, up to the load balancer.\<close>

lemma beforeLB:
  assumes "\<not> keepsCluster (st_obj s)"
  obtains u v fips w where "run_state (cleanupDNS scope) s = ((), u)"
    and "run_state (forEach (OVHClusterStatus_SecurityGroupIDs (OVHCluster_Status (st_obj u)))
        (cleanupSecurityGroup scope)) u = ((), v)"
    and "run_state (captureFloatingIPs scope) v = (fips, w)"
    and "extends s w" and "stage (st_obj s) (st_obj w)"
    and "\<And>sg. sg \<in> set (OVHClusterStatus_SecurityGroupIDs (OVHCluster_Status (st_obj s))) \<Longrightarrow>
      \<exists>e. performed (DeleteSecurityGroup (ClusterScope_OVHClient scope) (snd sg)) e s w"
    and "OVHClusterStatus_FloatingIPID (OVHCluster_Status (st_obj s)) \<noteq> '''' \<Longrightarrow>
      OVHClusterStatus_FloatingIPID (OVHCluster_Status (st_obj s)) \<in> set fips"
proof -
  let ?sgs = "\<lambda>c. OVHClusterStatus_SecurityGroupIDs (OVHCluster_Status c)"
  obtain u where u: "run_state (cleanupDNS scope) s = ((), u)" by (cases "run_state (cleanupDNS scope) s") auto
  obtain v where v: "run_state (forEach (?sgs (st_obj u)) (cleanupSecurityGroup scope)) u = ((), v)"
    by (cases "run_state (forEach (?sgs (st_obj u)) (cleanupSecurityGroup scope)) u") auto
  obtain fips w where w: "run_state (captureFloatingIPs scope) v = (fips, w)" by fastforce
  have "stage (st_obj s) (st_obj s)" by (simp add: stage_def sameResources_def)
  then have su: "extends s u \<and> stage (st_obj s) (st_obj u)"
    by (rule stageI [OF cleanupDNS_tears [OF assms] teardown_finalizers(1) u])
  have "runs (\<lambda>c. ?sgs c = x) (\<lambda>_. True) (cleanupDNS scope)" for x
    unfolding cleanupDNS_def by (intro runs_intros) auto
  from runsD [OF this refl u] have sgs: "?sgs (st_obj u) = ?sgs (st_obj s)" .
  then have uv: "extends u v \<and> stage (st_obj s) (st_obj v)"
    using stageI [OF loop_tears [OF assms] loop_finalizers v] su by simp
  then have vw: "extends v w \<and> stage (st_obj s) (st_obj w)"
    using stageI [OF captureFloatingIPs_tears teardown_finalizers(3) w] by blast
  have "\<exists>e. performed (DeleteSecurityGroup (ClusterScope_OVHClient scope) (snd sg)) e s w"
    if "sg \<in> set (?sgs (st_obj s))" for sg
    using loop_performed [OF v, of sg] that sgs su vw by (metis performed_widen)
  moreover have "OVHClusterStatus_FloatingIPID (OVHCluster_Status (st_obj s)) \<in> set fips"
    if "OVHClusterStatus_FloatingIPID (OVHCluster_Status (st_obj s)) \<noteq> ''''"
    using captureFloatingIPs_recorded [OF w] that uv by (simp add: stage_def sameResources_def)
  ultimately show thesis
    using that [OF u v w] su uv vw by (blast intro: extends_trans)
qed

text \<open>From the load balancer on.\<close>

definition afterCapture :: "'w Deps \<Rightarrow> 'w ClusterScope \<Rightarrow> string list \<Rightarrow> ('w, outcome) cact" where
  "afterCapture d scope fips = do {
     e \<leftarrow> deleteLB scope;
     (case e of
        Some err \<Rightarrow> ret (failed err)
      | None \<Rightarrow> do {
          _ \<leftarrow> cleanupOrphanLBs scope;
          requeue \<leftarrow> cleanupFloatingIPs scope fips;
          (if requeue then ret (requeueAfter requeueTimeShort)
           else do { _ \<leftarrow> cleanupGateway scope; deleteNetwork d scope })
        })
   }"

abbreviation finalizerKept :: "OVHCluster \<Rightarrow> outcome \<Rightarrow> OVHCluster \<Rightarrow> bool" where
  "finalizerKept c r c' \<equiv> clusterFinalizers c' = clusterFinalizers c
     \<and> (snd r \<noteq> None \<or> r = requeueAfter requeueTimeShort)"

abbreviation finalizerGone :: "'w Deps \<Rightarrow> OVHCluster \<Rightarrow> outcome \<Rightarrow> OVHCluster \<Rightarrow> bool" where
  "finalizerGone d c r c' \<equiv> r = finished
     \<and> clusterFinalizers c' = Deps_RemoveFinalizer d (clusterFinalizers c) ClusterFinalizer"

text \<open>The states it passes when it gets as far as the network.\<close>

lemma afterCapture_path:
  assumes run: "run_state (afterCapture d scope fips) w = (r, t)"
    and keep: "\<not> keepsCluster c0" and w: "stage c0 (st_obj w)"
  shows "finalizerKept c0 r (st_obj t)
    \<or> (\<exists>a b c g. run_state (deleteLB scope) w = (None, a) \<and> extends a b
      \<and> run_state (cleanupFloatingIPs scope fips) b = (False, c) \<and> extends c g
      \<and> run_state (deleteNetwork d scope) g = (r, t)
      \<and> extends w a \<and> extends b c \<and> extends g t \<and> stage c0 (st_obj g))"
proof -
  obtain e a where a: "run_state (deleteLB scope) w = (e, a)" by fastforce
  have wa: "extends w a \<and> stage c0 (st_obj a)"
    by (rule stageI [OF deleteLB_tears [OF keep] teardown_finalizers(4) a w])
  obtain b where b: "run_state (cleanupOrphanLBs scope) a = ((), b)"
    by (cases "run_state (cleanupOrphanLBs scope) a") auto
  have ab: "extends a b \<and> stage c0 (st_obj b)"
    by (rule stageI [OF cleanupOrphanLBs_tears [OF keep] teardown_finalizers(5) b]) (use wa in blast)
  obtain q c where c: "run_state (cleanupFloatingIPs scope fips) b = (q, c)" by fastforce
  have bc: "extends b c \<and> stage c0 (st_obj c)"
    by (rule stageI [OF cleanupFloatingIPs_tears [OF keep] teardown_finalizers(6) c]) (use ab in blast)
  obtain g where g: "run_state (cleanupGateway scope) c = ((), g)"
    by (cases "run_state (cleanupGateway scope) c") auto
  have cg: "extends c g \<and> stage c0 (st_obj g)"
    by (rule stageI [OF cleanupGateway_tears [OF keep] teardown_finalizers(7) g]) (use bc in blast)
  consider (lb) "e \<noteq> None" "r = failed (the e)" "t = a" | (fip) "e = None" q "r = requeueAfter requeueTimeShort" "t = c"
    | (net) "e = None" "\<not> q" "run_state (deleteNetwork d scope) g = (r, t)"
    using run a b c g by (cases e) (auto simp: afterCapture_def split: if_splits)
  then show ?thesis
  proof cases
    case net
    have "extends g t"
      by (rule runs_extends [OF deleteNetwork_tears [OF keep] _ net(3), THEN conjunct1])
        (use cg in \<open>simp add: stage_def\<close>)
    with net a c wa ab bc cg show ?thesis by auto
  qed (use wa bc in \<open>auto simp: stage_def\<close>)
qed

lemma afterCapture_outcome:
  assumes run: "run_state (afterCapture d scope fips) w = (r, t)"
    and keep: "\<not> keepsCluster c0" and w: "stage c0 (st_obj w)"
  shows "finalizerKept c0 r (st_obj t)
    \<or> finalizerGone d c0 r (st_obj t)
      \<and> (OVHClusterStatus_LoadBalancerID (OVHCluster_Status c0) \<noteq> '''' \<longrightarrow>
          performed (DeleteLoadBalancer (ClusterScope_OVHClient scope)
            (OVHClusterStatus_LoadBalancerID (OVHCluster_Status c0))) None w t)
      \<and> (\<forall>fip \<in> set fips. (\<exists>e. performed (DeleteFloatingIP (ClusterScope_OVHClient scope) fip) e w t)
          \<and> (\<exists>g. performed (GetFloatingIP (ClusterScope_OVHClient scope) fip) g w t \<and> \<not> lingers g))
      \<and> (OVHClusterStatus_NetworkID (OVHCluster_Status c0) \<noteq> ''''
          \<and> isTrue d NetworkCreatedByControllerCondition c0 \<longrightarrow>
          performed (DeletePrivateNetwork (ClusterScope_OVHClient scope)
            (OVHClusterStatus_NetworkID (OVHCluster_Status c0))) None w t)"
  using afterCapture_path [OF assms]
proof (elim disjE exE conjE)
  fix a b c g
  assume a: "run_state (deleteLB scope) w = (None, a)" and c: "run_state (cleanupFloatingIPs scope fips) b = (False, c)"
    and net: "run_state (deleteNetwork d scope) g = (r, t)" and g: "stage c0 (st_obj g)"
    and e: "extends w a" "extends a b" "extends b c" "extends c g" "extends g t"
  then have wb: "extends w b" and wg: "extends w g" and ct: "extends c t" and at: "extends a t"
    by (blast intro: extends_trans)+
  have "performed (DeleteLoadBalancer (ClusterScope_OVHClient scope)
          (OVHClusterStatus_LoadBalancerID (OVHCluster_Status c0))) None w t"
    if "OVHClusterStatus_LoadBalancerID (OVHCluster_Status c0) \<noteq> ''''"
    using deleteLB_performed [of scope w a] a that w at
    by (auto simp: stage_def sameResources_def intro: performed_widen [OF extends_refl])
  moreover have "(\<exists>e. performed (DeleteFloatingIP (ClusterScope_OVHClient scope) fip) e w t)
        \<and> (\<exists>g. performed (GetFloatingIP (ClusterScope_OVHClient scope) fip) g w t \<and> \<not> lingers g)"
    if "fip \<in> set fips" for fip
    using cleanupFloatingIPs_performed [of scope fips b c, OF _ that] c wb ct by (auto intro: performed_widen)
  moreover have "finalizerKept c0 r (st_obj t) \<or> finalizerGone d c0 r (st_obj t)
      \<and> (OVHClusterStatus_NetworkID (OVHCluster_Status c0) \<noteq> ''''
        \<and> isTrue d NetworkCreatedByControllerCondition c0 \<longrightarrow>
        performed (DeletePrivateNetwork (ClusterScope_OVHClient scope)
          (OVHClusterStatus_NetworkID (OVHCluster_Status c0))) None w t)"
    using deleteNetwork_outcome [OF net] g wg
    by (auto simp: stage_def sameResources_def intro: performed_widen [OF _ _ extends_refl])
  ultimately show ?thesis by blast
qed blast+

lemma afterCapture_tears: "\<not> keepsCluster c0 \<Longrightarrow> tearsDown d scope c0 (afterCapture d scope fips)"
  unfolding afterCapture_def by (intro runs_intros tears)

lemma ClusterReconcileDelete_outcome:
  assumes run: "run_state (ClusterReconcileDelete d scope) s = (r, t)"
  shows "finalizerKept (st_obj s) r (st_obj t)
    \<or> finalizerGone d (st_obj s) r (st_obj t) \<and> (keepsCluster (st_obj s) \<or> tornDown d scope s t)"
proof (cases "keepsCluster (st_obj s)")
  case True
  with run show ?thesis
    by (auto simp: ClusterReconcileDelete_def clusterDeleteBody_def removeClusterFinalizer_run)
next
  case False
  obtain u v fips w where u: "run_state (cleanupDNS scope) s = ((), u)"
    and v: "run_state (forEach (OVHClusterStatus_SecurityGroupIDs (OVHCluster_Status (st_obj u)))
        (cleanupSecurityGroup scope)) u = ((), v)"
    and w: "run_state (captureFloatingIPs scope) v = (fips, w)"
    and sw: "extends s w" "stage (st_obj s) (st_obj w)"
    and sgs: "\<And>sg. sg \<in> set (OVHClusterStatus_SecurityGroupIDs (OVHCluster_Status (st_obj s))) \<Longrightarrow>
      \<exists>e. performed (DeleteSecurityGroup (ClusterScope_OVHClient scope) (snd sg)) e s w"
    and fip: "OVHClusterStatus_FloatingIPID (OVHCluster_Status (st_obj s)) \<noteq> '''' \<Longrightarrow>
      OVHClusterStatus_FloatingIPID (OVHCluster_Status (st_obj s)) \<in> set fips"
    by (rule beforeLB [OF False, of scope]) blast
  obtain x where x: "run_state (afterCapture d scope fips) w = (r, x)" "st_obj t = st_obj x" "extends x t"
    using run False u v w
    by (auto simp: ClusterReconcileDelete_def clusterDeleteBody_def afterCapture_def extends_def split: prod.splits)
  have wx: "extends w x"
    using runs_extends [OF afterCapture_tears [OF False] _ x(1)] sw(2) by (auto simp: stage_def)
  note widen = performed_widen [OF sw(1) _ x(3)]
    performed_widen [OF extends_refl _ extends_trans [OF wx x(3)]]
  from afterCapture_outcome [OF x(1) False sw(2)] show ?thesis
    unfolding x(2) tornDown_def Let_def using sgs fip widen by metis
qed

interpretation cluster_deletion: deletion_protocol "ClusterReconcileDelete d scope" clusterFinalizers
  ClusterFinalizer "\<lambda>fs. Deps_RemoveFinalizer d fs ClusterFinalizer"
  "\<lambda>s t. keepsCluster (st_obj s) \<or> tornDown d scope s t" requeueTimeShort
  for d scope
  using ClusterReconcileDelete_outcome by unfold_locales blast


text \<open>A deletion is never left half-way: when the finalizer stays, the reconcile failed (and is
  repeated with backoff) or asks to be called again after 30 s.\<close>

lemma ClusterReconcileDelete_progress:
  assumes "run_state (ClusterReconcileDelete d scope) s = (r, t)" and "finalizersOK d"
    and "ClusterFinalizer \<in> set (clusterFinalizers (st_obj t))"
  shows "snd r \<noteq> None \<or> r = requeueAfter requeueTimeShort"
  by (rule cluster_deletion.comes_back [OF assms(1) finalizersOK_removed [OF assms(2)] assms(3)])

section \<open>Witnesses\<close>






end
