(* ===== verification/Cluster_Lifecycle.thy ===== *)
theory Cluster_Lifecycle
  imports Cluster_Deletion
begin

text \<open>
  The cluster object over time, as a step relation: reconciles whose patch reaches the API server,
  the request to delete the object, and edits of the annotations and the spec by a user. The
  environment of a reconcile may be a different one each time, taken from a set \<open>D\<close>.
\<close>

inductive clusterStep :: "'w Deps set \<Rightarrow> OVHCluster \<Rightarrow> OVHCluster \<Rightarrow> bool" for D where
  reconcile:
    "d \<in> D \<Longrightarrow> Deps_getOVHCluster d ns name = Inr c \<Longrightarrow> Deps_newClusterPatchHelper d c = None
      \<Longrightarrow> run_state (ClusterReconcile d ns name) s = (r, t) \<Longrightarrow> Deps_patchCluster d c (st_obj t) = None
      \<Longrightarrow> clusterStep D c (st_obj t)"
| request_delete:
    "clusterStep D c (c\<lparr>OVHCluster_ObjectMeta := (OVHCluster_ObjectMeta c)\<lparr>ObjectMeta_Deleting := True\<rparr>\<rparr>)"
| annotate:
    "clusterStep D c (c\<lparr>OVHCluster_ObjectMeta := (OVHCluster_ObjectMeta c)\<lparr>ObjectMeta_Annotations := as\<rparr>\<rparr>)"
| edit: "clusterStep D c (c\<lparr>OVHCluster_Spec := sp\<rparr>)"

inductive clusterReachable :: "'w Deps set \<Rightarrow> OVHCluster \<Rightarrow> bool" for D where
  created: "OVHCluster_Status c = zero_OVHClusterStatus \<Longrightarrow> clusterReachable D c"
| stepped: "clusterReachable D c \<Longrightarrow> clusterStep D c c' \<Longrightarrow> clusterReachable D c'"

section \<open>The invariant\<close>

definition clusterResources :: "OVHCluster \<Rightarrow> bool" where
  "clusterResources c \<longleftrightarrow>
     list_ex (\<lambda>f. f (OVHCluster_Status c) \<noteq> '''')
       [OVHClusterStatus_NetworkID, OVHClusterStatus_SubnetID, OVHClusterStatus_LoadBalancerID,
        OVHClusterStatus_ListenerID, OVHClusterStatus_PoolID, OVHClusterStatus_RegisterListenerID,
        OVHClusterStatus_RegisterPoolID, OVHClusterStatus_FloatingIPID, OVHClusterStatus_GatewayID]
     \<or> OVHClusterStatus_DNSRecordID (OVHCluster_Status c) \<noteq> 0
     \<or> OVHClusterStatus_SecurityGroupIDs (OVHCluster_Status c) \<noteq> []"

definition clusterInv :: "OVHCluster \<Rightarrow> bool" where
  "clusterInv c \<longleftrightarrow> (isReady c \<longleftrightarrow> isProvisioned c)
     \<and> (clusterResources c \<and> \<not> ObjectMeta_Deleting (OVHCluster_ObjectMeta c)
        \<longrightarrow> ClusterFinalizer \<in> set (clusterFinalizers c))"

text \<open>Past the first guard, the finalizer is there or the object is being deleted. Readiness, once
  reached, stays.\<close>

definition guarded :: "bool \<Rightarrow> OVHCluster \<Rightarrow> bool" where
  "guarded ready c \<longleftrightarrow> (isReady c \<longleftrightarrow> isProvisioned c) \<and> (ready \<longrightarrow> isReady c)
     \<and> (ClusterFinalizer \<in> set (clusterFinalizers c) \<or> ObjectMeta_Deleting (OVHCluster_ObjectMeta c))"

lemma guarded_inv: "guarded ready c \<Longrightarrow> clusterInv c"
  by (auto simp: guarded_def clusterInv_def)

lemma reconcileNetwork_guarded: "runs (guarded ready) (\<lambda>_. True) (reconcileNetwork d scope)"
  unfolding network_defs by (intro runs_intros) (auto simp: guarded_def)

lemma reconcileSecurityGroup_guarded:
  "runs (guarded ready) (\<lambda>_. True) (reconcileSecurityGroup scope ex sg)"
  unfolding sg_defs by (intro runs_intros) (auto simp: guarded_def)

lemma reconcileSecurityGroups_guarded:
  "runs (guarded ready) (\<lambda>_. True) (reconcileSecurityGroups scope)"
  unfolding reconcileSecurityGroups_def
  by (intro runs_intros reconcileSecurityGroup_guarded) auto

lemma reconcileFloatingIP_guarded: "runs (guarded ready) (\<lambda>_. True) (reconcileFloatingIP scope lb)"
  unfolding fip_defs gateway_defs by (intro runs_intros) (auto simp: guarded_def)

lemma handleExistingLB_guarded: "runs (guarded ready) (\<lambda>_. True) (handleExistingLB d scope lb)"
  unfolding handleExistingLB_def exposeLB_def publishEndpoint_def setEndpoint_def port_defs
  by (intro runs_intros reconcileFloatingIP_guarded) (auto simp: guarded_def ptr_defs)

lemma reconcileLoadBalancer_guarded:
  "runs (guarded ready) (\<lambda>_. True) (reconcileLoadBalancer d scope)"
  unfolding reconcileLoadBalancer_def adoptLB_def createLB_def prepareLB_def submitLB_def recordFIP_def
  by (intro runs_intros handleExistingLB_guarded) (auto simp: guarded_def)

lemma clusterEndGame_guarded: "runs (guarded ready) (\<lambda>_. True) (clusterEndGame d scope)"
  unfolding clusterEndGame_def reconcileDNS_def
  by (intro runs_intros reconcileLoadBalancer_guarded) (auto simp: guarded_def)

text \<open>What a reconcile, whatever its way, preserves.\<close>

abbreviation kept :: "bool \<Rightarrow> OVHCluster \<Rightarrow> bool" where
  "kept ready c \<equiv> clusterInv c \<and> (ready \<longrightarrow> isReady c)"

lemma guarded_kept: "guarded ready c \<Longrightarrow> kept ready c"
  by (auto simp: guarded_inv) (auto simp: guarded_def)

lemma clusterNormalBody_kept:
  assumes "finalizersOK d" and "kept ready (st_obj s)"
  shows "wp (clusterNormalBody d scope) (\<lambda>r t. kept ready (st_obj t)) s"
proof (cases "\<not> Deps_ContainsFinalizer d (clusterFinalizers (st_obj s)) ClusterFinalizer
    \<and> \<not> ObjectMeta_Deleting (OVHCluster_ObjectMeta (st_obj s))")
  case True
  with assms show ?thesis
    by (auto simp: clusterNormalBody_def wp_rules clusterInv_def clusterResources_def finalizersOK_def)
next
  case False
  let ?rest = "do {
      e \<leftarrow> reconcileCredentials d scope;
      (case e of
         Some err \<Rightarrow> ret (\<lparr>Result_RequeueAfter = requeueTimeShort\<rparr>, Some err)
       | None \<Rightarrow> do {
           e' \<leftarrow> reconcileNetwork d scope;
           (case e' of
              Some err \<Rightarrow> if errors_Is err ''network not yet ACTIVE in region''
                then ret (requeueAfter requeueTimeShort)
                else ret (\<lparr>Result_RequeueAfter = requeueTimeShort\<rparr>, Some err)
            | None \<Rightarrow> do { _ \<leftarrow> reconcileFailureDomains scope; _ \<leftarrow> reconcileSecurityGroups scope;
                clusterEndGame d scope }) }) }"
  from False assms have "guarded ready (st_obj s)"
    by (auto simp: guarded_def clusterInv_def finalizersOK_def)
  moreover have "runs (guarded ready) (\<lambda>_. True) ?rest"
    unfolding reconcileCredentials_def reconcileFailureDomains_def
    by (intro runs_intros reconcileNetwork_guarded reconcileSecurityGroups_guarded clusterEndGame_guarded)
      (auto simp: guarded_def)
  ultimately have "wp ?rest (\<lambda>r t. kept ready (st_obj t)) s"
    by (auto intro!: runs_wp [of "guarded ready" "\<lambda>_. True" ?rest] dest: guarded_kept)
  moreover have "run_state (clusterNormalBody d scope) s = run_state ?rest s"
    using False by (auto simp: clusterNormalBody_def)
  ultimately show ?thesis by (simp add: wp_def)
qed

lemma ClusterReconcileNormal_kept:
  assumes "finalizersOK d" and "kept ready (st_obj s)"
  shows "wp (ClusterReconcileNormal d scope) (\<lambda>r t. kept ready (st_obj t)) s"
  unfolding ClusterReconcileNormal_def wp_rules
  by (rule wp_mono [OF clusterNormalBody_kept [OF assms]]) simp

abbreviation terminating :: "bool \<Rightarrow> OVHCluster \<Rightarrow> bool" where
  "terminating ready c \<equiv> (isReady c \<longleftrightarrow> isProvisioned c) \<and> (ready \<longrightarrow> isReady c)
     \<and> ObjectMeta_Deleting (OVHCluster_ObjectMeta c)"

lemma ClusterReconcileDelete_terminating:
  "runs (terminating ready) (\<lambda>_. True) (ClusterReconcileDelete d scope)"
  unfolding ClusterReconcileDelete_def clusterDeleteBody_def cleanupDNS_def cleanupSecurityGroup_def
    captureFloatingIPs_def deleteLB_def cleanupOrphanLBs_def cleanupGateway_def deleteNetwork_def
    removeClusterFinalizer_def
  by (intro runs_intros runs_cleanupFloatingIPs) auto

lemma terminating_kept: "terminating ready c \<Longrightarrow> kept ready c"
  by (auto simp: clusterInv_def)

lemma clusterReconcileFetched_kept:
  assumes "finalizersOK d" and "kept ready (st_obj s)" and "st_obj s = c"
  shows "wp (clusterReconcileFetched d c) (\<lambda>r t. kept ready (st_obj t)) s"
proof -
  have del: "wp (ClusterReconcileDelete d scope) (\<lambda>r t. kept ready (st_obj t)) s"
    if "ObjectMeta_Deleting (OVHCluster_ObjectMeta c)" for scope
    using that assms(2,3)
    by (auto intro!: runs_wp [OF ClusterReconcileDelete_terminating [of ready]] dest: terminating_kept
        simp: clusterInv_def)
  have cond: "wp (setClusterCondition d ty st re ms) (\<lambda>_. wp (ret x) (\<lambda>_ t. kept ready (st_obj t))) s"
    for ty st re ms and x :: outcome
    using assms(2) by (auto simp: setClusterCondition_def wp_rules clusterInv_def clusterResources_def)
  show ?thesis
    unfolding clusterReconcileFetched_def
    using assms del cond ClusterReconcileNormal_kept [OF assms(1,2)]
    by (auto simp: wp_rules Let_def split: sum.split option.split)
qed

lemma clusterStep_kept:
  assumes "clusterStep D c c'" and "\<forall>d \<in> D. finalizersOK d" and "kept ready c"
  shows "kept ready c'"
  using assms(1)
proof (cases rule: clusterStep.cases)
  case (reconcile d ns name s r t)
  have "wp (ClusterReconcile d ns name) (\<lambda>r t. kept ready (st_obj t)) s"
    unfolding ClusterReconcile_def
    using reconcile assms(2,3)
    by (auto simp: wp_rules intro!: wp_mono [OF clusterReconcileFetched_kept [where ready = ready]])
  from wpD [OF this reconcile(5)] reconcile(1) show ?thesis by simp
qed (use assms(3) in \<open>auto simp: clusterInv_def clusterResources_def\<close>)

lemma reachable_inv:
  assumes "clusterReachable D c" and "\<forall>d \<in> D. finalizersOK d"
  shows "clusterInv c"
  using assms(1)
proof induction
  case (created c)
  then show ?case
    by (simp add: clusterInv_def clusterResources_def zero_OVHClusterStatus_def zero_Initialization_def)
next
  case (stepped c c')
  with clusterStep_kept [OF stepped.hyps(2) assms(2), of False] show ?case by simp
qed

text \<open>C4: every cluster that a sequence of reconciles and user edits can reach is ready exactly if it
  is marked as provisioned, and carries the finalizer while it has recorded resources and is not being
  deleted, so nothing recorded is orphaned by a deletion. Readiness is permanent: no step takes it, or
  the provisioned mark, away.\<close>

theorem reachable_clusters:
  assumes "clusterReachable D c" and "\<forall>d \<in> D. finalizersOK d"
  shows "clusterInv c \<and> (\<forall>c'. clusterStep D c c' \<and> isReady c \<longrightarrow> isReady c' \<and> isProvisioned c')"
proof -
  have inv: "clusterInv c" by (rule reachable_inv [OF assms])
  moreover have "isReady c' \<and> isProvisioned c'" if "clusterStep D c c'" "isReady c" for c'
    using clusterStep_kept [OF that(1) assms(2), of True] inv that(2) by (auto simp: clusterInv_def)
  ultimately show ?thesis by blast
qed

section \<open>Witness\<close>

theorem reachable_clusters_witness:
  "clusterInv (st_obj (snd (run_state (ClusterReconcile (sampleDeps steadyCloud) ''ns'' ''a'')
     (clusterState sampleOVHCluster))))"
proof -
  let ?d = "sampleDeps steadyCloud"
  let ?t = "snd (run_state (ClusterReconcile ?d ''ns'' ''a'') (clusterState sampleOVHCluster))"
  have ok: "\<forall>d \<in> {?d}. finalizersOK d" by (simp add: sampleDeps_ok)
  have "clusterReachable {?d} sampleOVHCluster"
    by (rule clusterReachable.created) (simp add: sampleOVHCluster_def zero_OVHCluster_def)
  moreover have "clusterStep {?d} sampleOVHCluster (st_obj ?t)"
    by (rule clusterStep.reconcile [OF _ _ _ run_pair]) (simp_all add: sampleDeps_def)
  ultimately have "clusterReachable {?d} (st_obj ?t)"
    by (rule clusterReachable.stepped)
  from reachable_clusters [OF this ok] show ?thesis by blast
qed

end
