(* ===== verification/Refinement.thy ===== *)
theory Refinement
  imports Machine_Lifecycle Cluster_Lifecycle
begin

text \<open>
  The life of an infrastructure object as the Cluster API contract has it, and the two step relations
  as refinements of it: what an observer sees of a machine or a cluster (is it protected by the
  finalizer, is it being deleted, is it ready, which cloud resource does it record) moves only along
  the steps of the abstract life.
\<close>

section \<open>The abstract life\<close>

record 'i view =
  view_protected :: bool
  view_deleting :: bool
  view_ready :: bool
  view_resource :: 'i

text \<open>\<open>sticky\<close>: readiness, once reached, is not withdrawn. A cluster is sticky; a machine is not, because
  a pause withdraws it.\<close>

inductive life :: "bool \<Rightarrow> 'i view \<Rightarrow> 'i view \<Rightarrow> bool" for sticky where
  idle: "life sticky v v"
| protect: "\<not> view_deleting v \<Longrightarrow> (sticky \<longrightarrow> b = view_ready v) \<Longrightarrow> (b \<longrightarrow> view_ready v)
    \<Longrightarrow> life sticky v (v\<lparr>view_protected := True, view_ready := b\<rparr>)"
| suspend: "\<not> sticky \<Longrightarrow> \<not> view_deleting v \<Longrightarrow> life sticky v (v\<lparr>view_ready := False\<rparr>)"
| build: "view_protected v \<Longrightarrow> \<not> view_deleting v \<Longrightarrow> (sticky \<and> view_ready v \<longrightarrow> b)
    \<Longrightarrow> life sticky v (v\<lparr>view_ready := b, view_resource := i\<rparr>)"
| delete: "life sticky v (v\<lparr>view_deleting := True\<rparr>)"
| release: "view_deleting v \<Longrightarrow> life sticky v (v\<lparr>view_protected := False\<rparr>)"

inductive_cases lifeE: "life sticky v v'"

text \<open>What the abstract life guarantees between any two moments.\<close>

definition lawful :: "bool \<Rightarrow> 'i view \<Rightarrow> 'i view \<Rightarrow> bool" where
  "lawful sticky v v' \<longleftrightarrow>
     (view_deleting v \<longrightarrow> view_deleting v' \<and> view_resource v' = view_resource v
        \<and> view_ready v' = view_ready v \<and> (view_protected v' \<longrightarrow> view_protected v))
     \<and> (view_protected v \<and> \<not> view_deleting v' \<longrightarrow> view_protected v')
     \<and> (sticky \<and> view_ready v \<longrightarrow> view_ready v')"

lemma lawful_refl: "lawful sticky v v"
  by (simp add: lawful_def)

lemma lawful_trans: "lawful sticky u v \<Longrightarrow> lawful sticky v w \<Longrightarrow> lawful sticky u w"
  unfolding lawful_def by metis

lemma life_lawful: "life sticky v v' \<Longrightarrow> lawful sticky v v'"
  by (erule lifeE) (auto simp: lawful_def)

section \<open>Simulation\<close>

locale simulation =
  fixes step :: "'c \<Rightarrow> 'c \<Rightarrow> bool" and astep :: "'a \<Rightarrow> 'a \<Rightarrow> bool" and abs :: "'c \<Rightarrow> 'a"
  assumes step_sim: "step c c' \<Longrightarrow> astep (abs c) (abs c')"
begin

lemma run_sim: "step\<^sup>*\<^sup>* c c' \<Longrightarrow> astep\<^sup>*\<^sup>* (abs c) (abs c')"
  by (induction rule: rtranclp_induct) (auto intro: rtranclp.rtrancl_into_rtrancl step_sim)

lemma run_preorder:
  assumes "step\<^sup>*\<^sup>* c c'" and "\<And>a a'. astep a a' \<Longrightarrow> H a a'" and "\<And>a. H a a"
    and "\<And>a b c. H a b \<Longrightarrow> H b c \<Longrightarrow> H a c"
  shows "H (abs c) (abs c')"
  using assms(1) by (induction rule: rtranclp_induct) (use assms(2-4) step_sim in blast)+

end

section \<open>Machines\<close>

definition machineView :: "OVHMachine \<Rightarrow> string view" where
  "machineView m = \<lparr>view_protected = (MachineFinalizer \<in> set (machineFinalizers m)),
     view_deleting = ObjectMeta_Deleting (OVHMachine_ObjectMeta m), view_ready = machineReady m,
     view_resource = machineInstanceID m\<rparr>"

lemma build_view:
  assumes "view_protected v" and "\<not> view_deleting v" and "sticky \<and> view_ready v \<longrightarrow> view_ready v'"
    and "view_protected v' = view_protected v" and "view_deleting v' = view_deleting v"
  shows "life sticky v v'"
proof -
  have "v' = v\<lparr>view_ready := view_ready v', view_resource := view_resource v'\<rparr>"
    using assms(4,5) by simp
  with life.build [OF assms(1,2), of sticky "view_ready v'" "view_resource v'"] assms(3) show ?thesis
    by simp
qed

lemma release_view:
  assumes "view_deleting v" and "view_deleting v'" and "view_ready v' = view_ready v"
    and "view_resource v' = view_resource v" and "view_protected v' \<longrightarrow> view_protected v"
  shows "life sticky v v'"
proof (cases "view_protected v' = view_protected v")
  case True
  with assms have "v' = v" by simp
  then show ?thesis by (simp add: life.idle)
next
  case False
  with assms have "v' = v\<lparr>view_protected := False\<rparr>" by simp
  with life.release [OF assms(1)] show ?thesis by simp
qed

lemma normalBody_life:
  assumes "finalizersOK d" and "st_obj s = m" and "\<not> ObjectMeta_Deleting (OVHMachine_ObjectMeta m)"
  shows "wp (normalBody d scope) (\<lambda>r t. life False (machineView m) (machineView (st_obj t))) s"
proof (cases "machineGuard d scope m")
  case True
  with assms have "view_protected (machineView m)" and "\<not> view_deleting (machineView m)"
    by (auto simp: machineGuard_def finalizersOK_def machineView_def)
  then have "wp (reconcileInstance d scope) (\<lambda>r t. life False (machineView m) (machineView (st_obj t))) s"
    by (intro runs_wp [OF reconcileInstance_normal [of "OVHMachine_ObjectMeta m"]] build_view)
      (auto simp: machineView_def assms(2))
  with True show ?thesis by (simp add: wp_def normalBody_passes assms(2))
next
  case False
  let ?v = "machineView m"
  from assms(3) have live: "\<not> view_deleting ?v" by (simp add: machineView_def)
  have suspended: "life False ?v (?v\<lparr>view_ready := False\<rparr>)"
    and protected: "life False ?v (?v\<lparr>view_protected := True, view_ready := False\<rparr>)"
    by (rule life.suspend life.protect; use live in simp)+
  have "machineView (m\<lparr>OVHMachine_Status := (OVHMachine_Status m)\<lparr>OVHMachineStatus_Ready := False,
      OVHMachineStatus_Initialization := x\<rparr>\<rparr>) = ?v\<lparr>view_ready := False\<rparr>" for x
    by (simp add: machineView_def)
  moreover have "machineView (m\<lparr>OVHMachine_ObjectMeta := (OVHMachine_ObjectMeta m)\<lparr>ObjectMeta_Finalizers :=
        Deps_AddFinalizer d fs MachineFinalizer\<rparr>, OVHMachine_Status := (OVHMachine_Status m)\<lparr>OVHMachineStatus_Ready := False,
      OVHMachineStatus_Initialization := x\<rparr>\<rparr>) = ?v\<lparr>view_protected := True, view_ready := False\<rparr>" for x fs
    using assms(1) by (simp add: machineView_def finalizersOK_def)
  moreover have "machineView (m\<lparr>OVHMachine_Status := (OVHMachine_Status m)\<lparr>OVHMachineStatus_Conditions := x\<rparr>\<rparr>) = ?v" for x
    by (simp add: machineView_def)
  ultimately show ?thesis
    using False assms(2) suspended protected life.idle
    by (auto simp: normalBody_def machineGuard_def setCondition_def wp_rules)
qed

lemma ReconcileDelete_life:
  assumes "finalizersOK d" and "st_obj s = m" and "ObjectMeta_Deleting (OVHMachine_ObjectMeta m)"
  shows "wp (ReconcileDelete d scope) (\<lambda>r t. life False (machineView m) (machineView (st_obj t))) s"
proof -
  let ?I = "\<lambda>m'. ObjectMeta_Deleting (OVHMachine_ObjectMeta m') \<and> machineReady m' = machineReady m
      \<and> machineInstanceID m' = machineInstanceID m
      \<and> (MachineFinalizer \<in> set (machineFinalizers m') \<longrightarrow> MachineFinalizer \<in> set (machineFinalizers m))"
  have "runs ?I (\<lambda>_. True) (ReconcileDelete d scope)"
    unfolding ReconcileDelete_def deleteBody_def deleteVolume_def removeLBPoolMember_def
      deleteInstance_def removeMachineFinalizer_def
    by (intro runs_intros) (use assms(1) in \<open>auto simp: finalizersOK_def\<close>)
  then show ?thesis
    by (rule runs_wp) (use assms(2,3) in \<open>auto intro!: release_view simp: machineView_def\<close>)
qed

lemma Reconcile_life:
  assumes "finalizersOK d" and "Deps_getOVHMachine d ns name = Inr m" and "Deps_newMachinePatchHelper d m = None"
  shows "wp (Reconcile d ns name) (\<lambda>r t. life False (machineView m) (machineView (st_obj t))) s"
proof -
  have "wp (ReconcileNormal d scope) (\<lambda>r t. life False (machineView m) (machineView (st_obj t))) s'"
    if "st_obj s' = m" "\<not> ObjectMeta_Deleting (OVHMachine_ObjectMeta m)" for s' scope
    unfolding ReconcileNormal_def wp_rules by (rule wp_mono [OF normalBody_life [OF assms(1) that]]) simp
  then have "wp (reconcileFetched d m) (\<lambda>r t. life False (machineView m) (machineView (st_obj t))) s'"
    if "st_obj s' = m" for s'
    unfolding reconcileFetched_def Let_def using that ReconcileDelete_life [OF assms(1) that]
    by (simp add: wp_rules life.idle split: sum.split option.split)
  then have "wp (reconcileFetched d m) (\<lambda>r t. life False (machineView m) (machineView (st_obj t))) (s\<lparr>st_obj := m\<rparr>)"
    by simp
  from wp_mono [OF this] show ?thesis
    unfolding Reconcile_def by (simp add: assms(2,3) wp_rules)
qed

lemma machineStep_life:
  assumes "machineStep D m m'" and "\<forall>d \<in> D. finalizersOK d"
  shows "life False (machineView m) (machineView m')"
  using assms(1)
proof (cases rule: machineStep.cases)
  case (reconcile d ns name s r t)
  with assms(2) wpD [OF Reconcile_life] show ?thesis by blast
next
  case request_delete
  with life.delete [of False "machineView m"] show ?thesis by (simp add: machineView_def)
qed (use life.idle [of False "machineView m"] in \<open>simp_all add: machineView_def\<close>)

interpretation machine_life: simulation "machineStep {d. finalizersOK d}" "life False" machineView
  by unfold_locales (auto intro: machineStep_life)

lemma machineStep_mono: "machineStep D m m' \<Longrightarrow> D \<subseteq> E \<Longrightarrow> machineStep E m m'"
  by (erule machineStep.cases) (auto intro: machineStep.intros)

lemma machineSteps_mono: "(machineStep D)\<^sup>*\<^sup>* m m' \<Longrightarrow> D \<subseteq> E \<Longrightarrow> (machineStep E)\<^sup>*\<^sup>* m m'"
  by (induction rule: rtranclp_induct) (auto intro: rtranclp.rtrancl_into_rtrancl machineStep_mono)

lemma machineSteps_lawful:
  fixes D :: "'w Deps set"
  assumes "(machineStep D)\<^sup>*\<^sup>* m m'" and "\<forall>d \<in> D. finalizersOK d"
  shows "(life False)\<^sup>*\<^sup>* (machineView m) (machineView m')" "lawful False (machineView m) (machineView m')"
proof -
  have run: "(machineStep {d :: 'w Deps. finalizersOK d})\<^sup>*\<^sup>* m m'"
    by (rule machineSteps_mono [OF assms(1)]) (use assms(2) in blast)
  show "(life False)\<^sup>*\<^sup>* (machineView m) (machineView m')" by (rule machine_life.run_sim [OF run])
  show "lawful False (machineView m) (machineView m')"
    by (rule machine_life.run_preorder [OF run life_lawful lawful_refl lawful_trans])
qed

text \<open>C7: what an observer sees of a machine moves only along the steps of the abstract life, whatever the
  cloud and the management cluster answer and however a user edits the object. So, between any two
  moments: a deletion is never taken back, and from its request on the recorded instance and the
  readiness stay as they are and the finalizer can only go; and a machine that is not being deleted
  keeps its finalizer once it has it.\<close>

theorem machine_refines_life:
  fixes D :: "'w Deps set"
  assumes "\<forall>d \<in> D. finalizersOK d" and "(machineStep D)\<^sup>*\<^sup>* m m'"
  shows "(life False)\<^sup>*\<^sup>* (machineView m) (machineView m') \<and> lawful False (machineView m) (machineView m')"
  using machineSteps_lawful [OF assms(2,1)] ..

section \<open>Clusters\<close>

definition clusterView :: "OVHCluster \<Rightarrow> (string \<times> string) view" where
  "clusterView c = \<lparr>view_protected = (ClusterFinalizer \<in> set (clusterFinalizers c)),
     view_deleting = ObjectMeta_Deleting (OVHCluster_ObjectMeta c), view_ready = isReady c,
     view_resource = (OVHClusterStatus_NetworkID (OVHCluster_Status c), OVHClusterStatus_LoadBalancerID (OVHCluster_Status c))\<rparr>"

text \<open>Past the guard, a reconcile leaves the metadata alone and does not withdraw readiness.\<close>

abbreviation settledMeta :: "ObjectMeta \<Rightarrow> bool \<Rightarrow> OVHCluster \<Rightarrow> bool" where
  "settledMeta meta ready c \<equiv> OVHCluster_ObjectMeta c = meta \<and> (ready \<longrightarrow> isReady c)"

lemma reconcileSecurityGroup_settled: "runs (settledMeta meta ready) (\<lambda>_. True) (reconcileSecurityGroup scope ex sg)"
  unfolding sg_defs by (intro runs_intros) auto

lemma reconcileFloatingIP_settled: "runs (settledMeta meta ready) (\<lambda>_. True) (reconcileFloatingIP scope lb)"
  unfolding fip_defs gateway_defs by (intro runs_intros) auto

lemma reconcileLoadBalancer_settled: "runs (settledMeta meta ready) (\<lambda>_. True) (reconcileLoadBalancer d scope)"
  unfolding reconcileLoadBalancer_def adoptLB_def createLB_def prepareLB_def submitLB_def recordFIP_def
    handleExistingLB_def exposeLB_def publishEndpoint_def setEndpoint_def port_defs
  by (intro runs_intros reconcileFloatingIP_settled) (auto simp: ptr_defs)

lemma clusterSteps_settled:
  "runs (settledMeta meta ready) (\<lambda>_. True) (reconcileCredentials d scope)"
  "runs (settledMeta meta ready) (\<lambda>_. True) (reconcileNetwork d scope)"
  "runs (settledMeta meta ready) (\<lambda>_. True) (reconcileFailureDomains scope)"
  "runs (settledMeta meta ready) (\<lambda>_. True) (reconcileSecurityGroups scope)"
  "runs (settledMeta meta ready) (\<lambda>_. True) (clusterEndGame d scope)"
  unfolding reconcileCredentials_def network_defs reconcileFailureDomains_def reconcileSecurityGroups_def
    clusterEndGame_def reconcileDNS_def
  by (intro runs_intros reconcileSecurityGroup_settled reconcileLoadBalancer_settled; auto)+

lemma ClusterReconcileNormal_life:
  assumes "finalizersOK d" and "st_obj s = c" and "\<not> ObjectMeta_Deleting (OVHCluster_ObjectMeta c)"
  shows "wp (ClusterReconcileNormal d scope) (\<lambda>r t. life True (clusterView c) (clusterView (st_obj t))) s"
proof (cases "ClusterFinalizer \<in> set (clusterFinalizers c)")
  case True
  have "runs (settledMeta (OVHCluster_ObjectMeta c) (isReady c)) (\<lambda>_. True) (ClusterReconcileNormal d scope)"
    unfolding ClusterReconcileNormal_def clusterNormalBody_def
    by (intro runs_intros clusterSteps_settled) (use True assms(1) in \<open>auto simp: finalizersOK_def\<close>)
  then show ?thesis
    by (rule runs_wp) (use True assms(2,3) in \<open>auto intro!: build_view simp: clusterView_def\<close>)
next
  case False
  have "clusterView (c\<lparr>OVHCluster_ObjectMeta := (OVHCluster_ObjectMeta c)\<lparr>ObjectMeta_Finalizers :=
      Deps_AddFinalizer d fs ClusterFinalizer\<rparr>\<rparr>) = (clusterView c)\<lparr>view_protected := True, view_ready := isReady c\<rparr>" for fs
    using assms(1) by (simp add: clusterView_def finalizersOK_def)
  moreover have "life True (clusterView c) ((clusterView c)\<lparr>view_protected := True, view_ready := isReady c\<rparr>)"
    by (rule life.protect) (use assms(3) in \<open>simp_all add: clusterView_def\<close>)
  ultimately show ?thesis
    using False assms by (simp add: ClusterReconcileNormal_def clusterNormalBody_def wp_rules finalizersOK_def)
qed

lemma ClusterReconcileDelete_life:
  assumes "finalizersOK d" and "st_obj s = c" and "ObjectMeta_Deleting (OVHCluster_ObjectMeta c)"
  shows "wp (ClusterReconcileDelete d scope) (\<lambda>r t. life True (clusterView c) (clusterView (st_obj t))) s"
proof -
  let ?I = "\<lambda>c'. ObjectMeta_Deleting (OVHCluster_ObjectMeta c') \<and> isReady c' = isReady c
      \<and> OVHClusterStatus_NetworkID (OVHCluster_Status c') = OVHClusterStatus_NetworkID (OVHCluster_Status c)
      \<and> OVHClusterStatus_LoadBalancerID (OVHCluster_Status c') = OVHClusterStatus_LoadBalancerID (OVHCluster_Status c)
      \<and> (ClusterFinalizer \<in> set (clusterFinalizers c') \<longrightarrow> ClusterFinalizer \<in> set (clusterFinalizers c))"
  have "runs ?I (\<lambda>_. True) (ClusterReconcileDelete d scope)"
    unfolding ClusterReconcileDelete_def clusterDeleteBody_def cleanupDNS_def cleanupSecurityGroup_def
      captureFloatingIPs_def deleteLB_def cleanupOrphanLBs_def cleanupGateway_def deleteNetwork_def
      removeClusterFinalizer_def
    by (intro runs_intros runs_cleanupFloatingIPs) (use assms(1) in \<open>auto simp: finalizersOK_def\<close>)
  then show ?thesis
    by (rule runs_wp) (use assms(2,3) in \<open>auto intro!: release_view simp: clusterView_def\<close>)
qed

lemma ClusterReconcile_life:
  assumes "finalizersOK d" and "Deps_getOVHCluster d ns name = Inr c" and "Deps_newClusterPatchHelper d c = None"
  shows "wp (ClusterReconcile d ns name) (\<lambda>r t. life True (clusterView c) (clusterView (st_obj t))) s"
proof -
  have "clusterView (c\<lparr>OVHCluster_Status := (OVHCluster_Status c)\<lparr>OVHClusterStatus_Conditions := x\<rparr>\<rparr>) = clusterView c" for x
    by (simp add: clusterView_def)
  then have "wp (clusterReconcileFetched d c) (\<lambda>r t. life True (clusterView c) (clusterView (st_obj t))) (s\<lparr>st_obj := c\<rparr>)"
    unfolding clusterReconcileFetched_def Let_def
    using ClusterReconcileDelete_life [OF assms(1)] ClusterReconcileNormal_life [OF assms(1)]
    by (simp add: wp_rules life.idle setClusterCondition_def split: sum.split option.split)
  from wp_mono [OF this] show ?thesis
    unfolding ClusterReconcile_def by (simp add: assms(2,3) wp_rules)
qed

lemma clusterStep_life:
  assumes "clusterStep D c c'" and "\<forall>d \<in> D. finalizersOK d"
  shows "life True (clusterView c) (clusterView c')"
  using assms(1)
proof (cases rule: clusterStep.cases)
  case (reconcile d ns name s r t)
  with assms(2) wpD [OF ClusterReconcile_life] show ?thesis by blast
next
  case request_delete
  with life.delete [of True "clusterView c"] show ?thesis by (simp add: clusterView_def)
qed (use life.idle [of True "clusterView c"] in \<open>simp_all add: clusterView_def\<close>)

interpretation cluster_life: simulation "clusterStep {d. finalizersOK d}" "life True" clusterView
  by unfold_locales (auto intro: clusterStep_life)

lemma clusterStep_mono: "clusterStep D c c' \<Longrightarrow> D \<subseteq> E \<Longrightarrow> clusterStep E c c'"
  by (erule clusterStep.cases) (auto intro: clusterStep.intros)

lemma clusterSteps_mono: "(clusterStep D)\<^sup>*\<^sup>* c c' \<Longrightarrow> D \<subseteq> E \<Longrightarrow> (clusterStep E)\<^sup>*\<^sup>* c c'"
  by (induction rule: rtranclp_induct) (auto intro: rtranclp.rtrancl_into_rtrancl clusterStep_mono)

lemma clusterSteps_lawful:
  fixes D :: "'w Deps set"
  assumes "(clusterStep D)\<^sup>*\<^sup>* c c'" and "\<forall>d \<in> D. finalizersOK d"
  shows "(life True)\<^sup>*\<^sup>* (clusterView c) (clusterView c')" "lawful True (clusterView c) (clusterView c')"
proof -
  have run: "(clusterStep {d :: 'w Deps. finalizersOK d})\<^sup>*\<^sup>* c c'"
    by (rule clusterSteps_mono [OF assms(1)]) (use assms(2) in blast)
  show "(life True)\<^sup>*\<^sup>* (clusterView c) (clusterView c')" by (rule cluster_life.run_sim [OF run])
  show "lawful True (clusterView c) (clusterView c')"
    by (rule cluster_life.run_preorder [OF run life_lawful lawful_refl lawful_trans])
qed

text \<open>C8: what an observer sees of a cluster moves only along the steps of the abstract life in which
  readiness is never withdrawn. So, between any two moments: a ready cluster stays ready; a deletion
  is never taken back, and from its request on the recorded network and load balancer stay recorded
  and the finalizer can only go; and a cluster that is not being deleted keeps its finalizer.\<close>

theorem cluster_refines_life:
  fixes D :: "'w Deps set"
  assumes "\<forall>d \<in> D. finalizersOK d" and "(clusterStep D)\<^sup>*\<^sup>* c c'"
  shows "(life True)\<^sup>*\<^sup>* (clusterView c) (clusterView c') \<and> lawful True (clusterView c) (clusterView c')"
  using clusterSteps_lawful [OF assms(2,1)] ..

section \<open>Witnesses\<close>

theorem machine_refines_life_witness:
  "lawful False (machineView sampleOVHMachine)
     (machineView (st_obj (snd (run_state (Reconcile (sampleDeps (sampleCloud [])) ''ns'' ''m'')
       (sampleState sampleOVHMachine)))))"
proof -
  let ?d = "sampleDeps (sampleCloud [])"
  let ?t = "snd (run_state (Reconcile ?d ''ns'' ''m'') (sampleState sampleOVHMachine))"
  have ok: "\<forall>d \<in> {?d}. finalizersOK d" by (simp add: sampleDeps_ok)
  have "machineStep {?d} sampleOVHMachine (st_obj ?t)"
    by (rule machineStep.reconcile [OF _ _ _ run_pair]) (simp_all add: sampleDeps_def)
  from machine_refines_life [OF ok r_into_rtranclp, OF this] show ?thesis ..
qed

theorem cluster_refines_life_witness:
  "lawful True (clusterView sampleOVHCluster)
     (clusterView (st_obj (snd (run_state (ClusterReconcile (sampleDeps steadyCloud) ''ns'' ''a'')
       (clusterState sampleOVHCluster)))))"
proof -
  let ?d = "sampleDeps steadyCloud"
  let ?t = "snd (run_state (ClusterReconcile ?d ''ns'' ''a'') (clusterState sampleOVHCluster))"
  have ok: "\<forall>d \<in> {?d}. finalizersOK d" by (simp add: sampleDeps_ok)
  have "clusterStep {?d} sampleOVHCluster (st_obj ?t)"
    by (rule clusterStep.reconcile [OF _ _ _ run_pair]) (simp_all add: sampleDeps_def)
  from cluster_refines_life [OF ok r_into_rtranclp, OF this] show ?thesis ..
qed

end
