(* ===== verification/Convergence.thy ===== *)
theory Convergence
  imports Machine_Properties
begin

text \<open>
  Repeated reconciles reach their goal. In an environment where nothing fails any more (the lookups in
  the management cluster succeed, the patches arrive, the infrastructure is ready, and OVH shows the
  machine's instance as running) the second call leaves a machine that is ready, and every later one
  keeps it so.
\<close>

section \<open>A calm environment\<close>

text \<open>The lookups of \<open>Reconcile\<close> for the machine \<open>m\<close> succeed and give \<open>scope\<close>; the patch arrives.\<close>

definition scopeFor :: "'w Deps \<Rightarrow> string \<Rightarrow> string \<Rightarrow> OVHMachine \<Rightarrow> 'w MachineScope \<Rightarrow> bool" where
  "scopeFor d ns name m scope \<longleftrightarrow>
     Deps_getOVHMachine d ns name = Inr m \<and> Deps_newMachinePatchHelper d m = None
     \<and> (\<forall>m'. Deps_patchMachine d m m' = None)
     \<and> Deps_GetOwnerMachine d (OVHMachine_ObjectMeta m) = Inr (Some (MachineScope_Machine scope))
     \<and> Deps_GetClusterFromMetadata d (MachineScope_Machine scope) = Inr (Some (MachineScope_Cluster scope))
     \<and> Deps_getOVHCluster d (Cluster_Namespace (MachineScope_Cluster scope))
         (Cluster_InfrastructureRefName (MachineScope_Cluster scope)) = Inr (MachineScope_OVHCluster scope)
     \<and> GetOVHClientFromCluster (Deps_getSecret d) (Deps_goovh d) (MachineScope_OVHCluster scope)
         = Inr (MachineScope_OVHClient scope)"

text \<open>The cluster is up and the bootstrap data is there.\<close>

definition prepared :: "'w MachineScope \<Rightarrow> bool" where
  "prepared scope \<longleftrightarrow> \<not> Cluster_Paused (MachineScope_Cluster scope)
     \<and> Cluster_InfrastructureProvisioned (MachineScope_Cluster scope) = Some True
     \<and> Machine_DataSecretName (MachineScope_Machine scope) \<noteq> None"

text \<open>OVH shows the instance \<open>i\<close> as running, under its ID and, by \<open>name\<close>, in the listing.\<close>

definition running :: "'w Client \<Rightarrow> string \<Rightarrow> Instance \<Rightarrow> bool" where
  "running c name i \<longleftrightarrow> Instance_Status i = InstanceStatusActive
     \<and> (\<forall>w. \<exists>w'. Client_api c (Get (projectPath c (''/instance/'' @ Instance_ID i))) w = (Inr (RInstance i), w'))
     \<and> (\<forall>w. \<exists>xs w'. Client_api c (Get (projectPath c ''/instance'' @ regionQuery c)) w = (Inr (RInstances xs), w')
          \<and> find (\<lambda>x. Instance_Name x = name) xs = Some i)"

text \<open>A machine that is neither paused nor being deleted, and records or adopts no other instance.\<close>

definition calm :: "'w MachineScope \<Rightarrow> Instance \<Rightarrow> OVHMachine \<Rightarrow> bool" where
  "calm scope i m \<longleftrightarrow> \<not> ObjectMeta_Deleting (OVHMachine_ObjectMeta m)
     \<and> map_of (ObjectMeta_Annotations (OVHMachine_ObjectMeta m)) pauseAnnotation = None
     \<and> machineInstanceID m \<in> {'''', Instance_ID i}
     \<and> OVHMachineSpec_ExistingInstanceID (OVHMachine_Spec m) \<in> {'''', Instance_ID i}
     \<and> running (MachineScope_OVHClient scope) (instanceName scope m) i"

definition settledMachine :: "'w MachineScope \<Rightarrow> Instance \<Rightarrow> OVHMachine \<Rightarrow> bool" where
  "settledMachine scope i m \<longleftrightarrow> machineReady m \<and> machineProvisioned m = Some True
     \<and> machineInstanceID m = Instance_ID i
     \<and> OVHMachineSpec_ProviderID (OVHMachine_Spec m) = ProviderIDFromInstance
         (OVHClusterSpec_Region (OVHCluster_Spec (MachineScope_OVHCluster scope))) (Instance_ID i)
     \<and> OVHMachineStatus_Addresses (OVHMachine_Status m) = machineAddresses i
     \<and> MachineFinalizer \<in> set (machineFinalizers m)"

section \<open>One call\<close>

lemma GetInstance_running:
  "running c name i \<Longrightarrow> wp (GetInstance c (Instance_ID i)) (\<lambda>r t. r = Inr i \<and> st_obj t = st_obj s) s"
  unfolding running_def GetInstance_def
  by (drule conjunct2, drule conjunct1, drule spec [of _ "st_env s"])
    (auto simp: wp_def settled_ok asInstance_def decode_def wrapResult_def)

lemma FindInstanceByName_running:
  "running c name i \<Longrightarrow> wp (FindInstanceByName c name) (\<lambda>r t. r = Inr (Some i) \<and> st_obj t = st_obj s) s"
  unfolding running_def FindInstanceByName_def ListInstances_def
  by (drule conjunct2, drule conjunct2, drule spec [of _ "st_env s"])
    (auto simp: wp_def settled_ok asInstances_def decode_def wrapResult_def)

lemma lookup_running:
  assumes "calm scope i (st_obj s)"
  shows "wp (orElse (findKnownInstance scope) (orElse (adoptInstance scope) (findNamedInstance scope)))
    (\<lambda>r t. r = Inr (Some i) \<and> st_obj t = st_obj s) s"
proof -
  have run: "running (MachineScope_OVHClient scope) (instanceName scope (st_obj s)) i"
    using assms by (simp add: calm_def)
  consider (known) "machineInstanceID (st_obj s) = Instance_ID i" "Instance_ID i \<noteq> ''''"
    | (adopted) "machineInstanceID (st_obj s) = ''''" "Instance_ID i \<noteq> ''''"
        "OVHMachineSpec_ExistingInstanceID (OVHMachine_Spec (st_obj s)) = Instance_ID i"
    | (named) "machineInstanceID (st_obj s) = ''''" "OVHMachineSpec_ExistingInstanceID (OVHMachine_Spec (st_obj s)) = ''''"
    using assms by (cases "Instance_ID i = ''''") (auto simp: calm_def)
  then show ?thesis
    unfolding orElse_def findKnownInstance_def adoptInstance_def findNamedInstance_def
    by cases (simp_all add: wp_rules wp_mono [OF GetInstance_running [OF run]]
        wp_mono [OF FindInstanceByName_running [OF run]])
qed

lemma ReconcileNormal_running:
  assumes "calm scope i (st_obj s)" and "machineGuard d scope (st_obj s)"
  shows "wp (ReconcileNormal d scope) (\<lambda>r t. coreOf (st_obj t) = coreOf (activeMachine d scope i (st_obj s))) s"
proof -
  have active: "Instance_Status i = InstanceStatusActive" using assms(1) by (simp add: calm_def running_def)
  have "wp (reconcileInstance d scope) (\<lambda>r t. coreOf (st_obj t) = coreOf (activeMachine d scope i (st_obj s))) s"
    unfolding reconcileInstance_def wp_bind
    by (rule wp_mono [OF lookup_running [OF assms(1)]])
      (auto intro!: wp_mono [OF handleExistingInstance_active [OF active]])
  moreover have "\<not> ObjectMeta_Deleting (OVHMachine_ObjectMeta (st_obj s))" using assms(1) by (simp add: calm_def)
  ultimately show ?thesis
    using assms(2) unfolding ReconcileNormal_def normalBody_def machineGuard_def
    by (auto simp: wp_rules intro: wp_mono)
qed

text \<open>A call passes from \<open>Reconcile\<close> to \<open>ReconcileNormal\<close>.\<close>

abbreviation reconciled :: "'w Deps \<Rightarrow> string \<Rightarrow> string \<Rightarrow> (OVHMachine, 'w, event) st \<Rightarrow> OVHMachine" where
  "reconciled d ns name s \<equiv> st_obj (snd (run_state (Reconcile d ns name) s))"

lemma reconciled_normal:
  assumes "scopeFor d ns name m scope" and "\<not> ObjectMeta_Deleting (OVHMachine_ObjectMeta m)"
  shows "reconciled d ns name s = st_obj (snd (run_state (ReconcileNormal d scope) (s\<lparr>st_obj := m\<rparr>)))"
  using assms unfolding Reconcile_def reconcileFetched_def scopeFor_def
  by (cases scope) (simp add: Let_def split: prod.split)

text \<open>The first call of a machine without the finalizer adds it and nothing else that matters.\<close>

lemma ReconcileNormal_protects:
  assumes "\<not> Deps_IsPaused d (MachineScope_Cluster scope) (OVHMachine_ObjectMeta (st_obj s))"
    and "\<not> Deps_ContainsFinalizer d (machineFinalizers (st_obj s)) MachineFinalizer"
    and "\<not> ObjectMeta_Deleting (OVHMachine_ObjectMeta (st_obj s))"
  shows "st_obj (snd (run_state (ReconcileNormal d scope) s)) = (st_obj s)\<lparr>
    OVHMachine_ObjectMeta := (OVHMachine_ObjectMeta (st_obj s))\<lparr>
      ObjectMeta_Finalizers := Deps_AddFinalizer d (machineFinalizers (st_obj s)) MachineFinalizer\<rparr>,
    OVHMachine_Status := (OVHMachine_Status (st_obj s))\<lparr>OVHMachineStatus_Ready := False,
      OVHMachineStatus_Initialization := machineInitializationNotProvisioned\<rparr>\<rparr>"
  using assms by (simp add: ReconcileNormal_def normalBody_def setFinalizers_def setStatus_def)

lemma protects:
  assumes "scopeFor d ns name m scope" and "finalizersOK d" and "pauseOK d" and "prepared scope"
    and "calm scope i m" and "MachineFinalizer \<notin> set (machineFinalizers m)"
  shows "calm scope i (reconciled d ns name s)
    \<and> MachineFinalizer \<in> set (machineFinalizers (reconciled d ns name s))"
proof -
  have "\<not> ObjectMeta_Deleting (OVHMachine_ObjectMeta m)" using assms(5) by (simp add: calm_def)
  moreover from this have "reconciled d ns name s = st_obj (snd (run_state (ReconcileNormal d scope) (s\<lparr>st_obj := m\<rparr>)))"
    by (rule reconciled_normal [OF assms(1)])
  ultimately show ?thesis
    using ReconcileNormal_protects [of d scope "s\<lparr>st_obj := m\<rparr>"] assms(2-6)
    by (simp add: finalizersOK_def pauseOK_def prepared_def calm_def instanceName_def)
qed

lemma settles:
  assumes "scopeFor d ns name m scope" and "finalizersOK d" and "pauseOK d" and "prepared scope"
    and "calm scope i m" and "MachineFinalizer \<in> set (machineFinalizers m)"
  shows "calm scope i (reconciled d ns name s) \<and> settledMachine scope i (reconciled d ns name s)"
proof -
  let ?s = "s\<lparr>st_obj := m\<rparr>"
  have "\<not> ObjectMeta_Deleting (OVHMachine_ObjectMeta m)" using assms(5) by (simp add: calm_def)
  then have eq: "reconciled d ns name s = st_obj (snd (run_state (ReconcileNormal d scope) ?s))"
    by (rule reconciled_normal [OF assms(1)])
  have "machineGuard d scope (st_obj ?s)"
    using assms(2-6) by (simp add: machineGuard_def finalizersOK_def pauseOK_def prepared_def calm_def)
  from wpD [OF ReconcileNormal_running [OF _ this] run_pair] assms(5)
  have core: "coreOf (reconciled d ns name s) = coreOf (activeMachine d scope i m)" by (simp add: eq)
  show ?thesis
    using coreOf_fields [OF core] assms(5,6)
    by (simp add: calm_def settledMachine_def activeMachine_def instanceName_def)
qed

section \<open>Repeated calls\<close>

text \<open>\<open>env k m\<close> is the environment of call number \<open>k\<close>, which finds the machine \<open>m\<close> that the call
  before it left; \<open>ss k\<close> is the rest of the state in which that call starts.\<close>

primrec calls :: "(nat \<Rightarrow> OVHMachine \<Rightarrow> 'w Deps) \<Rightarrow> string \<Rightarrow> string \<Rightarrow> (nat \<Rightarrow> (OVHMachine, 'w, event) st)
    \<Rightarrow> OVHMachine \<Rightarrow> nat \<Rightarrow> OVHMachine" where
  "calls env ns name ss m 0 = m"
| "calls env ns name ss m (Suc k) = reconciled (env k (calls env ns name ss m k)) ns name (ss k)"

text \<open>Reconciling a machine converges. When the cluster's infrastructure is ready, the bootstrap
  data is there, the lookups and patches in the management cluster succeed and OVH shows the
  machine's instance as ACTIVE, then from the second call on, forever, the machine carries the
  finalizer, records that instance, and is ready and provisioned with its provider ID and addresses;
  whatever else its status said at the start.\<close>

lemma machine_converges:
  assumes "\<And>k m. scopeFor (env k m) ns name m scope \<and> finalizersOK (env k m) \<and> pauseOK (env k m)"
    and "prepared scope" and "calm scope i m"
  shows "settledMachine scope i (calls env ns name ss m (Suc (Suc n)))"
proof -
  let ?m = "calls env ns name ss m"
  have step: "calm scope i (?m (Suc k)) \<and> MachineFinalizer \<in> set (machineFinalizers (?m (Suc k)))
      \<and> (MachineFinalizer \<in> set (machineFinalizers (?m k)) \<longrightarrow> settledMachine scope i (?m (Suc k)))"
    if "calm scope i (?m k)" for k
    using protects [of "env k (?m k)", OF _ _ _ assms(2) that] settles [of "env k (?m k)", OF _ _ _ assms(2) that]
      assms(1) [of k "?m k"]
    by (cases "MachineFinalizer \<in> set (machineFinalizers (?m k))") (auto simp: settledMachine_def)
  have "calm scope i (?m k)" for k
    by (induction k) (use assms(3) step in auto)
  with step [of n] step [of "Suc n"] show ?thesis by blast
qed

end
