(* ===== verification/Deletion_Liveness.thy ===== *)
theory Deletion_Liveness
  imports Refinement Convergence
begin

text \<open>
  Deletions come to an end. Whatever happened since the deletion was requested, the first call that
  meets a cloud which accepts deletions and no longer shows what was deleted takes the finalizer off.
\<close>

section \<open>A cloud that gives way\<close>

text \<open>A deletion of \<open>p\<close> succeeds or is answered with not-found.\<close>

definition accepted :: "'w Client \<Rightarrow> string \<Rightarrow> bool" where
  "accepted c p \<longleftrightarrow>
     (\<forall>w. case fst (Client_api c (Delete p) w) of
            Inl e \<Rightarrow> IsNotFound (Some e) \<and> \<not> IsRetryable (Some e) | Inr a \<Rightarrow> True)"

lemma accepted_wp:
  assumes "accepted c p" and "\<And>r t. st_obj t = st_obj s \<Longrightarrow> (\<forall>e. r = Inl e \<longrightarrow> IsNotFound (Some e)) \<Longrightarrow> Q r t"
  shows "wp (retryWithBackoff op (exchange c (Delete p) noBody)) Q s"
proof -
  from assms(1) have law: "case fst (Client_api c (Delete p) (st_env s)) of
      Inl e \<Rightarrow> IsNotFound (Some e) \<and> \<not> IsRetryable (Some e) | Inr a \<Rightarrow> True" by (simp add: accepted_def)
  obtain r w where r: "Client_api c (Delete p) (st_env s) = (r, w)" by fastforce
  show ?thesis
  proof (cases r)
    case (Inl e)
    with law r have "IsNotFound (Some e)" "\<not> IsRetryable (Some e)" by simp_all
    with settled_err [OF r [unfolded Inl], of op noBody] show ?thesis by (simp add: wp_def assms(2))
  next
    case (Inr a)
    with settled_ok [OF r [unfolded Inr], of noBody "()" op] show ?thesis by (simp add: wp_def assms(2))
  qed
qed

text \<open>What a read that succeeds returns, some state of the cloud has answered.\<close>

lemma read_wp:
  assumes "\<And>r t. st_obj t = st_obj s
      \<Longrightarrow> (\<forall>x. r = Inr x \<longrightarrow> (\<exists>w a w'. Client_api c req w = (Inr a, w') \<and> dec a = Inr x)) \<Longrightarrow> Q r t"
  shows "wp (retryWithBackoff op (exchange c req dec)) Q s"
proof -
  obtain n where run: "run_state (retryWithBackoff op (exchange c req dec)) s =
      (exhausted op (answer c req dec (after c req n (st_env s))),
       s\<lparr>st_env := after c req (Suc n) (st_env s), st_trace := st_trace s @ rounds req 0 n @ [Call req]\<rparr>)"
    using retryFrom_run [of 0 c req dec s op] by (auto simp: retryWithBackoff_def simp del: after_simps)
  have "\<exists>w a w'. Client_api c req w = (Inr a, w') \<and> dec a = Inr x"
    if "exhausted op (answer c req dec (after c req n (st_env s))) = Inr x" for x
    using that by (cases "Client_api c req (after c req n (st_env s))")
      (auto simp: exhausted_def answer_def wrapResult_def split: sum.splits if_splits)
  then show ?thesis unfolding wp_def run by (simp del: after_simps add: assms)
qed

section \<open>Machines\<close>

text \<open>OVH accepts the deletion of the instance and shows it, if at all, as DELETED.\<close>

definition instanceGone :: "'w Client \<Rightarrow> string \<Rightarrow> bool" where
  "instanceGone c id' \<longleftrightarrow> accepted c (projectPath c (''/instance/'' @ id'))
     \<and> (\<forall>w a w' i. Client_api c (Get (projectPath c (''/instance/'' @ id'))) w = (Inr a, w') \<and> asInstance a = Inr i
          \<longrightarrow> Instance_Status i = InstanceStatusDeleted)"

lemma instanceGone_wp:
  assumes "instanceGone c id'"
  shows "wp (DeleteInstance c id') (\<lambda>e t. e = None \<and> st_obj t = st_obj s) s"
    and "wp (GetInstance c id') (\<lambda>r t. (\<forall>i. r = Inr i \<longrightarrow> Instance_Status i = InstanceStatusDeleted) \<and> st_obj t = st_obj s) s"
  unfolding DeleteInstance_def GetInstance_def wp_rules
  by (rule accepted_wp, use assms in \<open>auto simp: instanceGone_def deleteResult_def split: sum.split\<close>)
    (rule read_wp, use assms in \<open>auto simp: instanceGone_def wrapResult_def split: sum.splits\<close>)

lemma deleteInstance_completes:
  assumes "instanceGone (MachineScope_OVHClient scope) (machineInstanceID (st_obj s))"
  shows "wp (deleteInstance d scope) (\<lambda>r t. r = finished
    \<and> machineFinalizers (st_obj t) = Deps_RemoveFinalizer d (machineFinalizers (st_obj s)) MachineFinalizer) s"
proof -
  let ?Q = "\<lambda>r t. r = finished
    \<and> machineFinalizers (st_obj t) = Deps_RemoveFinalizer d (machineFinalizers (st_obj s)) MachineFinalizer"
  have fin: "wp (removeMachineFinalizer d) ?Q u" if "st_obj u = st_obj s" for u
    using that by (simp add: wp_def removeMachineFinalizer_run)
  show ?thesis
    unfolding deleteInstance_def wp_rules
    by (auto simp: fin intro!: wp_mono [OF instanceGone_wp(1) [OF assms]] wp_mono [OF instanceGone_wp(2) [OF assms]]
        split: sum.split)
qed

lemma ReconcileDelete_completes:
  assumes "instanceGone (MachineScope_OVHClient scope) (machineInstanceID (st_obj s))"
    and "run_state (ReconcileDelete d scope) s = (r, t)"
  shows "r = finished \<and> machineFinalizers (st_obj t) = Deps_RemoveFinalizer d (machineFinalizers (st_obj s)) MachineFinalizer"
proof (cases "keepsInstance (st_obj s)")
  case True
  with assms(2) show ?thesis by (auto simp: ReconcileDelete_def deleteBody_def removeMachineFinalizer_run)
next
  case False
  obtain u where u: "run_state (cleanup scope (st_obj s)) s = ((), u)"
    by (cases "run_state (cleanup scope (st_obj s)) s") auto
  have core: "coreOf (st_obj u) = coreOf (st_obj s)"
    by (rule runsD [OF cleanup_core refl u])
  obtain v where v: "run_state (deleteInstance d scope) u = (r, v)" "st_obj t = st_obj v"
    using assms(2) False u by (auto simp: ReconcileDelete_def deleteBody_def cleanup_def split: prod.splits)
  have "instanceGone (MachineScope_OVHClient scope) (machineInstanceID (st_obj u))"
    using assms(1) by (simp only: coreOf_fields(4) [OF core])
  from wpD [OF deleteInstance_completes [OF this] v(1)] show ?thesis
    using v(2) coreOf_fields(1) [OF core] by simp
qed

text \<open>C12: a machine deletion completes. Whatever calls, failures and edits there were since it was
  requested, a call whose lookups succeed either fails or asks to be called again after 10 s, or has
  taken the finalizer off; and the first call that finds OVH accepting the deletion of the instance,
  and no longer showing it but as DELETED, ends without an error and takes the finalizer off.\<close>

theorem machine_deletion_completes:
  assumes "ObjectMeta_Deleting (OVHMachine_ObjectMeta m)" and "(machineStep D)\<^sup>*\<^sup>* m m'" and "\<forall>d \<in> D. finalizersOK d"
    and "scopeFor d ns name m' scope" and "finalizersOK d"
    and "run_state (Reconcile d ns name) s = (r, t)"
  shows "(MachineFinalizer \<in> set (machineFinalizers (st_obj t)) \<longrightarrow> snd r \<noteq> None \<or> r = requeueAfter requeueDelay)
    \<and> (instanceGone (MachineScope_OVHClient scope) (machineInstanceID m)
        \<longrightarrow> r = finished \<and> MachineFinalizer \<notin> set (machineFinalizers (st_obj t)))"
proof -
  from machineSteps_lawful(2) [OF assms(2,3)] assms(1)
  have m': "ObjectMeta_Deleting (OVHMachine_ObjectMeta m')" "machineInstanceID m' = machineInstanceID m"
    by (simp_all add: lawful_def machineView_def)
  obtain r' t' where run: "run_state (ReconcileDelete d scope) (s\<lparr>st_obj := m'\<rparr>) = (r', t')" by fastforce
  with assms(4,6) m'(1) have "r' = r" "st_obj t' = st_obj t"
    by (cases scope; auto simp: Reconcile_def reconcileFetched_def scopeFor_def)+
  with ReconcileDelete_completes [OF _ run] ReconcileDelete_progress [OF run assms(5)] assms(5) m'(2) show ?thesis
    by (simp add: finalizersOK_def)
qed

section \<open>Clusters\<close>

text \<open>The lookups of \<open>ClusterReconcile\<close> for the cluster \<open>c\<close> succeed and give \<open>scope\<close>; the patch arrives.\<close>

definition clusterScopeFor :: "'w Deps \<Rightarrow> string \<Rightarrow> string \<Rightarrow> OVHCluster \<Rightarrow> 'w ClusterScope \<Rightarrow> bool" where
  "clusterScopeFor d ns name c scope \<longleftrightarrow>
     Deps_getOVHCluster d ns name = Inr c \<and> Deps_newClusterPatchHelper d c = None
     \<and> (\<forall>c'. Deps_patchCluster d c c' = None)
     \<and> Deps_GetOwnerCluster d (OVHCluster_ObjectMeta c) = Inr (Some (ClusterScope_Cluster scope))
     \<and> GetOVHClientFromCluster (Deps_getSecret d) (Deps_goovh d) c = Inr (ClusterScope_OVHClient scope)"

text \<open>OVH accepts the deletion of the load balancer and the network and shows no floating IP but as
  detached and down.\<close>

definition resourcesGone :: "'w Client \<Rightarrow> string \<Rightarrow> string \<Rightarrow> bool" where
  "resourcesGone c lb net \<longleftrightarrow> accepted c (regionPath c (''/loadbalancing/loadbalancer/'' @ lb))
     \<and> accepted c (projectPath c (''/network/private/'' @ net))
     \<and> (\<forall>id' w a w' f. Client_api c (Get (regionPath c (''/floatingip/'' @ id'))) w = (Inr a, w') \<and> asFloatingIP a = Inr f
          \<longrightarrow> \<not> lingers (Inr f))"

definition recordsOf :: "OVHCluster \<Rightarrow> string \<times> string \<times> string list" where
  "recordsOf c = (OVHClusterStatus_LoadBalancerID (OVHCluster_Status c), OVHClusterStatus_NetworkID (OVHCluster_Status c),
     clusterFinalizers c)"

lemma cleanup_records:
  "runs (\<lambda>c. recordsOf c = x) (\<lambda>_. True) (cleanupDNS scope)"
  "runs (\<lambda>c. recordsOf c = x) (\<lambda>_. True) (forEach gs (cleanupSecurityGroup scope))"
  "runs (\<lambda>c. recordsOf c = x) (\<lambda>_. True) (captureFloatingIPs scope)"
  "runs (\<lambda>c. recordsOf c = x) (\<lambda>_. True) (cleanupOrphanLBs scope)"
  "runs (\<lambda>c. recordsOf c = x) (\<lambda>_. True) (cleanupGateway scope)"
  unfolding cleanupDNS_def cleanupSecurityGroup_def captureFloatingIPs_def cleanupOrphanLBs_def cleanupGateway_def
  by (intro runs_intros; auto simp: recordsOf_def)+

lemma resourcesGone_wp:
  assumes "resourcesGone c lb net"
  shows "wp (DeleteLoadBalancer c lb) (\<lambda>e t. e = None \<and> st_obj t = st_obj s) s"
    and "wp (DeletePrivateNetwork c net) (\<lambda>e t. e = None \<and> st_obj t = st_obj s) s"
    and "wp (GetFloatingIP c id') (\<lambda>r t. \<not> lingers r \<and> st_obj t = st_obj s) s"
  unfolding DeleteLoadBalancer_def DeletePrivateNetwork_def GetFloatingIP_def wp_rules
  by (rule accepted_wp, use assms in \<open>auto simp: resourcesGone_def deleteResult_def split: sum.split\<close>)+
    (rule read_wp, use assms in \<open>auto simp: resourcesGone_def wrapResult_def lingers_def split: sum.splits\<close>)

lemma cleanupFloatingIPs_completes:
  assumes "resourcesGone (ClusterScope_OVHClient scope) lb net"
  shows "wp (cleanupFloatingIPs scope ids) (\<lambda>b t. \<not> b \<and> st_obj t = st_obj s) s"
proof (induction ids arbitrary: s)
  case (Cons i ids)
  show ?case
    by (auto simp: wp_rules intro!: wp_keepsObj [OF DeleteFloatingIP.oper_keepsObj]
        wp_mono [OF resourcesGone_wp(3) [OF assms]] wp_mono [OF Cons.IH])
qed (simp add: wp_rules)

lemma deleteLB_completes:
  assumes "resourcesGone (ClusterScope_OVHClient scope) (OVHClusterStatus_LoadBalancerID (OVHCluster_Status (st_obj s))) net"
  shows "wp (deleteLB scope) (\<lambda>e t. e = None \<and> st_obj t = st_obj s) s"
  unfolding deleteLB_def Let_def wp_rules
  by (auto simp: wp_rules intro!: wp_keepsObj [OF DeletePool.oper_keepsObj] wp_keepsObj [OF DeleteListener.oper_keepsObj]
      wp_mono [OF resourcesGone_wp(1) [OF assms]])

lemma deleteNetwork_completes:
  assumes "resourcesGone (ClusterScope_OVHClient scope) lb (OVHClusterStatus_NetworkID (OVHCluster_Status (st_obj s)))"
  shows "wp (deleteNetwork d scope) (\<lambda>r t. finalizerGone d (st_obj s) r (st_obj t)) s"
  unfolding deleteNetwork_def Let_def
  by (auto simp: wp_rules removeClusterFinalizer_def setClusterFinalizers_def intro!: wp_mono [OF resourcesGone_wp(2) [OF assms]])

lemma ClusterReconcileDelete_completes:
  assumes gone: "resourcesGone (ClusterScope_OVHClient scope) lb net" and "recordsOf (st_obj s) = (lb, net, fs)"
  shows "wp (ClusterReconcileDelete d scope) (\<lambda>r t. r = finished
    \<and> clusterFinalizers (st_obj t) = Deps_RemoveFinalizer d fs ClusterFinalizer) s"
proof -
  let ?I = "\<lambda>c. recordsOf c = (lb, net, fs)"
  let ?Q = "\<lambda>r t. r = finished \<and> clusterFinalizers (st_obj t) = Deps_RemoveFinalizer d fs ClusterFinalizer"
  have keep: "wp (removeClusterFinalizer d) ?Q u" if "?I (st_obj u)" for u
    using that by (simp add: wp_def removeClusterFinalizer_run recordsOf_def)
  have net: "wp (deleteNetwork d scope) ?Q u" if "?I (st_obj u)" for u
    using deleteNetwork_completes [of scope lb u d] gone that by (simp add: wp_def case_prod_unfold recordsOf_def)
  have gw: "wp (cleanupGateway scope) (\<lambda>_. wp (deleteNetwork d scope) ?Q) u" if "?I (st_obj u)" for u
    by (rule runs_wp [OF cleanup_records(5) that]) (rule net)
  have fips: "wp (cleanupFloatingIPs scope ids) (\<lambda>b. wp (if b then ret (requeueAfter requeueTimeShort) else
      do { _ \<leftarrow> cleanupGateway scope; deleteNetwork d scope }) ?Q) u" if "?I (st_obj u)" for u ids
    by (rule wp_mono [OF cleanupFloatingIPs_completes [OF gone]]) (simp add: wp_bind gw that)
  have lbs: "wp (deleteLB scope) (\<lambda>e t. e = None \<and> st_obj t = st_obj u) u" if "?I (st_obj u)" for u
    by (rule deleteLB_completes [where net = net]) (use gone that in \<open>simp add: recordsOf_def\<close>)
  have tail: "wp (deleteLB scope) (\<lambda>e. wp (case e of Some err \<Rightarrow> ret (failed err) | None \<Rightarrow> do {
      _ \<leftarrow> cleanupOrphanLBs scope; requeue \<leftarrow> cleanupFloatingIPs scope ids;
      (if requeue then ret (requeueAfter requeueTimeShort) else do { _ \<leftarrow> cleanupGateway scope; deleteNetwork d scope }) }) ?Q) u"
    if "?I (st_obj u)" for u ids
    by (rule wp_mono [OF lbs [OF that]])
      (auto simp: wp_bind that intro!: runs_wp [OF cleanup_records(4) [of "(lb, net, fs)"]] fips)
  have "wp (clusterDeleteBody d scope) ?Q s"
    unfolding clusterDeleteBody_def
    using assms(2) keep
    by (auto simp: wp_bind wp_getObj simp del: wp_case_option intro!: runs_wp [OF cleanup_records(1) [of "(lb, net, fs)"]]
        runs_wp [OF cleanup_records(2) [of "(lb, net, fs)"]] runs_wp [OF cleanup_records(3) [of "(lb, net, fs)"]] tail)
  then show ?thesis unfolding ClusterReconcileDelete_def wp_rules by (rule wp_mono) simp
qed

text \<open>C13: a cluster deletion completes. Whatever calls, failures and edits there were since it was
  requested, a call whose lookups succeed either fails or asks to be called again after 30 s, or has
  taken the finalizer off; and the first call that finds OVH accepting the deletion of the recorded
  load balancer and network, and showing no floating IP as attached or up, ends without an error and
  takes the finalizer off; failures of the other deletions do not hold it up.\<close>

theorem cluster_deletion_completes:
  assumes "ObjectMeta_Deleting (OVHCluster_ObjectMeta c)" and "(clusterStep D)\<^sup>*\<^sup>* c c'" and "\<forall>d \<in> D. finalizersOK d"
    and "clusterScopeFor d ns name c' scope" and "finalizersOK d"
    and "run_state (ClusterReconcile d ns name) s = (r, t)"
  shows "(ClusterFinalizer \<in> set (clusterFinalizers (st_obj t)) \<longrightarrow> snd r \<noteq> None \<or> r = requeueAfter requeueTimeShort)
    \<and> (resourcesGone (ClusterScope_OVHClient scope) (OVHClusterStatus_LoadBalancerID (OVHCluster_Status c))
          (OVHClusterStatus_NetworkID (OVHCluster_Status c))
        \<longrightarrow> r = finished \<and> ClusterFinalizer \<notin> set (clusterFinalizers (st_obj t)))"
proof -
  from clusterSteps_lawful(2) [OF assms(2,3)] assms(1)
  have c': "ObjectMeta_Deleting (OVHCluster_ObjectMeta c')"
    "OVHClusterStatus_LoadBalancerID (OVHCluster_Status c') = OVHClusterStatus_LoadBalancerID (OVHCluster_Status c)"
    "OVHClusterStatus_NetworkID (OVHCluster_Status c') = OVHClusterStatus_NetworkID (OVHCluster_Status c)"
    by (simp_all add: lawful_def clusterView_def)
  obtain r' t' where run: "run_state (ClusterReconcileDelete d scope) (s\<lparr>st_obj := c'\<rparr>) = (r', t')" by fastforce
  with assms(4,6) c'(1) have "r' = r" "st_obj t' = st_obj t"
    by (cases scope; auto simp: ClusterReconcile_def clusterReconcileFetched_def clusterScopeFor_def)+
  moreover have "recordsOf (st_obj (s\<lparr>st_obj := c'\<rparr>)) = (OVHClusterStatus_LoadBalancerID (OVHCluster_Status c),
      OVHClusterStatus_NetworkID (OVHCluster_Status c), clusterFinalizers c')" by (simp add: c' recordsOf_def)
  ultimately show ?thesis
    using wpD [OF ClusterReconcileDelete_completes run] ClusterReconcileDelete_progress [OF run assms(5)] assms(5)
    by (simp add: finalizersOK_def)
qed

section \<open>Witnesses\<close>

text \<open>The user asks for the deletion, then writes an annotation; OVH no longer knows anything.\<close>

definition departing :: OVHMachine where
  "departing = recordedMachine\<lparr>OVHMachine_ObjectMeta := (OVHMachine_ObjectMeta recordedMachine)\<lparr>ObjectMeta_Deleting := True\<rparr>\<rparr>"

definition noted :: OVHMachine where
  "noted = departing\<lparr>OVHMachine_ObjectMeta := (OVHMachine_ObjectMeta departing)\<lparr>ObjectMeta_Annotations := [(''note'', ''x'')]\<rparr>\<rparr>"

abbreviation departingDeps :: "unit Deps" where
  "departingDeps \<equiv> (sampleDeps (sampleCloud []))\<lparr>Deps_getOVHMachine := (\<lambda>_ _. Inr noted)\<rparr>"

theorem machine_deletion_completes_witness:
  "fst (run_state (Reconcile departingDeps ''ns'' ''m'') (sampleState noted)) = finished
     \<and> MachineFinalizer \<notin> set (machineFinalizers (st_obj (snd (run_state (Reconcile departingDeps ''ns'' ''m'') (sampleState noted)))))"
proof -
  have "scopeFor departingDeps ''ns'' ''m'' noted (sampleScope [])"
    by (simp add: scopeFor_def sampleDeps_def sampleScope_def GetOVHClientFromCluster_def sampleOVHCluster_def
        zero_OVHClusterSpec_def zero_OVHCluster_def NewClientFromSecret_def NewClient_def secretString_def sampleSecret_def Let_def)
  moreover have "finalizersOK departingDeps" using sampleDeps_ok(1) [of "sampleCloud []"] by (simp add: finalizersOK_def)
  moreover have "instanceGone (MachineScope_OVHClient (sampleScope [])) (machineInstanceID departing)"
    by (simp add: instanceGone_def accepted_def departing_def sampleScope_def projectPath_def IsNotFound_def)
  moreover have "(machineStep ({} :: unit Deps set))\<^sup>*\<^sup>* departing noted" and "ObjectMeta_Deleting (OVHMachine_ObjectMeta departing)"
    unfolding noted_def by (rule r_into_rtranclp) (rule machineStep.annotate, simp add: departing_def)
  ultimately show ?thesis
    using machine_deletion_completes [OF _ _ _ _ _ run_pair, of departing "{} :: unit Deps set" noted departingDeps "''ns''" "''m''" "sampleScope []"
        "sampleState noted"] by simp
qed

definition departingCluster :: OVHCluster where
  "departingCluster = steadyCluster\<lparr>OVHCluster_ObjectMeta := (OVHCluster_ObjectMeta steadyCluster)\<lparr>ObjectMeta_Deleting := True\<rparr>\<rparr>"

abbreviation departingClusterDeps :: "unit Deps" where
  "departingClusterDeps \<equiv> (sampleDeps (refusing 404))\<lparr>Deps_getOVHCluster := (\<lambda>_ _. Inr departingCluster)\<rparr>"

abbreviation departingRun :: "outcome \<times> (OVHCluster, unit, event) st" where
  "departingRun \<equiv> run_state (ClusterReconcile departingClusterDeps ''ns'' ''a'') (clusterState departingCluster)"

theorem cluster_deletion_completes_witness:
  "fst departingRun = finished \<and> ClusterFinalizer \<notin> set (clusterFinalizers (st_obj (snd departingRun)))"
proof -
  have "clusterScopeFor departingClusterDeps ''ns'' ''a'' departingCluster (sampleClusterScope (refusing 404))"
    by (simp add: clusterScopeFor_def sampleDeps_def sampleClusterScope_def GetOVHClientFromCluster_def departingCluster_def
        steadyCluster_def sampleOVHCluster_def zero_OVHClusterSpec_def zero_OVHCluster_def NewClientFromSecret_def NewClient_def
        secretString_def sampleSecret_def Let_def)
  moreover have "finalizersOK departingClusterDeps" using sampleDeps_ok(1) [of "refusing 404"] by (simp add: finalizersOK_def)
  moreover have "resourcesGone (ClusterScope_OVHClient (sampleClusterScope (refusing 404)))
      (OVHClusterStatus_LoadBalancerID (OVHCluster_Status departingCluster))
      (OVHClusterStatus_NetworkID (OVHCluster_Status departingCluster))"
    by (simp add: resourcesGone_def accepted_def sampleClusterScope_def refusing_def IsNotFound_def)
  moreover have "ObjectMeta_Deleting (OVHCluster_ObjectMeta departingCluster)" by (simp add: departingCluster_def)
  ultimately show ?thesis
    using cluster_deletion_completes [OF _ _ _ _ _ run_pair, of departingCluster "{} :: unit Deps set" departingCluster departingClusterDeps "''ns''" "''a''"
        "sampleClusterScope (refusing 404)" "clusterState departingCluster"] by simp
qed

end
