(* ===== verification/Cluster_Convergence.thy ===== *)
theory Cluster_Convergence
  imports Deletion_Liveness
begin

text \<open>
  Repeated reconciles make a cluster ready. In an environment where nothing fails any more (the
  lookups in the management cluster succeed, the patches arrive, and OVH does what it is asked and
  shows it as active) the first call writes the finalizer, the second sets up the network and the load
  balancer, and the third and every later one leave a ready cluster.
\<close>

section \<open>A cloud that serves\<close>





abbreviation balancerConfig :: "OVHCluster \<Rightarrow> OVHLoadBalancerConfig" where
  "balancerConfig c \<equiv> OVHClusterSpec_LoadBalancerConfig (OVHCluster_Spec c)"
abbreviation networkConfig :: "OVHCluster \<Rightarrow> OVHNetworkConfig option" where
  "networkConfig c \<equiv> OVHClusterSpec_NetworkConfig (OVHCluster_Spec c)"
abbreviation networkID :: "OVHCluster \<Rightarrow> string" where
  "networkID c \<equiv> OVHClusterStatus_NetworkID (OVHCluster_Status c)"
abbreviation loadBalancerID :: "OVHCluster \<Rightarrow> string" where
  "loadBalancerID c \<equiv> OVHClusterStatus_LoadBalancerID (OVHCluster_Status c)"
abbreviation existingLB :: "OVHCluster \<Rightarrow> string" where
  "existingLB c \<equiv> OVHLoadBalancerConfig_ExistingLoadBalancerID (balancerConfig c)"


text \<open>The cluster asks for a network, with a subnet to be had, or for a load balancer to adopt; and it
  names and records no others than these.\<close>

definition provisionable :: "OVHCluster \<Rightarrow> bool" where
  "provisionable c \<longleftrightarrow> existingLB c \<noteq> ''''
     \<or> (case networkConfig c of
          None \<Rightarrow> False
        | Some cfg \<Rightarrow> OVHNetworkConfig_SubnetCIDR cfg \<noteq> '''' \<or> OVHLoadBalancerConfig_SubnetID (balancerConfig c) \<noteq> '''')"



section \<open>The network\<close>

text \<open>The spec (but for the endpoint), the metadata and the load balancer; after the network step, the
  network too.\<close>

definition stem :: "OVHCluster \<Rightarrow> OVHClusterSpec \<times> ObjectMeta \<times> string" where
  "stem c = (specSansEndpoint c, OVHCluster_ObjectMeta c, loadBalancerID c)"




text \<open>After the network step there is all that a load balancer needs.\<close>

definition wired :: "string \<Rightarrow> OVHCluster \<Rightarrow> bool" where
  "wired net c \<longleftrightarrow> networkID c \<in> {'''', net} \<and> (networkConfig c \<noteq> None \<longrightarrow> networkID c = net
     \<and> (provisionable c \<and> existingLB c = '''' \<longrightarrow> lbSubnetID c \<noteq> ''''))"

lemma stem_update [simp]:
  "stem (c\<lparr>OVHCluster_Status := (OVHCluster_Status c)\<lparr>OVHClusterStatus_Conditions := x\<rparr>\<rparr>) = stem c"
  "stem (c\<lparr>OVHCluster_Status := (OVHCluster_Status c)\<lparr>OVHClusterStatus_SecurityGroupIDs := g\<rparr>\<rparr>) = stem c"
  "stem (c\<lparr>OVHCluster_Status := (OVHCluster_Status c)\<lparr>OVHClusterStatus_FailureDomains := fds\<rparr>\<rparr>) = stem c"
  by (simp_all add: stem_def)

lemma provisionable_status [simp]: "provisionable (c\<lparr>OVHCluster_Status := x\<rparr>) = provisionable c"
  by (simp add: provisionable_def split: option.split)

lemma wired_update [simp]:
  "wired net (c\<lparr>OVHCluster_Status := (OVHCluster_Status c)\<lparr>OVHClusterStatus_Conditions := x\<rparr>\<rparr>) = wired net c"
  "wired net (c\<lparr>OVHCluster_Status := (OVHCluster_Status c)\<lparr>OVHClusterStatus_SecurityGroupIDs := g\<rparr>\<rparr>) = wired net c"
  "wired net (c\<lparr>OVHCluster_Status := (OVHCluster_Status c)\<lparr>OVHClusterStatus_FailureDomains := fds\<rparr>\<rparr>) = wired net c"
  by (simp_all add: wired_def lbSubnetID_def Let_def)









section \<open>The load balancer\<close>

definition course :: "OVHCluster \<Rightarrow> (OVHClusterSpec \<times> ObjectMeta \<times> string) \<times> string" where
  "course c = (stem c, networkID c)"



lemma course_conditions [simp]:
  "course (c\<lparr>OVHCluster_Status := (OVHCluster_Status c)\<lparr>OVHClusterStatus_Conditions := x\<rparr>\<rparr>) = course c"
  by (simp add: course_def)
















section \<open>The whole reconcile\<close>













section \<open>Repeated calls\<close>








section \<open>Clusters that cannot get ready\<close>

text \<open>Without a network configuration and without a load balancer to adopt, the load balancer is never
  created, although the spec marks the network configuration as optional: the reconcile fails every
  time, and the cluster stays as it is.\<close>

definition bare :: "OVHCluster \<Rightarrow> bool" where
  "bare c \<longleftrightarrow> networkConfig c = None \<and> existingLB c = '''' \<and> networkID c = '''' \<and> loadBalancerID c = ''''"

lemma bare_meta [simp]: "bare (c\<lparr>OVHCluster_ObjectMeta := m\<rparr>) = bare c"
  by (simp add: bare_def)

lemma bare_lb: "bare c \<Longrightarrow> loadBalancerID c = ''''"
  by (simp add: bare_def)

lemma bare_kept:
  "runs (\<lambda>c. bare c \<and> isReady c = b) (\<lambda>_. True) (reconcileCredentials d scope)"
  "runs (\<lambda>c. bare c \<and> isReady c = b) (\<lambda>_. True) (reconcileFailureDomains scope)"
  "runs (\<lambda>c. bare c \<and> isReady c = b) (\<lambda>_. True) (reconcileSecurityGroups scope)"
proof -
  let ?I = "\<lambda>c. bare c \<and> isReady c = b"
  have "runs ?I (\<lambda>_. True) (reconcileSecurityGroup scope ex sg)" for ex sg
    unfolding sg_defs by (intro runs_intros) (auto simp: bare_def)
  then show "runs ?I (\<lambda>_. True) (reconcileSecurityGroups scope)"
    unfolding reconcileSecurityGroups_def by (intro runs_intros) auto
  show "runs ?I (\<lambda>_. True) (reconcileFailureDomains scope)" "runs ?I (\<lambda>_. True) (reconcileCredentials d scope)"
    unfolding reconcileFailureDomains_def reconcileCredentials_def by (intro runs_intros; auto simp: bare_def)+
qed

lemma reconcileLoadBalancer_bare:
  assumes "bare (st_obj s)"
  shows "wp (reconcileLoadBalancer d scope) (\<lambda>r t. snd r \<noteq> None \<and> bare (st_obj t) \<and> isReady (st_obj t) = isReady (st_obj s)) s"
proof -
  let ?Q = "\<lambda>r t. snd r \<noteq> None \<and> bare (st_obj t) \<and> isReady (st_obj t) = isReady (st_obj s)"
  have create: "wp (createLB d scope) ?Q u" if "bare (st_obj u)" "isReady (st_obj u) = isReady (st_obj s)" for u
    unfolding createLB_def wp_rules Let_def
    by (rule wp_keepsObj [OF GetLBFlavorByName.oper_keepsObj])
      (use that in \<open>auto simp: wp_rules prepareLB_def setClusterCondition_def setClusterStatus_def bare_def split: sum.splits\<close>)
  have "wp adoptLB (\<lambda>_ t. bare (st_obj t) \<and> isReady (st_obj t) = isReady (st_obj s)) s"
    using assms by (auto simp: adoptLB_def recordFIP_def setClusterStatus_def wp_rules bare_def Let_def)
  then show ?thesis
    unfolding reconcileLoadBalancer_def wp_rules Let_def by (rule wp_mono) (simp add: create bare_lb del: not_None_eq)
qed

lemma ClusterReconcileNormal_bare:
  assumes "bare (st_obj s)"
  shows "wp (ClusterReconcileNormal d scope) (\<lambda>r t. bare (st_obj t) \<and> isReady (st_obj t) = isReady (st_obj s)) s"
proof -
  let ?I = "\<lambda>c. bare c \<and> isReady c = isReady (st_obj s)"
  have end': "wp (clusterEndGame d scope) (\<lambda>r t. ?I (st_obj t)) u" if "?I (st_obj u)" for u
    unfolding clusterEndGame_def wp_rules
    by (rule wp_mono [OF reconcileLoadBalancer_bare]) (use that in auto)
  have net: "wp (reconcileNetwork d scope) (\<lambda>e t. ?I (st_obj t)) u" if "?I (st_obj u)" for u
    using that by (simp add: reconcileNetwork_def networkReady_def setClusterCondition_def setClusterStatus_def wp_rules bare_def)
  have "wp (clusterNormalBody d scope) (\<lambda>r t. ?I (st_obj t)) s"
    unfolding clusterNormalBody_def wp_rules
    by (auto simp: setClusterFinalizers_def wp_rules assms split: option.splits
        intro!: runs_wp [OF bare_kept(1) [of "isReady (st_obj s)"]] wp_mono [OF net] end'
          runs_wp [OF bare_kept(2) [of "isReady (st_obj s)"]] runs_wp [OF bare_kept(3) [of "isReady (st_obj s)"]])
  then show ?thesis unfolding ClusterReconcileNormal_def wp_rules by (rule wp_mono) simp
qed

section \<open>Witness\<close>












end
