(* ===== verification/Single_Instance.thy ===== *)
theory Single_Instance
  imports Machine_Properties Cluster_Controller
begin

text \<open>
  The instances of the cloud over time. A call may be repeated, run on a stale copy of the machine, or
  lose its patch after the instance was created; the lookup by name is there so that this does no
  harm. The theory follows the state of the cloud through a call and shows that it keeps at most one
  instance of every name.
\<close>

section \<open>How a computation changes the outside world\<close>

text \<open>\<open>drifts I R m\<close>: a run of \<open>m\<close> on an object with the property \<open>I\<close> keeps that property and takes
  the world to one related by \<open>R\<close>.\<close>

definition drifts :: "('o \<Rightarrow> bool) \<Rightarrow> ('w \<Rightarrow> 'w \<Rightarrow> bool) \<Rightarrow> ('o, 'w, 'e, 'a) eff \<Rightarrow> bool" where
  "drifts I R m \<longleftrightarrow>
     (\<forall>s. I (st_obj s) \<longrightarrow> I (st_obj (snd (run_state m s))) \<and> R (st_env s) (st_env (snd (run_state m s))))"

named_theorems drifts_intros \<open>rules for the change of the outside world\<close>

lemma driftsD: "drifts I R m \<Longrightarrow> I (st_obj s) \<Longrightarrow> run_state m s = (a, t) \<Longrightarrow> I (st_obj t) \<and> R (st_env s) (st_env t)"
  unfolding drifts_def by (metis snd_conv)

lemma driftsI:
  "(\<And>s a t. I (st_obj s) \<Longrightarrow> run_state m s = (a, t) \<Longrightarrow> I (st_obj t) \<and> R (st_env s) (st_env t)) \<Longrightarrow> drifts I R m"
  unfolding drifts_def by (metis prod.collapse)

lemma drifts_mono: "drifts I R m \<Longrightarrow> (\<And>w w'. R w w' \<Longrightarrow> R' w w') \<Longrightarrow> drifts I R' m"
  unfolding drifts_def by blast

lemma drifts_askEnv: "(\<And>w. R w (snd (f w))) \<Longrightarrow> drifts I R (askEnv f)"
  by (simp add: drifts_def case_prod_unfold)

text \<open>\<open>R\<close> is what harmless steps do; \<open>A\<close> is a change that may come with any number of them.\<close>

lemma drifts_bind_gen:
  assumes "drifts I R m" and "\<And>a. drifts I S (f a)" and "\<And>u v w. R u v \<Longrightarrow> S v w \<Longrightarrow> A u w"
  shows "drifts I A (State_Monad.bind m f)"
proof (rule driftsI)
  fix s b u
  assume i: "I (st_obj s)" and run: "run_state (State_Monad.bind m f) s = (b, u)"
  obtain a t where m: "run_state m s = (a, t)" by fastforce
  with run have f: "run_state (f a) t = (b, u)" by simp
  from driftsD [OF assms(1) i m] have t: "I (st_obj t)" "R (st_env s) (st_env t)" by simp_all
  from driftsD [OF assms(2) t(1) f] t(2) assms(3) show "I (st_obj u) \<and> A (st_env s) (st_env u)" by blast
qed

lemma drifts_bind_getObj: "(\<And>x. I x \<Longrightarrow> drifts I R (f x)) \<Longrightarrow> drifts I R (State_Monad.bind getObj f)"
  by (simp add: drifts_def)

lemma drifts_case_sum [drifts_intros]:
  "(\<And>e. r = Inl e \<Longrightarrow> drifts I R (f e)) \<Longrightarrow> (\<And>x. r = Inr x \<Longrightarrow> drifts I R (g x))
    \<Longrightarrow> drifts I R (case r of Inl e \<Rightarrow> f e | Inr x \<Rightarrow> g x)"
  by (cases r) simp_all

lemma drifts_case_option [drifts_intros]:
  "(r = None \<Longrightarrow> drifts I R m) \<Longrightarrow> (\<And>x. r = Some x \<Longrightarrow> drifts I R (g x))
    \<Longrightarrow> drifts I R (case r of None \<Rightarrow> m | Some x \<Rightarrow> g x)"
  by (cases r) simp_all

lemma drifts_case_list [drifts_intros]:
  "(r = [] \<Longrightarrow> drifts I R m) \<Longrightarrow> (\<And>x xs. r = x # xs \<Longrightarrow> drifts I R (g x xs))
    \<Longrightarrow> drifts I R (case r of [] \<Rightarrow> m | x # xs \<Rightarrow> g x xs)"
  by (cases r) simp_all

lemma drifts_if [drifts_intros]:
  "(b \<Longrightarrow> drifts I R m) \<Longrightarrow> (\<not> b \<Longrightarrow> drifts I R n) \<Longrightarrow> drifts I R (if b then m else n)"
  by simp

lemma drifts_Let [drifts_intros]: "(\<And>x. x = t \<Longrightarrow> drifts I R (f x)) \<Longrightarrow> drifts I R (let x = t in f x)"
  by simp

locale drift =
  fixes R :: "'w \<Rightarrow> 'w \<Rightarrow> bool"
  assumes drift_refl: "R w w" and drift_trans: "R u v \<Longrightarrow> R v w \<Longrightarrow> R u w"
begin

lemma drifts_still [drifts_intros]:
  "drifts I R (ret x)" "drifts I R (emit e)" "drifts I R getObj"
  "(\<And>x. I x \<Longrightarrow> I (f x)) \<Longrightarrow> drifts I R (modifyObj f)"
  by (simp_all add: drifts_def drift_refl)

lemma drifts_bind: "drifts I R m \<Longrightarrow> (\<And>a. drifts I R (f a)) \<Longrightarrow> drifts I R (State_Monad.bind m f)"
  by (rule drifts_bind_gen [OF _ _ drift_trans])

lemmas drifts_binds [drifts_intros] = drifts_bind_getObj drifts_bind

lemma drifts_forEach [drifts_intros]:
  "(\<And>x. x \<in> set xs \<Longrightarrow> drifts I R (body x)) \<Longrightarrow> drifts I R (forEach xs body)"
  by (induction xs) (auto intro!: drifts_binds drifts_still)

lemma drifts_retry [drifts_intros]:
  assumes "\<And>w. R w (snd (Client_api c req w))"
  shows "drifts I R (retryWithBackoff op (exchange c req dec))"
proof -
  have "drifts I R (exchange c req dec)"
    unfolding exchange_def by (intro drifts_binds drifts_still drifts_askEnv assms)
  then have "drifts I R (retryFrom op (exchange c req dec) k)" for k
  proof (induction op "exchange c req dec" k rule: retryFrom.induct)
    case (1 op k)
    then show ?case by (subst retryFrom.simps) (intro drifts_intros drifts_binds drifts_still; simp)
  qed
  then show ?thesis by (simp add: retryWithBackoff_def)
qed

lemma drifts_nodes [drifts_intros]:
  "(\<And>w. R w (snd (Clientset_getNode cs n w))) \<Longrightarrow> drifts I R (getNode cs n)"
  "(\<And>w. R w (snd (Clientset_patchNode cs n p w))) \<Longrightarrow> drifts I R (patchNode cs n p)"
  unfolding getNode_def patchNode_def by (intro drifts_binds drifts_still drifts_askEnv; assumption)+

end

section \<open>An honest cloud\<close>

text \<open>\<open>insts p q w\<close> reads the instances of project \<open>p\<close> in region \<open>q\<close> out of the state of the world.\<close>

type_synonym 'w inventory = "string \<Rightarrow> string \<Rightarrow> 'w \<Rightarrow> Instance list"

definition named :: "'w inventory \<Rightarrow> string \<Rightarrow> string \<Rightarrow> string \<Rightarrow> 'w \<Rightarrow> nat" where
  "named insts p q n w = length (filter (\<lambda>i. Instance_Name i = n) (insts p q w))"

definition noMore :: "'w inventory \<Rightarrow> 'w \<Rightarrow> 'w \<Rightarrow> bool" where
  "noMore insts w w' \<longleftrightarrow> (\<forall>p q n. named insts p q n w' \<le> named insts p q n w)"

text \<open>At most one more, and that of the name \<open>n\<close> in project \<open>p\<close> and region \<open>q\<close>.\<close>

definition oneMore :: "'w inventory \<Rightarrow> string \<Rightarrow> string \<Rightarrow> string \<Rightarrow> 'w \<Rightarrow> 'w \<Rightarrow> bool" where
  "oneMore insts p q n w w' \<longleftrightarrow>
     (\<forall>p' q' n'. named insts p' q' n' w' \<le> named insts p' q' n' w + of_bool ((p', q', n') = (p, q, n)))"

interpretation noMore: drift "noMore insts" for insts :: "'w inventory"
  unfolding noMore_def by unfold_locales (auto dest: order_trans, meson order_trans)

lemma noMore_oneMore: "noMore insts w w' \<Longrightarrow> oneMore insts p q n w w'"
  by (simp add: noMore_def oneMore_def trans_le_add1)

lemma oneMore_left: "noMore insts u v \<Longrightarrow> oneMore insts p q n v w \<Longrightarrow> oneMore insts p q n u w"
  unfolding noMore_def oneMore_def by (meson add_le_mono1 order_trans)

lemma oneMore_right: "oneMore insts p q n u v \<Longrightarrow> noMore insts v w \<Longrightarrow> oneMore insts p q n u w"
  unfolding noMore_def oneMore_def by (meson order_trans)

definition creation :: "'w Client \<Rightarrow> request \<Rightarrow> bool" where
  "creation c req \<longleftrightarrow> (\<exists>b. req = Post (projectPath c ''/instance'') b)"

text \<open>
  What the provider relies on of OVH: instances appear only by a request that creates one, a listing
  shows what there is, a request to create that succeeds adds one instance with the name and region
  asked for, and one that fails adds none.
\<close>

definition cloudOK :: "'w inventory \<Rightarrow> 'w Client \<Rightarrow> bool" where
  "cloudOK insts c \<longleftrightarrow>
     (\<forall>req w. \<not> creation c req \<longrightarrow> noMore insts w (snd (Client_api c req w)))
     \<and> (\<forall>w a xs w'. Client_api c (Get (projectPath c ''/instance'' @ regionQuery c)) w = (Inr a, w')
          \<and> asInstances a = Inr xs \<longrightarrow> insts (Client_serviceName c) (Client_region c) w' = xs)
     \<and> (\<forall>opts w. case Client_api c (Post (projectPath c ''/instance'') (BInstance opts)) w of
          (Inl e, w') \<Rightarrow> noMore insts w w'
        | (Inr a, w') \<Rightarrow> oneMore insts (Client_serviceName c) (CreateInstanceOpts_Region opts)
            (CreateInstanceOpts_Name opts) w w')"

text \<open>The nodes of a workload cluster are another matter.\<close>

definition nodesApart :: "'w inventory \<Rightarrow> 'w RestConfig \<Rightarrow> bool" where
  "nodesApart insts cfg \<longleftrightarrow>
     (\<forall>cs n p w. RestConfig_newForConfig cfg = Inr cs \<longrightarrow>
        noMore insts w (snd (Clientset_getNode cs n w)) \<and> noMore insts w (snd (Clientset_patchNode cs n p w)))"

lemma cloudOK_harmless: "cloudOK insts c \<Longrightarrow> \<not> creation c req \<Longrightarrow> noMore insts w (snd (Client_api c req w))"
  by (simp add: cloudOK_def)

lemma creation_simps [simp]:
  "\<not> creation c (Get p)" "\<not> creation c (Delete p)" "creation c (Post p b) \<longleftrightarrow> p = projectPath c ''/instance''"
  by (auto simp: creation_def)

section \<open>The client\<close>

lemma decode_settled: "asInstance a = Inl e \<Longrightarrow> \<not> IsRetryable (Some e)"
proof -
  have "\<not> IsRetryable (Some (Plain ''json: cannot unmarshal''))" by code_simp
  then show "asInstance a = Inl e \<Longrightarrow> \<not> IsRetryable (Some e)"
    by (auto simp: asInstance_def decode_def split: if_splits)
qed

abbreviation createRequest :: "'w Client \<Rightarrow> CreateInstanceOpts \<Rightarrow> request" where
  "createRequest c opts \<equiv> Post (projectPath c ''/instance'') (BInstance opts)"

abbreviation created :: "'w inventory \<Rightarrow> 'w Client \<Rightarrow> CreateInstanceOpts \<Rightarrow> 'w \<Rightarrow> 'w \<Rightarrow> bool" where
  "created insts c opts \<equiv>
     oneMore insts (Client_serviceName c) (CreateInstanceOpts_Region opts) (CreateInstanceOpts_Name opts)"

lemma create_answered:
  assumes "cloudOK insts c"
  shows "created insts c opts w (snd (Client_api c (createRequest c opts) w))"
    and "retryable (answer c (createRequest c opts) asInstance w)
      \<Longrightarrow> noMore insts w (snd (Client_api c (createRequest c opts) w))"
proof -
  obtain r w' where r: "Client_api c (createRequest c opts) w = (r, w')" by fastforce
  have "case Client_api c (createRequest c opts) w of (Inl e, w') \<Rightarrow> noMore insts w w'
      | (Inr a, w') \<Rightarrow> created insts c opts w w'"
    by (rule assms [unfolded cloudOK_def, THEN conjunct2, THEN conjunct2, THEN spec, THEN spec])
  then have law: "(case r of Inl e \<Rightarrow> noMore insts w w' | Inr a \<Rightarrow> created insts c opts w w')" by (simp add: r)
  then show "created insts c opts w (snd (Client_api c (createRequest c opts) w))"
    by (cases r) (simp_all add: r noMore_oneMore)
  show "noMore insts w (snd (Client_api c (createRequest c opts) w))"
    if "retryable (answer c (createRequest c opts) asInstance w)"
    using that law decode_settled by (cases r) (auto simp: r answer_def retryable_def split: sum.splits)
qed

text \<open>The retry loop repeats a creation only after a refusal.\<close>

lemma create_repeated:
  assumes "cloudOK insts c"
    and "\<forall>i < n. retryable (answer c (createRequest c opts) asInstance (after c (createRequest c opts) i w))"
  shows "noMore insts w (after c (createRequest c opts) n w)"
  using assms(2)
proof (induction n arbitrary: w)
  case (Suc n)
  let ?w = "snd (Client_api c (createRequest c opts) w)"
  from Suc.prems have "\<forall>i < n. retryable (answer c (createRequest c opts) asInstance (after c (createRequest c opts) i ?w))"
    by (metis Suc_less_eq after_simps(2))
  note rest = Suc.IH [OF this]
  from Suc.prems have "retryable (answer c (createRequest c opts) asInstance (after c (createRequest c opts) 0 w))" by blast
  then have "noMore insts w ?w" by (simp add: create_answered(2) [OF assms(1)])
  from noMore.drift_trans [OF this rest] show ?case by simp
qed (simp add: noMore.drift_refl)

lemma after_Suc: "after c req (Suc n) w = snd (Client_api c req (after c req n w))"
  by (simp add: after_def)

lemma CreateInstance_drifts:
  assumes "cloudOK insts c"
  shows "drifts I (created insts c opts) (CreateInstance c opts)"
proof -
  have "drifts I (created insts c opts) (retryWithBackoff op (exchange c (createRequest c opts) asInstance))" for op
  proof (rule driftsI)
    fix s a t
    assume i: "I (st_obj s)"
      and run: "run_state (retryWithBackoff op (exchange c (createRequest c opts) asInstance)) s = (a, t)"
    from retryFrom_run [of 0 c "createRequest c opts" asInstance s op] run obtain n where
      n: "\<forall>i < n. retryable (answer c (createRequest c opts) asInstance (after c (createRequest c opts) i (st_env s)))"
      and t: "st_obj t = st_obj s" "st_env t = after c (createRequest c opts) (Suc n) (st_env s)"
      by (auto simp: retryWithBackoff_def simp del: after_simps)
    have "created insts c opts (st_env s) (st_env t)"
      unfolding t(2) after_Suc
      by (rule oneMore_left [OF create_repeated [OF assms n] create_answered(1) [OF assms]])
    with i t(1) show "I (st_obj t) \<and> created insts c opts (st_env s) (st_env t)" by simp
  qed
  then show ?thesis
    unfolding CreateInstance_def by (rule drifts_bind_gen [OF _ noMore.drifts_still(1) oneMore_right])
qed

text \<open>After a listing that succeeds, the state is the one that was listed.\<close>

lemma ListInstances_listed:
  assumes "cloudOK insts c" and "run_state (ListInstances c) s = (Inr xs, t)"
  shows "insts (Client_serviceName c) (Client_region c) (st_env t) = xs"
proof -
  let ?req = "Get (projectPath c ''/instance'' @ regionQuery c)"
  obtain n where n: "answer c ?req asInstances (after c ?req n (st_env s)) = Inr xs"
    "st_env t = snd (Client_api c ?req (after c ?req n (st_env s)))"
    using assms(2) retryFrom_run [of 0 c ?req asInstances s "''ListInstances''"]
    by (auto simp: ListInstances_def retryWithBackoff_def wrapResult_def exhausted_def after_Suc simp del: after_simps
        split: prod.splits sum.splits if_splits)
  then obtain a where "Client_api c ?req (after c ?req n (st_env s)) = (Inr a, st_env t)" "asInstances a = Inr xs"
    by (cases "Client_api c ?req (after c ?req n (st_env s))") (auto simp: answer_def split: sum.splits)
  with assms(1) show ?thesis unfolding cloudOK_def by blast
qed

section \<open>The machine reconciler\<close>

lemmas machine_ops = GetInstance_def DeleteInstance_def FindInstanceByName_def ListInstances_def GetFlavorByName_def ListFlavors_def
  GetImageByName_def ListImages_def ListSnapshots_def GetSSHKeyByName_def ListSSHKeys_def ListPoolMembers_def
  AddPoolMember_def AddPoolMembers_def FindPoolByName_def RemovePoolMember_def DetachVolume_def DeleteVolume_def

definition apart :: "'w inventory \<Rightarrow> 'w Deps \<Rightarrow> bool" where
  "apart insts d \<longleftrightarrow> (\<forall>k cfg. Deps_RESTConfigFromKubeConfig d k = Inr cfg \<longrightarrow> nodesApart insts cfg)"

lemma InitializeWorkloadNode_drifts [drifts_intros]:
  "nodesApart insts cfg \<Longrightarrow> drifts I (noMore insts) (InitializeWorkloadNode cfg n p)"
  unfolding InitializeWorkloadNode_def initializeNode_def removeNodeTaint_def
  by (intro drifts_intros) (auto simp: nodesApart_def)

lemma initializeMachineNode_drifts [drifts_intros]:
  assumes "apart insts d"
  shows "drifts I (noMore insts) (initializeMachineNode d scope i)"
  unfolding initializeMachineNode_def using assms
  by (intro drifts_intros) (auto simp: apart_def getWorkloadRESTConfig_def split: sum.splits if_splits)

lemma lookup_drifts:
  assumes "cloudOK insts (MachineScope_OVHClient scope)"
  shows "drifts (hasMeta meta) (noMore insts) (lookup scope)"
  unfolding lookup_def orElse_def findKnownInstance_def adoptInstance_def findNamedInstance_def setStatus_def machine_ops
  by (intro drifts_intros) (auto intro: cloudOK_harmless [OF assms])

lemma handleExistingInstance_drifts:
  assumes "cloudOK insts (MachineScope_OVHClient scope)" and "apart insts d"
  shows "drifts (hasMeta meta) (noMore insts) (handleExistingInstance d scope i)"
  unfolding handleExistingInstance_def handleActive_def ensureLBPoolMember_def registerPoolMember_def
    ensureRKE2RegisterPoolMember_def setCondition_def setStatus_def machine_ops
  by (intro drifts_intros assms(2))
    (auto intro!: cloudOK_harmless [OF assms(1)] simp: regionPath_def projectPath_def)

lemma ReconcileDelete_drifts:
  assumes "cloudOK insts (MachineScope_OVHClient scope)"
  shows "drifts (\<lambda>_. True) (noMore insts) (ReconcileDelete d scope)"
  unfolding ReconcileDelete_def deleteBody_def removeLBPoolMember_def deleteInstance_def deleteVolume_def
    removeMachineFinalizer_def setFinalizers_def setStatus_def machine_ops
  by (intro drifts_intros) (auto intro!: cloudOK_harmless [OF assms] simp: projectPath_def)

text \<open>Creating adds at most one instance, under the machine's name, and whatever happens around it adds
  none.\<close>

lemma drifts_before:
  assumes "drifts I (noMore insts) m" and "\<And>a. drifts I (oneMore insts p q n) (f a)"
  shows "drifts I (oneMore insts p q n) (State_Monad.bind m f)"
  by (rule drifts_bind_gen [OF assms]) (rule oneMore_left)

lemma drifts_after:
  assumes "drifts I (oneMore insts p q n) m" and "\<And>a. drifts I (noMore insts) (f a)"
  shows "drifts I (oneMore insts p q n) (State_Monad.bind m f)"
  by (rule drifts_bind_gen [OF assms]) (rule oneMore_right)

lemma drifts_none: "drifts I (oneMore insts p q n) (ret x)"
  by (simp add: drifts_def oneMore_def)

abbreviation madeFor :: "'w inventory \<Rightarrow> 'w MachineScope \<Rightarrow> ObjectMeta \<Rightarrow> 'w \<Rightarrow> 'w \<Rightarrow> bool" where
  "madeFor insts scope meta \<equiv> oneMore insts (Client_serviceName (MachineScope_OVHClient scope))
     (OVHClusterSpec_Region (OVHCluster_Spec (MachineScope_OVHCluster scope)))
     (GenerateRFC1035Name [Cluster_Name (MachineScope_Cluster scope), ObjectMeta_Name meta])"

lemma submitInstance_drifts:
  assumes "cloudOK insts (MachineScope_OVHClient scope)"
  shows "drifts (hasMeta meta) (created insts (MachineScope_OVHClient scope) opts) (submitInstance d scope opts)"
  unfolding submitInstance_def setCondition_def setStatus_def
  by (intro drifts_before [OF noMore.drifts_still(2)] drifts_after [OF CreateInstance_drifts [OF assms]] drifts_intros)
    simp_all

lemma prepareInstance_drifts:
  assumes "cloudOK insts (MachineScope_OVHClient scope)"
  shows "drifts (hasMeta meta) (madeFor insts scope meta) (prepareInstance d scope flavor img)"
proof -
  have ssh: "drifts (hasMeta meta) (noMore insts) (resolveSSHKey scope k)" for k
    unfolding resolveSSHKey_def machine_ops by (intro drifts_intros) (auto intro: cloudOK_harmless [OF assms])
  have submit: "drifts (hasMeta meta) (madeFor insts scope meta)
      (submitInstance d scope (instanceOpts scope m flavor img key ud))" if "hasMeta meta m" for m key ud
    using submitInstance_drifts [OF assms, of meta "instanceOpts scope m flavor img key ud" d] that
    by (simp add: instanceOpts_def instanceName_def)
  show ?thesis
    unfolding prepareInstance_def
    by (intro drifts_bind_getObj drifts_case_sum drifts_none drifts_before [OF ssh] submit)
qed

lemma createInstance_drifts:
  assumes "cloudOK insts (MachineScope_OVHClient scope)"
  shows "drifts (hasMeta meta) (madeFor insts scope meta) (createInstance d scope)"
proof -
  have look: "drifts (hasMeta meta) (noMore insts) (GetFlavorByName (MachineScope_OVHClient scope) f)"
    "drifts (hasMeta meta) (noMore insts) (GetImageByName (MachineScope_OVHClient scope) i)" for f i
    unfolding machine_ops by (intro drifts_intros; auto intro: cloudOK_harmless [OF assms])+
  show ?thesis
    unfolding createInstance_def Let_def
    by (intro drifts_bind_getObj drifts_case_sum drifts_none drifts_before [OF look(1)] drifts_before [OF look(2)]
        prepareInstance_drifts [OF assms])
qed

text \<open>A lookup that finds nothing has just seen that there is no instance of the name.\<close>

lemma lookup_none_named:
  assumes "cloudOK insts (MachineScope_OVHClient scope)" and "run_state (lookup scope) s = (Inr None, t)"
  shows "named insts (Client_serviceName (MachineScope_OVHClient scope)) (Client_region (MachineScope_OVHClient scope))
    (instanceName scope (st_obj s)) (st_env t) = 0"
proof -
  obtain u v where u: "run_state (findKnownInstance scope) s = (Inr None, u)"
    and v: "run_state (adoptInstance scope) u = (Inr None, v)"
    and t: "run_state (findNamedInstance scope) v = (Inr None, t)"
    using assms(2) unfolding lookup_def by (blast dest: orElse_None)
  have "OVHMachine_ObjectMeta (st_obj u) = OVHMachine_ObjectMeta (st_obj s)"
    by (rule runsD [OF findKnownInstance_static [of "OVHMachine_Spec (st_obj s)" "OVHMachine_ObjectMeta (st_obj s)"] _ u]) auto
  with adoptInstance_None [OF v] have name: "instanceName scope (st_obj v) = instanceName scope (st_obj s)"
    by (simp add: instanceName_def)
  from FindInstanceByName_None [OF findNamedInstance_None [OF t]] obtain xs where
    xs: "run_state (ListInstances (MachineScope_OVHClient scope)) v = (Inr xs, t)"
    "\<forall>i \<in> set xs. Instance_Name i \<noteq> instanceName scope (st_obj v)" by blast
  from ListInstances_listed [OF assms(1) xs(1)] xs(2) show ?thesis
    by (simp add: named_def name)
qed

section \<open>At most one instance of a name\<close>

text \<open>No name gets a second instance: what there is more than one of was there before.\<close>

definition frugal :: "'w inventory \<Rightarrow> 'w \<Rightarrow> 'w \<Rightarrow> bool" where
  "frugal insts w w' \<longleftrightarrow> (\<forall>p q n. named insts p q n w' \<le> max 1 (named insts p q n w))"

interpretation frugal: drift "frugal insts" for insts :: "'w inventory"
proof
  show "frugal insts u w" if "frugal insts u v" "frugal insts v w" for u v w
    unfolding frugal_def
  proof (intro allI)
    fix p q n
    from that have "named insts p q n w \<le> max 1 (named insts p q n v)" "named insts p q n v \<le> max 1 (named insts p q n u)"
      by (simp_all add: frugal_def)
    then show "named insts p q n w \<le> max 1 (named insts p q n u)" by linarith
  qed
qed (simp add: frugal_def)

lemma noMore_frugal: "noMore insts w w' \<Longrightarrow> frugal insts w w'"
  by (simp add: noMore_def frugal_def le_max_iff_disj)

lemma oneMore_frugal: "oneMore insts p q n w w' \<Longrightarrow> named insts p q n w = 0 \<Longrightarrow> frugal insts w w'"
proof -
  assume m: "oneMore insts p q n w w'" and z: "named insts p q n w = 0"
  have "named insts p' q' n' w' \<le> max 1 (named insts p' q' n' w)" for p' q' n'
    using m [unfolded oneMore_def, rule_format, of p' q' n'] z by (cases "(p', q', n') = (p, q, n)") auto
  then show ?thesis by (simp add: frugal_def)
qed

lemmas drifts_frugal = drifts_mono [OF _ noMore_frugal]

text \<open>The client looks for an instance where the machine's instance is created.\<close>

definition scopeOK :: "'w inventory \<Rightarrow> 'w MachineScope \<Rightarrow> bool" where
  "scopeOK insts scope \<longleftrightarrow> cloudOK insts (MachineScope_OVHClient scope)
     \<and> Client_region (MachineScope_OVHClient scope) = OVHClusterSpec_Region (OVHCluster_Spec (MachineScope_OVHCluster scope))"

lemma reconcileInstance_frugal:
  assumes "scopeOK insts scope" and "apart insts d"
  shows "drifts (\<lambda>_. True) (frugal insts) (reconcileInstance d scope)"
proof (rule driftsI)
  fix s a t
  let ?c = "MachineScope_OVHClient scope"
  assume run: "run_state (reconcileInstance d scope) s = (a, t)"
  define meta where "meta = OVHMachine_ObjectMeta (st_obj s)"
  from assms(1) have ok: "cloudOK insts ?c"
    and reg: "Client_region ?c = OVHClusterSpec_Region (OVHCluster_Spec (MachineScope_OVHCluster scope))"
    by (simp_all add: scopeOK_def)
  obtain r u where u: "run_state (lookup scope) s = (r, u)" by fastforce
  with driftsD [OF lookup_drifts [OF ok, of meta] _ u] have
    look: "hasMeta meta (st_obj u)" "noMore insts (st_env s) (st_env u)" by (simp_all add: meta_def)
  have "frugal insts (st_env u) (st_env t)"
  proof (cases "r = Inr None")
    case True
    with run u have "run_state (createInstance d scope) u = (a, t)" by (simp add: reconcileInstance_lookup)
    from driftsD [OF createInstance_drifts [OF ok, of meta] look(1) this] lookup_none_named [OF ok u [unfolded True]]
    show ?thesis by (intro oneMore_frugal) (simp_all add: reg instanceName_def meta_def)
  next
    case False
    with run u look(1) show ?thesis
      using driftsD [OF handleExistingInstance_drifts [OF ok assms(2), of meta] look(1)]
      by (auto simp: reconcileInstance_lookup frugal.drift_refl noMore_frugal split: sum.splits option.splits)
  qed
  with noMore_frugal [OF look(2)] show "True \<and> frugal insts (st_env s) (st_env t)"
    by (blast intro: frugal.drift_trans)
qed

lemma ReconcileNormal_frugal:
  assumes "scopeOK insts scope" and "apart insts d"
  shows "drifts (\<lambda>_. True) (frugal insts) (ReconcileNormal d scope)"
proof -
  have "drifts (\<lambda>_. True) (frugal insts) (normalBody d scope)"
  proof (rule driftsI)
    fix s a t
    assume run: "run_state (normalBody d scope) s = (a, t)"
    show "True \<and> frugal insts (st_env s) (st_env t)"
    proof (cases "machineGuard d scope (st_obj s)")
      case True
      with driftsD [OF reconcileInstance_frugal [OF assms]] run show ?thesis by (simp add: normalBody_passes)
    next
      case False
      from wpD [OF normalBody_guarded [OF this] run] show ?thesis by (simp add: frugal.drift_refl)
    qed
  qed
  then show ?thesis
    unfolding ReconcileNormal_def by (intro frugal.drifts_binds frugal.drifts_still)
qed

text \<open>The laws for every client that a cluster of the management cluster can give.\<close>

definition worldOK :: "'w inventory \<Rightarrow> 'w Deps \<Rightarrow> bool" where
  "worldOK insts d \<longleftrightarrow> apart insts d
     \<and> (\<forall>ns name ovhCluster c. Deps_getOVHCluster d ns name = Inr ovhCluster
          \<and> GetOVHClientFromCluster (Deps_getSecret d) (Deps_goovh d) ovhCluster = Inr c \<longrightarrow> cloudOK insts c)"

lemma GetOVHClientFromCluster_where:
  assumes "GetOVHClientFromCluster getSecret goovh ovhCluster = Inr c"
  shows "Client_region c = OVHClusterSpec_Region (OVHCluster_Spec ovhCluster)"
    and "Client_serviceName c = OVHClusterSpec_ServiceName (OVHCluster_Spec ovhCluster)"
  using assms by (auto simp: GetOVHClientFromCluster_def NewClientFromSecret_def NewClient_def Let_def
      split: sum.splits if_splits)

lemma Reconcile_frugal:
  assumes "worldOK insts d"
  shows "drifts (\<lambda>_. True) (frugal insts) (Reconcile d ns name)"
proof -
  from assms have apart: "apart insts d" by (simp add: worldOK_def)
  have "drifts (\<lambda>_. True) (frugal insts) (reconcileFetched d m)" for m
    unfolding reconcileFetched_def
    using assms GetOVHClientFromCluster_where(1)
    by (intro drifts_intros frugal.drifts_still ReconcileNormal_frugal drifts_frugal [OF ReconcileDelete_drifts] apart)
      (auto simp: worldOK_def scopeOK_def)
  then show ?thesis
    unfolding Reconcile_def by (intro drifts_intros frugal.drifts_binds frugal.drifts_still) simp_all
qed

section \<open>The cluster reconciler\<close>

text \<open>Nothing that the cluster reconciler asks for is an instance.\<close>

lemmas cluster_ops = ValidateCredentials_def GetPrivateNetwork_def CreatePrivateNetwork_def DeletePrivateNetwork_def
  ListSubnets_def CreateSubnet_def GetLBFlavorByName_def ListLoadBalancersByPrefix_def ListGateways_def
  DeleteGateway_def ExposeGateway_def CreateLoadBalancerFloatingIP_def GetLoadBalancer_def
  DeleteLoadBalancer_def FindListenerByName_def FindPoolByName_def CreateListener_def CreatePool_def
  CreateHealthMonitor_def FindHealthMonitorByName_def ListFloatingIPs_def GetFloatingIP_def
  DeleteFloatingIP_def GetRegionInfo_def ListSecurityGroups_def CreateSecurityGroup_def
  DeleteSecurityGroup_def CreateSecurityGroupRule_def CreateDNSRecord_def DeleteDNSRecord_def
  RefreshDNSZone_def DeleteListener_def DeletePool_def ListLBFlavors_def findLoadBalancerByName_def ListListeners_def
  ListHealthMonitors_def

lemma cluster_ops_drift [drifts_intros]:
  assumes "cloudOK insts c"
  shows "drifts I (noMore insts) (ValidateCredentials c)"
    "drifts I (noMore insts) (GetPrivateNetwork c x2)"
    "drifts I (noMore insts) (CreatePrivateNetwork c x3)"
    "drifts I (noMore insts) (DeletePrivateNetwork c x4)"
    "drifts I (noMore insts) (ListSubnets c x5)"
    "drifts I (noMore insts) (CreateSubnet c x6 y6)"
    "drifts I (noMore insts) (GetLBFlavorByName c x7)"
    "drifts I (noMore insts) (ListLoadBalancersByPrefix c x8)"
    "drifts I (noMore insts) (ListGateways c)"
    "drifts I (noMore insts) (DeleteGateway c x10)"
    "drifts I (noMore insts) (ExposeGateway c x11)"
    "drifts I (noMore insts) (CreateLoadBalancerFloatingIP c x12 y12 z12)"
    "drifts I (noMore insts) (GetLoadBalancer c x13)"
    "drifts I (noMore insts) (DeleteLoadBalancer c x14)"
    "drifts I (noMore insts) (FindListenerByName c x15 y15)"
    "drifts I (noMore insts) (FindPoolByName c x16 y16)"
    "drifts I (noMore insts) (CreateListener c x17)"
    "drifts I (noMore insts) (CreatePool c x18)"
    "drifts I (noMore insts) (CreateHealthMonitor c x19)"
    "drifts I (noMore insts) (FindHealthMonitorByName c x20)"
    "drifts I (noMore insts) (ListFloatingIPs c)"
    "drifts I (noMore insts) (GetFloatingIP c x22)"
    "drifts I (noMore insts) (DeleteFloatingIP c x23)"
    "drifts I (noMore insts) (GetRegionInfo c)"
    "drifts I (noMore insts) (ListSecurityGroups c)"
    "drifts I (noMore insts) (CreateSecurityGroup c x26)"
    "drifts I (noMore insts) (DeleteSecurityGroup c x27)"
    "drifts I (noMore insts) (CreateSecurityGroupRule c x28 y28)"
    "drifts I (noMore insts) (CreateDNSRecord c x29 y29)"
    "drifts I (noMore insts) (DeleteDNSRecord c x30 y30)"
    "drifts I (noMore insts) (RefreshDNSZone c x31)"
    "drifts I (noMore insts) (DeleteListener c x40)" "drifts I (noMore insts) (DeletePool c x41)"
    "drifts I (noMore insts) (findLoadBalancerByName c x32)"
  unfolding cluster_ops
  by (intro drifts_intros; auto intro!: cloudOK_harmless [OF assms] simp: projectPath_def regionPath_def)+

lemma pollLoadBalancer_drifts:
  assumes "cloudOK insts c"
  shows "drifts I (noMore insts) (pollLoadBalancer c name k)"
  using assms
proof (induction c name k rule: pollLoadBalancer.induct)
  case (1 c name attempt)
  then show ?case by (subst pollLoadBalancer.simps) (intro drifts_intros; simp)
qed

lemma CreateLoadBalancer_drifts [drifts_intros]:
  assumes "cloudOK insts c"
  shows "drifts I (noMore insts) (CreateLoadBalancer c opts)"
  unfolding CreateLoadBalancer_def
  by (intro drifts_intros assms pollLoadBalancer_drifts) (auto intro!: cloudOK_harmless [OF assms] simp: projectPath_def regionPath_def)

lemmas cluster_steps = reconcileFailureDomains_def recordSG_def reconcileSecurityGroup_def reconcileDNS_def reconcileCredentials_def
  ensureNetwork_def checkNetwork_def ensureSubnet_def andThen_def networkReady_def reconcileNetwork_def discoverGateway_def
  ensureGatewayExposed_def recordFIP_def listedFloatingIP_def locateFloatingIP_def allocateFloatingIP_def
  discoverFloatingIP_def recordedFloatingIP_def reconcileFloatingIP_def ensurePoolHealthMonitor_def ensureListener_def
  ensurePool_def reconcileLBPort_def setEndpoint_def publishEndpoint_def exposeLB_def handleExistingLB_def submitLB_def
  prepareLB_def createLB_def adoptLB_def reconcileLoadBalancer_def clusterEndGame_def
  setClusterStatus_def setClusterCondition_def

lemma reconcileSecurityGroups_drifts [drifts_intros]:
  assumes "cloudOK insts (ClusterScope_OVHClient scope)"
  shows "drifts (\<lambda>_. True) (noMore insts) (reconcileSecurityGroups scope)"
proof -
  have "drifts (\<lambda>_. True) (noMore insts) (reconcileSecurityGroup scope sgs g)" for sgs g
    unfolding cluster_steps by (intro drifts_intros assms) simp_all
  then have "drifts (\<lambda>_. True) (noMore insts) (reconcileEachSecurityGroup scope sgs gs)" for sgs gs
    by (induction gs) (simp_all add: drifts_intros)
  then show ?thesis unfolding reconcileSecurityGroups_def cluster_steps by (intro drifts_intros assms) simp_all
qed

lemma ClusterReconcileNormal_drifts [drifts_intros]:
  assumes "cloudOK insts (ClusterScope_OVHClient scope)"
  shows "drifts (\<lambda>_. True) (noMore insts) (ClusterReconcileNormal d scope)"
proof -
  have net: "drifts (\<lambda>_. True) (noMore insts) (reconcileNetwork d scope)"
    "drifts (\<lambda>_. True) (noMore insts) (reconcileCredentials d scope)"
    unfolding cluster_steps by (intro drifts_intros assms; simp)+
  have port: "drifts (\<lambda>_. True) (noMore insts) (reconcileLBPort scope lb p a b)" for lb p a b
    unfolding cluster_steps by (intro drifts_intros assms) simp_all
  have fip: "drifts (\<lambda>_. True) (noMore insts) (reconcileFloatingIP scope lb)" for lb
    unfolding cluster_steps by (intro drifts_intros assms) simp_all
  have lb: "drifts (\<lambda>_. True) (noMore insts) (handleExistingLB d scope lb)" for lb
    unfolding handleExistingLB_def andThen_def exposeLB_def publishEndpoint_def setEndpoint_def setClusterStatus_def setClusterCondition_def
    by (intro drifts_intros port fip assms) simp_all
  have whole: "drifts (\<lambda>_. True) (noMore insts) (reconcileLoadBalancer d scope)"
    unfolding reconcileLoadBalancer_def createLB_def prepareLB_def submitLB_def adoptLB_def recordFIP_def setClusterStatus_def setClusterCondition_def
    by (intro drifts_intros lb assms) simp_all
  have "drifts (\<lambda>_. True) (noMore insts) (clusterEndGame d scope)"
    unfolding clusterEndGame_def reconcileDNS_def setClusterStatus_def setClusterCondition_def
    by (intro drifts_intros whole assms) simp_all
  then show ?thesis
    unfolding ClusterReconcileNormal_def clusterNormalBody_def reconcileFailureDomains_def setClusterFinalizers_def setClusterStatus_def setClusterCondition_def
    by (intro drifts_intros net assms) simp_all
qed

lemma ClusterReconcileDelete_drifts [drifts_intros]:
  assumes "cloudOK insts (ClusterScope_OVHClient scope)"
  shows "drifts (\<lambda>_. True) (noMore insts) (ClusterReconcileDelete d scope)"
proof -
  have fips: "drifts (\<lambda>_. True) (noMore insts) (cleanupFloatingIPs scope ids)" for ids
    by (induction ids) (simp, intro drifts_intros, simp, intro drifts_intros assms, assumption+)
  show ?thesis
    unfolding ClusterReconcileDelete_def clusterDeleteBody_def removeClusterFinalizer_def cleanupDNS_def cleanupSecurityGroup_def
      captureFloatingIPs_def deleteLB_def cleanupOrphanLBs_def cleanupGateway_def deleteNetwork_def
      setClusterFinalizers_def setClusterStatus_def setClusterCondition_def
    by (intro drifts_intros fips assms) simp_all
qed

lemma ClusterReconcile_frugal:
  assumes "worldOK insts d"
  shows "drifts (\<lambda>_. True) (frugal insts) (ClusterReconcile d ns name)"
proof (rule drifts_frugal)
  have "drifts (\<lambda>_. True) (noMore insts) (clusterReconcileFetched d m)" if "Deps_getOVHCluster d ns name = Inr m" for m
    unfolding clusterReconcileFetched_def setClusterCondition_def setClusterStatus_def using assms that
    by (intro drifts_intros) (auto simp: worldOK_def)
  then show "drifts (\<lambda>_. True) (noMore insts) (ClusterReconcile d ns name)"
    unfolding ClusterReconcile_def by (intro drifts_intros) simp_all
qed

section \<open>All calls together\<close>

text \<open>
  The outside world over time: calls of both reconcilers in any order, on whatever copy of the object
  they fetch, whether their patch is stored or lost, and between them anything that gives no name a
  second instance.
\<close>

inductive worldStep :: "'w Deps set \<Rightarrow> 'w inventory \<Rightarrow> 'w \<Rightarrow> 'w \<Rightarrow> bool" for D insts where
  machine: "d \<in> D \<Longrightarrow> run_state (Reconcile d ns name) s = (r, t) \<Longrightarrow> worldStep D insts (st_env s) (st_env t)"
| cluster: "d \<in> D \<Longrightarrow> run_state (ClusterReconcile d ns name) s = (r, t) \<Longrightarrow> worldStep D insts (st_env s) (st_env t)"
| outside: "frugal insts w w' \<Longrightarrow> worldStep D insts w w'"

lemma worldStep_frugal: "worldStep D insts w w' \<Longrightarrow> \<forall>d \<in> D. worldOK insts d \<Longrightarrow> frugal insts w w'"
  by (induction rule: worldStep.induct)
    (blast dest: driftsD [OF Reconcile_frugal] driftsD [OF ClusterReconcile_frugal])+

lemma worldSteps_frugal:
  assumes "(worldStep D insts)\<^sup>*\<^sup>* w w'" and "\<forall>d \<in> D. worldOK insts d"
  shows "frugal insts w w'"
  using assms(1)
  by (induction rule: rtranclp_induct)
    (auto intro: frugal.drift_refl frugal.drift_trans worldStep_frugal [OF _ assms(2)])

text \<open>C6: at most one instance per name. Whatever sequence of calls of the two reconcilers is made,
  repeated, on stale objects or with their patches lost, and whatever else happens in between that
  gives no name a second instance: a name that had at most one instance in a project and region still
  has at most one. The laws required of OVH are that a listing is complete and that a request to
  create an instance that fails has created none.\<close>

theorem at_most_one_instance:
  assumes "\<forall>d \<in> D. worldOK insts d"
    and "(worldStep D insts)\<^sup>*\<^sup>* w w'"
    and "named insts p q n w \<le> 1"
  shows "named insts p q n w' \<le> 1"
proof -
  have "named insts p q n w' \<le> max 1 (named insts p q n w)"
    using worldSteps_frugal [OF assms(2,1)] by (simp add: frugal_def)
  with assms(3) show ?thesis by simp
qed

text \<open>The last law is needed: the retry loop repeats a creation whose answer was lost, and leaves two
  instances of the name behind, of which the caller learns one.\<close>

fun lossyCloud :: "Instance list api" where
  "lossyCloud (Post p (BInstance opts)) w =
     (let i = zero_Instance\<lparr>Instance_Name := CreateInstanceOpts_Name opts\<rparr>
      in (if w = [] then Inl (APIError 504 ''Gateway Timeout'') else Inr (RInstance i), w @ [i]))"
| "lossyCloud req w = (Inl (APIError 404 ''not found''), w)"

lemma CreateInstance_twice:
  assumes "Client_api c = lossyCloud" and "st_env s = []"
  shows "map Instance_Name (st_env (snd (run_state (CreateInstance c opts) s))) =
    [CreateInstanceOpts_Name opts, CreateInstanceOpts_Name opts]"
  using assms
  by (simp add: CreateInstance_def retryWithBackoff_def retryFrom_again retryFrom_settled answer_def retryable_def IsRetryable_def
      asInstance_def decode_def maxRetries_def Let_def)

text \<open>A cloud that keeps the instances it was asked for, on two calls of the reconciler for the same
  machine of which the first loses its patch.\<close>

fun recordingCloud :: "Instance list api" where
  "recordingCloud (Post p (BInstance opts)) w =
     (if p = ''/cloud/project/p/instance'' \<and> CreateInstanceOpts_Region opts = ''GRA9''
      then (let i = (sampleInstance InstanceStatusBuild)\<lparr>Instance_Name := CreateInstanceOpts_Name opts\<rparr>
            in (Inr (RInstance i), w @ [i]))
      else (Inl (APIError 404 ''not found''), w))"
| "recordingCloud req w = (fst (sampleCloud w req ()), w)"

definition stored :: "Instance list inventory" where
  "stored p q w = (if p = ''p'' \<and> q = ''GRA9'' then w else [])"

abbreviation storedRun :: "Instance list \<Rightarrow> outcome \<times> (OVHMachine, Instance list, event) st" where
  "storedRun w \<equiv> run_state (Reconcile (sampleDeps recordingCloud) ''ns'' ''m'')
     \<lparr>st_obj = sampleOVHMachine, st_env = w, st_trace = []\<rparr>"

abbreviation recordingClient :: "Instance list Client" where
  "recordingClient \<equiv> \<lparr>Client_api = recordingCloud, Client_serviceName = ''p'', Client_region = ''GRA9''\<rparr>"

lemma recordingCloud_cloudOK: "cloudOK stored recordingClient"
proof -
  have "noMore stored w (snd (recordingCloud req w))" if "\<nexists>b. req = Post ''/cloud/project/p/instance'' b" for req w
    using that by (cases "(req, w)" rule: recordingCloud.cases) (auto simp: noMore_def)
  moreover have "oneMore stored ''p'' ''GRA9'' n w (w @ [i\<lparr>Instance_Name := n\<rparr>])" for n w i
    by (simp add: oneMore_def named_def stored_def)
  ultimately show ?thesis
    by (auto simp: cloudOK_def creation_def projectPath_def regionQuery_def asInstances_def decode_def stored_def noMore_def Let_def)
qed

lemma recordingCloud_ok: "worldOK stored (sampleDeps recordingCloud)"
  using recordingCloud_cloudOK
  by (simp add: worldOK_def apart_def sampleDeps_def GetOVHClientFromCluster_def NewClientFromSecret_def NewClient_def
      secretString_def sampleSecret_def sampleOVHCluster_def zero_OVHCluster_def zero_OVHClusterSpec_def Let_def)

lemma storedRun_first: "map Instance_Name (st_env (snd (storedRun []))) = [''a-m'']"
  by (simp add: Reconcile_def reconcileFetched_def GetOVHClientFromCluster_def NewClientFromSecret_def NewClient_def
      secretString_def ReconcileNormal_def normalBody_def sampleDeps_def reconcileInstance_def orElse_def
      findKnownInstance_def adoptInstance_def findNamedInstance_def sample_defs instanceName_def
      sampleName FindInstanceByName_def ListInstances_def settled_ok projectPath_def regionQuery_def
      asInstances_def decode_def wrapResult_def createInstance_def GetFlavorByName_def ListFlavors_def
      GetImageByName_def ListImages_def asFlavors_def asImages_def sampleFlavor_def sampleFlavor_fold
      isUUID_def sampleImage_found prepareInstance_def getBootstrapData_def sampleSecret_def
      PrepareUserData_def resolveSSHKey_def GetSSHKeyName_def submitInstance_def CreateInstance_def
      instanceOpts_def asInstance_def setStatus_def setCondition_def pauseAnnotation_def Let_def)

theorem at_most_one_instance_witness:
  "let w = st_env (snd (storedRun [])) in
     map Instance_Name w = [''a-m''] \<and> named stored ''p'' ''GRA9'' ''a-m'' (st_env (snd (storedRun w))) \<le> 1"
proof -
  define D where "D = {sampleDeps recordingCloud}"
  have step: "worldStep D stored w (st_env (snd (storedRun w)))" for w
    using worldStep.machine [OF _ run_pair, of "sampleDeps recordingCloud" D stored
        "\<lparr>st_obj = sampleOVHMachine, st_env = w, st_trace = []\<rparr>" "''ns''" "''m''"] by (simp add: D_def)
  have "(worldStep D stored)\<^sup>*\<^sup>* [] (st_env (snd (storedRun (st_env (snd (storedRun []))))))"
    using step by (meson converse_rtranclp_into_rtranclp rtranclp.rtrancl_refl)
  from at_most_one_instance [OF _ this, of "''p''" "''GRA9''" "''a-m''"] recordingCloud_ok storedRun_first
  show ?thesis by (simp add: D_def named_def stored_def Let_def)
qed

end
