(* ===== verification/Json.thy ===== *)
theory Json
  imports Go_Prelude
begin

text \<open>
  Reading JSON as Go's \<^verbatim>\<open>encoding/json\<close> does: a machine that takes one byte at a time, with
  a stack of the arrays and objects that are open, and a limit on their depth. A string literal is
  checked while it is read and unquoted when it ends; bytes outside the ASCII range are taken as they
  are, as in valid UTF-8. A number keeps its text until it is decoded into a type.
\<close>

datatype json =
  JNull | JBool bool | JNumber string | JString string | JArray "json list"
  | JObject "(string \<times> json) list"

section \<open>Characters and string literals\<close>

abbreviation backslash :: char where "backslash \<equiv> CHR 0x5C"
abbreviation quotation :: char where "quotation \<equiv> CHR 0x22"

definition isSpace :: "char \<Rightarrow> bool" where
  "isSpace c = (let n = (of_char c :: nat) in n = 32 \<or> n = 9 \<or> n = 10 \<or> n = 13)"

definition isDigit :: "char \<Rightarrow> bool" where
  "isDigit c = (let n = (of_char c :: nat) in 48 \<le> n \<and> n \<le> 57)"

definition hexValue :: "char \<Rightarrow> nat option" where
  "hexValue c =
     (let n = (of_char c :: nat) in
      if 48 \<le> n \<and> n \<le> 57 then Some (n - 48)
      else if 97 \<le> n \<and> n \<le> 102 then Some (n - 87)
      else if 65 \<le> n \<and> n \<le> 70 then Some (n - 55)
      else None)"

definition hex4 :: "char \<Rightarrow> char \<Rightarrow> char \<Rightarrow> char \<Rightarrow> nat" where
  "hex4 a b c d = foldl (\<lambda>n x. n * 16 + (case hexValue x of None \<Rightarrow> 0 | Some v \<Rightarrow> v)) 0 [a, b, c, d]"

definition utf8 :: "nat \<Rightarrow> string" where
  "utf8 r =
     (if r < 128 then [char_of r]
      else if r < 2048 then [char_of (192 + r div 64), char_of (128 + r mod 64)]
      else if r < 65536
      then [char_of (224 + r div 4096), char_of (128 + r div 64 mod 64), char_of (128 + r mod 64)]
      else [char_of (240 + r div 262144), char_of (128 + r div 4096 mod 64),
            char_of (128 + r div 64 mod 64), char_of (128 + r mod 64)])"

text \<open>The characters that may follow a backslash, and what the pair stands for.\<close>

definition escapes :: "(char \<times> char) list" where
  "escapes = [(CHR ''b'', char_of (8::nat)), (CHR ''f'', char_of (12::nat)), (CHR ''n'', char_of (10::nat)),
     (CHR ''r'', char_of (13::nat)), (CHR ''t'', char_of (9::nat)), (backslash, backslash),
     (CHR ''/'', CHR ''/''), (quotation, quotation)]"

text \<open>The rune of \<^verbatim>\<open>\uXXXX\<close> at the start of the text, and what follows it.\<close>

definition takeRune :: "string \<Rightarrow> (nat \<times> string) option" where
  "takeRune s =
     (case s of
        x # y # a # b # c # d # rest \<Rightarrow>
          if x = backslash \<and> y = CHR ''u'' then Some (hex4 a b c d, rest) else None
      | _ \<Rightarrow> None)"

lemma takeRune_shorter [termination_simp]: "takeRune s = Some (r, t) \<Longrightarrow> length t < length s"
  by (auto simp: takeRune_def split: list.splits if_splits)

text \<open>A surrogate that is not the first half of a pair becomes the replacement character.\<close>

function (sequential) unquote :: "string \<Rightarrow> string" where
  "unquote [] = []"
| "unquote (c # s) =
     (if c \<noteq> backslash then c # unquote s
      else case takeRune (c # s) of
          Some (r, rest) \<Rightarrow>
            if r < 55296 \<or> 57343 < r then utf8 r @ unquote rest
            else (case takeRune rest of
                Some (r', rest') \<Rightarrow>
                  if r < 56320 \<and> 56320 \<le> r' \<and> r' \<le> 57343
                  then utf8 (65536 + (r - 55296) * 1024 + (r' - 56320)) @ unquote rest'
                  else utf8 65533 @ unquote rest
              | None \<Rightarrow> utf8 65533 @ unquote rest)
        | None \<Rightarrow>
            (case s of
               [] \<Rightarrow> []
             | e # t \<Rightarrow> (case map_of escapes e of None \<Rightarrow> e | Some x \<Rightarrow> x) # unquote t))"
  by pat_completeness auto
termination
  by (relation "measure length") (auto dest!: takeRune_shorter)

section \<open>The scanner\<close>

datatype num = NNeg | NZero | NInt | NDot | NFrac | NExp | NExpSign | NExpDigits

datatype frame = InArray "json list" | InObject "(string \<times> json) list" | AtKey "(string \<times> json) list" string

text \<open>In a string: whether it is a key, and its raw text so far. In a literal: what is still to come.\<close>

datatype mode =
    WantValue | WantElem | WantKey | WantFirstKey | WantColon | AfterValue
  | InString bool string | Escaped bool string | HexDigits bool nat string
  | InNumber num string | InLiteral string json

datatype scan = Scan mode "frame list" | Complete json | Bad

definition maxNestingDepth :: nat where "maxNestingDepth = 10000"

definition openFrame :: "mode \<Rightarrow> frame \<Rightarrow> frame list \<Rightarrow> scan" where
  "openFrame m f st = (if length st < maxNestingDepth then Scan m (f # st) else Bad)"

fun pushValue :: "json \<Rightarrow> frame list \<Rightarrow> scan" where
  "pushValue v [] = Complete v"
| "pushValue v (InArray vs # st) = Scan AfterValue (InArray (vs @ [v]) # st)"
| "pushValue v (AtKey kvs k # st) = Scan AfterValue (InObject (kvs @ [(k, v)]) # st)"
| "pushValue v (InObject kvs # st) = Bad"

definition beginValue :: "char \<Rightarrow> frame list \<Rightarrow> scan" where
  "beginValue c st =
     (if c = CHR ''{'' then openFrame WantFirstKey (InObject []) st
      else if c = CHR ''['' then openFrame WantElem (InArray []) st
      else if c = quotation then Scan (InString False []) st
      else if c = CHR ''-'' then Scan (InNumber NNeg [c]) st
      else if c = CHR ''0'' then Scan (InNumber NZero [c]) st
      else if isDigit c then Scan (InNumber NInt [c]) st
      else if c = CHR ''t'' then Scan (InLiteral ''rue'' (JBool True)) st
      else if c = CHR ''f'' then Scan (InLiteral ''alse'' (JBool False)) st
      else if c = CHR ''n'' then Scan (InLiteral ''ull'' JNull) st
      else Bad)"

text \<open>A byte after a value: a separator, the end of the enclosing value, or white space.\<close>

fun afterByte :: "char \<Rightarrow> frame list \<Rightarrow> scan" where
  "afterByte c (InArray vs # st) =
     (if isSpace c then Scan AfterValue (InArray vs # st)
      else if c = CHR '','' then Scan WantValue (InArray vs # st)
      else if c = CHR '']'' then pushValue (JArray vs) st else Bad)"
| "afterByte c (InObject kvs # st) =
     (if isSpace c then Scan AfterValue (InObject kvs # st)
      else if c = CHR '','' then Scan WantKey (InObject kvs # st)
      else if c = CHR ''}'' then pushValue (JObject kvs) st else Bad)"
| "afterByte c _ = Bad"

definition endString :: "bool \<Rightarrow> string \<Rightarrow> frame list \<Rightarrow> scan" where
  "endString key raw st =
     (if \<not> key then pushValue (JString (unquote raw)) st
      else case st of
          InObject kvs # st' \<Rightarrow> Scan WantColon (AtKey kvs (unquote raw) # st')
        | _ \<Rightarrow> Bad)"

text \<open>How a number goes on; \<open>None\<close> when the byte does not belong to it.\<close>

definition numNext :: "num \<Rightarrow> char \<Rightarrow> num option" where
  "numNext n c =
     (case n of
        NNeg \<Rightarrow> if c = CHR ''0'' then Some NZero else if isDigit c then Some NInt else None
      | NZero \<Rightarrow> if c = CHR ''.'' then Some NDot
               else if c = CHR ''e'' \<or> c = CHR ''E'' then Some NExp else None
      | NInt \<Rightarrow> if isDigit c then Some NInt else if c = CHR ''.'' then Some NDot
              else if c = CHR ''e'' \<or> c = CHR ''E'' then Some NExp else None
      | NDot \<Rightarrow> if isDigit c then Some NFrac else None
      | NFrac \<Rightarrow> if isDigit c then Some NFrac
               else if c = CHR ''e'' \<or> c = CHR ''E'' then Some NExp else None
      | NExp \<Rightarrow> if c = CHR ''+'' \<or> c = CHR ''-'' then Some NExpSign
              else if isDigit c then Some NExpDigits else None
      | NExpSign \<Rightarrow> if isDigit c then Some NExpDigits else None
      | NExpDigits \<Rightarrow> if isDigit c then Some NExpDigits else None)"

definition numFinal :: "num \<Rightarrow> bool" where
  "numFinal n \<longleftrightarrow> n \<in> {NZero, NInt, NFrac, NExpDigits}"

definition endByte :: "char \<Rightarrow> scan \<Rightarrow> scan" where
  "endByte c r =
     (case r of
        Scan AfterValue st \<Rightarrow> afterByte c st
      | Complete v \<Rightarrow> if isSpace c then Complete v else Bad
      | _ \<Rightarrow> Bad)"

fun scanMode :: "char \<Rightarrow> mode \<Rightarrow> frame list \<Rightarrow> scan" where
  "scanMode c WantValue st = (if isSpace c then Scan WantValue st else beginValue c st)"
| "scanMode c WantElem st =
     (if isSpace c then Scan WantElem st
      else if c = CHR '']'' then (case st of InArray vs # st' \<Rightarrow> pushValue (JArray vs) st' | _ \<Rightarrow> Bad)
      else beginValue c st)"
| "scanMode c WantFirstKey st =
     (if isSpace c then Scan WantFirstKey st
      else if c = CHR ''}'' then (case st of InObject kvs # st' \<Rightarrow> pushValue (JObject kvs) st' | _ \<Rightarrow> Bad)
      else if c = quotation then Scan (InString True []) st else Bad)"
| "scanMode c WantKey st =
     (if isSpace c then Scan WantKey st
      else if c = quotation then Scan (InString True []) st else Bad)"
| "scanMode c WantColon st =
     (if isSpace c then Scan WantColon st else if c = CHR '':'' then Scan WantValue st else Bad)"
| "scanMode c AfterValue st = afterByte c st"
| "scanMode c (InString key raw) st =
     (if c = quotation then endString key raw st
      else if c = backslash then Scan (Escaped key (raw @ [c])) st
      else if (of_char c :: nat) < 32 then Bad
      else Scan (InString key (raw @ [c])) st)"
| "scanMode c (Escaped key raw) st =
     (if c = CHR ''u'' then Scan (HexDigits key 4 (raw @ [c])) st
      else if map_of escapes c = None then Bad else Scan (InString key (raw @ [c])) st)"
| "scanMode c (HexDigits key n raw) st =
     (if hexValue c = None then Bad
      else if n \<le> 1 then Scan (InString key (raw @ [c])) st
      else Scan (HexDigits key (n - 1) (raw @ [c])) st)"
| "scanMode c (InNumber n s) st =
     (case numNext n c of
        Some n' \<Rightarrow> Scan (InNumber n' (s @ [c])) st
      | None \<Rightarrow> if numFinal n then endByte c (pushValue (JNumber s) st) else Bad)"
| "scanMode c (InLiteral s v) st =
     (case s of
        [] \<Rightarrow> Bad
      | x # xs \<Rightarrow> if c \<noteq> x then Bad else if xs = [] then pushValue v st else Scan (InLiteral xs v) st)"

fun scanByte :: "char \<Rightarrow> scan \<Rightarrow> scan" where
  "scanByte c (Scan m st) = scanMode c m st"
| "scanByte c (Complete v) = (if isSpace c then Complete v else Bad)"
| "scanByte c Bad = Bad"

text \<open>At the end of the text only a number may still be open.\<close>

definition scanEnd :: "scan \<Rightarrow> json option" where
  "scanEnd r =
     (case r of
        Complete v \<Rightarrow> Some v
      | Scan (InNumber n s) [] \<Rightarrow> if numFinal n then Some (JNumber s) else None
      | _ \<Rightarrow> None)"

definition parseJson :: "string \<Rightarrow> json option" where
  "parseJson s = scanEnd (fold scanByte s (Scan WantValue []))"

section \<open>Reading what was written\<close>

text \<open>Feeding the machine a text in pieces.\<close>

abbreviation feed :: "string \<Rightarrow> scan \<Rightarrow> scan" where "feed \<equiv> fold scanByte"

text \<open>\<open>quoted raw s\<close>: the raw text passes the scanner inside a literal and stands for \<open>s\<close>.\<close>

definition quoted :: "string \<Rightarrow> string \<Rightarrow> bool" where
  "quoted raw s \<longleftrightarrow>
     (\<forall>key pre st. feed raw (Scan (InString key pre) st) = Scan (InString key (pre @ raw)) st)
     \<and> (\<forall>t. unquote (raw @ t) = s @ unquote t)"

lemma quoted_Nil [simp]: "quoted [] []"
  by (simp add: quoted_def)

lemma quoted_append: "quoted r s \<Longrightarrow> quoted r' s' \<Longrightarrow> quoted (r @ r') (s @ s')"
  by (simp add: quoted_def)

lemma quoted_concat: "(\<And>c. c \<in> set s \<Longrightarrow> quoted (f c) [c]) \<Longrightarrow> quoted (concat (map f s)) s"
proof (induction s)
  case (Cons c s)
  then show ?case using quoted_append [of "f c" "[c]" "concat (map f s)" s] by simp
qed simp

lemma quoted_plain:
  assumes "c \<noteq> quotation" and "c \<noteq> backslash" and "32 \<le> (of_char c :: nat)"
  shows "quoted [c] [c]"
  using assms by (simp add: quoted_def)

lemma quoted_escape:
  assumes "map_of escapes e = Some c" and "e \<noteq> CHR ''u''"
  shows "quoted [backslash, e] [c]"
  using assms by (auto simp: quoted_def takeRune_def split: list.split)

lemma hexValue_digitChar: "d < 16 \<Longrightarrow> hexValue (digitChar d) = Some d"
  by (auto simp: hexValue_def digitChar_def Let_def of_char_of)

lemma quoted_rune:
  assumes "n < 128"
  shows "quoted (backslash # ''u00'' @ [digitChar (n div 16), digitChar (n mod 16)]) [char_of n]"
proof -
  have d: "hexValue (digitChar (n div 16)) = Some (n div 16)" "hexValue (digitChar (n mod 16)) = Some (n mod 16)"
    using assms by (simp_all add: hexValue_digitChar)
  have "hexValue (CHR ''0'') = Some 0" by (simp add: hexValue_def)
  with d have r: "hex4 (CHR ''0'') (CHR ''0'') (digitChar (n div 16)) (digitChar (n mod 16)) = n"
    by (simp add: hex4_def)
  show ?thesis
    using assms d r by (simp add: quoted_def takeRune_def utf8_def hexValue_def)
qed

lemma feed_string:
  assumes "quoted raw s"
  shows "feed (quotation # raw @ [quotation]) (Scan WantValue st) = pushValue (JString s) st"
    and "feed (quotation # raw @ [quotation]) (Scan WantElem st) = pushValue (JString s) st"
    and "feed (quotation # raw @ [quotation]) (Scan WantFirstKey (InObject kvs # st)) = Scan WantColon (AtKey kvs s # st)"
    and "feed (quotation # raw @ [quotation]) (Scan WantKey (InObject kvs # st)) = Scan WantColon (AtKey kvs s # st)"
proof -
  have f: "feed raw (Scan (InString key []) st') = Scan (InString key raw) st'" for key st'
    using assms by (simp add: quoted_def)
  from assms have "unquote (raw @ []) = s @ unquote []" unfolding quoted_def by blast
  then have u: "unquote raw = s" by simp
  note eval = beginValue_def endString_def isSpace_def f u
  show "feed (quotation # raw @ [quotation]) (Scan WantValue st) = pushValue (JString s) st"
    by (simp add: eval)
  show "feed (quotation # raw @ [quotation]) (Scan WantElem st) = pushValue (JString s) st"
    by (simp add: eval)
  show "feed (quotation # raw @ [quotation]) (Scan WantFirstKey (InObject kvs # st)) = Scan WantColon (AtKey kvs s # st)"
    by (simp add: eval)
  show "feed (quotation # raw @ [quotation]) (Scan WantKey (InObject kvs # st)) = Scan WantColon (AtKey kvs s # st)"
    by (simp add: eval)
qed

text \<open>\<open>writes d s v\<close>: the text \<open>s\<close>, wherever a value may stand, is read as \<open>v\<close>, unless fewer than
  \<open>d\<close> levels of nesting are left.\<close>

definition writes :: "nat \<Rightarrow> string \<Rightarrow> json \<Rightarrow> bool" where
  "writes d s v \<longleftrightarrow>
     (\<forall>st m. length st + d \<le> maxNestingDepth \<and> (m = WantValue \<or> m = WantElem)
        \<longrightarrow> feed s (Scan m st) = pushValue v st)"

lemma writesD:
  "writes d s v \<Longrightarrow> length st + d \<le> maxNestingDepth \<Longrightarrow> m = WantValue \<or> m = WantElem
    \<Longrightarrow> feed s (Scan m st) = pushValue v st"
  by (simp add: writes_def)

lemma writes_string: "quoted raw s \<Longrightarrow> writes d (quotation # raw @ [quotation]) (JString s)"
  unfolding writes_def using feed_string(1,2) by blast

lemmas punctuation = isSpace_def beginValue_def openFrame_def

text \<open>Arrays and objects, written without white space.\<close>

lemma feed_elems:
  assumes "\<And>y. y \<in> set (x # xs) \<Longrightarrow> writes d (f y) (g y)" and "length st + d < maxNestingDepth"
    and "m = WantValue \<or> m = WantElem"
  shows "feed (strings_Join (map f (x # xs)) '','') (Scan m (InArray vs # st))
    = Scan AfterValue (InArray (vs @ map g (x # xs)) # st)"
  using assms(1,3)
proof (induction xs arbitrary: x vs m)
  case Nil
  with assms(2) show ?case by (simp add: writesD [of d])
next
  case (Cons y xs)
  have "feed (strings_Join (map f (y # xs)) '','') (Scan WantValue (InArray (vs @ [g x]) # st))
      = Scan AfterValue (InArray ((vs @ [g x]) @ map g (y # xs)) # st)"
    by (rule Cons.IH) (use Cons.prems in auto)
  moreover have "feed (f x) (Scan m (InArray vs # st)) = pushValue (g x) (InArray vs # st)"
    by (rule writesD) (use Cons.prems assms(2) in auto)
  ultimately show ?case by (simp add: isSpace_def)
qed

lemma writes_array:
  assumes "\<And>x. x \<in> set xs \<Longrightarrow> writes d (f x) (g x)"
  shows "writes (Suc d) (CHR ''['' # strings_Join (map f xs) '','' @ '']'') (JArray (map g xs))"
proof (cases xs)
  case Nil
  then show ?thesis by (auto simp: writes_def punctuation)
next
  case (Cons x ys)
  have "feed (strings_Join (map f xs) '','') (Scan WantElem (InArray [] # st))
      = Scan AfterValue (InArray (map g xs) # st)"
    if "length st + Suc d \<le> maxNestingDepth" for st
    using feed_elems [of x ys d f g st WantElem "[]"] assms that by (simp add: Cons)
  then show ?thesis by (auto simp: writes_def punctuation)
qed

text \<open>A field of an object: a name without special characters, and the text and value of the field.\<close>

type_synonym jsonMember = "string \<times> string \<times> json"

definition fieldText :: "jsonMember \<Rightarrow> string" where
  "fieldText x = (case x of (k, s, v) \<Rightarrow> quotation # k @ quotation # CHR '':'' # s)"

definition fieldValue :: "jsonMember \<Rightarrow> string \<times> json" where
  "fieldValue x = (case x of (k, s, v) \<Rightarrow> (k, v))"

definition writesField :: "nat \<Rightarrow> jsonMember \<Rightarrow> bool" where
  "writesField d x \<longleftrightarrow> (case x of (k, s, v) \<Rightarrow> quoted k k \<and> writes d s v)"

lemma feed_field:
  assumes "writesField d x" and "length st + d < maxNestingDepth" and "m = WantFirstKey \<or> m = WantKey"
  shows "feed (fieldText x) (Scan m (InObject kvs # st)) = Scan AfterValue (InObject (kvs @ [fieldValue x]) # st)"
proof -
  obtain k s v where x: "x = (k, s, v)" by (cases x) auto
  with assms(1) have k: "quoted k k" and s: "writes d s v" by (simp_all add: writesField_def)
  have "fieldText x = (quotation # k @ [quotation]) @ CHR '':'' # s" by (simp add: x fieldText_def)
  moreover have "feed (quotation # k @ [quotation]) (Scan m (InObject kvs # st)) = Scan WantColon (AtKey kvs k # st)"
    using assms(3) feed_string(3,4) [OF k] by blast
  moreover have "feed s (Scan WantValue (AtKey kvs k # st)) = pushValue v (AtKey kvs k # st)"
    by (rule writesD [OF s]) (use assms(2) in auto)
  ultimately show ?thesis by (simp only: fold_append) (simp add: x fieldValue_def isSpace_def)
qed

lemma feed_fields:
  assumes "\<And>y. y \<in> set (x # xs) \<Longrightarrow> writesField d y" and "length st + d < maxNestingDepth"
    and "m = WantFirstKey \<or> m = WantKey"
  shows "feed (strings_Join (map fieldText (x # xs)) '','') (Scan m (InObject kvs # st))
    = Scan AfterValue (InObject (kvs @ map fieldValue (x # xs)) # st)"
  using assms(1,3)
proof (induction xs arbitrary: x kvs m)
  case Nil
  with assms(2) show ?case by (simp add: feed_field [of d])
next
  case (Cons y xs)
  have "feed (strings_Join (map fieldText (y # xs)) '','') (Scan WantKey (InObject (kvs @ [fieldValue x]) # st))
      = Scan AfterValue (InObject ((kvs @ [fieldValue x]) @ map fieldValue (y # xs)) # st)"
    by (rule Cons.IH) (use Cons.prems in auto)
  moreover have "feed (fieldText x) (Scan m (InObject kvs # st))
      = Scan AfterValue (InObject (kvs @ [fieldValue x]) # st)"
    by (rule feed_field) (use Cons.prems assms(2) in auto)
  ultimately show ?case by (simp add: isSpace_def)
qed

lemma writes_object:
  assumes "fs \<noteq> []" and "\<And>y. y \<in> set fs \<Longrightarrow> writesField d y"
  shows "writes (Suc d) (CHR ''{'' # strings_Join (map fieldText fs) '','' @ ''}'') (JObject (map fieldValue fs))"
proof -
  obtain x xs where fs: "fs = x # xs" using assms(1) by (cases fs) auto
  have "feed (strings_Join (map fieldText fs) '','') (Scan WantFirstKey (InObject [] # st))
      = Scan AfterValue (InObject (map fieldValue fs) # st)"
    if "length st + Suc d \<le> maxNestingDepth" for st
    using feed_fields [of x xs d st WantFirstKey "[]"] assms that by (simp add: fs)
  then show ?thesis by (auto simp: writes_def punctuation)
qed

lemma parse_writes: "writes d s v \<Longrightarrow> d \<le> maxNestingDepth \<Longrightarrow> parseJson s = Some v"
  unfolding parseJson_def by (simp add: writesD scanEnd_def)

end
