(* ===== verification/Patches.thy ===== *)
theory Patches
  imports Workload Json
begin

text \<open>
  The two merge patches of \<^verbatim>\<open>util/node_init.go\<close>, read back as JSON. The taints are marshalled
  by the library; the provider ID is written with the verb \<^verbatim>\<open>%q\<close>, which quotes as Go does and
  not as JSON does.
\<close>

lemma ascii_marks: "char_of (34::nat) = quotation" "char_of (92::nat) = backslash"
  by code_simp+

section \<open>Marshalled taints\<close>

lemma quoted_special:
  "quoted [backslash, quotation] [quotation]" "quoted [backslash, backslash] [backslash]"
  "quoted (backslash # ''b'') [char_of (8::nat)]" "quoted (backslash # ''f'') [char_of (12::nat)]"
  "quoted (backslash # ''n'') [char_of (10::nat)]" "quoted (backslash # ''r'') [char_of (13::nat)]"
  "quoted (backslash # ''t'') [char_of (9::nat)]"
  by (auto intro!: quoted_escape simp: escapes_def)

lemma char_cases: "of_char c = (n::nat) \<Longrightarrow> c = char_of n"
  by (metis char_of_char)

lemma quoted_jsonChar: "quoted (jsonChar c) [c]"
proof -
  let ?n = "of_char c :: nat"
  have c: "c = char_of ?n" by simp
  show ?thesis
  proof (cases "?n < 32 \<and> ?n \<notin> {8, 9, 10, 12, 13} \<or> ?n \<in> {38, 60, 62}")
    case True
    then have "quoted (backslash # ''u00'' @ [digitChar (?n div 16), digitChar (?n mod 16)]) [char_of ?n]"
      by (intro quoted_rune) auto
    with True show ?thesis by (auto simp: jsonChar_def Let_def ascii_marks)
  next
    case False
    show ?thesis
      using False quoted_special
      by (auto simp: jsonChar_def Let_def ascii_marks dest: char_cases intro!: quoted_plain)
  qed
qed

lemma writes_jsonString: "writes d (jsonString s) (JString s)"
  using writes_string [OF quoted_concat [of s jsonChar, OF quoted_jsonChar], of d]
  by (simp add: jsonString_def ascii_marks)

lemma fieldText_json: "fieldText (k, s, v) = jsonField k s"
  by (simp add: jsonField_def fieldText_def ascii_marks)

text \<open>The names of the fields need no quoting.\<close>

lemma quoted_name: "list_all (\<lambda>c. c \<noteq> quotation \<and> c \<noteq> backslash \<and> 32 \<le> (of_char c :: nat)) s \<Longrightarrow> quoted s s"
  using quoted_concat [of s "\<lambda>c. [c]"] quoted_plain by (auto simp: list_all_iff)

text \<open>What the API server is to find: the fields of a taint, optional ones only when they are set.\<close>

definition taintFields :: "Taint \<Rightarrow> (string \<times> string) list" where
  "taintFields t =
     [(''key'', Taint_Key t)] @ (if Taint_Value t = '''' then [] else [(''value'', Taint_Value t)])
     @ [(''effect'', Taint_Effect t)]
     @ (case Taint_TimeAdded t of None \<Rightarrow> [] | Some a \<Rightarrow> [(''timeAdded'', a)])"

definition stringObject :: "(string \<times> string) list \<Rightarrow> json" where
  "stringObject fs = JObject (map (\<lambda>(k, v). (k, JString v)) fs)"

definition specPatch :: "string \<Rightarrow> json \<Rightarrow> json" where
  "specPatch name v = JObject [(''spec'', JObject [(name, v)])]"

lemma writes_taint: "writes 1 (jsonTaint t) (stringObject (taintFields t))"
proof -
  let ?f = "\<lambda>(k, v). (k, jsonString v, JString v)"
  have "quoted k k" if "(k, v) \<in> set (taintFields t)" for k v
    using that by (auto simp: taintFields_def intro!: quoted_name split: if_splits option.splits)
  then have "writesField 0 (?f x)" if "x \<in> set (taintFields t)" for x
    using that by (cases x) (simp add: writesField_def writes_jsonString)
  moreover have "map ?f (taintFields t) \<noteq> []" by (simp add: taintFields_def)
  ultimately have "writes (Suc 0) (CHR ''{'' # strings_Join (map fieldText (map ?f (taintFields t))) '','' @ ''}'')
      (JObject (map fieldValue (map ?f (taintFields t))))"
    by (intro writes_object) auto
  moreover have "CHR ''{'' # strings_Join (map fieldText (map ?f (taintFields t))) '','' @ ''}'' = jsonTaint t"
    by (simp add: jsonTaint_def taintFields_def fieldText_json split: option.split)
  ultimately show ?thesis
    by (simp add: stringObject_def fieldValue_def split_def comp_def)
qed

lemma writes_taints: "writes 2 (json_Marshal ts) (JArray (map (\<lambda>t. stringObject (taintFields t)) ts))"
  using writes_array [of ts 1 jsonTaint "\<lambda>t. stringObject (taintFields t)", OF writes_taint]
  by (simp add: json_Marshal_def numeral_2_eq_2)

lemma writes_specPatch:
  assumes "writes d s v" and "quoted name name"
  shows "writes (Suc (Suc d)) (''{'' @ dq @ ''spec'' @ dq @ '':{'' @ dq @ name @ dq @ '':'' @ s @ ''}}'') (specPatch name v)"
proof -
  have "writes (Suc d) (''{'' @ fieldText (name, s, v) @ ''}'') (JObject [(name, v)])"
    using writes_object [of "[(name, s, v)]" d] assms by (simp add: writesField_def fieldValue_def)
  then have "writes (Suc (Suc d)) (''{'' @ fieldText (''spec'', ''{'' @ fieldText (name, s, v) @ ''}'', JObject [(name, v)]) @ ''}'')
      (specPatch name v)"
    using writes_object [of "[(''spec'', ''{'' @ fieldText (name, s, v) @ ''}'', JObject [(name, v)])]" "Suc d"]
    by (simp add: writesField_def fieldValue_def specPatch_def quoted_name)
  then show ?thesis by (simp add: fieldText_def ascii_marks)
qed

section \<open>The provider ID\<close>

definition printable :: "char \<Rightarrow> bool" where
  "printable c \<longleftrightarrow> 32 \<le> (of_char c :: nat) \<and> (of_char c :: nat) < 127"

lemma quoted_quoteChar: "printable c \<Longrightarrow> quoted (quoteChar c) [c]"
  using quoted_special by (auto simp: quoteChar_def printable_def Let_def ascii_marks dest: char_cases intro!: quoted_plain)

lemma writes_Quote: "list_all printable s \<Longrightarrow> writes d (strconv_Quote s) (JString s)"
  using writes_string [OF quoted_concat [of s quoteChar, OF quoted_quoteChar], of d]
  by (simp add: strconv_Quote_def ascii_marks list_all_iff)

text \<open>C29: the patches sent to a workload node are the JSON documents that were meant. The patch of the
  taints is read back as the list of all remaining taints with all their fields, whatever characters
  they contain; the patch of the provider ID is read back as that provider ID when its characters
  are printable, which the verb \<^verbatim>\<open>%q\<close> needs.\<close>

theorem node_patches_parse:
  assumes "list_all printable providerID"
  shows "parseJson (taintsPatch ts)
      = Some (specPatch ''taints'' (JArray (map (\<lambda>t. stringObject (taintFields t)) ts)))
    \<and> parseJson (providerIDPatch providerID) = Some (specPatch ''providerID'' (JString providerID))"
proof
  have deep: "d \<le> maxNestingDepth" if "d \<le> 4" for d using that by (simp add: maxNestingDepth_def)
  show "parseJson (taintsPatch ts)
      = Some (specPatch ''taints'' (JArray (map (\<lambda>t. stringObject (taintFields t)) ts)))"
    using parse_writes [OF writes_specPatch [OF writes_taints, of "''taints''"] deep]
    by (simp add: taintsPatch_def quoted_name)
  show "parseJson (providerIDPatch providerID) = Some (specPatch ''providerID'' (JString providerID))"
    using parse_writes [OF writes_specPatch [OF writes_Quote [OF assms], of "''providerID''" 0] deep]
    by (simp add: providerIDPatch_def quoted_name)
qed

section \<open>Witness\<close>

theorem node_patches_parse_witness:
  "parseJson (providerIDPatch ''ovhcloud://GRA9/i-1'') = Some (specPatch ''providerID'' (JString ''ovhcloud://GRA9/i-1''))
   \<and> parseJson (taintsPatch [\<lparr>Taint_Key = ''a<b'', Taint_Value = '''', Taint_Effect = ''NoSchedule'', Taint_TimeAdded = None\<rparr>])
     = Some (specPatch ''taints'' (JArray [stringObject [(''key'', ''a<b''), (''effect'', ''NoSchedule'')]]))"
  using node_patches_parse [of "''ovhcloud://GRA9/i-1''"
      "[\<lparr>Taint_Key = ''a<b'', Taint_Value = '''', Taint_Effect = ''NoSchedule'', Taint_TimeAdded = None\<rparr>]"]
  by (simp add: printable_def taintFields_def)

end
