(* ===== verification/Etcd.thy ===== *)
theory Etcd
  imports Workload Json "HOL-Library.Word"
begin

text \<open>
  \<^verbatim>\<open>util/etcd.go\<close>: the removal of the etcd member of a deleted node, through
  \<^verbatim>\<open>etcdctl\<close> in an etcd pod of another node. The Kubernetes client and the exec stream are
  parameters; the output of \<^verbatim>\<open>etcdctl\<close> is decoded as \<^verbatim>\<open>encoding/json\<close> does it.
  Errors end in the log and nowhere else, so the texts of the decoder's errors are abridged.
\<close>

record EtcdMember =
  EtcdMember_ID :: "64 word"
  EtcdMember_Name :: string
  EtcdMember_PeerURLs :: "string list"
  EtcdMember_ClientURLs :: "string list"

record EtcdMemberListResponse =
  EtcdMemberListResponse_Members :: "EtcdMember list"

definition zero_EtcdMember :: EtcdMember where
  "zero_EtcdMember = \<lparr>EtcdMember_ID = 0, EtcdMember_Name = '''', EtcdMember_PeerURLs = [],
     EtcdMember_ClientURLs = []\<rparr>"

text \<open>What is used of a pod: its name, its node, its phase and its conditions.\<close>

record PodCondition =
  PodCondition_Type :: string
  PodCondition_Status :: string

record Pod =
  Pod_Namespace :: string
  Pod_Name :: string
  Pod_NodeName :: string
  Pod_Phase :: string
  Pod_Conditions :: "PodCondition list"

text \<open>The client gains the listing of pods by namespace and label selector; a configuration also gives
  an executor, or an error, and the stream of a command: its output, its error output, its error.\<close>

record 'w PodClientset = "'w Clientset" +
  PodClientset_listPods :: "string \<Rightarrow> string \<Rightarrow> 'w \<Rightarrow> (gerror + Pod list) \<times> 'w"

record 'w ExecConfig =
  ExecConfig_newForConfig :: "gerror + 'w PodClientset"
  ExecConfig_newSPDYExecutor :: "string \<Rightarrow> string \<Rightarrow> string \<Rightarrow> string list \<Rightarrow> gerror option"
  ExecConfig_stream :: "string \<Rightarrow> string \<Rightarrow> string \<Rightarrow> string list \<Rightarrow> 'w
    \<Rightarrow> (string \<times> string \<times> gerror option) \<times> 'w"

abbreviation etcdNamespace :: string where "etcdNamespace \<equiv> ''kube-system''"
abbreviation etcdContainerName :: string where "etcdContainerName \<equiv> ''etcd''"

section \<open>Decoding\<close>

text \<open>Decoding into a value that is already there: \<^verbatim>\<open>null\<close> leaves it alone, a wrong type is an
  error. Keys match a field without regard to case; unknown keys are ignored; the last of several
  values for a field counts.\<close>

definition digitsValue :: "string \<Rightarrow> nat" where
  "digitsValue s = foldl (\<lambda>n c. n * 10 + (of_char c - 48)) 0 s"

definition decodeUint64 :: "64 word \<Rightarrow> json \<Rightarrow> 64 word option" where
  "decodeUint64 old j =
     (case j of
        JNull \<Rightarrow> Some old
      | JNumber s \<Rightarrow> if list_all isDigit s \<and> digitsValue s < 2 ^ 64 then Some (of_nat (digitsValue s)) else None
      | _ \<Rightarrow> None)"

definition decodeString :: "string \<Rightarrow> json \<Rightarrow> string option" where
  "decodeString old j = (case j of JNull \<Rightarrow> Some old | JString s \<Rightarrow> Some s | _ \<Rightarrow> None)"

primrec traverse :: "('a \<Rightarrow> 'b option) \<Rightarrow> 'a list \<Rightarrow> 'b list option" where
  "traverse f [] = Some []"
| "traverse f (x # xs) =
     (case f x of None \<Rightarrow> None | Some y \<Rightarrow> map_option ((#) y) (traverse f xs))"

definition decodeStrings :: "json \<Rightarrow> string list option" where
  "decodeStrings j = (case j of JNull \<Rightarrow> Some [] | JArray js \<Rightarrow> traverse (decodeString '''') js | _ \<Rightarrow> None)"

definition decodeMemberField :: "string \<times> json \<Rightarrow> EtcdMember option \<Rightarrow> EtcdMember option" where
  "decodeMemberField kv acc =
     (case acc of
        None \<Rightarrow> None
      | Some m \<Rightarrow>
          if strings_EqualFold (fst kv) ''ID''
          then map_option (\<lambda>x. m\<lparr>EtcdMember_ID := x\<rparr>) (decodeUint64 (EtcdMember_ID m) (snd kv))
          else if strings_EqualFold (fst kv) ''name''
          then map_option (\<lambda>x. m\<lparr>EtcdMember_Name := x\<rparr>) (decodeString (EtcdMember_Name m) (snd kv))
          else if strings_EqualFold (fst kv) ''peerURLs''
          then map_option (\<lambda>x. m\<lparr>EtcdMember_PeerURLs := x\<rparr>) (decodeStrings (snd kv))
          else if strings_EqualFold (fst kv) ''clientURLs''
          then map_option (\<lambda>x. m\<lparr>EtcdMember_ClientURLs := x\<rparr>) (decodeStrings (snd kv))
          else Some m)"

definition decodeMember :: "json \<Rightarrow> EtcdMember option" where
  "decodeMember j =
     (case j of
        JNull \<Rightarrow> Some zero_EtcdMember
      | JObject kvs \<Rightarrow> fold decodeMemberField kvs (Some zero_EtcdMember)
      | _ \<Rightarrow> None)"

definition decodeMembers :: "json \<Rightarrow> EtcdMember list option" where
  "decodeMembers j = (case j of JNull \<Rightarrow> Some [] | JArray js \<Rightarrow> traverse decodeMember js | _ \<Rightarrow> None)"

definition decodeResponseField ::
  "string \<times> json \<Rightarrow> EtcdMemberListResponse option \<Rightarrow> EtcdMemberListResponse option" where
  "decodeResponseField kv acc =
     (case acc of
        None \<Rightarrow> None
      | Some r \<Rightarrow>
          if strings_EqualFold (fst kv) ''members''
          then map_option (\<lambda>x. r\<lparr>EtcdMemberListResponse_Members := x\<rparr>) (decodeMembers (snd kv))
          else Some r)"

definition decodeResponse :: "json \<Rightarrow> EtcdMemberListResponse option" where
  "decodeResponse j =
     (case j of
        JNull \<Rightarrow> Some \<lparr>EtcdMemberListResponse_Members = []\<rparr>
      | JObject kvs \<Rightarrow> fold decodeResponseField kvs (Some \<lparr>EtcdMemberListResponse_Members = []\<rparr>)
      | _ \<Rightarrow> None)"

definition unmarshalResponse :: "string \<Rightarrow> gerror + EtcdMemberListResponse" where
  "unmarshalResponse s =
     (case parseJson s of
        None \<Rightarrow> Inl (Plain ''invalid JSON'')
      | Some j \<Rightarrow>
          (case decodeResponse j of
             None \<Rightarrow> Inl (Plain ''json: cannot unmarshal'')
           | Some r \<Rightarrow> Inr r))"

section \<open>The removal\<close>

definition isPodReady :: "Pod \<Rightarrow> bool" where
  "isPodReady pod \<longleftrightarrow> Pod_Phase pod = ''Running''
     \<and> list_ex (\<lambda>c. PodCondition_Type c = ''Ready'' \<and> PodCondition_Status c = ''True'') (Pod_Conditions pod)"

definition listPods :: "'w PodClientset \<Rightarrow> string \<Rightarrow> string \<Rightarrow> ('o, 'w, gerror + Pod list) act" where
  "listPods cs ns selector = do {
     _ \<leftarrow> emit (Kube (PodList ns selector));
     askEnv (PodClientset_listPods cs ns selector)
   }"

text \<open>The loop over the pods that were found.\<close>

definition pickPod :: "string \<Rightarrow> Pod list \<Rightarrow> gerror + Pod" where
  "pickPod deletedNodeName pods =
     (case find (\<lambda>pod. Pod_NodeName pod \<noteq> deletedNodeName \<and> isPodReady pod) pods of
        Some pod \<Rightarrow> Inr pod
      | None \<Rightarrow> Inl (Plain (''no healthy etcd pod found (excluding node '' @ deletedNodeName @ '')'')))"

definition findHealthyEtcdPod :: "'w PodClientset \<Rightarrow> string \<Rightarrow> ('o, 'w, gerror + Pod) act" where
  "findHealthyEtcdPod cs deletedNodeName = do {
     r \<leftarrow> listPods cs etcdNamespace ''component=etcd,tier=control-plane'';
     (if (case r of Inl e \<Rightarrow> True | Inr pods \<Rightarrow> pods = []) then do {
        r' \<leftarrow> listPods cs etcdNamespace '''';
        ret (case r' of
               Inl e \<Rightarrow> Inl (Wrap (''failed to list pods in '' @ etcdNamespace @ '': '') e '''')
             | Inr allPods \<Rightarrow>
                 pickPod deletedNodeName (filter (\<lambda>p. strings_HasPrefix (Pod_Name p) ''etcd-'') allPods))
      }
      else ret (case r of Inl e \<Rightarrow> Inl e | Inr pods \<Rightarrow> pickPod deletedNodeName pods))
   }"

definition execInPod :: "'w ExecConfig \<Rightarrow> string \<Rightarrow> string \<Rightarrow> string \<Rightarrow> string list
    \<Rightarrow> ('o, 'w, string \<times> string \<times> gerror option) act" where
  "execInPod config ns podName containerName cmd =
     (case ExecConfig_newSPDYExecutor config ns podName containerName cmd of
        Some e \<Rightarrow> ret ('''', '''', Some (Wrap ''failed to create SPDY executor: '' e ''''))
      | None \<Rightarrow> do {
          _ \<leftarrow> emit (Kube (PodExec ns podName containerName cmd));
          askEnv (ExecConfig_stream config ns podName containerName cmd)
        })"

definition etcdctl :: "string list \<Rightarrow> string list" where
  "etcdctl args =
     [''/usr/local/bin/etcdctl'',
      ''--cacert'', ''/var/lib/rancher/rke2/server/tls/etcd/server-ca.crt'',
      ''--cert'', ''/var/lib/rancher/rke2/server/tls/etcd/server-client.crt'',
      ''--key'', ''/var/lib/rancher/rke2/server/tls/etcd/server-client.key'',
      ''--endpoints'', ''https://127.0.0.1:2379''] @ args"

definition listEtcdMembers :: "'w ExecConfig \<Rightarrow> Pod \<Rightarrow> ('o, 'w, gerror + EtcdMember list) act" where
  "listEtcdMembers config pod = do {
     r \<leftarrow> execInPod config (Pod_Namespace pod) (Pod_Name pod) etcdContainerName
       (etcdctl [''member'', ''list'', ''-w'', ''json'']);
     (case r of (stdout, stderr, err) \<Rightarrow>
        ret (case err of
               Some e \<Rightarrow> Inl (Wrap ''etcdctl member list failed: '' e ('' (stderr: '' @ stderr @ '')''))
             | None \<Rightarrow>
                 (case unmarshalResponse stdout of
                    Inl e \<Rightarrow> Inl (Wrap ''failed to parse etcdctl member list output: '' e ('' (raw: '' @ stdout @ '')''))
                  | Inr resp \<Rightarrow> Inr (EtcdMemberListResponse_Members resp))))
   }"

definition hexID :: "64 word \<Rightarrow> string" where
  "hexID memberID = formatUint (unat memberID) 16"

definition removeEtcdMemberByID :: "'w ExecConfig \<Rightarrow> Pod \<Rightarrow> 64 word \<Rightarrow> ('o, 'w, gerror option) act" where
  "removeEtcdMemberByID config pod memberID = do {
     r \<leftarrow> execInPod config (Pod_Namespace pod) (Pod_Name pod) etcdContainerName
       (etcdctl [''member'', ''remove'', hexID memberID]);
     (case r of (stdout, stderr, err) \<Rightarrow>
        ret (case err of
               None \<Rightarrow> None
             | Some e \<Rightarrow> Some (Wrap (''etcdctl member remove '' @ hexID memberID @ '' failed: '') e
                          ('' (stderr: '' @ stderr @ '')''))))
   }"

text \<open>The name of the member is the node's name, or starts with it and a hyphen.\<close>

definition memberOf :: "string \<Rightarrow> EtcdMember \<Rightarrow> bool" where
  "memberOf deletedNodeName m \<longleftrightarrow>
     strings_HasPrefix (EtcdMember_Name m) (deletedNodeName @ ''-'') \<or> EtcdMember_Name m = deletedNodeName"

text \<open>The body, without the deferred observation.\<close>

definition removeEtcdMember :: "'w ExecConfig \<Rightarrow> string \<Rightarrow> ('o, 'w, unit) act" where
  "removeEtcdMember workloadConfig deletedNodeName =
     (case ExecConfig_newForConfig workloadConfig of
        Inl e \<Rightarrow> ret ()
      | Inr clientset \<Rightarrow> do {
          p \<leftarrow> findHealthyEtcdPod clientset deletedNodeName;
          (case p of
             Inl e \<Rightarrow> ret ()
           | Inr pod \<Rightarrow> do {
               ms \<leftarrow> listEtcdMembers workloadConfig pod;
               (case ms of
                  Inl e \<Rightarrow> ret ()
                | Inr members \<Rightarrow>
                    (case find (memberOf deletedNodeName) members of
                       None \<Rightarrow> ret ()
                     | Some targetMember \<Rightarrow> do {
                         _ \<leftarrow> removeEtcdMemberByID workloadConfig pod (EtcdMember_ID targetMember);
                         ret ()
                       }))
             })
        })"

definition RemoveEtcdMember :: "'w ExecConfig \<Rightarrow> string \<Rightarrow> ('o, 'w, unit) act" where
  "RemoveEtcdMember workloadConfig deletedNodeName = do {
     _ \<leftarrow> removeEtcdMember workloadConfig deletedNodeName;
     emit (Observe EtcdMemberRemovalDuration [])
   }"

section \<open>The identifier on the command line\<close>

definition hexValueOf :: "string \<Rightarrow> nat" where
  "hexValueOf s = foldl (\<lambda>n c. n * 16 + (case hexValue c of None \<Rightarrow> 0 | Some v \<Rightarrow> v)) 0 s"

lemma hexValueOf_formatUint: "hexValueOf (formatUint n 16) = n"
proof (induction n "16::nat" rule: formatUint.induct)
  case (1 n)
  show ?case
  proof (cases "n < 16")
    case True
    then show ?thesis by (subst formatUint.simps) (simp add: hexValueOf_def hexValue_digitChar)
  next
    case False
    with 1 have "hexValueOf (formatUint (n div 16) 16) = n div 16" by simp
    with False show ?thesis
      by (subst formatUint.simps) (simp add: hexValueOf_def hexValue_digitChar)
  qed
qed

lemma length_formatUint: "n < 16 ^ Suc k \<Longrightarrow> length (formatUint n 16) \<le> Suc k"
proof (induction k arbitrary: n)
  case 0
  then show ?case by (subst formatUint.simps) simp
next
  case (Suc k)
  then have "length (formatUint (n div 16) 16) \<le> Suc k" by (intro Suc.IH) (simp add: div_less_iff_less_mult mult.commute)
  then show ?case by (subst formatUint.simps) simp
qed

text \<open>The identifier of a member survives the command line: the hexadecimal text has at most sixteen
  digits and stands for the 64-bit identifier, so no two members are confused.\<close>

lemma hexID_roundtrip:
  "of_nat (hexValueOf (hexID i)) = i \<and> length (hexID i) \<le> 16 \<and> (hexID i = hexID j \<longleftrightarrow> i = j)"
proof (intro conjI)
  show "of_nat (hexValueOf (hexID i)) = i" by (simp add: hexID_def hexValueOf_formatUint)
  have "unat i < 16 ^ Suc 15" using unsigned_less [of i] by simp
  then show "length (hexID i) \<le> 16" using length_formatUint [of "unat i" 15] by (simp add: hexID_def)
  show "hexID i = hexID j \<longleftrightarrow> i = j"
    by (metis hexID_def hexValueOf_formatUint word_unat_eq_iff)
qed

section \<open>What is removed\<close>

text \<open>
  What the provider relies on of a workload cluster: listing pods does not touch the members; the
  listing of the members succeeds only with their current list; a removal that succeeds removes the
  members with that identifier, one that fails removes nothing. \<open>members\<close> reads the member list of
  the state of the outside world.
\<close>

definition etcdOK :: "'w ExecConfig \<Rightarrow> ('w \<Rightarrow> EtcdMember list) \<Rightarrow> bool" where
  "etcdOK cfg members \<longleftrightarrow>
     (\<forall>cs ns sel w. ExecConfig_newForConfig cfg = Inr cs
        \<longrightarrow> members (snd (PodClientset_listPods cs ns sel w)) = members w)
     \<and> (\<forall>ns pod w out err e w'.
          ExecConfig_stream cfg ns pod etcdContainerName (etcdctl [''member'', ''list'', ''-w'', ''json'']) w
            = ((out, err, e), w')
          \<longrightarrow> members w' = members w
            \<and> (e = None \<longrightarrow> unmarshalResponse out = Inr \<lparr>EtcdMemberListResponse_Members = members w\<rparr>))
     \<and> (\<forall>ns pod i w out err e w'.
          ExecConfig_stream cfg ns pod etcdContainerName (etcdctl [''member'', ''remove'', hexID i]) w
            = ((out, err, e), w')
          \<longrightarrow> members w' = (if e = None then filter (\<lambda>m. EtcdMember_ID m \<noteq> i) (members w) else members w))"

text \<open>The requests: pods of the system namespace are listed; commands run in the container of etcd only,
  and are the listing and the removal of a member.\<close>

definition etcdEvent :: "event \<Rightarrow> bool" where
  "etcdEvent e \<longleftrightarrow>
     (\<exists>sel. e = Kube (PodList etcdNamespace sel))
     \<or> (\<exists>ns pod. e = Kube (PodExec ns pod etcdContainerName (etcdctl [''member'', ''list'', ''-w'', ''json''])))
     \<or> (\<exists>ns pod i. e = Kube (PodExec ns pod etcdContainerName (etcdctl [''member'', ''remove'', hexID i])))"

lemma removeEtcdMember_emits: "emits etcdEvent (removeEtcdMember cfg node)"
  unfolding removeEtcdMember_def findHealthyEtcdPod_def listPods_def listEtcdMembers_def
    removeEtcdMemberByID_def execInPod_def
  by (intro emits_intros) (auto simp: etcdEvent_def)

lemma removeEtcdMember_keepsObj: "keepsObj (removeEtcdMember cfg node)"
  unfolding removeEtcdMember_def findHealthyEtcdPod_def listPods_def listEtcdMembers_def
    removeEtcdMemberByID_def execInPod_def
  by (intro keepsObj_intros) (auto intro!: keepsObj_intros split: prod.split)

text \<open>A cluster in which the removal can be carried out: the client is built, the first listing shows a
  ready etcd pod on another node, and commands run without an error.\<close>

definition etcdUp :: "'w ExecConfig \<Rightarrow> string \<Rightarrow> bool" where
  "etcdUp cfg node \<longleftrightarrow>
     (\<exists>cs. ExecConfig_newForConfig cfg = Inr cs
        \<and> (\<forall>w. \<exists>pods pod. fst (PodClientset_listPods cs etcdNamespace ''component=etcd,tier=control-plane'' w) = Inr pods
              \<and> pod \<in> set pods \<and> Pod_NodeName pod \<noteq> node \<and> isPodReady pod))
     \<and> (\<forall>ns pod cmd. ExecConfig_newSPDYExecutor cfg ns pod etcdContainerName cmd = None)
     \<and> (\<forall>ns pod cmd w. snd (snd (fst (ExecConfig_stream cfg ns pod etcdContainerName cmd w))) = None)"

lemma pickPod_ready: "pickPod node pods = Inr pod \<Longrightarrow> Pod_NodeName pod \<noteq> node \<and> isPodReady pod"
  by (auto simp: pickPod_def find_Some_iff split: option.splits)

lemma pickPod_found: "pod \<in> set pods \<Longrightarrow> Pod_NodeName pod \<noteq> node \<Longrightarrow> isPodReady pod \<Longrightarrow> \<exists>p. pickPod node pods = Inr p"
  by (auto simp: pickPod_def find_None_iff split: option.split)

lemma findHealthyEtcdPod_effect:
  assumes "etcdOK cfg members" and "ExecConfig_newForConfig cfg = Inr cs"
    and "run_state (findHealthyEtcdPod cs node) s = (r, t)"
  shows "members (st_env t) = members (st_env s)" and "etcdUp cfg node \<Longrightarrow> \<exists>pod. r = Inr pod"
proof -
  have keep: "members (snd (PodClientset_listPods cs ns sel w)) = members w" for ns sel w
    using assms(1,2) by (simp add: etcdOK_def)
  show "members (st_env t) = members (st_env s)"
    using assms(3) by (auto simp: findHealthyEtcdPod_def listPods_def keep split: if_splits)
  assume "etcdUp cfg node"
  then obtain pods pod where pods: "fst (PodClientset_listPods cs etcdNamespace ''component=etcd,tier=control-plane'' (st_env s)) = Inr pods"
    "pod \<in> set pods" "Pod_NodeName pod \<noteq> node" "isPodReady pod"
    using assms(2) unfolding etcdUp_def by fastforce
  from pods(2) have "pods \<noteq> []" by auto
  with pickPod_found [OF pods(2-4)] pods(1) assms(3) show "\<exists>pod. r = Inr pod"
    by (auto simp: findHealthyEtcdPod_def listPods_def)
qed

lemma listEtcdMembers_effect:
  assumes "etcdOK cfg members" and "run_state (listEtcdMembers cfg pod) s = (r, t)"
  shows "members (st_env t) = members (st_env s)" and "r = Inr ms \<Longrightarrow> ms = members (st_env s)"
    and "etcdUp cfg node \<Longrightarrow> r = Inr (members (st_env s))"
proof -
  let ?cmd = "etcdctl [''member'', ''list'', ''-w'', ''json'']"
  obtain out err e w' where x:
    "ExecConfig_stream cfg (Pod_Namespace pod) (Pod_Name pod) etcdContainerName ?cmd (st_env s) = ((out, err, e), w')"
    by (metis prod.exhaust)
  with assms(1) have keep: "members w' = members (st_env s)"
    and ok: "e = None \<Longrightarrow> unmarshalResponse out = Inr \<lparr>EtcdMemberListResponse_Members = members (st_env s)\<rparr>"
    unfolding etcdOK_def by blast+
  show "members (st_env t) = members (st_env s)" "r = Inr ms \<Longrightarrow> ms = members (st_env s)"
    using assms(2) x keep ok by (auto simp: listEtcdMembers_def execInPod_def split: option.splits)
  assume "etcdUp cfg node"
  then have "ExecConfig_newSPDYExecutor cfg (Pod_Namespace pod) (Pod_Name pod) etcdContainerName ?cmd = None"
    and "e = None"
    using x unfolding etcdUp_def by (auto, metis fst_conv snd_conv)
  with assms(2) x ok show "r = Inr (members (st_env s))"
    by (auto simp: listEtcdMembers_def execInPod_def)
qed

lemma removeEtcdMemberByID_effect:
  assumes "etcdOK cfg members" and "run_state (removeEtcdMemberByID cfg pod i) s = (r, t)"
  shows "members (st_env t) = members (st_env s)
      \<or> members (st_env t) = filter (\<lambda>m. EtcdMember_ID m \<noteq> i) (members (st_env s))"
    and "etcdUp cfg node \<Longrightarrow> members (st_env t) = filter (\<lambda>m. EtcdMember_ID m \<noteq> i) (members (st_env s))"
proof -
  let ?cmd = "etcdctl [''member'', ''remove'', hexID i]"
  obtain out err e w' where x:
    "ExecConfig_stream cfg (Pod_Namespace pod) (Pod_Name pod) etcdContainerName ?cmd (st_env s) = ((out, err, e), w')"
    by (metis prod.exhaust)
  with assms(1) have w': "members w' = (if e = None then filter (\<lambda>m. EtcdMember_ID m \<noteq> i) (members (st_env s))
      else members (st_env s))"
    unfolding etcdOK_def by blast
  show "members (st_env t) = members (st_env s)
      \<or> members (st_env t) = filter (\<lambda>m. EtcdMember_ID m \<noteq> i) (members (st_env s))"
    using assms(2) x w' by (auto simp: removeEtcdMemberByID_def execInPod_def split: option.splits if_splits)
  assume "etcdUp cfg node"
  then have "ExecConfig_newSPDYExecutor cfg (Pod_Namespace pod) (Pod_Name pod) etcdContainerName ?cmd = None"
    and "e = None"
    using x unfolding etcdUp_def by (auto, metis fst_conv snd_conv)
  with assms(2) x w' show "members (st_env t) = filter (\<lambda>m. EtcdMember_ID m \<noteq> i) (members (st_env s))"
    by (auto simp: removeEtcdMemberByID_def execInPod_def)
qed

text \<open>The members after a removal: without those that share the identifier of the first match.\<close>

definition withoutMember :: "string \<Rightarrow> EtcdMember list \<Rightarrow> EtcdMember list" where
  "withoutMember node ms =
     (case find (memberOf node) ms of
        None \<Rightarrow> ms
      | Some m \<Rightarrow> filter (\<lambda>x. EtcdMember_ID x \<noteq> EtcdMember_ID m) ms)"

lemma removeEtcdMember_effect:
  assumes "etcdOK cfg members" and "run_state (removeEtcdMember cfg node) s = (r, t)"
  shows "members (st_env t) \<in> {members (st_env s), withoutMember node (members (st_env s))}
    \<and> (etcdUp cfg node \<longrightarrow> members (st_env t) = withoutMember node (members (st_env s)))"
proof (cases "ExecConfig_newForConfig cfg")
  case (Inl e)
  with assms(2) show ?thesis by (auto simp: removeEtcdMember_def etcdUp_def)
next
  case (Inr cs)
  obtain p u where p: "run_state (findHealthyEtcdPod cs node) s = (p, u)" by fastforce
  note found = findHealthyEtcdPod_effect [OF assms(1) Inr p]
  show ?thesis
  proof (cases p)
    case Inl': (Inl e)
    with assms(2) Inr p found show ?thesis by (auto simp: removeEtcdMember_def)
  next
    case pod: (Inr pod)
    obtain ms v where ms: "run_state (listEtcdMembers cfg pod) u = (ms, v)" by fastforce
    note listed = listEtcdMembers_effect [OF assms(1) ms]
    show ?thesis
    proof (cases "\<exists>m. ms = Inr (members (st_env s)) \<and> find (memberOf node) (members (st_env s)) = Some m")
      case False
      with listed(2) found(1) have "(\<exists>e. ms = Inl e) \<or> (\<exists>l. ms = Inr l \<and> find (memberOf node) l = None)"
        by (cases ms) auto
      with assms(2) Inr p pod ms have "t = v" by (auto simp: removeEtcdMember_def)
      moreover have "etcdUp cfg node \<Longrightarrow> find (memberOf node) (members (st_env s)) = None"
        using False listed(3) found(1) by auto
      ultimately show ?thesis using found(1) listed(1) by (auto simp: withoutMember_def)
    next
      case True
      then obtain m where m: "ms = Inr (members (st_env s))" "find (memberOf node) (members (st_env s)) = Some m" by blast
      obtain x y where x: "run_state (removeEtcdMemberByID cfg pod (EtcdMember_ID m)) v = (x, y)" by fastforce
      with assms(2) Inr p pod ms m have "t = y" by (auto simp: removeEtcdMember_def)
      with removeEtcdMemberByID_effect [OF assms(1) x] found(1) listed(1) m(2) show ?thesis
        by (auto simp: withoutMember_def)
    qed
  qed
qed

text \<open>C28: the removal of an etcd member never fails, runs only the two commands of \<^verbatim>\<open>etcdctl\<close> in
  the container of etcd, observes its duration exactly once and last, and leaves either the member
  list as it was or the list without the members that have the identifier of the first one whose
  name is the node's name or starts with it and a hyphen; in a cluster with a ready etcd pod on
  another node, where the commands succeed, it is the latter.\<close>

theorem RemoveEtcdMember_effect:
  assumes "etcdOK cfg members" and "run_state (RemoveEtcdMember cfg node) s = (r, t)"
  shows "st_obj t = st_obj s
    \<and> (\<exists>es. st_trace t = st_trace s @ es @ [Observe EtcdMemberRemovalDuration []] \<and> (\<forall>e \<in> set es. etcdEvent e))
    \<and> members (st_env t) \<in> {members (st_env s), withoutMember node (members (st_env s))}
    \<and> (etcdUp cfg node \<longrightarrow> members (st_env t) = withoutMember node (members (st_env s)))"
proof -
  obtain x u where u: "run_state (removeEtcdMember cfg node) s = (x, u)"
    by (cases "run_state (removeEtcdMember cfg node) s")
  with assms(2) have t: "t = u\<lparr>st_trace := st_trace u @ [Observe EtcdMemberRemovalDuration []]\<rparr>"
    by (simp add: RemoveEtcdMember_def)
  have obj: "st_obj t = st_obj s"
    using keepsObjD [OF removeEtcdMember_keepsObj u] by (simp add: t)
  from emitsD [OF removeEtcdMember_emits u] obtain es where "st_trace u = st_trace s @ es" "\<forall>e \<in> set es. etcdEvent e" .
  then have trace: "\<exists>es. st_trace t = st_trace s @ es @ [Observe EtcdMemberRemovalDuration []] \<and> (\<forall>e \<in> set es. etcdEvent e)"
    by (auto simp: t)
  from obj trace removeEtcdMember_effect [OF assms(1) u] show ?thesis by (simp add: t)
qed

abbreviation etcdMember :: "64 word \<Rightarrow> string \<Rightarrow> EtcdMember" where
  "etcdMember i name \<equiv> zero_EtcdMember\<lparr>EtcdMember_ID := i, EtcdMember_Name := name\<rparr>"

text \<open>The prefix is not enough to tell nodes apart: when the node \<^verbatim>\<open>cp\<close> is deleted, the member of
  the node \<^verbatim>\<open>cp-2\<close> goes if it is listed first.\<close>

lemma withoutMember_other_node:
  "withoutMember ''cp'' [etcdMember 1 ''cp-2-5f6a'', etcdMember 2 ''cp-83b1''] = [etcdMember 2 ''cp-83b1'']"
  by (simp add: withoutMember_def memberOf_def strings_HasPrefix_def zero_EtcdMember_def)

section \<open>Sample cluster and witness\<close>

text \<open>A cluster whose only member is there or, after its removal, is not.\<close>

definition sampleOutput :: "bool \<Rightarrow> string" where
  "sampleOutput w = ''{'' @ dq @ ''members'' @ dq @ '':['' @
     (if w then ''{'' @ dq @ ''ID'' @ dq @ '':255,'' @ dq @ ''name'' @ dq @ '':'' @ dq @ ''a-1'' @ dq @ ''}'' else '''')
     @ '']}''"

definition sampleMembers :: "bool \<Rightarrow> EtcdMember list" where
  "sampleMembers w = (if w then [etcdMember 255 ''a-1''] else [])"

lemma sampleOutput_parsed:
  "parseJson (sampleOutput True)
     = Some (JObject [(''members'', JArray [JObject [(''ID'', JNumber ''255''), (''name'', JString ''a-1'')]])])"
  "parseJson (sampleOutput False) = Some (JObject [(''members'', JArray [])])"
  by code_simp+

lemma sampleOutput_decoded: "unmarshalResponse (sampleOutput w) = Inr \<lparr>EtcdMemberListResponse_Members = sampleMembers w\<rparr>"
proof -
  have fold: "strings_EqualFold ''members'' ''members''" "strings_EqualFold ''ID'' ''ID''"
    "strings_EqualFold ''name'' ''name''" "\<not> strings_EqualFold ''name'' ''ID''"
    by (simp_all add: strings_EqualFold_def strings_ToLower_def toLowerChar_def)
  show ?thesis
    by (cases w) (simp_all add: unmarshalResponse_def sampleOutput_parsed decodeResponse_def decodeResponseField_def
        decodeMembers_def decodeMember_def decodeMemberField_def decodeUint64_def decodeString_def fold
        isDigit_def digitsValue_def sampleMembers_def zero_EtcdMember_def)
qed

definition samplePod :: Pod where
  "samplePod = \<lparr>Pod_Namespace = etcdNamespace, Pod_Name = ''etcd-b'', Pod_NodeName = ''b'', Pod_Phase = ''Running'',
     Pod_Conditions = [\<lparr>PodCondition_Type = ''Ready'', PodCondition_Status = ''True''\<rparr>]\<rparr>"

definition sampleEtcd :: "bool ExecConfig" where
  "sampleEtcd = \<lparr>
     ExecConfig_newForConfig = Inr \<lparr>Clientset_getNode = (\<lambda>n w. (Inl (Plain ''''), w)),
       Clientset_patchNode = (\<lambda>n p w. (Inl (Plain ''''), w)),
       PodClientset_listPods = (\<lambda>ns sel w. (Inr [samplePod], w))\<rparr>,
     ExecConfig_newSPDYExecutor = (\<lambda>ns pod c cmd. None),
     ExecConfig_stream = (\<lambda>ns pod c cmd w.
       if length cmd = 12 then (('''', '''', None), w \<and> of_nat (hexValueOf (last cmd)) \<noteq> (255 :: 64 word))
       else ((sampleOutput w, '''', None), w))\<rparr>"

lemma sampleEtcd_ok: "etcdOK sampleEtcd sampleMembers" "etcdUp sampleEtcd ''a''"
  by (auto simp: etcdOK_def etcdUp_def sampleEtcd_def etcdctl_def sampleOutput_decoded hexID_def
      hexValueOf_formatUint sampleMembers_def samplePod_def isPodReady_def)

theorem RemoveEtcdMember_effect_witness:
  "\<not> st_env (snd (run_state (RemoveEtcdMember sampleEtcd ''a'') \<lparr>st_obj = (), st_env = True, st_trace = []\<rparr>))"
proof -
  let ?s = "\<lparr>st_obj = (), st_env = True, st_trace = []\<rparr>"
  have "sampleMembers (st_env (snd (run_state (RemoveEtcdMember sampleEtcd ''a'') ?s)))
      = withoutMember ''a'' (sampleMembers True)"
    using RemoveEtcdMember_effect [OF sampleEtcd_ok(1) run_pair, of "''a''" ?s] sampleEtcd_ok(2) by simp
  then show ?thesis
    by (simp add: sampleMembers_def withoutMember_def memberOf_def strings_HasPrefix_def zero_EtcdMember_def
        split: if_splits)
qed

end
