(* ===== verification/System.thy ===== *)
theory System
  imports Refinement
begin

text \<open>
  A cluster and its machines together. The two reconcilers run in any order, interleaved with the edits
  of users, and meet in the owner cluster of Cluster API: its controller copies what the cluster
  reports as provisioned, and the machine reconciler reads the copy.
\<close>

record sys =
  sys_cluster :: OVHCluster
  sys_machines :: "string \<rightharpoonup> OVHMachine"
  sys_infra :: bool \<comment> \<open>the owner's \<^verbatim>\<open>status.initialization.infrastructureProvisioned\<close>\<close>

text \<open>The owner cluster that a reconcile is given shows the copy, or an older state of it.\<close>

definition seesInfra :: "bool \<Rightarrow> 'w Deps \<Rightarrow> bool" where
  "seesInfra infra d \<longleftrightarrow>
     (\<forall>owner cl. Deps_GetClusterFromMetadata d owner = Inr (Some cl)
        \<and> Cluster_InfrastructureProvisioned cl = Some True \<longrightarrow> infra)"

definition freshMachine :: "OVHMachine \<Rightarrow> bool" where
  "freshMachine m \<longleftrightarrow> OVHMachine_Status m = zero_OVHMachineStatus
     \<and> OVHMachineSpec_ProviderID (OVHMachine_Spec m) = ''''"

inductive sysStep :: "'w Deps set \<Rightarrow> sys \<Rightarrow> sys \<Rightarrow> bool" for D where
  cluster: "clusterStep D (sys_cluster \<sigma>) c' \<Longrightarrow> sysStep D \<sigma> (\<sigma>\<lparr>sys_cluster := c'\<rparr>)"
| owner: "isProvisioned (sys_cluster \<sigma>) \<Longrightarrow> sysStep D \<sigma> (\<sigma>\<lparr>sys_infra := True\<rparr>)"
| new_machine: "freshMachine m \<Longrightarrow> sys_machines \<sigma> n = None
    \<Longrightarrow> sysStep D \<sigma> (\<sigma>\<lparr>sys_machines := (sys_machines \<sigma>)(n \<mapsto> m)\<rparr>)"
| machine: "sys_machines \<sigma> n = Some m \<Longrightarrow> machineStep {d \<in> D. seesInfra (sys_infra \<sigma>) d} m m'
    \<Longrightarrow> sysStep D \<sigma> (\<sigma>\<lparr>sys_machines := (sys_machines \<sigma>)(n \<mapsto> m')\<rparr>)"
| gone: "sysStep D \<sigma> (\<sigma>\<lparr>sys_machines := (sys_machines \<sigma>)(n := None)\<rparr>)"

inductive sysReachable :: "'w Deps set \<Rightarrow> sys \<Rightarrow> bool" for D where
  start: "OVHCluster_Status c = zero_OVHClusterStatus
    \<Longrightarrow> sysReachable D \<lparr>sys_cluster = c, sys_machines = Map.empty, sys_infra = False\<rparr>"
| step: "sysReachable D \<sigma> \<Longrightarrow> sysStep D \<sigma> \<sigma>' \<Longrightarrow> sysReachable D \<sigma>'"

text \<open>The invariant of the system: those of its parts, and that a recorded instance means a cluster that
  is ready.\<close>

definition sysInv :: "sys \<Rightarrow> bool" where
  "sysInv \<sigma> \<longleftrightarrow> clusterInv (sys_cluster \<sigma>)
     \<and> (sys_infra \<sigma> \<longrightarrow> isReady (sys_cluster \<sigma>) \<and> isProvisioned (sys_cluster \<sigma>))
     \<and> (\<forall>n m. sys_machines \<sigma> n = Some m \<longrightarrow> machineInv m
          \<and> (machineInstanceID m \<noteq> '''' \<longrightarrow> isReady (sys_cluster \<sigma>) \<and> isProvisioned (sys_cluster \<sigma>) \<and> sys_infra \<sigma>))"

section \<open>A machine waits for its cluster\<close>

lemma Reconcile_waits:
  assumes "seesInfra False d" and "Deps_getOVHMachine d ns name = Inr m"
    and "\<not> ObjectMeta_Deleting (OVHMachine_ObjectMeta m)"
  shows "wp (Reconcile d ns name) (\<lambda>r t. machineInstanceID (st_obj t) = machineInstanceID m) s"
proof -
  let ?Q = "\<lambda>r t. machineInstanceID (st_obj t) = machineInstanceID m"
  have "wp (ReconcileNormal d scope) ?Q s'"
    if "st_obj s' = m" "Cluster_InfrastructureProvisioned (MachineScope_Cluster scope) \<noteq> Some True" for scope s'
  proof -
    have "\<not> machineGuard d scope (st_obj s')" using that(2) by (simp add: machineGuard_def)
    from wp_mono [OF normalBody_guarded [OF this], of ?Q] that(1) show ?thesis
      by (simp add: ReconcileNormal_def wp_rules wp_mono)
  qed
  then have "wp (reconcileFetched d m) ?Q (s\<lparr>st_obj := m\<rparr>)"
    unfolding reconcileFetched_def Let_def using assms(1,3)
    by (auto simp: wp_rules seesInfra_def split: sum.split option.split)
  from wp_mono [OF this] show ?thesis
    unfolding Reconcile_def by (simp add: assms(2) wp_rules split: option.split)
qed

lemma machineStep_waits:
  assumes "machineStep {d \<in> D. seesInfra False d} m m'" and "\<forall>d \<in> D. finalizersOK d"
  shows "machineInstanceID m' = machineInstanceID m"
proof (cases "ObjectMeta_Deleting (OVHMachine_ObjectMeta m)")
  case True
  have "life False (machineView m) (machineView m')"
    using machineStep_life [OF assms(1)] assms(2) by simp
  from life_lawful [OF this] True show ?thesis by (simp add: lawful_def machineView_def)
next
  case False
  from assms(1) show ?thesis
  proof (cases rule: machineStep.cases)
    case (reconcile d ns name s r t)
    then have "seesInfra False d" by simp
    from wpD [OF Reconcile_waits [OF this reconcile(3) False] reconcile(5)] reconcile(1) show ?thesis by simp
  qed simp_all
qed

lemma sysStep_inv:
  assumes "sysStep D \<sigma> \<sigma>'" and "\<forall>d \<in> D. finalizersOK d" and "sysInv \<sigma>"
  shows "sysInv \<sigma>'"
  using assms(1)
proof (cases rule: sysStep.cases)
  case (cluster c')
  have "isReady c' \<and> isProvisioned c'" if "isReady (sys_cluster \<sigma>)"
    using clusterStep_kept [OF cluster(2) assms(2), of True] assms(3) that
    by (auto simp: sysInv_def clusterInv_def)
  moreover have "clusterInv c'"
    using clusterStep_kept [OF cluster(2) assms(2), of False] assms(3) by (simp add: sysInv_def)
  ultimately show ?thesis using assms(3) cluster(1) by (auto simp: sysInv_def)
next
  case owner
  then show ?thesis using assms(3) by (auto simp: sysInv_def clusterInv_def)
next
  case (new_machine m n)
  have "machineInv m" and "machineInstanceID m = ''''"
    using new_machine(2) by (auto simp: freshMachine_def machineInv_def statusInv_def finalizerInv_def
        zero_OVHMachineStatus_def zero_Initialization_def)
  then show ?thesis using assms(3) new_machine(1) by (auto simp: sysInv_def)
next
  case (machine n m m')
  have inv: "machineInv m'"
    using machineStep_inv [OF machine(3)] assms(2,3) machine(2) by (auto simp: sysInv_def)
  have "machineInstanceID m' = machineInstanceID m" if "\<not> sys_infra \<sigma>"
    using machineStep_waits [OF _ assms(2)] machine(3) that by simp
  then have "sys_infra \<sigma>" if "machineInstanceID m' \<noteq> ''''"
    using assms(3) machine(2) that by (cases "sys_infra \<sigma>") (auto simp: sysInv_def)
  with inv show ?thesis using assms(3) machine(1,2) by (auto simp: sysInv_def)
next
  case (gone n)
  then show ?thesis using assms(3) by (auto simp: sysInv_def)
qed

text \<open>C5: in every reachable state of a cluster with any number of machines, under every interleaving of
  the two reconcilers with each other, with the owner's controller and with users, each object
  satisfies its own invariant, and a machine that records an instance belongs to a cluster that is
  ready and provisioned and whose owner knows it. No instance runs ahead of its infrastructure.\<close>

theorem system_invariant:
  assumes "sysReachable D \<sigma>" and "\<forall>d \<in> D. finalizersOK d"
  shows "sysInv \<sigma>"
  using assms(1)
proof induction
  case (start c)
  then show ?case
    by (simp add: sysInv_def clusterInv_def clusterResources_def zero_OVHClusterStatus_def zero_Initialization_def)
next
  case (step \<sigma> \<sigma>')
  with assms(2) show ?case by (blast intro: sysStep_inv)
qed

section \<open>Witness\<close>

theorem system_invariant_witness:
  "sysInv \<lparr>sys_cluster = st_obj (snd (run_state (ClusterReconcile (sampleDeps steadyCloud) ''ns'' ''a'')
       (clusterState sampleOVHCluster))),
     sys_machines = [''m'' \<mapsto> sampleOVHMachine], sys_infra = False\<rparr>"
proof -
  let ?d = "sampleDeps steadyCloud"
  let ?t = "snd (run_state (ClusterReconcile ?d ''ns'' ''a'') (clusterState sampleOVHCluster))"
  let ?\<sigma> = "\<lparr>sys_cluster = sampleOVHCluster, sys_machines = Map.empty, sys_infra = False\<rparr>"
  have ok: "\<forall>d \<in> {?d}. finalizersOK d" by (simp add: sampleDeps_ok)
  have start: "sysReachable {?d} ?\<sigma>"
    by (rule sysReachable.start) (simp add: sampleOVHCluster_def zero_OVHCluster_def)
  have "clusterStep {?d} sampleOVHCluster (st_obj ?t)"
    by (rule clusterStep.reconcile [OF _ _ _ run_pair]) (simp_all add: sampleDeps_def)
  then have "sysStep {?d} ?\<sigma> (?\<sigma>\<lparr>sys_cluster := st_obj ?t\<rparr>)"
    by (intro sysStep.cluster) simp
  with start have next': "sysReachable {?d} (?\<sigma>\<lparr>sys_cluster := st_obj ?t\<rparr>)"
    by (rule sysReachable.step)
  have "freshMachine sampleOVHMachine"
    by (simp add: freshMachine_def sampleOVHMachine_def zero_OVHMachine_def zero_OVHMachineSpec_def)
  then have "sysStep {?d} (?\<sigma>\<lparr>sys_cluster := st_obj ?t\<rparr>)
      (?\<sigma>\<lparr>sys_cluster := st_obj ?t, sys_machines := [''m'' \<mapsto> sampleOVHMachine]\<rparr>)"
    using sysStep.new_machine [of sampleOVHMachine "?\<sigma>\<lparr>sys_cluster := st_obj ?t\<rparr>" "''m''" "{?d}"] by simp
  with next' have "sysReachable {?d} (?\<sigma>\<lparr>sys_cluster := st_obj ?t, sys_machines := [''m'' \<mapsto> sampleOVHMachine]\<rparr>)"
    by (rule sysReachable.step)
  from system_invariant [OF this ok] show ?thesis by simp
qed

end
