(* ===== verification/Provisioning.thy ===== *)
theory Provisioning
  imports Convergence
begin

text \<open>
  A new machine, from its creation to a ready node. Here the answers of OVH differ from call to call:
  \<open>sc k\<close> is the scope of call number \<open>k\<close>, with the client whose answers that call gets. The first
  call protects the machine, a later one orders the instance, and the calls after it follow the instance
  through whatever states OVH shows. While the cluster is not up, the calls in between only wait.
\<close>

section \<open>An order that OVH accepts\<close>

text \<open>A machine that is neither paused nor being deleted, has no instance and adopts none.\<close>

definition pristine :: "OVHMachine \<Rightarrow> bool" where
  "pristine m \<longleftrightarrow> \<not> ObjectMeta_Deleting (OVHMachine_ObjectMeta m)
     \<and> map_of (ObjectMeta_Annotations (OVHMachine_ObjectMeta m)) pauseAnnotation = None
     \<and> machineInstanceID m = '''' \<and> OVHMachineSpec_ExistingInstanceID (OVHMachine_Spec m) = ''''"

text \<open>No instance has the machine's name yet; flavor, image and SSH key are found, the bootstrap data
  is there, and an order under the machine's name, for the cluster's region and network, is answered
  with an instance of the given ID.\<close>

definition orderable :: "'w Deps \<Rightarrow> 'w MachineScope \<Rightarrow> OVHMachine \<Rightarrow> string \<Rightarrow> bool" where
  "orderable d scope m iid \<longleftrightarrow>
     (let c = MachineScope_OVHClient scope;
          spec = OVHMachine_Spec m;
          key = GetSSHKeyName (OVHMachineSpec_SSHKeyName spec)
            (OVHClusterSpec_SSHKeyName (OVHCluster_Spec (MachineScope_OVHCluster scope)))
      in answers (FindInstanceByName c (instanceName scope m) :: ('w, gerror + Instance option) mact) (\<lambda>r. r = Inr None)
       \<and> answers (GetFlavorByName c (OVHMachineSpec_FlavorName spec) :: ('w, gerror + Flavor) mact) (\<lambda>r. \<exists>x. r = Inr x)
       \<and> answers (GetImageByName c (OVHMachineSpec_ImageName spec) :: ('w, gerror + Image) mact) (\<lambda>r. \<exists>x. r = Inr x)
       \<and> (key \<noteq> '''' \<longrightarrow> answers (GetSSHKeyByName c key :: ('w, gerror + SSHKey) mact) (\<lambda>r. \<exists>x. r = Inr x))
       \<and> (\<exists>dat u. getBootstrapData d scope = Inr dat \<and> PrepareUserData dat = Inr u)
       \<and> (\<forall>opts. CreateInstanceOpts_Name opts = instanceName scope m
            \<and> CreateInstanceOpts_Region opts = OVHClusterSpec_Region (OVHCluster_Spec (MachineScope_OVHCluster scope))
            \<and> CreateInstanceOpts_Networks opts = instanceNetworks scope \<longrightarrow>
            answers (CreateInstance c opts :: ('w, gerror + Instance) mact) (\<lambda>r. \<exists>i. r = Inr i \<and> Instance_ID i = iid)))"

text \<open>The two halves of \<open>prepared\<close>: nothing holds the machine up but the cluster, and the cluster is up.\<close>

definition unhindered :: "'w MachineScope \<Rightarrow> bool" where
  "unhindered scope \<longleftrightarrow> \<not> Cluster_Paused (MachineScope_Cluster scope)
     \<and> Machine_DataSecretName (MachineScope_Machine scope) \<noteq> None"

abbreviation clusterUp :: "'w MachineScope \<Rightarrow> bool" where
  "clusterUp scope \<equiv> Cluster_InfrastructureProvisioned (MachineScope_Cluster scope) = Some True"

lemma unhindered_prepared: "unhindered scope \<Longrightarrow> clusterUp scope \<Longrightarrow> prepared scope"
  by (simp add: unhindered_def prepared_def)

text \<open>OVH shows the instance \<open>i\<close> under its ID.\<close>

definition shown :: "'w MachineScope \<Rightarrow> string \<Rightarrow> Instance \<Rightarrow> bool" where
  "shown scope iid i \<longleftrightarrow> Instance_ID i = iid
     \<and> answers (GetInstance (MachineScope_OVHClient scope) iid :: ('w, gerror + Instance) mact) (\<lambda>r. r = Inr i)"

text \<open>The state of the machine while its instance is followed.\<close>

definition followed :: "OVHMachine \<Rightarrow> string \<Rightarrow> bool" where
  "followed m iid \<longleftrightarrow> \<not> ObjectMeta_Deleting (OVHMachine_ObjectMeta m)
     \<and> map_of (ObjectMeta_Annotations (OVHMachine_ObjectMeta m)) pauseAnnotation = None
     \<and> MachineFinalizer \<in> set (machineFinalizers m) \<and> machineInstanceID m = iid"

section \<open>One call\<close>

lemma guard_passed:
  assumes "finalizersOK d" and "pauseOK d" and "prepared scope"
    and "map_of (ObjectMeta_Annotations (OVHMachine_ObjectMeta m)) pauseAnnotation = None"
    and "MachineFinalizer \<in> set (machineFinalizers m)"
  shows "machineGuard d scope m"
  using assms by (simp add: machineGuard_def finalizersOK_def pauseOK_def prepared_def)

text \<open>A call on a guarded machine comes down to \<open>reconcileInstance\<close>.\<close>

lemma reconciled_instance:
  assumes "scopeFor d ns name m scope" and "finalizersOK d" and "pauseOK d" and "prepared scope"
    and "\<not> ObjectMeta_Deleting (OVHMachine_ObjectMeta m)"
    and "map_of (ObjectMeta_Annotations (OVHMachine_ObjectMeta m)) pauseAnnotation = None"
    and "MachineFinalizer \<in> set (machineFinalizers m)"
    and "wp (reconcileInstance d scope) (\<lambda>r t. Q (st_obj t)) (s\<lparr>st_obj := m\<rparr>)"
  shows "Q (reconciled d ns name s)"
proof -
  have "machineGuard d scope m" by (rule guard_passed) (fact assms)+
  then have "wp (normalBody d scope) (\<lambda>r t. Q (st_obj t)) (s\<lparr>st_obj := m\<rparr>)"
    using assms(8) by (simp add: wp_def normalBody_passes)
  then have "wp (ReconcileNormal d scope) (\<lambda>r t. Q (st_obj t)) (s\<lparr>st_obj := m\<rparr>)"
    unfolding ReconcileNormal_def by (simp add: wp_rules wp_mono)
  then show ?thesis
    by (simp add: reconciled_normal [OF assms(1,5)] wp_def split_beta)
qed

text \<open>A protected machine that has no instance yet, with its spec and its name.\<close>

definition waiting :: "OVHMachineSpec \<Rightarrow> string \<Rightarrow> OVHMachine \<Rightarrow> bool" where
  "waiting sp nm m \<longleftrightarrow> pristine m \<and> MachineFinalizer \<in> set (machineFinalizers m)
     \<and> OVHMachine_Spec m = sp \<and> ObjectMeta_Name (OVHMachine_ObjectMeta m) = nm"

lemma protects_new:
  assumes "scopeFor d ns name m scope" and "finalizersOK d" and "pauseOK d" and "unhindered scope"
    and "pristine m" and "MachineFinalizer \<notin> set (machineFinalizers m)"
  shows "waiting (OVHMachine_Spec m) (ObjectMeta_Name (OVHMachine_ObjectMeta m)) (reconciled d ns name s)"
proof -
  have "\<not> ObjectMeta_Deleting (OVHMachine_ObjectMeta m)" using assms(5) by (simp add: pristine_def)
  then show ?thesis
    using ReconcileNormal_protects [of d scope "s\<lparr>st_obj := m\<rparr>"] assms(2-6)
    by (simp add: reconciled_normal [OF assms(1)] finalizersOK_def pauseOK_def unhindered_def pristine_def
        waiting_def)
qed

lemma waits:
  assumes "scopeFor d ns name m scope" and "finalizersOK d" and "pauseOK d" and "unhindered scope"
    and "waiting sp nm m" and "\<not> clusterUp scope"
  shows "waiting sp nm (reconciled d ns name s)"
proof -
  have "\<not> ObjectMeta_Deleting (OVHMachine_ObjectMeta m)" using assms(5) by (simp add: waiting_def pristine_def)
  then show ?thesis
    using assms(2-6)
    by (auto simp: reconciled_normal [OF assms(1)] ReconcileNormal_def normalBody_def setCondition_def setStatus_def
        finalizersOK_def pauseOK_def unhindered_def pristine_def waiting_def)
qed

text \<open>What an order changes: the recorded instance, and conditions.\<close>

definition ordered :: "string \<Rightarrow> OVHMachine \<Rightarrow> OVHMachine \<Rightarrow> bool" where
  "ordered iid m m' \<longleftrightarrow> OVHMachine_ObjectMeta m' = OVHMachine_ObjectMeta m
     \<and> OVHMachine_Spec m' = OVHMachine_Spec m \<and> machineInstanceID m' = iid"

lemma submitInstance_orders:
  assumes "answers (CreateInstance (MachineScope_OVHClient scope) opts :: ('w, gerror + Instance) mact)
    (\<lambda>r. \<exists>i. r = Inr i \<and> Instance_ID i = iid)"
  shows "wp (submitInstance d scope opts) (\<lambda>r t. ordered iid (st_obj s) (st_obj t)) s"
  unfolding submitInstance_def setCondition_def
  by (simp only: wp_rules, rule answers_wp [OF assms]) (auto simp: wp_rules ordered_def)

lemma prepareInstance_orders:
  assumes "orderable d scope (st_obj s) iid"
  shows "wp (prepareInstance d scope flavor img) (\<lambda>r t. ordered iid (st_obj s) (st_obj t)) s"
proof -
  note o = assms [unfolded orderable_def Let_def]
  from o obtain dat u where data: "getBootstrapData d scope = Inr dat" "PrepareUserData dat = Inr u" by blast
  let ?key = "GetSSHKeyName (OVHMachineSpec_SSHKeyName (OVHMachine_Spec (st_obj s)))
    (OVHClusterSpec_SSHKeyName (OVHCluster_Spec (MachineScope_OVHCluster scope)))"
  have submit: "wp (submitInstance d scope (instanceOpts scope (st_obj s) flavor img key u))
      (\<lambda>r t'. ordered iid (st_obj s) (st_obj t')) t" if "st_obj t = st_obj s" for key t
    unfolding that [symmetric]
    by (rule submitInstance_orders) (use o that in \<open>simp add: instanceOpts_def\<close>)
  have key: "wp (resolveSSHKey scope ?key) (\<lambda>r t. st_obj t = st_obj s \<and> (\<exists>k. r = Inr k)) s"
  proof (cases "?key = ''''")
    case True
    then show ?thesis by (simp add: resolveSSHKey_def wp_rules)
  next
    case False
    with o have "answers (GetSSHKeyByName (MachineScope_OVHClient scope) ?key :: ('a, gerror + SSHKey) mact) (\<lambda>r. \<exists>x. r = Inr x)"
      by simp
    then show ?thesis
      using False by (auto simp: resolveSSHKey_def wp_rules elim!: answers_wp)
  qed
  show ?thesis
    unfolding prepareInstance_def by (auto simp: wp_rules data submit intro!: wp_mono [OF key])
qed

lemma createInstance_orders:
  assumes "orderable d scope (st_obj s) iid"
  shows "wp (createInstance d scope) (\<lambda>r t. ordered iid (st_obj s) (st_obj t)) s"
proof -
  note o = assms [unfolded orderable_def Let_def]
  have prepare: "wp (prepareInstance d scope f i) (\<lambda>r t'. ordered iid (st_obj s) (st_obj t')) t"
    if "st_obj t = st_obj s" for f i t
    unfolding that [symmetric] by (rule prepareInstance_orders) (simp add: that assms)
  show ?thesis
    unfolding createInstance_def Let_def
    by (simp only: wp_rules, rule answers_wp [OF o [THEN conjunct2, THEN conjunct1]])
      (auto simp: wp_rules prepare intro!: answers_wp [OF o [THEN conjunct2, THEN conjunct2, THEN conjunct1]])
qed

lemma orders:
  assumes "scopeFor d ns name m scope" and "finalizersOK d" and "pauseOK d" and "prepared scope"
    and "pristine m" and "MachineFinalizer \<in> set (machineFinalizers m)" and "orderable d scope m iid"
  shows "followed (reconciled d ns name s) iid"
proof -
  let ?s = "s\<lparr>st_obj := m\<rparr>"
  have none: "answers (FindInstanceByName (MachineScope_OVHClient scope) (instanceName scope m)
      :: ('a, gerror + Instance option) mact) (\<lambda>r. r = Inr None)"
    using assms(7) by (simp add: orderable_def Let_def)
  have create: "wp (createInstance d scope) (\<lambda>r t'. ordered iid m (st_obj t')) t" if "st_obj t = m" for t
    using createInstance_orders [of d scope t iid] assms(7) that by simp
  have "wp (reconcileInstance d scope) (\<lambda>r t. ordered iid m (st_obj t)) ?s"
    using assms(5) unfolding reconcileInstance_def orElse_def findKnownInstance_def adoptInstance_def
      findNamedInstance_def pristine_def
    by (auto simp: wp_rules create intro!: answers_wp [OF none])
  from reconciled_instance [OF assms(1-4) _ _ assms(6) this] assms(5,6) show ?thesis
    by (simp add: pristine_def followed_def ordered_def)
qed

lemma follows:
  assumes "scopeFor d ns name m scope" and "finalizersOK d" and "pauseOK d" and "prepared scope"
    and "followed m iid" and "iid \<noteq> ''''" and "shown scope iid i"
  shows "followed (reconciled d ns name s) iid
    \<and> (machineReady (reconciled d ns name s) \<longleftrightarrow> Instance_Status i = InstanceStatusActive)
    \<and> (Instance_Status i = InstanceStatusActive \<longrightarrow> settledMachine scope i (reconciled d ns name s))"
proof -
  let ?Q = "\<lambda>m'. followed m' iid \<and> (machineReady m' \<longleftrightarrow> Instance_Status i = InstanceStatusActive)
    \<and> (Instance_Status i = InstanceStatusActive \<longrightarrow> settledMachine scope i m')"
  have i: "Instance_ID i = iid" using assms(7) by (simp add: shown_def)
  have get: "answers (GetInstance (MachineScope_OVHClient scope) iid :: ('a, gerror + Instance) mact) (\<lambda>r. r = Inr i)"
    using assms(7) by (simp add: shown_def)
  have handle: "wp (handleExistingInstance d scope i) (\<lambda>r t'. ?Q (st_obj t')) t" if t: "st_obj t = m" for t
  proof (cases "Instance_Status i = InstanceStatusActive")
    case True
    then show ?thesis
      using assms(5) t i
      by (intro wp_mono [OF handleExistingInstance_active [OF True]])
        (auto dest: coreOf_fields simp: followed_def settledMachine_def activeMachine_def)
  next
    case False
    then show ?thesis
      using assms(5) t i
      by (intro wp_mono [OF handleExistingInstance_inactive [OF False]])
        (auto dest: withoutConditions simp: followed_def)
  qed
  have known: "machineInstanceID m = iid" using assms(5) by (simp add: followed_def)
  have "wp (reconcileInstance d scope) (\<lambda>r t. ?Q (st_obj t)) (s\<lparr>st_obj := m\<rparr>)"
    using assms(6) known unfolding reconcileInstance_def orElse_def findKnownInstance_def
    by (simp add: wp_rules) (rule answers_wp [OF get], simp add: wp_rules handle)
  from reconciled_instance [OF assms(1-4) _ _ _ this] assms(5) show ?thesis
    by (simp add: followed_def)
qed

section \<open>From creation to readiness\<close>

text \<open>The cluster is up from call number \<open>T\<close> on. The machine waits until then, is given its instance
  by that call, and follows it from then on.\<close>

lemma provisioning:
  assumes env: "\<And>k m. scopeFor (env k m) ns name m (sc k) \<and> finalizersOK (env k m) \<and> pauseOK (env k m)"
    and free: "\<And>k. unhindered (sc k)" and up: "\<And>k. 1 \<le> k \<Longrightarrow> clusterUp (sc k) \<longleftrightarrow> T \<le> k" and "1 \<le> T"
    and new: "pristine m0" "MachineFinalizer \<notin> set (machineFinalizers m0)"
    and order: "\<And>m. waiting (OVHMachine_Spec m0) (ObjectMeta_Name (OVHMachine_ObjectMeta m0)) m
      \<Longrightarrow> orderable (env T m) (sc T) m iid"
    and shown: "iid \<noteq> ''''" "\<And>k. T < k \<Longrightarrow> shown (sc k) iid (inst k)"
    and m_def: "m = calls env ns name ss m0"
  shows "1 \<le> k \<Longrightarrow> k \<le> T \<Longrightarrow> waiting (OVHMachine_Spec m0) (ObjectMeta_Name (OVHMachine_ObjectMeta m0)) (m k)"
    and "T < k \<Longrightarrow> followed (m k) iid"
    and "T < k \<Longrightarrow> machineReady (m (Suc k)) \<longleftrightarrow> Instance_Status (inst k) = InstanceStatusActive"
    and "T < k \<Longrightarrow> Instance_Status (inst k) = InstanceStatusActive \<Longrightarrow> settledMachine (sc k) (inst k) (m (Suc k))"
proof -
  let ?waiting = "waiting (OVHMachine_Spec m0) (ObjectMeta_Name (OVHMachine_ObjectMeta m0))"
  have e: "scopeFor (env k m) ns name m (sc k)" "finalizersOK (env k m)" "pauseOK (env k m)" for k m
    using env by blast+
  have wait: "?waiting (m k)" if "1 \<le> k" "k \<le> T" for k
    using that
  proof (induction k rule: dec_induct)
    case base
    then show ?case using protects_new [OF e free new, of 0] by (simp add: m_def)
  next
    case (step k)
    then show ?case using waits [OF e free, of _ _ "m k" k] up [of k] by (simp add: m_def)
  qed
  then show "1 \<le> k \<Longrightarrow> k \<le> T \<Longrightarrow> ?waiting (m k)" .
  have "?waiting (m T)" by (rule wait) (use \<open>1 \<le> T\<close> in simp_all)
  moreover have "prepared (sc k)" if "T \<le> k" for k
    using unhindered_prepared [OF free] up [of k] that \<open>1 \<le> T\<close> by simp
  note prep = this
  ultimately have first: "followed (m (Suc T)) iid"
    using orders [OF e prep [of T], of "m T"] order [of "m T"] by (simp add: m_def waiting_def)
  have step: "followed (m (Suc k)) iid
      \<and> (machineReady (m (Suc k)) \<longleftrightarrow> Instance_Status (inst k) = InstanceStatusActive)
      \<and> (Instance_Status (inst k) = InstanceStatusActive \<longrightarrow> settledMachine (sc k) (inst k) (m (Suc k)))"
    if "followed (m k) iid" "T < k" for k
    using follows [OF e prep [of k] that(1) shown(1) shown(2) [OF that(2)]] that(2) by (simp add: m_def)
  have all: "followed (m k) iid" if "Suc T \<le> k" for k
    using that by (induction k rule: dec_induct) (use first step in auto)
  then show "T < k \<Longrightarrow> followed (m k) iid" by simp
  show "T < k \<Longrightarrow> machineReady (m (Suc k)) \<longleftrightarrow> Instance_Status (inst k) = InstanceStatusActive"
    and "T < k \<Longrightarrow> Instance_Status (inst k) = InstanceStatusActive \<Longrightarrow> settledMachine (sc k) (inst k) (m (Suc k))"
    using step all [of k] by simp_all
qed

text \<open>C9: a new machine gets its instance and becomes ready. When the lookups and patches in the
  management cluster succeed, the cluster is up from some call \<open>T\<close> on and OVH accepts the order, then
  the first call protects the machine, the calls before \<open>T\<close> create nothing, that call orders the
  instance and records it, and from then on, forever, the machine stays protected and records that
  instance; it is ready exactly after the calls that were shown the instance as ACTIVE, and then
  provisioned, with the provider ID and the addresses of that instance.\<close>

theorem machine_provisions:
  assumes "\<And>k m. scopeFor (env k m) ns name m (sc k) \<and> finalizersOK (env k m) \<and> pauseOK (env k m)"
    and "\<And>k. unhindered (sc k)" and "\<And>k. 1 \<le> k \<Longrightarrow> clusterUp (sc k) \<longleftrightarrow> T \<le> k" and "1 \<le> T"
    and "pristine m0" and "MachineFinalizer \<notin> set (machineFinalizers m0)"
    and "\<And>m. waiting (OVHMachine_Spec m0) (ObjectMeta_Name (OVHMachine_ObjectMeta m0)) m
      \<Longrightarrow> orderable (env T m) (sc T) m iid"
    and "iid \<noteq> ''''" and "\<And>k. T < k \<Longrightarrow> shown (sc k) iid (inst k)"
  shows "let m = calls env ns name ss m0 in
    (\<forall>k. 1 \<le> k \<and> k \<le> T \<longrightarrow> pristine (m k) \<and> MachineFinalizer \<in> set (machineFinalizers (m k)))
    \<and> (\<forall>k > T. followed (m k) iid
        \<and> (machineReady (m (k + 1)) \<longleftrightarrow> Instance_Status (inst k) = InstanceStatusActive)
        \<and> (Instance_Status (inst k) = InstanceStatusActive \<longrightarrow> settledMachine (sc k) (inst k) (m (k + 1))))"
  using provisioning [OF assms refl] unfolding Let_def waiting_def by simp

section \<open>Witness\<close>

text \<open>The instance is unknown until it is ordered, then in BUILD for one call, then ACTIVE.\<close>

definition stages :: "nat \<Rightarrow> Instance list" where
  "stages k = (if k < 2 then [] else [sampleInstance (if k = 2 then InstanceStatusBuild else InstanceStatusActive)])"

definition stageEnv :: "nat \<Rightarrow> OVHMachine \<Rightarrow> unit Deps" where
  "stageEnv k m = (sampleDeps (sampleCloud (stages k)))\<lparr>Deps_getOVHMachine := (\<lambda>_ _. Inr m)\<rparr>"

definition newMachine :: OVHMachine where
  "newMachine = sampleOVHMachine\<lparr>OVHMachine_ObjectMeta := (OVHMachine_ObjectMeta sampleOVHMachine)\<lparr>
     ObjectMeta_Finalizers := []\<rparr>\<rparr>"

lemma stageEnv_ok:
  "scopeFor (stageEnv k m) ns name m (sampleScope (stages k)) \<and> finalizersOK (stageEnv k m) \<and> pauseOK (stageEnv k m)"
  using sampleDeps_ok [of "sampleCloud (stages k)"]
  by (simp add: stageEnv_def scopeFor_def finalizersOK_def pauseOK_def sampleDeps_def sampleScope_def
      GetOVHClientFromCluster_def sampleOVHCluster_def zero_OVHClusterSpec_def zero_OVHCluster_def
      NewClientFromSecret_def NewClient_def secretString_def sampleSecret_def Let_def)

lemmas stage_eval = answers_def wp_def settled_ok projectPath_def regionQuery_def decode_def wrapResult_def
  sample_defs instanceName_def sampleName

lemma stage_orderable:
  assumes "waiting (OVHMachine_Spec newMachine) (ObjectMeta_Name (OVHMachine_ObjectMeta newMachine)) m"
  shows "orderable (stageEnv 1 m) (sampleScope (stages 1)) m ''i-1''"
  using assms [unfolded waiting_def]
  by (simp add: orderable_def stages_def stageEnv_def newMachine_def stage_eval FindInstanceByName_def
      ListInstances_def asInstances_def GetFlavorByName_def ListFlavors_def asFlavors_def GetImageByName_def
      ListImages_def asImages_def sampleFlavor_def sampleFlavor_fold isUUID_def sampleImage_found
      getBootstrapData_def sampleDeps_def sampleSecret_def PrepareUserData_def GetSSHKeyName_def
      CreateInstance_def asInstance_def Let_def)

lemma stage_shown: "1 < k \<Longrightarrow> shown (sampleScope (stages k)) ''i-1'' (hd (stages k))"
  by (simp add: shown_def stages_def stage_eval GetInstance_def asInstance_def)

theorem machine_provisions_witness:
  "let m = calls stageEnv ''ns'' ''m'' (\<lambda>_. sampleState newMachine) newMachine in
     machineInstanceID (m 1) = '''' \<and> machineInstanceID (m 2) = ''i-1'' \<and> \<not> machineReady (m 3)
     \<and> settledMachine (sampleScope (stages 3)) (sampleInstance InstanceStatusActive) (m 4)"
proof -
  have up: "unhindered (sampleScope (stages k))" "clusterUp (sampleScope (stages k)) \<longleftrightarrow> 1 \<le> k" if "1 \<le> k" for k
    using that by (simp_all add: unhindered_def sample_defs)
  have free: "unhindered (sampleScope (stages k))" for k by (simp add: unhindered_def sample_defs)
  have new: "pristine newMachine" "MachineFinalizer \<notin> set (machineFinalizers newMachine)"
    by (simp_all add: pristine_def newMachine_def sample_defs)
  note run = machine_provisions [of stageEnv "''ns''" "''m''" "\<lambda>k. sampleScope (stages k)" 1 newMachine "''i-1''"
      "\<lambda>k. hd (stages k)" "\<lambda>_. sampleState newMachine", OF stageEnv_ok free up(2) _ new stage_orderable _ stage_shown,
      unfolded Let_def]
  have "Instance_Status (hd (stages 2)) \<noteq> InstanceStatusActive"
    and "hd (stages 3) = sampleInstance InstanceStatusActive"
    by (simp_all add: stages_def sampleInstance_def)
  with run [THEN conjunct1, rule_format, of 1] run [THEN conjunct2, rule_format, of 2]
    run [THEN conjunct2, rule_format, of 3]
  show ?thesis
    unfolding Let_def
    by (simp add: pristine_def followed_def sampleInstance_def del: calls.simps One_nat_def add_2_eq_Suc add_2_eq_Suc')
qed

end
