(* ===== verification/System_Provisioning.thy ===== *)
theory System_Provisioning
  imports Provisioning Cluster_Convergence
begin

text \<open>
  A new cluster and a new machine of it, reconciled in turns. The reconcilers meet in the two objects
  that the machine reconciler reads: the \<^verbatim>\<open>OVHCluster\<close> as its own reconciler left it, and the owner
  cluster, to which the controller of Cluster API copies what the \<^verbatim>\<open>OVHCluster\<close> reports as
  provisioned. In an environment where nothing fails the cluster gets ready within three rounds, the
  machine waits for it, then gets its instance, and becomes ready when the instance is.
\<close>

section \<open>A cluster that is ready stays ready\<close>




section \<open>Both together\<close>


section \<open>Witness\<close>











end
