(* ===== verification/Memory.thy ===== *)
theory Memory
  imports Go_Prelude "HOL-Library.AList" "HOL-Library.Sublist"
begin

text \<open>
  The memory of a Go program, as far as the deep copies of \<^verbatim>\<open>api/*/zz_generated.deepcopy.go\<close>
  use it. The heap is a list of cells, an address is a position in it, and \<^verbatim>\<open>new\<close> and
  \<^verbatim>\<open>make\<close> append a cell. A cell holds the elements of an array of one type; what
  \<^verbatim>\<open>new(T)\<close> makes is an array of one element. A slice is a window (offset and length) into a
  cell, a map is a cell with its entries, and \<open>None\<close> is \<^verbatim>\<open>nil\<close>. A \<open>kind\<close> says how the elements of
  a type are stored in cells.

  A \<open>reading\<close> of a reference gives the value it stands for, with the list of all addresses this
  value rests on, or \<open>None\<close> for a reference that is not valid. The locale \<open>copier\<close> is the contract of
  a deep copy: the copy has the value of the original, the memory of the original is untouched, and
  the copy rests on fresh cells only, no two of them equal. It is closed under structs, pointers,
  slices and maps, and its clients get the independence of original and copy.
\<close>

type_synonym addr = nat
type_synonym ('c, 'a) reading = "'c list \<Rightarrow> ('a \<times> addr list) option"
type_synonym ('c, 'a) copying = "('c list, 'a) state"

datatype slice = Slice addr nat nat

record ('c, 'x) kind =
  wrap :: "'x list \<Rightarrow> 'c"
  unwrap :: "'c \<Rightarrow> 'x list option"

named_theorems copiers \<open>the contract of every deep copy\<close>

section \<open>Cells\<close>

definition peek :: "('c, 'x) kind \<Rightarrow> 'c list \<Rightarrow> addr \<Rightarrow> 'x list option" where
  "peek k h a = (if a < length h then unwrap k (h ! a) else None)"

definition contents :: "('c, 'x) kind \<Rightarrow> 'c list \<Rightarrow> addr \<Rightarrow> 'x list" where
  "contents k h a = (case peek k h a of None \<Rightarrow> [] | Some xs \<Rightarrow> xs)"

definition alloc :: "('c, 'x) kind \<Rightarrow> 'x list \<Rightarrow> ('c, addr) copying" where
  "alloc k xs = do {
     h \<leftarrow> State_Monad.get;
     State_Monad.set (h @ [wrap k xs]);
     State_Monad.return (length h)
   }"

definition readAll :: "('c, 'x) kind \<Rightarrow> addr \<Rightarrow> ('c, 'x list) copying" where
  "readAll k a = do { h \<leftarrow> State_Monad.get; State_Monad.return (contents k h a) }"

definition readAt :: "('c, 'x) kind \<Rightarrow> addr \<Rightarrow> nat \<Rightarrow> ('c, 'x) copying" where
  "readAt k a i = do { xs \<leftarrow> readAll k a; State_Monad.return (xs ! i) }"

definition writeAll :: "('c, 'x) kind \<Rightarrow> addr \<Rightarrow> 'x list \<Rightarrow> ('c, unit) copying" where
  "writeAll k a xs = do { h \<leftarrow> State_Monad.get; State_Monad.set (h[a := wrap k xs]) }"

definition writeAt :: "('c, 'x) kind \<Rightarrow> addr \<Rightarrow> nat \<Rightarrow> 'x \<Rightarrow> ('c, unit) copying" where
  "writeAt k a i x = do { xs \<leftarrow> readAll k a; writeAll k a (xs[i := x]) }"

primrec forRange :: "'i list \<Rightarrow> ('i \<Rightarrow> ('c, unit) copying) \<Rightarrow> ('c, unit) copying" where
  "forRange [] body = State_Monad.return ()"
| "forRange (i # is) body = do { _ \<leftarrow> body i; forRange is body }"

section \<open>The statements of a deep copy\<close>

text \<open>\<^verbatim>\<open>*out = new(T); (*in).DeepCopyInto(*out)\<close> for a pointer that is not
  nil; \<open>z\<close> is the type's zero value.\<close>

definition newDeepCopy :: "('c, 'x) kind \<Rightarrow> 'x \<Rightarrow> ('x \<Rightarrow> ('c, 'x) copying) \<Rightarrow> addr option
    \<Rightarrow> ('c, addr option) copying" where
  "newDeepCopy k z copyInto p =
     (case p of
        None \<Rightarrow> State_Monad.return None
      | Some a \<Rightarrow> do {
          b \<leftarrow> alloc k [z];
          x \<leftarrow> readAt k a 0;
          y \<leftarrow> copyInto x;
          _ \<leftarrow> writeAt k b 0 y;
          State_Monad.return (Some b)
        })"

text \<open>\<^verbatim>\<open>*out = new(T); **out = **in\<close>.\<close>

definition newCopy :: "('c, 'x) kind \<Rightarrow> 'x \<Rightarrow> addr option \<Rightarrow> ('c, addr option) copying" where
  "newCopy k z = newDeepCopy k z State_Monad.return"

text \<open>\<^verbatim>\<open>*out = make([]T, len(*in)); for i := range *in { (*in)[i].DeepCopyInto(&(*out)[i]) }\<close>
  for a slice that is not nil.\<close>

definition copyEach :: "('c, 'x) kind \<Rightarrow> ('x \<Rightarrow> ('c, 'x) copying) \<Rightarrow> addr \<Rightarrow> nat \<Rightarrow> addr
    \<Rightarrow> nat list \<Rightarrow> ('c, unit) copying" where
  "copyEach k copyInto a off b is = forRange is (\<lambda>i. do {
     x \<leftarrow> readAt k a (off + i);
     y \<leftarrow> copyInto x;
     writeAt k b i y
   })"

definition makeDeepCopy :: "('c, 'x) kind \<Rightarrow> 'x \<Rightarrow> ('x \<Rightarrow> ('c, 'x) copying) \<Rightarrow> slice option
    \<Rightarrow> ('c, slice option) copying" where
  "makeDeepCopy k z copyInto s =
     (case s of
        None \<Rightarrow> State_Monad.return None
      | Some (Slice a off n) \<Rightarrow> do {
          b \<leftarrow> alloc k (replicate n z);
          _ \<leftarrow> copyEach k copyInto a off b [0..<n];
          State_Monad.return (Some (Slice b 0 n))
        })"

text \<open>\<^verbatim>\<open>*out = make([]T, len(*in)); copy(*out, *in)\<close>.\<close>

definition makeCopy :: "('c, 'x) kind \<Rightarrow> 'x \<Rightarrow> slice option \<Rightarrow> ('c, slice option) copying" where
  "makeCopy k z = makeDeepCopy k z State_Monad.return"

text \<open>\<^verbatim>\<open>*out = make(map[string]string, len(*in)); for key, val := range *in { (*out)[key] = val }\<close>.\<close>

definition enterAll :: "('c, string \<times> string) kind \<Rightarrow> addr \<Rightarrow> (string \<times> string) list
    \<Rightarrow> ('c, unit) copying" where
  "enterAll k b entries = forRange entries (\<lambda>(key, val). do {
     es \<leftarrow> readAll k b;
     writeAll k b (AList.update key val es)
   })"

definition makeMapCopy :: "('c, string \<times> string) kind \<Rightarrow> addr option
    \<Rightarrow> ('c, addr option) copying" where
  "makeMapCopy k m =
     (case m of
        None \<Rightarrow> State_Monad.return None
      | Some a \<Rightarrow> do {
          b \<leftarrow> alloc k [];
          entries \<leftarrow> readAll k a;
          _ \<leftarrow> enterAll k b entries;
          State_Monad.return (Some b)
        })"

section \<open>Readings\<close>

definition readPure :: "'a \<Rightarrow> ('c, 'a) reading" where
  "readPure v h = Some (v, [])"

definition readMap :: "('a \<Rightarrow> 'b) \<Rightarrow> ('c, 'a) reading \<Rightarrow> ('c, 'b) reading" where
  "readMap f r h = map_option (\<lambda>(v, as). (f v, as)) (r h)"

fun loadPair :: "('x \<Rightarrow> ('c, 'a) reading) \<Rightarrow> ('y \<Rightarrow> ('c, 'b) reading) \<Rightarrow> 'x \<times> 'y
    \<Rightarrow> ('c, 'a \<times> 'b) reading" where
  "loadPair f g (x, y) h = do {
     (v, as) \<leftarrow> f x h;
     (w, bs) \<leftarrow> g y h;
     Some ((v, w), as @ bs)
   }"

fun copyPair :: "('x \<Rightarrow> ('c, 'x) copying) \<Rightarrow> ('y \<Rightarrow> ('c, 'y) copying) \<Rightarrow> 'x \<times> 'y
    \<Rightarrow> ('c, 'x \<times> 'y) copying" where
  "copyPair f g (x, y) = do { x' \<leftarrow> f x; y' \<leftarrow> g y; State_Monad.return (x', y') }"

fun loadAll :: "('x \<Rightarrow> ('c, 'a) reading) \<Rightarrow> 'x list \<Rightarrow> ('c, 'a list) reading" where
  "loadAll ld [] h = Some ([], [])"
| "loadAll ld (x # xs) h = do {
     (v, as) \<leftarrow> ld x h;
     (vs, bs) \<leftarrow> loadAll ld xs h;
     Some (v # vs, as @ bs)
   }"

definition loadPtr :: "('c, 'x) kind \<Rightarrow> ('x \<Rightarrow> ('c, 'a) reading) \<Rightarrow> addr option
    \<Rightarrow> ('c, 'a option) reading" where
  "loadPtr k ld p h =
     (case p of
        None \<Rightarrow> Some (None, [])
      | Some a \<Rightarrow>
          (case peek k h a of
             Some (x # _) \<Rightarrow> map_option (\<lambda>(v, as). (Some v, a # as)) (ld x h)
           | _ \<Rightarrow> None))"

definition loadSlice :: "('c, 'x) kind \<Rightarrow> ('x \<Rightarrow> ('c, 'a) reading) \<Rightarrow> slice option
    \<Rightarrow> ('c, 'a list) reading" where
  "loadSlice k ld s h =
     (case s of
        None \<Rightarrow> Some ([], [])
      | Some (Slice a off n) \<Rightarrow>
          (case peek k h a of
             None \<Rightarrow> None
           | Some xs \<Rightarrow>
               if off + n \<le> length xs
               then map_option (\<lambda>(vs, as). (vs, a # as)) (loadAll ld (take n (drop off xs)) h)
               else None))"

definition loadMap :: "('c, string \<times> string) kind \<Rightarrow> addr option
    \<Rightarrow> ('c, (string \<times> string) list) reading" where
  "loadMap k m h =
     (case m of
        None \<Rightarrow> Some ([], [])
      | Some a \<Rightarrow>
          (case peek k h a of
             None \<Rightarrow> None
           | Some es \<Rightarrow> if distinct (map fst es) then Some (es, [a]) else None))"

section \<open>What a reading rests on\<close>

definition agree :: "'c list \<Rightarrow> 'c list \<Rightarrow> addr list \<Rightarrow> bool" where
  "agree h g as \<longleftrightarrow> (\<forall>a \<in> set as. a < length g \<and> g ! a = h ! a)"

lemma agree_simps [simp]:
  "agree h g []" "agree h g (a # as) \<longleftrightarrow> a < length g \<and> g ! a = h ! a \<and> agree h g as"
  "agree h g (as @ bs) \<longleftrightarrow> agree h g as \<and> agree h g bs"
  by (auto simp: agree_def)

lemma agree_prefix: "prefix h g \<Longrightarrow> set as \<subseteq> {..<length h} \<Longrightarrow> agree h g as"
  by (auto simp: agree_def prefix_def nth_append)

lemma agree_update:
  "set as \<subseteq> {..<length h} \<Longrightarrow> a \<notin> set as \<Longrightarrow> agree h (h[a := c]) as"
  unfolding agree_def by (metis length_list_update lessThan_iff nth_list_update_neq subsetD)

lemma agree_trans: "agree f g as \<Longrightarrow> agree g h as \<Longrightarrow> agree f h as"
  by (auto simp: agree_def)

lemma prefix_update: "prefix h g \<Longrightarrow> length h \<le> a \<Longrightarrow> prefix h (g[a := c])"
  by (auto simp: prefix_def list_update_append)

lemma prefix_peek: "prefix h g \<Longrightarrow> peek k h a = Some xs \<Longrightarrow> peek k g a = Some xs"
  by (auto simp: peek_def prefix_def nth_append split: if_splits)

lemma peek_agree: "peek k h a = Some xs \<Longrightarrow> a < length g \<Longrightarrow> g ! a = h ! a \<Longrightarrow> peek k g a = Some xs"
  by (auto simp: peek_def split: if_splits)

lemma peek_bound: "peek k h a = Some xs \<Longrightarrow> a < length h"
  by (simp add: peek_def split: if_splits)

text \<open>What a deep copy promises to those who use it. The memory that was there is kept; the copy has
  the value of the original and rests on new cells, no two of them the same; whatever is then
  written into the cells of the copy, the original keeps its value, and whatever is written into the
  cells of the original, the copy keeps its value.\<close>

definition differ :: "'c list \<Rightarrow> 'c list \<Rightarrow> addr list \<Rightarrow> bool" where
  "differ g h as \<longleftrightarrow> length g = length h \<and> (\<forall>a < length h. a \<notin> set as \<longrightarrow> g ! a = h ! a)"

definition deepCopies :: "('x \<Rightarrow> ('c, 'v) reading) \<Rightarrow> ('x \<Rightarrow> ('c, 'x) copying) \<Rightarrow> bool" where
  "deepCopies load copy \<longleftrightarrow> (\<forall>x h v as y h'.
     load x h = Some (v, as) \<and> run_state (copy x) h = (y, h') \<longrightarrow>
     prefix h h' \<and> load x h' = Some (v, as) \<and> (\<exists>bs. load y h' = Some (v, bs)
       \<and> distinct bs \<and> set bs \<inter> {..<length h} = {}
       \<and> (\<forall>g. differ g h' bs \<longrightarrow> load x g = Some (v, as))
       \<and> (\<forall>g. differ g h' as \<longrightarrow> load y g = Some (v, bs))))"

lemma deepCopiesE:
  assumes "deepCopies load copy" and "load x h = Some (v, as)" and "run_state (copy x) h = (y, h')"
  obtains bs where "prefix h h'" "load y h' = Some (v, bs)" "distinct bs"
    "set bs \<inter> {..<length h} = {}" "\<forall>g. differ g h' bs \<longrightarrow> load x g = Some (v, as)"
    "\<forall>g. differ g h' as \<longrightarrow> load y g = Some (v, bs)"
  using assms unfolding deepCopies_def by blast

lemma differ_agree:
  "differ g h bs \<Longrightarrow> set as \<inter> set bs = {} \<Longrightarrow> set as \<subseteq> {..<length h} \<Longrightarrow> agree h g as"
  by (auto simp: agree_def differ_def)

text \<open>How a type is stored: what was put into a cell can be read back.\<close>

locale storable =
  fixes k :: "('c, 'x) kind"
  assumes unwrap_wrap [simp]: "unwrap k (wrap k xs) = Some xs"
begin

lemma peek_stored: "a < length h \<Longrightarrow> peek k (h[a := wrap k xs]) a = Some xs"
  by (simp add: peek_def)

lemma peek_alloc: "peek k (h @ [wrap k xs]) (length h) = Some xs"
  by (simp add: peek_def)

end

section \<open>The contract of a deep copy\<close>

locale copier =
  fixes load :: "'x \<Rightarrow> ('c, 'v) reading"
    and copyInto :: "'x \<Rightarrow> ('c, 'x) copying"
  assumes load_within: "load x h = Some (v, as) \<Longrightarrow> set as \<subseteq> {..<length h}"
    and load_local: "load x h = Some (v, as) \<Longrightarrow> agree h g as \<Longrightarrow> load x g = Some (v, as)"
    and copies: "load x h = Some (v, as) \<Longrightarrow> run_state (copyInto x) h = (y, h') \<Longrightarrow>
      prefix h h' \<and> (\<exists>bs. load y h' = Some (v, bs) \<and> distinct bs
        \<and> set bs \<subseteq> {length h..<length h'})"
begin

lemma load_bound: "load x h = Some (v, as) \<Longrightarrow> a \<in> set as \<Longrightarrow> a < length h"
  using load_within by blast

lemma load_extended:
  assumes "load x h = Some (v, as)" and "prefix h g"
  shows "load x g = Some (v, as)"
  by (rule load_local [OF assms(1) agree_prefix [OF assms(2) load_within [OF assms(1)]]])

lemma copyE:
  assumes "load x h = Some (v, as)"
  obtains y h' bs where "run_state (copyInto x) h = (y, h')" "prefix h h'"
    "load y h' = Some (v, bs)" "distinct bs" "set bs \<subseteq> {length h..<length h'}"
proof -
  obtain y h' where r: "run_state (copyInto x) h = (y, h')" by fastforce
  from copies [OF assms r] show thesis by (blast intro: that [OF r])
qed

lemma deep: "deepCopies load copyInto"
  unfolding deepCopies_def
proof (intro allI impI, elim conjE)
  fix x h v as y h'
  assume x: "load x h = Some (v, as)" and r: "run_state (copyInto x) h = (y, h')"
  from copies [OF this] obtain bs where c: "prefix h h'" "load y h' = Some (v, bs)" "distinct bs"
      "set bs \<subseteq> {length h..<length h'}" by blast
  from x c(1) have x': "load x h' = Some (v, as)" by (rule load_extended)
  have as: "set as \<subseteq> {..<length h}" "length h \<le> length h'"
    using load_within [OF x] prefix_length_le [OF c(1)] by auto
  have disj: "set as \<inter> set bs = {}" 
    using as(1) c(4) by (meson atLeastLessThan_iff disjoint_iff leD lessThan_iff subsetD)
  have "load x g = Some (v, as)" if "differ g h' bs" for g
    by (rule load_local [OF x' differ_agree [OF that]]) (use as c(4) disj in auto)
  moreover have "load y g = Some (v, bs)" if "differ g h' as" for g
    by (rule load_local [OF c(2) differ_agree [OF that]]) (use as c(4) disj in auto)
  moreover have "set bs \<inter> {..<length h} = {}" using c(4) by auto
  ultimately show "prefix h h' \<and> load x h' = Some (v, as) \<and> (\<exists>bs. load y h' = Some (v, bs)
      \<and> distinct bs \<and> set bs \<inter> {..<length h} = {}
      \<and> (\<forall>g. differ g h' bs \<longrightarrow> load x g = Some (v, as))
      \<and> (\<forall>g. differ g h' as \<longrightarrow> load y g = Some (v, bs)))"
    using c(1-3) x' by blast
qed

end

lemma copier_flat [copiers]: "copier readPure State_Monad.return"
  by unfold_locales (auto simp: readPure_def)

lemma copier_same: "(\<And>x. copyInto x = State_Monad.return x) \<Longrightarrow> copier readPure copyInto"
  by unfold_locales (auto simp: readPure_def)

text \<open>Two fields of a struct, copied one after the other.\<close>

lemma loadPair_SomeD:
  assumes "loadPair f g (x, y) h = Some (v, as)"
  obtains v1 v2 bs cs where "v = (v1, v2)" "as = bs @ cs" "f x h = Some (v1, bs)"
    "g y h = Some (v2, cs)"
  using assms by (auto simp: bind_eq_Some_conv)

lemma copier_pair:
  assumes "copier f fc" and "copier g gc"
  shows "copier (loadPair f g) (copyPair fc gc)"
proof -
  note f = assms(1) and g = assms(2)
  show ?thesis
  proof (unfold_locales, goal_cases)
    case (1 p h v as)
    then show ?case
      by (cases p) (auto simp: bind_eq_Some_conv dest: copier.load_bound [OF f]
          copier.load_bound [OF g])
  next
    case (2 p h v as h')
    obtain x y where p: "p = (x, y)" by fastforce
    from 2(1) [unfolded p] obtain v1 v2 bs cs where "v = (v1, v2)" "as = bs @ cs"
        and fg: "f x h = Some (v1, bs)" "g y h = Some (v2, cs)" by (rule loadPair_SomeD)
    with 2(2) copier.load_local [OF f fg(1), of h'] copier.load_local [OF g fg(2), of h']
    show ?case by (simp add: p)
  next
    case (3 p h v as q h')
    obtain x y where p: "p = (x, y)" by fastforce
    from 3(1) [unfolded p] obtain v1 v2 bs cs where v: "v = (v1, v2)" "as = bs @ cs"
        and fg: "f x h = Some (v1, bs)" "g y h = Some (v2, cs)" by (rule loadPair_SomeD)
    from copier.copyE [OF f fg(1)] obtain x' h1 ds where x': "run_state (fc x) h = (x', h1)"
        "prefix h h1" "f x' h1 = Some (v1, ds)" "distinct ds" "set ds \<subseteq> {length h..<length h1}" .
    from copier.load_extended [OF g fg(2) x'(2)] have gy: "g y h1 = Some (v2, cs)" .
    from copier.copyE [OF g gy] obtain y' h2 es where y': "run_state (gc y) h1 = (y', h2)"
        "prefix h1 h2" "g y' h2 = Some (v2, es)" "distinct es" "set es \<subseteq> {length h1..<length h2}" .
    from 3(2) x'(1) y'(1) have q: "q = (x', y')" "h' = h2" by (auto simp: p)
    have "f x' h2 = Some (v1, ds)" by (rule copier.load_extended [OF f x'(3) y'(2)])
    moreover have "set ds \<inter> set es = {}" using x'(5) y'(5) by fastforce
    moreover have "length h \<le> length h1" "length h1 \<le> length h2"
      using x'(2) y'(2) by (auto intro: prefix_length_le)
    ultimately show ?case
      using x' y' by (auto simp: q v intro: prefix_order.trans)
  qed
qed

text \<open>A struct: \<open>dest\<close> selects the fields that hold references, \<open>put\<close> assigns them, \<open>mk\<close> gives the
  value of the struct from theirs.\<close>

lemma copier_struct:
  assumes "copier ld cp"
    and "\<And>i. load i = readMap (mk i) (ld (dest i))"
    and "\<And>i. copyInto i = do { y \<leftarrow> cp (dest i); State_Monad.return (put i y) }"
    and "\<And>i y. dest (put i y) = y"
    and "\<And>i y. mk (put i y) = mk i"
  shows "copier load copyInto"
proof -
  note c = assms(1)
  show ?thesis
  proof (unfold_locales, goal_cases)
    case (1 x h v as)
    then show ?case by (auto simp: assms(2) readMap_def dest: copier.load_within [OF c])
  next
    case (2 x h v as h')
    then show ?case by (auto simp: assms(2) readMap_def dest: copier.load_local [OF c])
  next
    case (3 x h v as y h')
    from 3(1) obtain w where w: "ld (dest x) h = Some (w, as)" "v = mk x w"
      by (auto simp: assms(2) readMap_def)
    from copier.copyE [OF c w(1)] obtain d h1 bs where "run_state (cp (dest x)) h = (d, h1)"
        "prefix h h1" "ld d h1 = Some (w, bs)" "distinct bs" "set bs \<subseteq> {length h..<length h1}" .
    with 3(2) show ?case by (auto simp: assms(2-5) readMap_def w(2))
  qed
qed

text \<open>The elements of an array.\<close>

context copier
begin

lemma loadAll_within: "loadAll load xs h = Some (vs, as) \<Longrightarrow> set as \<subseteq> {..<length h}"
  by (induction xs arbitrary: vs as) (auto simp: bind_eq_Some_conv dest: load_bound)

lemma loadAll_local:
  "loadAll load xs h = Some (vs, as) \<Longrightarrow> agree h g as \<Longrightarrow> loadAll load xs g = Some (vs, as)"
  by (induction xs arbitrary: vs as) (fastforce simp: bind_eq_Some_conv dest: load_local)+

lemma loadAll_nth:
  "loadAll load xs h = Some (vs, as) \<Longrightarrow> i < length xs \<Longrightarrow> \<exists>bs. load (xs ! i) h = Some (vs ! i, bs)"
  by (induction xs arbitrary: vs as i) (auto simp: bind_eq_Some_conv nth_Cons split: nat.split)

lemma loadAll_length: "loadAll load xs h = Some (vs, as) \<Longrightarrow> length vs = length xs"
  by (induction xs arbitrary: vs as) (auto simp: bind_eq_Some_conv)

lemma loadAll_snoc:
  "loadAll load xs h = Some (vs, as) \<Longrightarrow> load x h = Some (v, bs)
    \<Longrightarrow> loadAll load (xs @ [x]) h = Some (vs @ [v], as @ bs)"
  by (induction xs arbitrary: vs as) (auto simp: bind_eq_Some_conv)

end

lemma run_cells [simp]:
  "run_state (alloc k xs) h = (length h, h @ [wrap k xs])"
  "run_state (readAll k a) h = (contents k h a, h)"
  "run_state (readAt k a i) h = (contents k h a ! i, h)"
  "run_state (writeAll k a xs) h = ((), h[a := wrap k xs])"
  "run_state (writeAt k a i x) h = ((), h[a := wrap k ((contents k h a)[i := x])])"
  by (simp_all add: alloc_def readAll_def readAt_def writeAll_def writeAt_def)

lemma peek_contents: "peek k h a = Some xs \<Longrightarrow> contents k h a = xs"
  by (simp add: contents_def)

section \<open>Pointers and slices\<close>

text \<open>A type whose values are stored in cells and can be copied.\<close>

locale element = storable k + copier load copyInto
  for k :: "('c, 'x) kind" and load :: "'x \<Rightarrow> ('c, 'v) reading" and copyInto :: "'x \<Rightarrow> ('c, 'x) copying"
begin

lemma pointer: "copier (loadPtr k load) (newDeepCopy k z copyInto)"
proof (unfold_locales, goal_cases)
  case (1 p h v as)
  then show ?case
    by (auto simp: loadPtr_def dest: peek_bound load_bound split: option.splits list.splits)
next
  case (2 p h v as g)
  then show ?case
    by (auto simp: loadPtr_def peek_def dest: load_local split: option.splits list.splits if_splits)
next
  case (3 p h v as q h')
  show ?case
  proof (cases p)
    case None
    with 3 show ?thesis by (auto simp: loadPtr_def newDeepCopy_def)
  next
    case (Some a)
    with 3(1) obtain x xs w bs where a: "peek k h a = Some (x # xs)" "load x h = Some (w, bs)"
        and v: "v = Some w" "as = a # bs"
      by (auto simp: loadPtr_def split: option.splits list.splits)
    let ?b = "length h" and ?h1 = "h @ [wrap k [z]]"
    have x: "contents k ?h1 a ! 0 = x"
      by (subst peek_contents [OF prefix_peek [OF _ a(1)]]) auto
    have "load x ?h1 = Some (w, bs)" by (rule load_extended [OF a(2)]) simp
    then obtain y h2 cs where y: "run_state (copyInto x) ?h1 = (y, h2)" "prefix ?h1 h2"
        "load y h2 = Some (w, cs)" "distinct cs" "set cs \<subseteq> {length ?h1..<length h2}"
      by (rule copyE)
    let ?h3 = "h2[?b := wrap k [y]]"
    have b: "?b < length h2" "contents k h2 ?b = [z]"
      using prefix_length_le [OF y(2)] prefix_peek [OF y(2) peek_alloc]
      by (auto simp: peek_contents)
    have r: "q = Some ?b" "h' = ?h3"
      using 3(2) Some x y(1) b(2) by (auto simp: newDeepCopy_def)
    have "load y ?h3 = Some (w, cs)"
      using y(5) by (intro load_local [OF y(3)] agree_update) auto
    then have "loadPtr k load q h' = Some (v, ?b # cs)"
      by (simp add: r v loadPtr_def peek_stored b(1))
    moreover have "prefix h h'"
      unfolding r using y(2) by (intro prefix_update) (auto dest: append_prefixD)
    ultimately show ?thesis using y(4,5) b(1) by (auto simp: r)
  qed
qed

text \<open>The loop over the elements, from the \<open>i\<close>-th on: the elements before it are copied already.\<close>

lemma elements:
  assumes src: "peek k h a = Some xs" "off + n \<le> length xs"
      "loadAll load (take n (drop off xs)) h = Some (vs, as)"
    and "i \<le> n" and "prefix h g" and b: "b = length h" "b < length g"
    and "peek k g b = Some ys" and "length ys = n"
    and "loadAll load (take i ys) g = Some (take i vs, bs)" and "distinct bs"
    and "set bs \<subseteq> {b<..<length g}"
  shows "\<exists>g' zs cs. run_state (copyEach k copyInto a off b [i..<n]) g = ((), g')
    \<and> prefix h g' \<and> b < length g' \<and> peek k g' b = Some zs \<and> length zs = n
    \<and> loadAll load zs g' = Some (vs, cs) \<and> distinct cs \<and> set cs \<subseteq> {b<..<length g'}"
  using assms(4-)
proof (induction i arbitrary: g ys bs rule: inc_induct)
  case base
  then show ?case using loadAll_length [OF src(3)] src(2) by (auto simp: copyEach_def)
next
  case (step i)
  have len: "length vs = n" using loadAll_length [OF src(3)] src(2) by simp
  have "contents k g a ! (off + i) = take n (drop off xs) ! i"
    using peek_contents [OF prefix_peek [OF step.prems(1) src(1)]] step.hyps src(2) by simp
  moreover obtain ds where "load (take n (drop off xs) ! i) h = Some (vs ! i, ds)"
    using loadAll_nth [OF src(3), of i] step.hyps src(2) by auto
  ultimately have "load (contents k g a ! (off + i)) g = Some (vs ! i, ds)"
    using load_extended [OF _ step.prems(1)] by simp
  then obtain y g1 cs where y: "run_state (copyInto (contents k g a ! (off + i))) g = (y, g1)"
      "prefix g g1" "load y g1 = Some (vs ! i, cs)" "distinct cs" "set cs \<subseteq> {length g..<length g1}"
    by (rule copyE)
  let ?g2 = "g1[b := wrap k (ys[i := y])]"
  have b1: "b < length g1" "contents k g1 b = ys"
    using step.prems(3) prefix_length_le [OF y(2)] prefix_peek [OF y(2) step.prems(4)]
    by (auto simp: peek_contents)
  have in1: "set bs \<subseteq> {..<length g1}" "b \<notin> set bs" "b \<notin> set cs"
    using step.prems(3,8) y(5) prefix_length_le [OF y(2)] by auto
  have "agree g ?g2 bs"
    by (rule agree_trans [OF agree_prefix [OF y(2)] agree_update [OF in1(1,2)]])
      (use step.prems(8) in auto)
  then have "loadAll load (take i ys) ?g2 = Some (take i vs, bs)"
    by (rule loadAll_local [OF step.prems(6)])
  moreover have "load y ?g2 = Some (vs ! i, cs)"
    using in1(3) y(5) by (intro load_local [OF y(3)] agree_update) auto
  ultimately have "loadAll load (take i ys @ [y]) ?g2 = Some (take i vs @ [vs ! i], bs @ cs)"
    by (rule loadAll_snoc)
  then have all: "loadAll load (take (Suc i) (ys[i := y])) ?g2 = Some (take (Suc i) vs, bs @ cs)"
    using step.hyps step.prems(5) len by (simp add: take_Suc_conv_app_nth take_update_swap list_update_append)
  have "prefix h ?g2"
    using prefix_order.trans [OF step.prems(1) y(2)] step.prems(2) by (intro prefix_update) auto
  moreover have "set (bs @ cs) \<subseteq> {b<..<length ?g2}" "distinct (bs @ cs)"
    using step.prems(3,7,8) y(4,5) prefix_length_le [OF y(2)] by fastforce+
  ultimately have "\<exists>g' zs cs. run_state (copyEach k copyInto a off b [Suc i..<n]) ?g2 = ((), g')
    \<and> prefix h g' \<and> b < length g' \<and> peek k g' b = Some zs \<and> length zs = n
    \<and> loadAll load zs g' = Some (vs, cs) \<and> distinct cs \<and> set cs \<subseteq> {b<..<length g'}"
    using step.prems(2,5) b1 all peek_stored [OF b1(1)]
    by (intro step.IH [of ?g2 "ys[i := y]" "bs @ cs"]) simp_all
  then show ?case
    using step.hyps y(1) b1(2) by (simp add: copyEach_def upt_conv_Cons)
qed

lemma slices: "copier (loadSlice k load) (makeDeepCopy k z copyInto)"
proof (unfold_locales, goal_cases)
  case (1 s h v as)
  then show ?case
    using loadAll_within
    by (fastforce simp: loadSlice_def dest: peek_bound split: option.splits slice.splits if_splits)
next
  case (2 s h v as g)
  then show ?case
    by (auto simp: loadSlice_def peek_def dest: loadAll_local
        split: option.splits slice.splits if_splits)
next
  case (3 s h v as q h')
  show ?case
  proof (cases s)
    case None
    with 3 show ?thesis by (auto simp: loadSlice_def makeDeepCopy_def)
  next
    case (Some w)
    obtain a off n where w: "w = Slice a off n" by (cases w)
    from 3(1) obtain xs bs where src: "peek k h a = Some xs" "off + n \<le> length xs"
        "loadAll load (take n (drop off xs)) h = Some (v, bs)"
      by (auto simp: Some w loadSlice_def split: option.splits if_splits)
    let ?g = "h @ [wrap k (replicate n z)]"
    obtain g zs cs where loop: "run_state (copyEach k copyInto a off (length h) [0..<n]) ?g = ((), g)"
        "prefix h g" "length h < length g" "peek k g (length h) = Some zs" "length zs = n"
        "loadAll load zs g = Some (v, cs)" "distinct cs" "set cs \<subseteq> {length h<..<length g}"
      using elements [OF src, of 0 ?g "length h" "replicate n z" "[]"] peek_alloc by auto
    have r: "q = Some (Slice (length h) 0 n)" "h' = g"
      using 3(2) loop(1) by (auto simp: Some w makeDeepCopy_def)
    have "loadSlice k load q h' = Some (v, length h # cs)"
      using loop(4-6) by (simp add: r loadSlice_def)
    then show ?thesis using loop(2,3,7,8) by (auto simp: r)
  qed
qed

end

text \<open>Types without references are copied by assignment.\<close>

sublocale storable \<subseteq> flat: element k readPure State_Monad.return
  by (intro element.intro storable_axioms copier_flat)

context storable
begin

lemma flat_pointer: "copier (loadPtr k readPure) (newCopy k z)"
  unfolding newCopy_def by (rule flat.pointer)

lemma flat_slices: "copier (loadSlice k readPure) (makeCopy k z)"
  unfolding makeCopy_def by (rule flat.slices)

end

section \<open>Maps\<close>

locale mapping_kind = storable k for k :: "('c, string \<times> string) kind"
begin

lemma update_new: "key \<notin> fst ` set es \<Longrightarrow> AList.update key val es = es @ [(key, val)]"
  by (induction es) auto

text \<open>Entering the entries one by one gives the entries, in their order.\<close>

lemma entries:
  assumes "distinct (map fst (es @ fs))" and "b < length g" and "peek k g b = Some es"
  shows "\<exists>g'. run_state (enterAll k b fs) g = ((), g')
    \<and> length g' = length g \<and> peek k g' b = Some (es @ fs)
    \<and> (\<forall>h. prefix h g \<longrightarrow> length h \<le> b \<longrightarrow> prefix h g')"
  using assms
proof (induction fs arbitrary: es g)
  case Nil
  then show ?case by (simp add: enterAll_def)
next
  case (Cons e fs)
  obtain key val where e: "e = (key, val)" by fastforce
  let ?g = "g[b := wrap k (es @ [e])]"
  have "AList.update key val es = es @ [e]"
    using Cons.prems(1) by (simp add: e update_new)
  moreover from Cons.IH [of "es @ [e]" ?g] Cons.prems
  obtain g' where "run_state (enterAll k b fs) ?g = ((), g')"
      "length g' = length g" "peek k g' b = Some (es @ e # fs)"
      "\<forall>h. prefix h ?g \<longrightarrow> length h \<le> b \<longrightarrow> prefix h g'"
    by (auto simp: peek_stored)
  ultimately show ?case
    using Cons.prems by (auto simp: enterAll_def e peek_contents intro: prefix_update)
qed

lemma maps: "copier (loadMap k) (makeMapCopy k)"
proof (unfold_locales, goal_cases)
  case (1 m h v as)
  then show ?case by (auto simp: loadMap_def dest: peek_bound split: option.splits if_splits)
next
  case (2 m h v as g)
  then show ?case by (auto simp: loadMap_def peek_def split: option.splits if_splits)
next
  case (3 m h v as q h')
  show ?case
  proof (cases m)
    case None
    with 3 show ?thesis by (auto simp: loadMap_def makeMapCopy_def)
  next
    case (Some a)
    with 3(1) have a: "peek k h a = Some v" "distinct (map fst v)"
      by (auto simp: loadMap_def split: option.splits if_splits)
    let ?g = "h @ [wrap k []]"
    have "contents k ?g a = v" by (rule peek_contents, rule prefix_peek [OF _ a(1)]) simp
    moreover from entries [of "[]" v "length h" ?g] a(2) peek_alloc
    obtain g' where "run_state (enterAll k (length h) v) ?g = ((), g')"
        "length g' = Suc (length h)" "peek k g' (length h) = Some v" "prefix h g'"
      by auto
    ultimately show ?thesis
      using 3(2) a(2) by (auto simp: Some makeMapCopy_def loadMap_def)
  qed
qed

end

end
