(* ===== verification/Api_Memory.thy ===== *)
theory Api_Memory
  imports Memory Api_Types
begin

text \<open>
  The Kubernetes and Cluster API types as they lie in memory, and the cells the API packages share.
  A record with the suffix \<open>M\<close> has the fields of the struct of that name, with a reference where the
  struct has a pointer, a slice or a map; a struct without references is the record of
  \<open>Api_Types\<close>. The deep copies of these types belong to Kubernetes and Cluster API: they are the
  fields of \<open>library\<close>, and \<open>documented\<close> says that each copies its type.
\<close>

section \<open>Structs and cells\<close>

record TypeMeta =
  TypeMeta_Kind :: string
  TypeMeta_APIVersion :: string

record ObjectMetaM =
  ObjectMetaM_Namespace :: string
  ObjectMetaM_Name :: string
  ObjectMetaM_Annotations :: "addr option"
  ObjectMetaM_Finalizers :: "slice option"
  ObjectMetaM_DeletionTimestamp :: "addr option"

record TemplateMetaM =
  TemplateMetaM_Labels :: "addr option"
  TemplateMetaM_Annotations :: "addr option"

record FailureDomainM =
  FailureDomainM_Name :: string
  FailureDomainM_ControlPlane :: "addr option"

datatype 's cell =
    CBool "bool list" | CInt32 "int list" | CTime "int list" | CString "string list"
  | CEntries "(string \<times> string) list" | CCondition "Condition list"
  | CMachineAddress "MachineAddress list" | CFailureDomain "FailureDomainM list"
  | CApi 's

definition kBool :: "('s cell, bool) kind" where
  "kBool = \<lparr>wrap = CBool, unwrap = (\<lambda>c. case c of CBool xs \<Rightarrow> Some xs | _ \<Rightarrow> None)\<rparr>"
definition kInt32 :: "('s cell, int) kind" where
  "kInt32 = \<lparr>wrap = CInt32, unwrap = (\<lambda>c. case c of CInt32 xs \<Rightarrow> Some xs | _ \<Rightarrow> None)\<rparr>"
definition kTime :: "('s cell, int) kind" where
  "kTime = \<lparr>wrap = CTime, unwrap = (\<lambda>c. case c of CTime xs \<Rightarrow> Some xs | _ \<Rightarrow> None)\<rparr>"
definition kString :: "('s cell, string) kind" where
  "kString = \<lparr>wrap = CString, unwrap = (\<lambda>c. case c of CString xs \<Rightarrow> Some xs | _ \<Rightarrow> None)\<rparr>"
definition kEntries :: "('s cell, string \<times> string) kind" where
  "kEntries = \<lparr>wrap = CEntries, unwrap = (\<lambda>c. case c of CEntries xs \<Rightarrow> Some xs | _ \<Rightarrow> None)\<rparr>"
definition kCondition :: "('s cell, Condition) kind" where
  "kCondition = \<lparr>wrap = CCondition, unwrap = (\<lambda>c. case c of CCondition xs \<Rightarrow> Some xs | _ \<Rightarrow> None)\<rparr>"
definition kMachineAddress :: "('s cell, MachineAddress) kind" where
  "kMachineAddress = \<lparr>wrap = CMachineAddress,
     unwrap = (\<lambda>c. case c of CMachineAddress xs \<Rightarrow> Some xs | _ \<Rightarrow> None)\<rparr>"
definition kFailureDomain :: "('s cell, FailureDomainM) kind" where
  "kFailureDomain = \<lparr>wrap = CFailureDomain,
     unwrap = (\<lambda>c. case c of CFailureDomain xs \<Rightarrow> Some xs | _ \<Rightarrow> None)\<rparr>"

interpretation kBool: storable kBool
  by unfold_locales (simp add: kBool_def)
interpretation kInt32: storable kInt32
  by unfold_locales (simp add: kInt32_def)
interpretation kTime: storable kTime
  by unfold_locales (simp add: kTime_def)
interpretation kString: storable kString
  by unfold_locales (simp add: kString_def)
interpretation kEntries: mapping_kind kEntries
  by unfold_locales (simp add: kEntries_def)
interpretation kCondition: storable kCondition
  by unfold_locales (simp add: kCondition_def)
interpretation kMachineAddress: storable kMachineAddress
  by unfold_locales (simp add: kMachineAddress_def)
interpretation kFailureDomain: storable kFailureDomain
  by unfold_locales (simp add: kFailureDomain_def)

definition zero_TypeMeta :: TypeMeta where
  "zero_TypeMeta = \<lparr>TypeMeta_Kind = '''', TypeMeta_APIVersion = ''''\<rparr>"
definition zero_ListMeta :: ListMeta where
  "zero_ListMeta = \<lparr>ListMeta_ResourceVersion = '''', ListMeta_Continue = ''''\<rparr>"
definition zero_ObjectMetaM :: ObjectMetaM where
  "zero_ObjectMetaM = \<lparr>ObjectMetaM_Namespace = '''', ObjectMetaM_Name = '''',
     ObjectMetaM_Annotations = None, ObjectMetaM_Finalizers = None,
     ObjectMetaM_DeletionTimestamp = None\<rparr>"
definition zero_TemplateMetaM :: TemplateMetaM where
  "zero_TemplateMetaM = \<lparr>TemplateMetaM_Labels = None, TemplateMetaM_Annotations = None\<rparr>"
definition zero_MachineAddress :: MachineAddress where
  "zero_MachineAddress = \<lparr>MachineAddress_Type = '''', MachineAddress_Address = ''''\<rparr>"
definition zero_FailureDomainM :: FailureDomainM where
  "zero_FailureDomainM = \<lparr>FailureDomainM_Name = '''', FailureDomainM_ControlPlane = None\<rparr>"

section \<open>What they stand for\<close>

definition ObjectMeta_load :: "ObjectMetaM \<Rightarrow> ('s cell, ObjectMeta) reading" where
  "ObjectMeta_load i =
     readMap (\<lambda>(annotations, finalizers, deletion).
       \<lparr>ObjectMeta_Namespace = ObjectMetaM_Namespace i, ObjectMeta_Name = ObjectMetaM_Name i,
        ObjectMeta_Annotations = annotations, ObjectMeta_Finalizers = finalizers,
        ObjectMeta_Deleting = (deletion \<noteq> None)\<rparr>)
     (loadPair (loadMap kEntries) (loadPair (loadSlice kString readPure) (loadPtr kTime readPure))
       (ObjectMetaM_Annotations i, ObjectMetaM_Finalizers i, ObjectMetaM_DeletionTimestamp i))"

definition TemplateMeta_load :: "TemplateMetaM \<Rightarrow> ('s cell, TemplateMeta) reading" where
  "TemplateMeta_load i =
     readMap (\<lambda>(labels, annotations).
       \<lparr>TemplateMeta_Labels = labels, TemplateMeta_Annotations = annotations\<rparr>)
     (loadPair (loadMap kEntries) (loadMap kEntries)
       (TemplateMetaM_Labels i, TemplateMetaM_Annotations i))"

definition FailureDomain_load :: "FailureDomainM \<Rightarrow> ('s cell, FailureDomain) reading" where
  "FailureDomain_load i =
     readMap (\<lambda>controlPlane. \<lparr>FailureDomain_Name = FailureDomainM_Name i,
       FailureDomain_ControlPlane = controlPlane\<rparr>)
     (loadPtr kBool readPure (FailureDomainM_ControlPlane i))"

section \<open>The deep copies of other packages\<close>

record 's library =
  ObjectMeta_DeepCopyInto :: "ObjectMetaM \<Rightarrow> ('s cell, ObjectMetaM) copying"
  TemplateMeta_DeepCopyInto :: "TemplateMetaM \<Rightarrow> ('s cell, TemplateMetaM) copying"
  ListMeta_DeepCopyInto :: "ListMeta \<Rightarrow> ('s cell, ListMeta) copying"
  Condition_DeepCopyInto :: "Condition \<Rightarrow> ('s cell, Condition) copying"
  FailureDomain_DeepCopyInto :: "FailureDomainM \<Rightarrow> ('s cell, FailureDomainM) copying"
  zero_Condition :: Condition \<comment> \<open>its status, the empty string, is none of the three statuses\<close>

definition documented :: "'s library \<Rightarrow> bool" where
  "documented lib \<longleftrightarrow>
     copier ObjectMeta_load (ObjectMeta_DeepCopyInto lib)
   \<and> copier TemplateMeta_load (TemplateMeta_DeepCopyInto lib)
   \<and> copier readPure (ListMeta_DeepCopyInto lib)
   \<and> copier readPure (Condition_DeepCopyInto lib)
   \<and> copier FailureDomain_load (FailureDomain_DeepCopyInto lib)"

lemma documentedD:
  assumes "documented lib"
  shows "copier ObjectMeta_load (ObjectMeta_DeepCopyInto lib)"
    and "copier TemplateMeta_load (TemplateMeta_DeepCopyInto lib)"
    and "copier readPure (ListMeta_DeepCopyInto lib)"
    and "copier (loadSlice kCondition readPure) (makeDeepCopy kCondition z (Condition_DeepCopyInto lib))"
    and "copier (loadSlice kFailureDomain FailureDomain_load)
      (makeDeepCopy kFailureDomain y (FailureDomain_DeepCopyInto lib))"
  using assms
  by (auto simp: documented_def
      intro!: element.slices element.intro kCondition.storable_axioms kFailureDomain.storable_axioms)

text \<open>A library that copies field by field, and so does what is documented.\<close>

definition fieldwise :: "'s library" where
  "fieldwise = \<lparr>
     ObjectMeta_DeepCopyInto = (\<lambda>i. do {
       annotations \<leftarrow> makeMapCopy kEntries (ObjectMetaM_Annotations i);
       finalizers \<leftarrow> makeCopy kString '''' (ObjectMetaM_Finalizers i);
       deletion \<leftarrow> newCopy kTime 0 (ObjectMetaM_DeletionTimestamp i);
       State_Monad.return (i\<lparr>ObjectMetaM_Annotations := annotations,
         ObjectMetaM_Finalizers := finalizers, ObjectMetaM_DeletionTimestamp := deletion\<rparr>)
     }),
     TemplateMeta_DeepCopyInto = (\<lambda>i. do {
       labels \<leftarrow> makeMapCopy kEntries (TemplateMetaM_Labels i);
       annotations \<leftarrow> makeMapCopy kEntries (TemplateMetaM_Annotations i);
       State_Monad.return (i\<lparr>TemplateMetaM_Labels := labels,
         TemplateMetaM_Annotations := annotations\<rparr>)
     }),
     ListMeta_DeepCopyInto = State_Monad.return,
     Condition_DeepCopyInto = State_Monad.return,
     FailureDomain_DeepCopyInto = (\<lambda>i. do {
       controlPlane \<leftarrow> newCopy kBool False (FailureDomainM_ControlPlane i);
       State_Monad.return (i\<lparr>FailureDomainM_ControlPlane := controlPlane\<rparr>)
     }),
     zero_Condition = \<lparr>Condition_Type = '''', Condition_Status = ConditionUnknown,
       Condition_Reason = '''', Condition_Message = ''''\<rparr>\<rparr>"

lemma fieldwise_documented: "documented fieldwise"
proof -
  have "copier ObjectMeta_load (ObjectMeta_DeepCopyInto fieldwise)"
    by (rule copier_struct [where
          dest = "\<lambda>i. (ObjectMetaM_Annotations i, ObjectMetaM_Finalizers i, ObjectMetaM_DeletionTimestamp i)"
          and put = "\<lambda>i (a, f, d). i\<lparr>ObjectMetaM_Annotations := a, ObjectMetaM_Finalizers := f,
            ObjectMetaM_DeletionTimestamp := d\<rparr>",
          OF copier_pair [OF kEntries.maps copier_pair [OF kString.flat_slices kTime.flat_pointer]]
            ObjectMeta_load_def])
      (auto simp: fieldwise_def)
  moreover have "copier TemplateMeta_load (TemplateMeta_DeepCopyInto fieldwise)"
    by (rule copier_struct [where
          dest = "\<lambda>i. (TemplateMetaM_Labels i, TemplateMetaM_Annotations i)"
          and put = "\<lambda>i (l, a). i\<lparr>TemplateMetaM_Labels := l, TemplateMetaM_Annotations := a\<rparr>",
          OF copier_pair [OF kEntries.maps kEntries.maps] TemplateMeta_load_def])
      (auto simp: fieldwise_def)
  moreover have "copier FailureDomain_load (FailureDomain_DeepCopyInto fieldwise)"
    by (rule copier_struct [where dest = FailureDomainM_ControlPlane
          and put = "\<lambda>i c. i\<lparr>FailureDomainM_ControlPlane := c\<rparr>",
          OF kBool.flat_pointer FailureDomain_load_def])
      (auto simp: fieldwise_def)
  ultimately show ?thesis
    by (simp add: documented_def fieldwise_def copier_flat)
qed

section \<open>Pointers and objects\<close>

lemma pointer_copied:
  assumes "element k load copyInto" and "\<And>p. copy p = newDeepCopy k z copyInto p"
  shows "deepCopies (loadPtr k load) copy"
proof -
  have "copy = newDeepCopy k z copyInto" using assms(2) by (rule ext)
  then show ?thesis using copier.deep [OF element.pointer [OF assms(1)]] by simp
qed

text \<open>A value of the interface \<^verbatim>\<open>runtime.Object\<close>: nil, or a dynamic type and a pointer. What
  \<^verbatim>\<open>DeepCopyObject\<close> promises: nil for a nil pointer, never an interface that holds a nil
  pointer, and otherwise an object of the same type, with the value of the original, in new cells.\<close>

type_synonym Object = "(string \<times> addr) option"

definition objectCopies :: "string \<Rightarrow> (addr option \<Rightarrow> ('c, 'v option) reading)
    \<Rightarrow> (addr option \<Rightarrow> ('c, Object) copying) \<Rightarrow> bool" where
  "objectCopies type load copy \<longleftrightarrow> (\<forall>p h v as obj h'.
     load p h = Some (v, as) \<and> run_state (copy p) h = (obj, h') \<longrightarrow>
     (case p of
        None \<Rightarrow> obj = None \<and> h' = h
      | Some a \<Rightarrow> \<exists>b bs. obj = Some (type, b) \<and> prefix h h' \<and> load (Some b) h' = Some (v, bs)
          \<and> distinct bs \<and> set bs \<inter> {..<length h} = {}))"

lemma object_copied:
  assumes "element k load copyInto"
    and "\<And>p. copyPtr p = newDeepCopy k z copyInto p"
    and "\<And>p. copy p = do {
      c \<leftarrow> copyPtr p;
      State_Monad.return (case c of None \<Rightarrow> None | Some a \<Rightarrow> Some (type, a)) }"
  shows "objectCopies type (loadPtr k load) copy"
  unfolding objectCopies_def
proof (intro allI impI, elim conjE)
  fix p h v as obj h'
  assume p: "loadPtr k load p h = Some (v, as)" and r: "run_state (copy p) h = (obj, h')"
  obtain q where q: "run_state (newDeepCopy k z copyInto p) h = (q, h')" "obj = map_option (Pair type) q"
    using r by (auto simp: assms(2,3) map_option_case split: prod.splits)
  have "deepCopies (loadPtr k load) (newDeepCopy k z copyInto)"
    by (rule copier.deep [OF element.pointer [OF assms(1)]])
  with p q(1) obtain bs where "prefix h h'" "loadPtr k load q h' = Some (v, bs)" "distinct bs"
      "set bs \<inter> {..<length h} = {}"
    unfolding deepCopies_def by blast
  then show "case p of None \<Rightarrow> obj = None \<and> h' = h
      | Some a \<Rightarrow> \<exists>b bs. obj = Some (type, b) \<and> prefix h h'
          \<and> loadPtr k load (Some b) h' = Some (v, bs) \<and> distinct bs \<and> set bs \<inter> {..<length h} = {}"
    using p q by (auto simp: newDeepCopy_def split: option.splits prod.splits)
qed

end
