(* ===== verification/Structs.thy ===== *)
theory Structs
  imports Api_Memory
begin

text \<open>
  The structs of \<^verbatim>\<open>api/v1alpha2\<close> as they lie in memory (the suffix \<open>M\<close>, with references for
  pointers, slices and maps), the cells that hold them, their zero values, and the value of
  \<open>Api_Types\<close> that each stands for: \<open>T_load\<close> reads a struct with all it refers to. The value of
  an object comes with its type meta, that of a list also with the type metas of its items.
\<close>

section \<open>Structs and cells\<close>

record InitializationM =
  InitializationM_Provisioned :: "addr option"

record OVHLoadBalancerConfigM =
  OVHLoadBalancerConfigM_SubnetID :: string
  OVHLoadBalancerConfigM_FlavorName :: string
  OVHLoadBalancerConfigM_FloatingNetworkID :: string
  OVHLoadBalancerConfigM_Listeners :: "slice option"
  OVHLoadBalancerConfigM_ExistingLoadBalancerID :: string
  OVHLoadBalancerConfigM_ExistingFloatingIPID :: string

record OVHNetworkConfigM =
  OVHNetworkConfigM_PrivateNetworkID :: string
  OVHNetworkConfigM_SubnetCIDR :: string
  OVHNetworkConfigM_VlanID :: int
  OVHNetworkConfigM_Gateway :: string
  OVHNetworkConfigM_DNSServers :: "slice option"

record OVHSecurityRuleM =
  OVHSecurityRuleM_Direction :: string
  OVHSecurityRuleM_Protocol :: string
  OVHSecurityRuleM_PortRangeMin :: "addr option"
  OVHSecurityRuleM_PortRangeMax :: "addr option"
  OVHSecurityRuleM_RemoteIPPrefix :: string
  OVHSecurityRuleM_EtherType :: string

record OVHSecurityGroupM =
  OVHSecurityGroupM_Name :: string
  OVHSecurityGroupM_Rules :: "slice option"

record OVHClusterSpecM =
  OVHClusterSpecM_ServiceName :: string
  OVHClusterSpecM_Region :: string
  OVHClusterSpecM_IdentitySecret :: SecretKey
  OVHClusterSpecM_ControlPlaneEndpoint :: APIEndpoint
  OVHClusterSpecM_LoadBalancerConfig :: OVHLoadBalancerConfigM
  OVHClusterSpecM_NetworkConfig :: "addr option"
  OVHClusterSpecM_SSHKeyName :: string
  OVHClusterSpecM_FailureDomains :: "slice option"
  OVHClusterSpecM_SecurityGroups :: "slice option"
  OVHClusterSpecM_DefaultTags :: "addr option"
  OVHClusterSpecM_DNSConfig :: "addr option"

record OVHClusterStatusM =
  OVHClusterStatusM_Ready :: bool
  OVHClusterStatusM_Initialization :: InitializationM
  OVHClusterStatusM_Conditions :: "slice option"
  OVHClusterStatusM_NetworkID :: string
  OVHClusterStatusM_SubnetID :: string
  OVHClusterStatusM_LoadBalancerID :: string
  OVHClusterStatusM_ListenerID :: string
  OVHClusterStatusM_PoolID :: string
  OVHClusterStatusM_FloatingIPID :: string
  OVHClusterStatusM_GatewayID :: string
  OVHClusterStatusM_GatewayExposed :: bool
  OVHClusterStatusM_RegisterListenerID :: string
  OVHClusterStatusM_RegisterPoolID :: string
  OVHClusterStatusM_FailureDomains :: "slice option"
  OVHClusterStatusM_SecurityGroupIDs :: "addr option"
  OVHClusterStatusM_DNSRecordID :: int

record OVHClusterM =
  OVHClusterM_TypeMeta :: TypeMeta
  OVHClusterM_ObjectMeta :: ObjectMetaM
  OVHClusterM_Spec :: OVHClusterSpecM
  OVHClusterM_Status :: OVHClusterStatusM

record OVHClusterListM =
  OVHClusterListM_TypeMeta :: TypeMeta
  OVHClusterListM_ListMeta :: ListMeta
  OVHClusterListM_Items :: "slice option"

record OVHClusterTemplateResourceM =
  OVHClusterTemplateResourceM_ObjectMeta :: TemplateMetaM
  OVHClusterTemplateResourceM_Spec :: OVHClusterSpecM

record OVHClusterTemplateSpecM =
  OVHClusterTemplateSpecM_Template :: OVHClusterTemplateResourceM

record OVHClusterTemplateM =
  OVHClusterTemplateM_TypeMeta :: TypeMeta
  OVHClusterTemplateM_ObjectMeta :: ObjectMetaM
  OVHClusterTemplateM_Spec :: OVHClusterTemplateSpecM

record OVHClusterTemplateListM =
  OVHClusterTemplateListM_TypeMeta :: TypeMeta
  OVHClusterTemplateListM_ListMeta :: ListMeta
  OVHClusterTemplateListM_Items :: "slice option"

record OVHMachineSpecM =
  OVHMachineSpecM_ProviderID :: string
  OVHMachineSpecM_FlavorName :: string
  OVHMachineSpecM_ImageName :: string
  OVHMachineSpecM_SSHKeyName :: string
  OVHMachineSpecM_RootDiskSize :: int
  OVHMachineSpecM_AdditionalVolumes :: "slice option"
  OVHMachineSpecM_FailureDomain :: string
  OVHMachineSpecM_SecurityGroupNames :: "slice option"
  OVHMachineSpecM_Tags :: "addr option"
  OVHMachineSpecM_BootstrapFormat :: string
  OVHMachineSpecM_ExistingInstanceID :: string

record OVHMachineStatusM =
  OVHMachineStatusM_Ready :: bool
  OVHMachineStatusM_Conditions :: "slice option"
  OVHMachineStatusM_Addresses :: "slice option"
  OVHMachineStatusM_Initialization :: InitializationM
  OVHMachineStatusM_InstanceID :: string
  OVHMachineStatusM_VolumeIDs :: "slice option"
  OVHMachineStatusM_LBPoolMemberID :: string
  OVHMachineStatusM_RegisterPoolMemberID :: string

record OVHMachineM =
  OVHMachineM_TypeMeta :: TypeMeta
  OVHMachineM_ObjectMeta :: ObjectMetaM
  OVHMachineM_Spec :: OVHMachineSpecM
  OVHMachineM_Status :: OVHMachineStatusM

record OVHMachineListM =
  OVHMachineListM_TypeMeta :: TypeMeta
  OVHMachineListM_ListMeta :: ListMeta
  OVHMachineListM_Items :: "slice option"

record OVHMachinePoolSpecM =
  OVHMachinePoolSpecM_FlavorName :: string
  OVHMachinePoolSpecM_ImageName :: string
  OVHMachinePoolSpecM_SSHKeyName :: string
  OVHMachinePoolSpecM_RootDiskSize :: int
  OVHMachinePoolSpecM_ProviderIDList :: "slice option"

record OVHMachinePoolStatusM =
  OVHMachinePoolStatusM_Ready :: bool
  OVHMachinePoolStatusM_Replicas :: int
  OVHMachinePoolStatusM_ReadyReplicas :: int
  OVHMachinePoolStatusM_Conditions :: "slice option"
  OVHMachinePoolStatusM_FailureReason :: string
  OVHMachinePoolStatusM_FailureMessage :: string
  OVHMachinePoolStatusM_InfrastructureReady :: bool
  OVHMachinePoolStatusM_InstanceIDs :: "slice option"

record OVHMachinePoolM =
  OVHMachinePoolM_TypeMeta :: TypeMeta
  OVHMachinePoolM_ObjectMeta :: ObjectMetaM
  OVHMachinePoolM_Spec :: OVHMachinePoolSpecM
  OVHMachinePoolM_Status :: OVHMachinePoolStatusM

record OVHMachinePoolListM =
  OVHMachinePoolListM_TypeMeta :: TypeMeta
  OVHMachinePoolListM_ListMeta :: ListMeta
  OVHMachinePoolListM_Items :: "slice option"

record OVHMachineTemplateResourceM =
  OVHMachineTemplateResourceM_ObjectMeta :: TemplateMetaM
  OVHMachineTemplateResourceM_Spec :: OVHMachineSpecM

record OVHMachineTemplateSpecM =
  OVHMachineTemplateSpecM_Template :: OVHMachineTemplateResourceM

record OVHMachineTemplateM =
  OVHMachineTemplateM_TypeMeta :: TypeMeta
  OVHMachineTemplateM_ObjectMeta :: ObjectMetaM
  OVHMachineTemplateM_Spec :: OVHMachineTemplateSpecM

record OVHMachineTemplateListM =
  OVHMachineTemplateListM_TypeMeta :: TypeMeta
  OVHMachineTemplateListM_ListMeta :: ListMeta
  OVHMachineTemplateListM_Items :: "slice option"

datatype v1alpha2 =
    CInitialization "InitializationM list"
  | COVHDNSConfig "OVHDNSConfig list"
  | COVHListener "OVHListener list"
  | COVHLoadBalancerConfig "OVHLoadBalancerConfigM list"
  | COVHNetworkConfig "OVHNetworkConfigM list"
  | COVHSecurityRule "OVHSecurityRuleM list"
  | COVHSecurityGroup "OVHSecurityGroupM list"
  | CSecretKey "SecretKey list"
  | COVHClusterSpec "OVHClusterSpecM list"
  | COVHClusterStatus "OVHClusterStatusM list"
  | COVHCluster "OVHClusterM list"
  | COVHClusterList "OVHClusterListM list"
  | COVHClusterTemplateResource "OVHClusterTemplateResourceM list"
  | COVHClusterTemplateSpec "OVHClusterTemplateSpecM list"
  | COVHClusterTemplate "OVHClusterTemplateM list"
  | COVHClusterTemplateList "OVHClusterTemplateListM list"
  | COVHClusterValidator "unit list"
  | COVHVolume "OVHVolume list"
  | COVHMachineSpec "OVHMachineSpecM list"
  | COVHMachineStatus "OVHMachineStatusM list"
  | COVHMachine "OVHMachineM list"
  | COVHMachineList "OVHMachineListM list"
  | COVHMachinePoolSpec "OVHMachinePoolSpecM list"
  | COVHMachinePoolStatus "OVHMachinePoolStatusM list"
  | COVHMachinePool "OVHMachinePoolM list"
  | COVHMachinePoolList "OVHMachinePoolListM list"
  | COVHMachineTemplateResource "OVHMachineTemplateResourceM list"
  | COVHMachineTemplateSpec "OVHMachineTemplateSpecM list"
  | COVHMachineTemplate "OVHMachineTemplateM list"
  | COVHMachineTemplateList "OVHMachineTemplateListM list"
  | COVHMachineValidator "unit list"

definition kInitialization :: "(v1alpha2 cell, InitializationM) kind" where
  "kInitialization = \<lparr>wrap = (\<lambda>xs. CApi (CInitialization xs)),
     unwrap = (\<lambda>c. case c of CApi (CInitialization xs) \<Rightarrow> Some xs | _ \<Rightarrow> None)\<rparr>"
definition kOVHDNSConfig :: "(v1alpha2 cell, OVHDNSConfig) kind" where
  "kOVHDNSConfig = \<lparr>wrap = (\<lambda>xs. CApi (COVHDNSConfig xs)),
     unwrap = (\<lambda>c. case c of CApi (COVHDNSConfig xs) \<Rightarrow> Some xs | _ \<Rightarrow> None)\<rparr>"
definition kOVHListener :: "(v1alpha2 cell, OVHListener) kind" where
  "kOVHListener = \<lparr>wrap = (\<lambda>xs. CApi (COVHListener xs)),
     unwrap = (\<lambda>c. case c of CApi (COVHListener xs) \<Rightarrow> Some xs | _ \<Rightarrow> None)\<rparr>"
definition kOVHLoadBalancerConfig :: "(v1alpha2 cell, OVHLoadBalancerConfigM) kind" where
  "kOVHLoadBalancerConfig = \<lparr>wrap = (\<lambda>xs. CApi (COVHLoadBalancerConfig xs)),
     unwrap = (\<lambda>c. case c of CApi (COVHLoadBalancerConfig xs) \<Rightarrow> Some xs | _ \<Rightarrow> None)\<rparr>"
definition kOVHNetworkConfig :: "(v1alpha2 cell, OVHNetworkConfigM) kind" where
  "kOVHNetworkConfig = \<lparr>wrap = (\<lambda>xs. CApi (COVHNetworkConfig xs)),
     unwrap = (\<lambda>c. case c of CApi (COVHNetworkConfig xs) \<Rightarrow> Some xs | _ \<Rightarrow> None)\<rparr>"
definition kOVHSecurityRule :: "(v1alpha2 cell, OVHSecurityRuleM) kind" where
  "kOVHSecurityRule = \<lparr>wrap = (\<lambda>xs. CApi (COVHSecurityRule xs)),
     unwrap = (\<lambda>c. case c of CApi (COVHSecurityRule xs) \<Rightarrow> Some xs | _ \<Rightarrow> None)\<rparr>"
definition kOVHSecurityGroup :: "(v1alpha2 cell, OVHSecurityGroupM) kind" where
  "kOVHSecurityGroup = \<lparr>wrap = (\<lambda>xs. CApi (COVHSecurityGroup xs)),
     unwrap = (\<lambda>c. case c of CApi (COVHSecurityGroup xs) \<Rightarrow> Some xs | _ \<Rightarrow> None)\<rparr>"
definition kSecretKey :: "(v1alpha2 cell, SecretKey) kind" where
  "kSecretKey = \<lparr>wrap = (\<lambda>xs. CApi (CSecretKey xs)),
     unwrap = (\<lambda>c. case c of CApi (CSecretKey xs) \<Rightarrow> Some xs | _ \<Rightarrow> None)\<rparr>"
definition kOVHClusterSpec :: "(v1alpha2 cell, OVHClusterSpecM) kind" where
  "kOVHClusterSpec = \<lparr>wrap = (\<lambda>xs. CApi (COVHClusterSpec xs)),
     unwrap = (\<lambda>c. case c of CApi (COVHClusterSpec xs) \<Rightarrow> Some xs | _ \<Rightarrow> None)\<rparr>"
definition kOVHClusterStatus :: "(v1alpha2 cell, OVHClusterStatusM) kind" where
  "kOVHClusterStatus = \<lparr>wrap = (\<lambda>xs. CApi (COVHClusterStatus xs)),
     unwrap = (\<lambda>c. case c of CApi (COVHClusterStatus xs) \<Rightarrow> Some xs | _ \<Rightarrow> None)\<rparr>"
definition kOVHCluster :: "(v1alpha2 cell, OVHClusterM) kind" where
  "kOVHCluster = \<lparr>wrap = (\<lambda>xs. CApi (COVHCluster xs)),
     unwrap = (\<lambda>c. case c of CApi (COVHCluster xs) \<Rightarrow> Some xs | _ \<Rightarrow> None)\<rparr>"
definition kOVHClusterList :: "(v1alpha2 cell, OVHClusterListM) kind" where
  "kOVHClusterList = \<lparr>wrap = (\<lambda>xs. CApi (COVHClusterList xs)),
     unwrap = (\<lambda>c. case c of CApi (COVHClusterList xs) \<Rightarrow> Some xs | _ \<Rightarrow> None)\<rparr>"
definition kOVHClusterTemplateResource ::
    "(v1alpha2 cell, OVHClusterTemplateResourceM) kind" where
  "kOVHClusterTemplateResource = \<lparr>wrap = (\<lambda>xs. CApi (COVHClusterTemplateResource xs)),
     unwrap = (\<lambda>c. case c of CApi (COVHClusterTemplateResource xs) \<Rightarrow> Some xs | _ \<Rightarrow> None)\<rparr>"
definition kOVHClusterTemplateSpec :: "(v1alpha2 cell, OVHClusterTemplateSpecM) kind" where
  "kOVHClusterTemplateSpec = \<lparr>wrap = (\<lambda>xs. CApi (COVHClusterTemplateSpec xs)),
     unwrap = (\<lambda>c. case c of CApi (COVHClusterTemplateSpec xs) \<Rightarrow> Some xs | _ \<Rightarrow> None)\<rparr>"
definition kOVHClusterTemplate :: "(v1alpha2 cell, OVHClusterTemplateM) kind" where
  "kOVHClusterTemplate = \<lparr>wrap = (\<lambda>xs. CApi (COVHClusterTemplate xs)),
     unwrap = (\<lambda>c. case c of CApi (COVHClusterTemplate xs) \<Rightarrow> Some xs | _ \<Rightarrow> None)\<rparr>"
definition kOVHClusterTemplateList :: "(v1alpha2 cell, OVHClusterTemplateListM) kind" where
  "kOVHClusterTemplateList = \<lparr>wrap = (\<lambda>xs. CApi (COVHClusterTemplateList xs)),
     unwrap = (\<lambda>c. case c of CApi (COVHClusterTemplateList xs) \<Rightarrow> Some xs | _ \<Rightarrow> None)\<rparr>"
definition kOVHClusterValidator :: "(v1alpha2 cell, unit) kind" where
  "kOVHClusterValidator = \<lparr>wrap = (\<lambda>xs. CApi (COVHClusterValidator xs)),
     unwrap = (\<lambda>c. case c of CApi (COVHClusterValidator xs) \<Rightarrow> Some xs | _ \<Rightarrow> None)\<rparr>"
definition kOVHVolume :: "(v1alpha2 cell, OVHVolume) kind" where
  "kOVHVolume = \<lparr>wrap = (\<lambda>xs. CApi (COVHVolume xs)),
     unwrap = (\<lambda>c. case c of CApi (COVHVolume xs) \<Rightarrow> Some xs | _ \<Rightarrow> None)\<rparr>"
definition kOVHMachineSpec :: "(v1alpha2 cell, OVHMachineSpecM) kind" where
  "kOVHMachineSpec = \<lparr>wrap = (\<lambda>xs. CApi (COVHMachineSpec xs)),
     unwrap = (\<lambda>c. case c of CApi (COVHMachineSpec xs) \<Rightarrow> Some xs | _ \<Rightarrow> None)\<rparr>"
definition kOVHMachineStatus :: "(v1alpha2 cell, OVHMachineStatusM) kind" where
  "kOVHMachineStatus = \<lparr>wrap = (\<lambda>xs. CApi (COVHMachineStatus xs)),
     unwrap = (\<lambda>c. case c of CApi (COVHMachineStatus xs) \<Rightarrow> Some xs | _ \<Rightarrow> None)\<rparr>"
definition kOVHMachine :: "(v1alpha2 cell, OVHMachineM) kind" where
  "kOVHMachine = \<lparr>wrap = (\<lambda>xs. CApi (COVHMachine xs)),
     unwrap = (\<lambda>c. case c of CApi (COVHMachine xs) \<Rightarrow> Some xs | _ \<Rightarrow> None)\<rparr>"
definition kOVHMachineList :: "(v1alpha2 cell, OVHMachineListM) kind" where
  "kOVHMachineList = \<lparr>wrap = (\<lambda>xs. CApi (COVHMachineList xs)),
     unwrap = (\<lambda>c. case c of CApi (COVHMachineList xs) \<Rightarrow> Some xs | _ \<Rightarrow> None)\<rparr>"
definition kOVHMachinePoolSpec :: "(v1alpha2 cell, OVHMachinePoolSpecM) kind" where
  "kOVHMachinePoolSpec = \<lparr>wrap = (\<lambda>xs. CApi (COVHMachinePoolSpec xs)),
     unwrap = (\<lambda>c. case c of CApi (COVHMachinePoolSpec xs) \<Rightarrow> Some xs | _ \<Rightarrow> None)\<rparr>"
definition kOVHMachinePoolStatus :: "(v1alpha2 cell, OVHMachinePoolStatusM) kind" where
  "kOVHMachinePoolStatus = \<lparr>wrap = (\<lambda>xs. CApi (COVHMachinePoolStatus xs)),
     unwrap = (\<lambda>c. case c of CApi (COVHMachinePoolStatus xs) \<Rightarrow> Some xs | _ \<Rightarrow> None)\<rparr>"
definition kOVHMachinePool :: "(v1alpha2 cell, OVHMachinePoolM) kind" where
  "kOVHMachinePool = \<lparr>wrap = (\<lambda>xs. CApi (COVHMachinePool xs)),
     unwrap = (\<lambda>c. case c of CApi (COVHMachinePool xs) \<Rightarrow> Some xs | _ \<Rightarrow> None)\<rparr>"
definition kOVHMachinePoolList :: "(v1alpha2 cell, OVHMachinePoolListM) kind" where
  "kOVHMachinePoolList = \<lparr>wrap = (\<lambda>xs. CApi (COVHMachinePoolList xs)),
     unwrap = (\<lambda>c. case c of CApi (COVHMachinePoolList xs) \<Rightarrow> Some xs | _ \<Rightarrow> None)\<rparr>"
definition kOVHMachineTemplateResource ::
    "(v1alpha2 cell, OVHMachineTemplateResourceM) kind" where
  "kOVHMachineTemplateResource = \<lparr>wrap = (\<lambda>xs. CApi (COVHMachineTemplateResource xs)),
     unwrap = (\<lambda>c. case c of CApi (COVHMachineTemplateResource xs) \<Rightarrow> Some xs | _ \<Rightarrow> None)\<rparr>"
definition kOVHMachineTemplateSpec :: "(v1alpha2 cell, OVHMachineTemplateSpecM) kind" where
  "kOVHMachineTemplateSpec = \<lparr>wrap = (\<lambda>xs. CApi (COVHMachineTemplateSpec xs)),
     unwrap = (\<lambda>c. case c of CApi (COVHMachineTemplateSpec xs) \<Rightarrow> Some xs | _ \<Rightarrow> None)\<rparr>"
definition kOVHMachineTemplate :: "(v1alpha2 cell, OVHMachineTemplateM) kind" where
  "kOVHMachineTemplate = \<lparr>wrap = (\<lambda>xs. CApi (COVHMachineTemplate xs)),
     unwrap = (\<lambda>c. case c of CApi (COVHMachineTemplate xs) \<Rightarrow> Some xs | _ \<Rightarrow> None)\<rparr>"
definition kOVHMachineTemplateList :: "(v1alpha2 cell, OVHMachineTemplateListM) kind" where
  "kOVHMachineTemplateList = \<lparr>wrap = (\<lambda>xs. CApi (COVHMachineTemplateList xs)),
     unwrap = (\<lambda>c. case c of CApi (COVHMachineTemplateList xs) \<Rightarrow> Some xs | _ \<Rightarrow> None)\<rparr>"
definition kOVHMachineValidator :: "(v1alpha2 cell, unit) kind" where
  "kOVHMachineValidator = \<lparr>wrap = (\<lambda>xs. CApi (COVHMachineValidator xs)),
     unwrap = (\<lambda>c. case c of CApi (COVHMachineValidator xs) \<Rightarrow> Some xs | _ \<Rightarrow> None)\<rparr>"

interpretation kInitialization: storable kInitialization
  by unfold_locales (simp add: kInitialization_def)
interpretation kOVHDNSConfig: storable kOVHDNSConfig
  by unfold_locales (simp add: kOVHDNSConfig_def)
interpretation kOVHListener: storable kOVHListener
  by unfold_locales (simp add: kOVHListener_def)
interpretation kOVHLoadBalancerConfig: storable kOVHLoadBalancerConfig
  by unfold_locales (simp add: kOVHLoadBalancerConfig_def)
interpretation kOVHNetworkConfig: storable kOVHNetworkConfig
  by unfold_locales (simp add: kOVHNetworkConfig_def)
interpretation kOVHSecurityRule: storable kOVHSecurityRule
  by unfold_locales (simp add: kOVHSecurityRule_def)
interpretation kOVHSecurityGroup: storable kOVHSecurityGroup
  by unfold_locales (simp add: kOVHSecurityGroup_def)
interpretation kSecretKey: storable kSecretKey
  by unfold_locales (simp add: kSecretKey_def)
interpretation kOVHClusterSpec: storable kOVHClusterSpec
  by unfold_locales (simp add: kOVHClusterSpec_def)
interpretation kOVHClusterStatus: storable kOVHClusterStatus
  by unfold_locales (simp add: kOVHClusterStatus_def)
interpretation kOVHCluster: storable kOVHCluster
  by unfold_locales (simp add: kOVHCluster_def)
interpretation kOVHClusterList: storable kOVHClusterList
  by unfold_locales (simp add: kOVHClusterList_def)
interpretation kOVHClusterTemplateResource: storable kOVHClusterTemplateResource
  by unfold_locales (simp add: kOVHClusterTemplateResource_def)
interpretation kOVHClusterTemplateSpec: storable kOVHClusterTemplateSpec
  by unfold_locales (simp add: kOVHClusterTemplateSpec_def)
interpretation kOVHClusterTemplate: storable kOVHClusterTemplate
  by unfold_locales (simp add: kOVHClusterTemplate_def)
interpretation kOVHClusterTemplateList: storable kOVHClusterTemplateList
  by unfold_locales (simp add: kOVHClusterTemplateList_def)
interpretation kOVHClusterValidator: storable kOVHClusterValidator
  by unfold_locales (simp add: kOVHClusterValidator_def)
interpretation kOVHVolume: storable kOVHVolume
  by unfold_locales (simp add: kOVHVolume_def)
interpretation kOVHMachineSpec: storable kOVHMachineSpec
  by unfold_locales (simp add: kOVHMachineSpec_def)
interpretation kOVHMachineStatus: storable kOVHMachineStatus
  by unfold_locales (simp add: kOVHMachineStatus_def)
interpretation kOVHMachine: storable kOVHMachine
  by unfold_locales (simp add: kOVHMachine_def)
interpretation kOVHMachineList: storable kOVHMachineList
  by unfold_locales (simp add: kOVHMachineList_def)
interpretation kOVHMachinePoolSpec: storable kOVHMachinePoolSpec
  by unfold_locales (simp add: kOVHMachinePoolSpec_def)
interpretation kOVHMachinePoolStatus: storable kOVHMachinePoolStatus
  by unfold_locales (simp add: kOVHMachinePoolStatus_def)
interpretation kOVHMachinePool: storable kOVHMachinePool
  by unfold_locales (simp add: kOVHMachinePool_def)
interpretation kOVHMachinePoolList: storable kOVHMachinePoolList
  by unfold_locales (simp add: kOVHMachinePoolList_def)
interpretation kOVHMachineTemplateResource: storable kOVHMachineTemplateResource
  by unfold_locales (simp add: kOVHMachineTemplateResource_def)
interpretation kOVHMachineTemplateSpec: storable kOVHMachineTemplateSpec
  by unfold_locales (simp add: kOVHMachineTemplateSpec_def)
interpretation kOVHMachineTemplate: storable kOVHMachineTemplate
  by unfold_locales (simp add: kOVHMachineTemplate_def)
interpretation kOVHMachineTemplateList: storable kOVHMachineTemplateList
  by unfold_locales (simp add: kOVHMachineTemplateList_def)
interpretation kOVHMachineValidator: storable kOVHMachineValidator
  by unfold_locales (simp add: kOVHMachineValidator_def)

definition zero_InitializationM :: InitializationM where
  "zero_InitializationM = \<lparr>
     InitializationM_Provisioned = None\<rparr>"
definition zero_OVHLoadBalancerConfigM :: OVHLoadBalancerConfigM where
  "zero_OVHLoadBalancerConfigM = \<lparr>
     OVHLoadBalancerConfigM_SubnetID = '''', OVHLoadBalancerConfigM_FlavorName = '''',
     OVHLoadBalancerConfigM_FloatingNetworkID = '''', OVHLoadBalancerConfigM_Listeners = None,
     OVHLoadBalancerConfigM_ExistingLoadBalancerID = '''',
     OVHLoadBalancerConfigM_ExistingFloatingIPID = ''''\<rparr>"
definition zero_OVHNetworkConfigM :: OVHNetworkConfigM where
  "zero_OVHNetworkConfigM = \<lparr>
     OVHNetworkConfigM_PrivateNetworkID = '''', OVHNetworkConfigM_SubnetCIDR = '''',
     OVHNetworkConfigM_VlanID = 0, OVHNetworkConfigM_Gateway = '''',
     OVHNetworkConfigM_DNSServers = None\<rparr>"
definition zero_OVHSecurityRuleM :: OVHSecurityRuleM where
  "zero_OVHSecurityRuleM = \<lparr>
     OVHSecurityRuleM_Direction = '''', OVHSecurityRuleM_Protocol = '''',
     OVHSecurityRuleM_PortRangeMin = None, OVHSecurityRuleM_PortRangeMax = None,
     OVHSecurityRuleM_RemoteIPPrefix = '''', OVHSecurityRuleM_EtherType = ''''\<rparr>"
definition zero_OVHSecurityGroupM :: OVHSecurityGroupM where
  "zero_OVHSecurityGroupM = \<lparr>
     OVHSecurityGroupM_Name = '''', OVHSecurityGroupM_Rules = None\<rparr>"
definition zero_OVHClusterSpecM :: OVHClusterSpecM where
  "zero_OVHClusterSpecM = \<lparr>
     OVHClusterSpecM_ServiceName = '''', OVHClusterSpecM_Region = '''',
     OVHClusterSpecM_IdentitySecret = zero_SecretKey,
     OVHClusterSpecM_ControlPlaneEndpoint = zero_APIEndpoint,
     OVHClusterSpecM_LoadBalancerConfig = zero_OVHLoadBalancerConfigM,
     OVHClusterSpecM_NetworkConfig = None, OVHClusterSpecM_SSHKeyName = '''',
     OVHClusterSpecM_FailureDomains = None, OVHClusterSpecM_SecurityGroups = None,
     OVHClusterSpecM_DefaultTags = None, OVHClusterSpecM_DNSConfig = None\<rparr>"
definition zero_OVHClusterStatusM :: OVHClusterStatusM where
  "zero_OVHClusterStatusM = \<lparr>
     OVHClusterStatusM_Ready = False, OVHClusterStatusM_Initialization = zero_InitializationM,
     OVHClusterStatusM_Conditions = None, OVHClusterStatusM_NetworkID = '''',
     OVHClusterStatusM_SubnetID = '''', OVHClusterStatusM_LoadBalancerID = '''',
     OVHClusterStatusM_ListenerID = '''', OVHClusterStatusM_PoolID = '''',
     OVHClusterStatusM_FloatingIPID = '''', OVHClusterStatusM_GatewayID = '''',
     OVHClusterStatusM_GatewayExposed = False, OVHClusterStatusM_RegisterListenerID = '''',
     OVHClusterStatusM_RegisterPoolID = '''', OVHClusterStatusM_FailureDomains = None,
     OVHClusterStatusM_SecurityGroupIDs = None, OVHClusterStatusM_DNSRecordID = 0\<rparr>"
definition zero_OVHClusterM :: OVHClusterM where
  "zero_OVHClusterM = \<lparr>
     OVHClusterM_TypeMeta = zero_TypeMeta, OVHClusterM_ObjectMeta = zero_ObjectMetaM,
     OVHClusterM_Spec = zero_OVHClusterSpecM, OVHClusterM_Status = zero_OVHClusterStatusM\<rparr>"
definition zero_OVHClusterListM :: OVHClusterListM where
  "zero_OVHClusterListM = \<lparr>
     OVHClusterListM_TypeMeta = zero_TypeMeta, OVHClusterListM_ListMeta = zero_ListMeta,
     OVHClusterListM_Items = None\<rparr>"
definition zero_OVHClusterTemplateResourceM :: OVHClusterTemplateResourceM where
  "zero_OVHClusterTemplateResourceM = \<lparr>
     OVHClusterTemplateResourceM_ObjectMeta = zero_TemplateMetaM,
     OVHClusterTemplateResourceM_Spec = zero_OVHClusterSpecM\<rparr>"
definition zero_OVHClusterTemplateSpecM :: OVHClusterTemplateSpecM where
  "zero_OVHClusterTemplateSpecM = \<lparr>
     OVHClusterTemplateSpecM_Template = zero_OVHClusterTemplateResourceM\<rparr>"
definition zero_OVHClusterTemplateM :: OVHClusterTemplateM where
  "zero_OVHClusterTemplateM = \<lparr>
     OVHClusterTemplateM_TypeMeta = zero_TypeMeta,
     OVHClusterTemplateM_ObjectMeta = zero_ObjectMetaM,
     OVHClusterTemplateM_Spec = zero_OVHClusterTemplateSpecM\<rparr>"
definition zero_OVHClusterTemplateListM :: OVHClusterTemplateListM where
  "zero_OVHClusterTemplateListM = \<lparr>
     OVHClusterTemplateListM_TypeMeta = zero_TypeMeta,
     OVHClusterTemplateListM_ListMeta = zero_ListMeta, OVHClusterTemplateListM_Items = None\<rparr>"
definition zero_OVHMachineSpecM :: OVHMachineSpecM where
  "zero_OVHMachineSpecM = \<lparr>
     OVHMachineSpecM_ProviderID = '''', OVHMachineSpecM_FlavorName = '''',
     OVHMachineSpecM_ImageName = '''', OVHMachineSpecM_SSHKeyName = '''',
     OVHMachineSpecM_RootDiskSize = 0, OVHMachineSpecM_AdditionalVolumes = None,
     OVHMachineSpecM_FailureDomain = '''', OVHMachineSpecM_SecurityGroupNames = None,
     OVHMachineSpecM_Tags = None, OVHMachineSpecM_BootstrapFormat = '''',
     OVHMachineSpecM_ExistingInstanceID = ''''\<rparr>"
definition zero_OVHMachineStatusM :: OVHMachineStatusM where
  "zero_OVHMachineStatusM = \<lparr>
     OVHMachineStatusM_Ready = False, OVHMachineStatusM_Conditions = None,
     OVHMachineStatusM_Addresses = None, OVHMachineStatusM_Initialization = zero_InitializationM,
     OVHMachineStatusM_InstanceID = '''', OVHMachineStatusM_VolumeIDs = None,
     OVHMachineStatusM_LBPoolMemberID = '''', OVHMachineStatusM_RegisterPoolMemberID = ''''\<rparr>"
definition zero_OVHMachineM :: OVHMachineM where
  "zero_OVHMachineM = \<lparr>
     OVHMachineM_TypeMeta = zero_TypeMeta, OVHMachineM_ObjectMeta = zero_ObjectMetaM,
     OVHMachineM_Spec = zero_OVHMachineSpecM, OVHMachineM_Status = zero_OVHMachineStatusM\<rparr>"
definition zero_OVHMachineListM :: OVHMachineListM where
  "zero_OVHMachineListM = \<lparr>
     OVHMachineListM_TypeMeta = zero_TypeMeta, OVHMachineListM_ListMeta = zero_ListMeta,
     OVHMachineListM_Items = None\<rparr>"
definition zero_OVHMachinePoolSpecM :: OVHMachinePoolSpecM where
  "zero_OVHMachinePoolSpecM = \<lparr>
     OVHMachinePoolSpecM_FlavorName = '''', OVHMachinePoolSpecM_ImageName = '''',
     OVHMachinePoolSpecM_SSHKeyName = '''', OVHMachinePoolSpecM_RootDiskSize = 0,
     OVHMachinePoolSpecM_ProviderIDList = None\<rparr>"
definition zero_OVHMachinePoolStatusM :: OVHMachinePoolStatusM where
  "zero_OVHMachinePoolStatusM = \<lparr>
     OVHMachinePoolStatusM_Ready = False, OVHMachinePoolStatusM_Replicas = 0,
     OVHMachinePoolStatusM_ReadyReplicas = 0, OVHMachinePoolStatusM_Conditions = None,
     OVHMachinePoolStatusM_FailureReason = '''', OVHMachinePoolStatusM_FailureMessage = '''',
     OVHMachinePoolStatusM_InfrastructureReady = False, OVHMachinePoolStatusM_InstanceIDs = None\<rparr>"
definition zero_OVHMachinePoolM :: OVHMachinePoolM where
  "zero_OVHMachinePoolM = \<lparr>
     OVHMachinePoolM_TypeMeta = zero_TypeMeta, OVHMachinePoolM_ObjectMeta = zero_ObjectMetaM,
     OVHMachinePoolM_Spec = zero_OVHMachinePoolSpecM,
     OVHMachinePoolM_Status = zero_OVHMachinePoolStatusM\<rparr>"
definition zero_OVHMachinePoolListM :: OVHMachinePoolListM where
  "zero_OVHMachinePoolListM = \<lparr>
     OVHMachinePoolListM_TypeMeta = zero_TypeMeta, OVHMachinePoolListM_ListMeta = zero_ListMeta,
     OVHMachinePoolListM_Items = None\<rparr>"
definition zero_OVHMachineTemplateResourceM :: OVHMachineTemplateResourceM where
  "zero_OVHMachineTemplateResourceM = \<lparr>
     OVHMachineTemplateResourceM_ObjectMeta = zero_TemplateMetaM,
     OVHMachineTemplateResourceM_Spec = zero_OVHMachineSpecM\<rparr>"
definition zero_OVHMachineTemplateSpecM :: OVHMachineTemplateSpecM where
  "zero_OVHMachineTemplateSpecM = \<lparr>
     OVHMachineTemplateSpecM_Template = zero_OVHMachineTemplateResourceM\<rparr>"
definition zero_OVHMachineTemplateM :: OVHMachineTemplateM where
  "zero_OVHMachineTemplateM = \<lparr>
     OVHMachineTemplateM_TypeMeta = zero_TypeMeta,
     OVHMachineTemplateM_ObjectMeta = zero_ObjectMetaM,
     OVHMachineTemplateM_Spec = zero_OVHMachineTemplateSpecM\<rparr>"
definition zero_OVHMachineTemplateListM :: OVHMachineTemplateListM where
  "zero_OVHMachineTemplateListM = \<lparr>
     OVHMachineTemplateListM_TypeMeta = zero_TypeMeta,
     OVHMachineTemplateListM_ListMeta = zero_ListMeta, OVHMachineTemplateListM_Items = None\<rparr>"

section \<open>Values\<close>

definition Initialization_load ::
    "InitializationM
      \<Rightarrow> (v1alpha2 cell, Initialization) reading" where
  "Initialization_load i =
     readMap (\<lambda>provisioned.
       \<lparr>Initialization_Provisioned = provisioned\<rparr>)
     (loadPtr kBool readPure
       (InitializationM_Provisioned i))"

definition OVHLoadBalancerConfig_load ::
    "OVHLoadBalancerConfigM
      \<Rightarrow> (v1alpha2 cell, OVHLoadBalancerConfig) reading" where
  "OVHLoadBalancerConfig_load i =
     readMap (\<lambda>listeners.
       \<lparr>OVHLoadBalancerConfig_SubnetID = OVHLoadBalancerConfigM_SubnetID i,
        OVHLoadBalancerConfig_FlavorName = OVHLoadBalancerConfigM_FlavorName i,
        OVHLoadBalancerConfig_FloatingNetworkID = OVHLoadBalancerConfigM_FloatingNetworkID i,
        OVHLoadBalancerConfig_Listeners = listeners,
        OVHLoadBalancerConfig_ExistingLoadBalancerID = OVHLoadBalancerConfigM_ExistingLoadBalancerID i,
        OVHLoadBalancerConfig_ExistingFloatingIPID = OVHLoadBalancerConfigM_ExistingFloatingIPID i\<rparr>)
     (loadSlice kOVHListener readPure
       (OVHLoadBalancerConfigM_Listeners i))"

definition OVHNetworkConfig_load ::
    "OVHNetworkConfigM
      \<Rightarrow> (v1alpha2 cell, OVHNetworkConfig) reading" where
  "OVHNetworkConfig_load i =
     readMap (\<lambda>dnsServers.
       \<lparr>OVHNetworkConfig_PrivateNetworkID = OVHNetworkConfigM_PrivateNetworkID i,
        OVHNetworkConfig_SubnetCIDR = OVHNetworkConfigM_SubnetCIDR i,
        OVHNetworkConfig_VlanID = OVHNetworkConfigM_VlanID i,
        OVHNetworkConfig_Gateway = OVHNetworkConfigM_Gateway i,
        OVHNetworkConfig_DNSServers = dnsServers\<rparr>)
     (loadSlice kString readPure
       (OVHNetworkConfigM_DNSServers i))"

definition OVHSecurityRule_load ::
    "OVHSecurityRuleM
      \<Rightarrow> (v1alpha2 cell, OVHSecurityRule) reading" where
  "OVHSecurityRule_load i =
     readMap (\<lambda>(portRangeMin, portRangeMax).
       \<lparr>OVHSecurityRule_Direction = OVHSecurityRuleM_Direction i,
        OVHSecurityRule_Protocol = OVHSecurityRuleM_Protocol i,
        OVHSecurityRule_PortRangeMin = portRangeMin, OVHSecurityRule_PortRangeMax = portRangeMax,
        OVHSecurityRule_RemoteIPPrefix = OVHSecurityRuleM_RemoteIPPrefix i,
        OVHSecurityRule_EtherType = OVHSecurityRuleM_EtherType i\<rparr>)
     (loadPair (loadPtr kInt32 readPure)
         (loadPtr kInt32 readPure)
       (OVHSecurityRuleM_PortRangeMin i, OVHSecurityRuleM_PortRangeMax i))"

definition OVHSecurityGroup_load ::
    "OVHSecurityGroupM
      \<Rightarrow> (v1alpha2 cell, OVHSecurityGroup) reading" where
  "OVHSecurityGroup_load i =
     readMap (\<lambda>rules.
       \<lparr>OVHSecurityGroup_Name = OVHSecurityGroupM_Name i, OVHSecurityGroup_Rules = rules\<rparr>)
     (loadSlice kOVHSecurityRule OVHSecurityRule_load
       (OVHSecurityGroupM_Rules i))"

definition OVHClusterSpec_load ::
    "OVHClusterSpecM
      \<Rightarrow> (v1alpha2 cell, OVHClusterSpec) reading" where
  "OVHClusterSpec_load i =
     readMap (\<lambda>(loadBalancerConfig, networkConfig, failureDomains, securityGroups, defaultTags, dnsConfig).
       \<lparr>OVHClusterSpec_ServiceName = OVHClusterSpecM_ServiceName i,
        OVHClusterSpec_Region = OVHClusterSpecM_Region i,
        OVHClusterSpec_IdentitySecret = OVHClusterSpecM_IdentitySecret i,
        OVHClusterSpec_ControlPlaneEndpoint = OVHClusterSpecM_ControlPlaneEndpoint i,
        OVHClusterSpec_LoadBalancerConfig = loadBalancerConfig,
        OVHClusterSpec_NetworkConfig = networkConfig,
        OVHClusterSpec_SSHKeyName = OVHClusterSpecM_SSHKeyName i,
        OVHClusterSpec_FailureDomains = failureDomains,
        OVHClusterSpec_SecurityGroups = securityGroups, OVHClusterSpec_DefaultTags = defaultTags,
        OVHClusterSpec_DNSConfig = dnsConfig\<rparr>)
     (loadPair OVHLoadBalancerConfig_load
         (loadPair (loadPtr kOVHNetworkConfig OVHNetworkConfig_load)
         (loadPair (loadSlice kString readPure)
         (loadPair (loadSlice kOVHSecurityGroup OVHSecurityGroup_load)
         (loadPair (loadMap kEntries)
         (loadPtr kOVHDNSConfig readPure)))))
       (OVHClusterSpecM_LoadBalancerConfig i, OVHClusterSpecM_NetworkConfig i,
        OVHClusterSpecM_FailureDomains i, OVHClusterSpecM_SecurityGroups i,
        OVHClusterSpecM_DefaultTags i, OVHClusterSpecM_DNSConfig i))"

definition OVHClusterStatus_load ::
    "OVHClusterStatusM
      \<Rightarrow> (v1alpha2 cell, OVHClusterStatus) reading" where
  "OVHClusterStatus_load i =
     readMap (\<lambda>(initialization, conditions, failureDomains, securityGroupIDs).
       \<lparr>OVHClusterStatus_Ready = OVHClusterStatusM_Ready i,
        OVHClusterStatus_Initialization = initialization,
        OVHClusterStatus_Conditions = conditions,
        OVHClusterStatus_NetworkID = OVHClusterStatusM_NetworkID i,
        OVHClusterStatus_SubnetID = OVHClusterStatusM_SubnetID i,
        OVHClusterStatus_LoadBalancerID = OVHClusterStatusM_LoadBalancerID i,
        OVHClusterStatus_ListenerID = OVHClusterStatusM_ListenerID i,
        OVHClusterStatus_PoolID = OVHClusterStatusM_PoolID i,
        OVHClusterStatus_FloatingIPID = OVHClusterStatusM_FloatingIPID i,
        OVHClusterStatus_GatewayID = OVHClusterStatusM_GatewayID i,
        OVHClusterStatus_GatewayExposed = OVHClusterStatusM_GatewayExposed i,
        OVHClusterStatus_RegisterListenerID = OVHClusterStatusM_RegisterListenerID i,
        OVHClusterStatus_RegisterPoolID = OVHClusterStatusM_RegisterPoolID i,
        OVHClusterStatus_FailureDomains = failureDomains,
        OVHClusterStatus_SecurityGroupIDs = securityGroupIDs,
        OVHClusterStatus_DNSRecordID = OVHClusterStatusM_DNSRecordID i\<rparr>)
     (loadPair Initialization_load
         (loadPair (loadSlice kCondition readPure)
         (loadPair (loadSlice kFailureDomain FailureDomain_load)
         (loadMap kEntries)))
       (OVHClusterStatusM_Initialization i, OVHClusterStatusM_Conditions i,
        OVHClusterStatusM_FailureDomains i, OVHClusterStatusM_SecurityGroupIDs i))"

definition OVHCluster_load ::
    "OVHClusterM
      \<Rightarrow> (v1alpha2 cell, TypeMeta \<times> OVHCluster) reading" where
  "OVHCluster_load i =
     readMap (\<lambda>(objectMeta, spec, status).
       (OVHClusterM_TypeMeta i,
        \<lparr>OVHCluster_ObjectMeta = objectMeta, OVHCluster_Spec = spec, OVHCluster_Status = status\<rparr>))
     (loadPair ObjectMeta_load
         (loadPair OVHClusterSpec_load
         OVHClusterStatus_load)
       (OVHClusterM_ObjectMeta i, OVHClusterM_Spec i, OVHClusterM_Status i))"

definition OVHClusterList_load ::
    "OVHClusterListM
      \<Rightarrow> (v1alpha2 cell, TypeMeta \<times> TypeMeta list \<times> OVHClusterList) reading" where
  "OVHClusterList_load i =
     readMap (\<lambda>(listMeta, items).
       (OVHClusterListM_TypeMeta i, map fst items,
        \<lparr>OVHClusterList_ListMeta = listMeta, OVHClusterList_Items = map snd items\<rparr>))
     (loadPair readPure
         (loadSlice kOVHCluster OVHCluster_load)
       (OVHClusterListM_ListMeta i, OVHClusterListM_Items i))"

definition OVHClusterTemplateResource_load ::
    "OVHClusterTemplateResourceM
      \<Rightarrow> (v1alpha2 cell, OVHClusterTemplateResource) reading" where
  "OVHClusterTemplateResource_load i =
     readMap (\<lambda>(objectMeta, spec).
       \<lparr>OVHClusterTemplateResource_ObjectMeta = objectMeta, OVHClusterTemplateResource_Spec = spec\<rparr>)
     (loadPair TemplateMeta_load
         OVHClusterSpec_load
       (OVHClusterTemplateResourceM_ObjectMeta i, OVHClusterTemplateResourceM_Spec i))"

definition OVHClusterTemplateSpec_load ::
    "OVHClusterTemplateSpecM
      \<Rightarrow> (v1alpha2 cell, OVHClusterTemplateSpec) reading" where
  "OVHClusterTemplateSpec_load i =
     readMap (\<lambda>template.
       \<lparr>OVHClusterTemplateSpec_Template = template\<rparr>)
     (OVHClusterTemplateResource_load
       (OVHClusterTemplateSpecM_Template i))"

definition OVHClusterTemplate_load ::
    "OVHClusterTemplateM
      \<Rightarrow> (v1alpha2 cell, TypeMeta \<times> OVHClusterTemplate) reading" where
  "OVHClusterTemplate_load i =
     readMap (\<lambda>(objectMeta, spec).
       (OVHClusterTemplateM_TypeMeta i,
        \<lparr>OVHClusterTemplate_ObjectMeta = objectMeta, OVHClusterTemplate_Spec = spec\<rparr>))
     (loadPair ObjectMeta_load
         OVHClusterTemplateSpec_load
       (OVHClusterTemplateM_ObjectMeta i, OVHClusterTemplateM_Spec i))"

definition OVHClusterTemplateList_load ::
    "OVHClusterTemplateListM
      \<Rightarrow> (v1alpha2 cell, TypeMeta \<times> TypeMeta list \<times> OVHClusterTemplateList) reading" where
  "OVHClusterTemplateList_load i =
     readMap (\<lambda>(listMeta, items).
       (OVHClusterTemplateListM_TypeMeta i, map fst items,
        \<lparr>OVHClusterTemplateList_ListMeta = listMeta, OVHClusterTemplateList_Items = map snd items\<rparr>))
     (loadPair readPure
         (loadSlice kOVHClusterTemplate OVHClusterTemplate_load)
       (OVHClusterTemplateListM_ListMeta i, OVHClusterTemplateListM_Items i))"

definition OVHMachineSpec_load ::
    "OVHMachineSpecM
      \<Rightarrow> (v1alpha2 cell, OVHMachineSpec) reading" where
  "OVHMachineSpec_load i =
     readMap (\<lambda>(additionalVolumes, securityGroupNames, tags).
       \<lparr>OVHMachineSpec_ProviderID = OVHMachineSpecM_ProviderID i,
        OVHMachineSpec_FlavorName = OVHMachineSpecM_FlavorName i,
        OVHMachineSpec_ImageName = OVHMachineSpecM_ImageName i,
        OVHMachineSpec_SSHKeyName = OVHMachineSpecM_SSHKeyName i,
        OVHMachineSpec_RootDiskSize = OVHMachineSpecM_RootDiskSize i,
        OVHMachineSpec_AdditionalVolumes = additionalVolumes,
        OVHMachineSpec_FailureDomain = OVHMachineSpecM_FailureDomain i,
        OVHMachineSpec_SecurityGroupNames = securityGroupNames, OVHMachineSpec_Tags = tags,
        OVHMachineSpec_BootstrapFormat = OVHMachineSpecM_BootstrapFormat i,
        OVHMachineSpec_ExistingInstanceID = OVHMachineSpecM_ExistingInstanceID i\<rparr>)
     (loadPair (loadSlice kOVHVolume readPure)
         (loadPair (loadSlice kString readPure)
         (loadMap kEntries))
       (OVHMachineSpecM_AdditionalVolumes i, OVHMachineSpecM_SecurityGroupNames i,
        OVHMachineSpecM_Tags i))"

definition OVHMachineStatus_load ::
    "OVHMachineStatusM
      \<Rightarrow> (v1alpha2 cell, OVHMachineStatus) reading" where
  "OVHMachineStatus_load i =
     readMap (\<lambda>(conditions, addresses, initialization, volumeIDs).
       \<lparr>OVHMachineStatus_Ready = OVHMachineStatusM_Ready i,
        OVHMachineStatus_Conditions = conditions, OVHMachineStatus_Addresses = addresses,
        OVHMachineStatus_Initialization = initialization,
        OVHMachineStatus_InstanceID = OVHMachineStatusM_InstanceID i,
        OVHMachineStatus_VolumeIDs = volumeIDs,
        OVHMachineStatus_LBPoolMemberID = OVHMachineStatusM_LBPoolMemberID i,
        OVHMachineStatus_RegisterPoolMemberID = OVHMachineStatusM_RegisterPoolMemberID i\<rparr>)
     (loadPair (loadSlice kCondition readPure)
         (loadPair (loadSlice kMachineAddress readPure)
         (loadPair Initialization_load
         (loadSlice kString readPure)))
       (OVHMachineStatusM_Conditions i, OVHMachineStatusM_Addresses i,
        OVHMachineStatusM_Initialization i, OVHMachineStatusM_VolumeIDs i))"

definition OVHMachine_load ::
    "OVHMachineM
      \<Rightarrow> (v1alpha2 cell, TypeMeta \<times> OVHMachine) reading" where
  "OVHMachine_load i =
     readMap (\<lambda>(objectMeta, spec, status).
       (OVHMachineM_TypeMeta i,
        \<lparr>OVHMachine_ObjectMeta = objectMeta, OVHMachine_Spec = spec, OVHMachine_Status = status\<rparr>))
     (loadPair ObjectMeta_load
         (loadPair OVHMachineSpec_load
         OVHMachineStatus_load)
       (OVHMachineM_ObjectMeta i, OVHMachineM_Spec i, OVHMachineM_Status i))"

definition OVHMachineList_load ::
    "OVHMachineListM
      \<Rightarrow> (v1alpha2 cell, TypeMeta \<times> TypeMeta list \<times> OVHMachineList) reading" where
  "OVHMachineList_load i =
     readMap (\<lambda>(listMeta, items).
       (OVHMachineListM_TypeMeta i, map fst items,
        \<lparr>OVHMachineList_ListMeta = listMeta, OVHMachineList_Items = map snd items\<rparr>))
     (loadPair readPure
         (loadSlice kOVHMachine OVHMachine_load)
       (OVHMachineListM_ListMeta i, OVHMachineListM_Items i))"

definition OVHMachinePoolSpec_load ::
    "OVHMachinePoolSpecM
      \<Rightarrow> (v1alpha2 cell, OVHMachinePoolSpec) reading" where
  "OVHMachinePoolSpec_load i =
     readMap (\<lambda>providerIDList.
       \<lparr>OVHMachinePoolSpec_FlavorName = OVHMachinePoolSpecM_FlavorName i,
        OVHMachinePoolSpec_ImageName = OVHMachinePoolSpecM_ImageName i,
        OVHMachinePoolSpec_SSHKeyName = OVHMachinePoolSpecM_SSHKeyName i,
        OVHMachinePoolSpec_RootDiskSize = OVHMachinePoolSpecM_RootDiskSize i,
        OVHMachinePoolSpec_ProviderIDList = providerIDList\<rparr>)
     (loadSlice kString readPure
       (OVHMachinePoolSpecM_ProviderIDList i))"

definition OVHMachinePoolStatus_load ::
    "OVHMachinePoolStatusM
      \<Rightarrow> (v1alpha2 cell, OVHMachinePoolStatus) reading" where
  "OVHMachinePoolStatus_load i =
     readMap (\<lambda>(conditions, instanceIDs).
       \<lparr>OVHMachinePoolStatus_Ready = OVHMachinePoolStatusM_Ready i,
        OVHMachinePoolStatus_Replicas = OVHMachinePoolStatusM_Replicas i,
        OVHMachinePoolStatus_ReadyReplicas = OVHMachinePoolStatusM_ReadyReplicas i,
        OVHMachinePoolStatus_Conditions = conditions,
        OVHMachinePoolStatus_FailureReason = OVHMachinePoolStatusM_FailureReason i,
        OVHMachinePoolStatus_FailureMessage = OVHMachinePoolStatusM_FailureMessage i,
        OVHMachinePoolStatus_InfrastructureReady = OVHMachinePoolStatusM_InfrastructureReady i,
        OVHMachinePoolStatus_InstanceIDs = instanceIDs\<rparr>)
     (loadPair (loadSlice kCondition readPure)
         (loadSlice kString readPure)
       (OVHMachinePoolStatusM_Conditions i, OVHMachinePoolStatusM_InstanceIDs i))"

definition OVHMachinePool_load ::
    "OVHMachinePoolM
      \<Rightarrow> (v1alpha2 cell, TypeMeta \<times> OVHMachinePool) reading" where
  "OVHMachinePool_load i =
     readMap (\<lambda>(objectMeta, spec, status).
       (OVHMachinePoolM_TypeMeta i,
        \<lparr>OVHMachinePool_ObjectMeta = objectMeta, OVHMachinePool_Spec = spec,
        OVHMachinePool_Status = status\<rparr>))
     (loadPair ObjectMeta_load
         (loadPair OVHMachinePoolSpec_load
         OVHMachinePoolStatus_load)
       (OVHMachinePoolM_ObjectMeta i, OVHMachinePoolM_Spec i, OVHMachinePoolM_Status i))"

definition OVHMachinePoolList_load ::
    "OVHMachinePoolListM
      \<Rightarrow> (v1alpha2 cell, TypeMeta \<times> TypeMeta list \<times> OVHMachinePoolList) reading" where
  "OVHMachinePoolList_load i =
     readMap (\<lambda>(listMeta, items).
       (OVHMachinePoolListM_TypeMeta i, map fst items,
        \<lparr>OVHMachinePoolList_ListMeta = listMeta, OVHMachinePoolList_Items = map snd items\<rparr>))
     (loadPair readPure
         (loadSlice kOVHMachinePool OVHMachinePool_load)
       (OVHMachinePoolListM_ListMeta i, OVHMachinePoolListM_Items i))"

definition OVHMachineTemplateResource_load ::
    "OVHMachineTemplateResourceM
      \<Rightarrow> (v1alpha2 cell, OVHMachineTemplateResource) reading" where
  "OVHMachineTemplateResource_load i =
     readMap (\<lambda>(objectMeta, spec).
       \<lparr>OVHMachineTemplateResource_ObjectMeta = objectMeta, OVHMachineTemplateResource_Spec = spec\<rparr>)
     (loadPair TemplateMeta_load
         OVHMachineSpec_load
       (OVHMachineTemplateResourceM_ObjectMeta i, OVHMachineTemplateResourceM_Spec i))"

definition OVHMachineTemplateSpec_load ::
    "OVHMachineTemplateSpecM
      \<Rightarrow> (v1alpha2 cell, OVHMachineTemplateSpec) reading" where
  "OVHMachineTemplateSpec_load i =
     readMap (\<lambda>template.
       \<lparr>OVHMachineTemplateSpec_Template = template\<rparr>)
     (OVHMachineTemplateResource_load
       (OVHMachineTemplateSpecM_Template i))"

definition OVHMachineTemplate_load ::
    "OVHMachineTemplateM
      \<Rightarrow> (v1alpha2 cell, TypeMeta \<times> OVHMachineTemplate) reading" where
  "OVHMachineTemplate_load i =
     readMap (\<lambda>(objectMeta, spec).
       (OVHMachineTemplateM_TypeMeta i,
        \<lparr>OVHMachineTemplate_ObjectMeta = objectMeta, OVHMachineTemplate_Spec = spec\<rparr>))
     (loadPair ObjectMeta_load
         OVHMachineTemplateSpec_load
       (OVHMachineTemplateM_ObjectMeta i, OVHMachineTemplateM_Spec i))"

definition OVHMachineTemplateList_load ::
    "OVHMachineTemplateListM
      \<Rightarrow> (v1alpha2 cell, TypeMeta \<times> TypeMeta list \<times> OVHMachineTemplateList) reading" where
  "OVHMachineTemplateList_load i =
     readMap (\<lambda>(listMeta, items).
       (OVHMachineTemplateListM_TypeMeta i, map fst items,
        \<lparr>OVHMachineTemplateList_ListMeta = listMeta, OVHMachineTemplateList_Items = map snd items\<rparr>))
     (loadPair readPure
         (loadSlice kOVHMachineTemplate OVHMachineTemplate_load)
       (OVHMachineTemplateListM_ListMeta i, OVHMachineTemplateListM_Items i))"

end
