(* ===== verification/Deep_Copies.thy ===== *)
theory Deep_Copies
  imports Structs
begin

text \<open>
  \<^verbatim>\<open>api/v1alpha2/zz_generated.deepcopy.go\<close>, statement by statement: \<open>T_DeepCopyInto\<close> gives the
  struct that \<^verbatim>\<open>*out\<close> holds at the end, \<open>T_DeepCopy\<close> and \<open>T_DeepCopyObject\<close> the pointer and the
  interface value they return. Each type gets the contract \<open>element\<close> of \<open>Memory\<close>, by an
  interpretation or, where the copy calls one of another package, by a lemma from what that package
  documents; the property collects what it gives for the pointers and objects of all types.
\<close>

section \<open>Deep copies\<close>

definition Initialization_DeepCopyInto ::
    "InitializationM
      \<Rightarrow> (v1alpha2 cell, InitializationM) copying" where
  "Initialization_DeepCopyInto i = do {
     let out = i;
     provisioned \<leftarrow> newCopy kBool False (InitializationM_Provisioned i);
     let out = out\<lparr>InitializationM_Provisioned := provisioned\<rparr>;
     State_Monad.return out
   }"

definition OVHDNSConfig_DeepCopyInto ::
    "OVHDNSConfig
      \<Rightarrow> (v1alpha2 cell, OVHDNSConfig) copying" where
  "OVHDNSConfig_DeepCopyInto i = do {
     let out = i;
     State_Monad.return out
   }"

definition OVHListener_DeepCopyInto ::
    "OVHListener
      \<Rightarrow> (v1alpha2 cell, OVHListener) copying" where
  "OVHListener_DeepCopyInto i = do {
     let out = i;
     State_Monad.return out
   }"

definition OVHLoadBalancerConfig_DeepCopyInto ::
    "OVHLoadBalancerConfigM
      \<Rightarrow> (v1alpha2 cell, OVHLoadBalancerConfigM) copying" where
  "OVHLoadBalancerConfig_DeepCopyInto i = do {
     let out = i;
     listeners \<leftarrow> makeCopy kOVHListener zero_OVHListener (OVHLoadBalancerConfigM_Listeners i);
     let out = out\<lparr>OVHLoadBalancerConfigM_Listeners := listeners\<rparr>;
     State_Monad.return out
   }"

definition OVHNetworkConfig_DeepCopyInto ::
    "OVHNetworkConfigM
      \<Rightarrow> (v1alpha2 cell, OVHNetworkConfigM) copying" where
  "OVHNetworkConfig_DeepCopyInto i = do {
     let out = i;
     dnsServers \<leftarrow> makeCopy kString '''' (OVHNetworkConfigM_DNSServers i);
     let out = out\<lparr>OVHNetworkConfigM_DNSServers := dnsServers\<rparr>;
     State_Monad.return out
   }"

definition OVHSecurityRule_DeepCopyInto ::
    "OVHSecurityRuleM
      \<Rightarrow> (v1alpha2 cell, OVHSecurityRuleM) copying" where
  "OVHSecurityRule_DeepCopyInto i = do {
     let out = i;
     portRangeMin \<leftarrow> newCopy kInt32 0 (OVHSecurityRuleM_PortRangeMin i);
     let out = out\<lparr>OVHSecurityRuleM_PortRangeMin := portRangeMin\<rparr>;
     portRangeMax \<leftarrow> newCopy kInt32 0 (OVHSecurityRuleM_PortRangeMax i);
     let out = out\<lparr>OVHSecurityRuleM_PortRangeMax := portRangeMax\<rparr>;
     State_Monad.return out
   }"

definition OVHSecurityGroup_DeepCopyInto ::
    "OVHSecurityGroupM
      \<Rightarrow> (v1alpha2 cell, OVHSecurityGroupM) copying" where
  "OVHSecurityGroup_DeepCopyInto i = do {
     let out = i;
     rules \<leftarrow> makeDeepCopy kOVHSecurityRule zero_OVHSecurityRuleM OVHSecurityRule_DeepCopyInto
       (OVHSecurityGroupM_Rules i);
     let out = out\<lparr>OVHSecurityGroupM_Rules := rules\<rparr>;
     State_Monad.return out
   }"

definition SecretKey_DeepCopyInto ::
    "SecretKey
      \<Rightarrow> (v1alpha2 cell, SecretKey) copying" where
  "SecretKey_DeepCopyInto i = do {
     let out = i;
     State_Monad.return out
   }"

definition OVHClusterSpec_DeepCopyInto ::
    "OVHClusterSpecM
      \<Rightarrow> (v1alpha2 cell, OVHClusterSpecM) copying" where
  "OVHClusterSpec_DeepCopyInto i = do {
     let out = i;
     let out = out\<lparr>OVHClusterSpecM_IdentitySecret := OVHClusterSpecM_IdentitySecret i\<rparr>;
     let out = out\<lparr>OVHClusterSpecM_ControlPlaneEndpoint := OVHClusterSpecM_ControlPlaneEndpoint i\<rparr>;
     loadBalancerConfig \<leftarrow> OVHLoadBalancerConfig_DeepCopyInto (OVHClusterSpecM_LoadBalancerConfig i);
     let out = out\<lparr>OVHClusterSpecM_LoadBalancerConfig := loadBalancerConfig\<rparr>;
     networkConfig \<leftarrow> newDeepCopy kOVHNetworkConfig zero_OVHNetworkConfigM OVHNetworkConfig_DeepCopyInto
       (OVHClusterSpecM_NetworkConfig i);
     let out = out\<lparr>OVHClusterSpecM_NetworkConfig := networkConfig\<rparr>;
     failureDomains \<leftarrow> makeCopy kString '''' (OVHClusterSpecM_FailureDomains i);
     let out = out\<lparr>OVHClusterSpecM_FailureDomains := failureDomains\<rparr>;
     securityGroups \<leftarrow> makeDeepCopy kOVHSecurityGroup zero_OVHSecurityGroupM OVHSecurityGroup_DeepCopyInto
       (OVHClusterSpecM_SecurityGroups i);
     let out = out\<lparr>OVHClusterSpecM_SecurityGroups := securityGroups\<rparr>;
     defaultTags \<leftarrow> makeMapCopy kEntries (OVHClusterSpecM_DefaultTags i);
     let out = out\<lparr>OVHClusterSpecM_DefaultTags := defaultTags\<rparr>;
     dnsConfig \<leftarrow> newCopy kOVHDNSConfig zero_OVHDNSConfig (OVHClusterSpecM_DNSConfig i);
     let out = out\<lparr>OVHClusterSpecM_DNSConfig := dnsConfig\<rparr>;
     State_Monad.return out
   }"

definition OVHClusterStatus_DeepCopyInto ::
    "v1alpha2 library \<Rightarrow> OVHClusterStatusM
      \<Rightarrow> (v1alpha2 cell, OVHClusterStatusM) copying" where
  "OVHClusterStatus_DeepCopyInto lib i = do {
     let out = i;
     initialization \<leftarrow> Initialization_DeepCopyInto (OVHClusterStatusM_Initialization i);
     let out = out\<lparr>OVHClusterStatusM_Initialization := initialization\<rparr>;
     conditions \<leftarrow> makeDeepCopy kCondition (zero_Condition lib) (Condition_DeepCopyInto lib)
       (OVHClusterStatusM_Conditions i);
     let out = out\<lparr>OVHClusterStatusM_Conditions := conditions\<rparr>;
     failureDomains \<leftarrow> makeDeepCopy kFailureDomain zero_FailureDomainM (FailureDomain_DeepCopyInto lib)
       (OVHClusterStatusM_FailureDomains i);
     let out = out\<lparr>OVHClusterStatusM_FailureDomains := failureDomains\<rparr>;
     securityGroupIDs \<leftarrow> makeMapCopy kEntries (OVHClusterStatusM_SecurityGroupIDs i);
     let out = out\<lparr>OVHClusterStatusM_SecurityGroupIDs := securityGroupIDs\<rparr>;
     State_Monad.return out
   }"

definition OVHCluster_DeepCopyInto ::
    "v1alpha2 library \<Rightarrow> OVHClusterM
      \<Rightarrow> (v1alpha2 cell, OVHClusterM) copying" where
  "OVHCluster_DeepCopyInto lib i = do {
     let out = i;
     let out = out\<lparr>OVHClusterM_TypeMeta := OVHClusterM_TypeMeta i\<rparr>;
     objectMeta \<leftarrow> ObjectMeta_DeepCopyInto lib (OVHClusterM_ObjectMeta i);
     let out = out\<lparr>OVHClusterM_ObjectMeta := objectMeta\<rparr>;
     spec \<leftarrow> OVHClusterSpec_DeepCopyInto (OVHClusterM_Spec i);
     let out = out\<lparr>OVHClusterM_Spec := spec\<rparr>;
     status \<leftarrow> OVHClusterStatus_DeepCopyInto lib (OVHClusterM_Status i);
     let out = out\<lparr>OVHClusterM_Status := status\<rparr>;
     State_Monad.return out
   }"

definition OVHClusterList_DeepCopyInto ::
    "v1alpha2 library \<Rightarrow> OVHClusterListM
      \<Rightarrow> (v1alpha2 cell, OVHClusterListM) copying" where
  "OVHClusterList_DeepCopyInto lib i = do {
     let out = i;
     let out = out\<lparr>OVHClusterListM_TypeMeta := OVHClusterListM_TypeMeta i\<rparr>;
     listMeta \<leftarrow> ListMeta_DeepCopyInto lib (OVHClusterListM_ListMeta i);
     let out = out\<lparr>OVHClusterListM_ListMeta := listMeta\<rparr>;
     items \<leftarrow> makeDeepCopy kOVHCluster zero_OVHClusterM (OVHCluster_DeepCopyInto lib)
       (OVHClusterListM_Items i);
     let out = out\<lparr>OVHClusterListM_Items := items\<rparr>;
     State_Monad.return out
   }"

definition OVHClusterTemplateResource_DeepCopyInto ::
    "v1alpha2 library \<Rightarrow> OVHClusterTemplateResourceM
      \<Rightarrow> (v1alpha2 cell, OVHClusterTemplateResourceM) copying" where
  "OVHClusterTemplateResource_DeepCopyInto lib i = do {
     let out = i;
     objectMeta \<leftarrow> TemplateMeta_DeepCopyInto lib (OVHClusterTemplateResourceM_ObjectMeta i);
     let out = out\<lparr>OVHClusterTemplateResourceM_ObjectMeta := objectMeta\<rparr>;
     spec \<leftarrow> OVHClusterSpec_DeepCopyInto (OVHClusterTemplateResourceM_Spec i);
     let out = out\<lparr>OVHClusterTemplateResourceM_Spec := spec\<rparr>;
     State_Monad.return out
   }"

definition OVHClusterTemplateSpec_DeepCopyInto ::
    "v1alpha2 library \<Rightarrow> OVHClusterTemplateSpecM
      \<Rightarrow> (v1alpha2 cell, OVHClusterTemplateSpecM) copying" where
  "OVHClusterTemplateSpec_DeepCopyInto lib i = do {
     let out = i;
     template \<leftarrow> OVHClusterTemplateResource_DeepCopyInto lib (OVHClusterTemplateSpecM_Template i);
     let out = out\<lparr>OVHClusterTemplateSpecM_Template := template\<rparr>;
     State_Monad.return out
   }"

definition OVHClusterTemplate_DeepCopyInto ::
    "v1alpha2 library \<Rightarrow> OVHClusterTemplateM
      \<Rightarrow> (v1alpha2 cell, OVHClusterTemplateM) copying" where
  "OVHClusterTemplate_DeepCopyInto lib i = do {
     let out = i;
     let out = out\<lparr>OVHClusterTemplateM_TypeMeta := OVHClusterTemplateM_TypeMeta i\<rparr>;
     objectMeta \<leftarrow> ObjectMeta_DeepCopyInto lib (OVHClusterTemplateM_ObjectMeta i);
     let out = out\<lparr>OVHClusterTemplateM_ObjectMeta := objectMeta\<rparr>;
     spec \<leftarrow> OVHClusterTemplateSpec_DeepCopyInto lib (OVHClusterTemplateM_Spec i);
     let out = out\<lparr>OVHClusterTemplateM_Spec := spec\<rparr>;
     State_Monad.return out
   }"

definition OVHClusterTemplateList_DeepCopyInto ::
    "v1alpha2 library \<Rightarrow> OVHClusterTemplateListM
      \<Rightarrow> (v1alpha2 cell, OVHClusterTemplateListM) copying" where
  "OVHClusterTemplateList_DeepCopyInto lib i = do {
     let out = i;
     let out = out\<lparr>OVHClusterTemplateListM_TypeMeta := OVHClusterTemplateListM_TypeMeta i\<rparr>;
     listMeta \<leftarrow> ListMeta_DeepCopyInto lib (OVHClusterTemplateListM_ListMeta i);
     let out = out\<lparr>OVHClusterTemplateListM_ListMeta := listMeta\<rparr>;
     items \<leftarrow> makeDeepCopy kOVHClusterTemplate zero_OVHClusterTemplateM (OVHClusterTemplate_DeepCopyInto lib)
       (OVHClusterTemplateListM_Items i);
     let out = out\<lparr>OVHClusterTemplateListM_Items := items\<rparr>;
     State_Monad.return out
   }"

definition OVHClusterValidator_DeepCopyInto ::
    "unit
      \<Rightarrow> (v1alpha2 cell, unit) copying" where
  "OVHClusterValidator_DeepCopyInto i = do {
     let out = i;
     State_Monad.return out
   }"

definition OVHVolume_DeepCopyInto ::
    "OVHVolume
      \<Rightarrow> (v1alpha2 cell, OVHVolume) copying" where
  "OVHVolume_DeepCopyInto i = do {
     let out = i;
     State_Monad.return out
   }"

definition OVHMachineSpec_DeepCopyInto ::
    "OVHMachineSpecM
      \<Rightarrow> (v1alpha2 cell, OVHMachineSpecM) copying" where
  "OVHMachineSpec_DeepCopyInto i = do {
     let out = i;
     additionalVolumes \<leftarrow> makeCopy kOVHVolume zero_OVHVolume (OVHMachineSpecM_AdditionalVolumes i);
     let out = out\<lparr>OVHMachineSpecM_AdditionalVolumes := additionalVolumes\<rparr>;
     securityGroupNames \<leftarrow> makeCopy kString '''' (OVHMachineSpecM_SecurityGroupNames i);
     let out = out\<lparr>OVHMachineSpecM_SecurityGroupNames := securityGroupNames\<rparr>;
     tags \<leftarrow> makeMapCopy kEntries (OVHMachineSpecM_Tags i);
     let out = out\<lparr>OVHMachineSpecM_Tags := tags\<rparr>;
     State_Monad.return out
   }"

definition OVHMachineStatus_DeepCopyInto ::
    "v1alpha2 library \<Rightarrow> OVHMachineStatusM
      \<Rightarrow> (v1alpha2 cell, OVHMachineStatusM) copying" where
  "OVHMachineStatus_DeepCopyInto lib i = do {
     let out = i;
     conditions \<leftarrow> makeDeepCopy kCondition (zero_Condition lib) (Condition_DeepCopyInto lib)
       (OVHMachineStatusM_Conditions i);
     let out = out\<lparr>OVHMachineStatusM_Conditions := conditions\<rparr>;
     addresses \<leftarrow> makeCopy kMachineAddress zero_MachineAddress (OVHMachineStatusM_Addresses i);
     let out = out\<lparr>OVHMachineStatusM_Addresses := addresses\<rparr>;
     initialization \<leftarrow> Initialization_DeepCopyInto (OVHMachineStatusM_Initialization i);
     let out = out\<lparr>OVHMachineStatusM_Initialization := initialization\<rparr>;
     volumeIDs \<leftarrow> makeCopy kString '''' (OVHMachineStatusM_VolumeIDs i);
     let out = out\<lparr>OVHMachineStatusM_VolumeIDs := volumeIDs\<rparr>;
     State_Monad.return out
   }"

definition OVHMachine_DeepCopyInto ::
    "v1alpha2 library \<Rightarrow> OVHMachineM
      \<Rightarrow> (v1alpha2 cell, OVHMachineM) copying" where
  "OVHMachine_DeepCopyInto lib i = do {
     let out = i;
     let out = out\<lparr>OVHMachineM_TypeMeta := OVHMachineM_TypeMeta i\<rparr>;
     objectMeta \<leftarrow> ObjectMeta_DeepCopyInto lib (OVHMachineM_ObjectMeta i);
     let out = out\<lparr>OVHMachineM_ObjectMeta := objectMeta\<rparr>;
     spec \<leftarrow> OVHMachineSpec_DeepCopyInto (OVHMachineM_Spec i);
     let out = out\<lparr>OVHMachineM_Spec := spec\<rparr>;
     status \<leftarrow> OVHMachineStatus_DeepCopyInto lib (OVHMachineM_Status i);
     let out = out\<lparr>OVHMachineM_Status := status\<rparr>;
     State_Monad.return out
   }"

definition OVHMachineList_DeepCopyInto ::
    "v1alpha2 library \<Rightarrow> OVHMachineListM
      \<Rightarrow> (v1alpha2 cell, OVHMachineListM) copying" where
  "OVHMachineList_DeepCopyInto lib i = do {
     let out = i;
     let out = out\<lparr>OVHMachineListM_TypeMeta := OVHMachineListM_TypeMeta i\<rparr>;
     listMeta \<leftarrow> ListMeta_DeepCopyInto lib (OVHMachineListM_ListMeta i);
     let out = out\<lparr>OVHMachineListM_ListMeta := listMeta\<rparr>;
     items \<leftarrow> makeDeepCopy kOVHMachine zero_OVHMachineM (OVHMachine_DeepCopyInto lib)
       (OVHMachineListM_Items i);
     let out = out\<lparr>OVHMachineListM_Items := items\<rparr>;
     State_Monad.return out
   }"

definition OVHMachinePoolSpec_DeepCopyInto ::
    "OVHMachinePoolSpecM
      \<Rightarrow> (v1alpha2 cell, OVHMachinePoolSpecM) copying" where
  "OVHMachinePoolSpec_DeepCopyInto i = do {
     let out = i;
     providerIDList \<leftarrow> makeCopy kString '''' (OVHMachinePoolSpecM_ProviderIDList i);
     let out = out\<lparr>OVHMachinePoolSpecM_ProviderIDList := providerIDList\<rparr>;
     State_Monad.return out
   }"

definition OVHMachinePoolStatus_DeepCopyInto ::
    "v1alpha2 library \<Rightarrow> OVHMachinePoolStatusM
      \<Rightarrow> (v1alpha2 cell, OVHMachinePoolStatusM) copying" where
  "OVHMachinePoolStatus_DeepCopyInto lib i = do {
     let out = i;
     conditions \<leftarrow> makeDeepCopy kCondition (zero_Condition lib) (Condition_DeepCopyInto lib)
       (OVHMachinePoolStatusM_Conditions i);
     let out = out\<lparr>OVHMachinePoolStatusM_Conditions := conditions\<rparr>;
     instanceIDs \<leftarrow> makeCopy kString '''' (OVHMachinePoolStatusM_InstanceIDs i);
     let out = out\<lparr>OVHMachinePoolStatusM_InstanceIDs := instanceIDs\<rparr>;
     State_Monad.return out
   }"

definition OVHMachinePool_DeepCopyInto ::
    "v1alpha2 library \<Rightarrow> OVHMachinePoolM
      \<Rightarrow> (v1alpha2 cell, OVHMachinePoolM) copying" where
  "OVHMachinePool_DeepCopyInto lib i = do {
     let out = i;
     let out = out\<lparr>OVHMachinePoolM_TypeMeta := OVHMachinePoolM_TypeMeta i\<rparr>;
     objectMeta \<leftarrow> ObjectMeta_DeepCopyInto lib (OVHMachinePoolM_ObjectMeta i);
     let out = out\<lparr>OVHMachinePoolM_ObjectMeta := objectMeta\<rparr>;
     spec \<leftarrow> OVHMachinePoolSpec_DeepCopyInto (OVHMachinePoolM_Spec i);
     let out = out\<lparr>OVHMachinePoolM_Spec := spec\<rparr>;
     status \<leftarrow> OVHMachinePoolStatus_DeepCopyInto lib (OVHMachinePoolM_Status i);
     let out = out\<lparr>OVHMachinePoolM_Status := status\<rparr>;
     State_Monad.return out
   }"

definition OVHMachinePoolList_DeepCopyInto ::
    "v1alpha2 library \<Rightarrow> OVHMachinePoolListM
      \<Rightarrow> (v1alpha2 cell, OVHMachinePoolListM) copying" where
  "OVHMachinePoolList_DeepCopyInto lib i = do {
     let out = i;
     let out = out\<lparr>OVHMachinePoolListM_TypeMeta := OVHMachinePoolListM_TypeMeta i\<rparr>;
     listMeta \<leftarrow> ListMeta_DeepCopyInto lib (OVHMachinePoolListM_ListMeta i);
     let out = out\<lparr>OVHMachinePoolListM_ListMeta := listMeta\<rparr>;
     items \<leftarrow> makeDeepCopy kOVHMachinePool zero_OVHMachinePoolM (OVHMachinePool_DeepCopyInto lib)
       (OVHMachinePoolListM_Items i);
     let out = out\<lparr>OVHMachinePoolListM_Items := items\<rparr>;
     State_Monad.return out
   }"

definition OVHMachineTemplateResource_DeepCopyInto ::
    "v1alpha2 library \<Rightarrow> OVHMachineTemplateResourceM
      \<Rightarrow> (v1alpha2 cell, OVHMachineTemplateResourceM) copying" where
  "OVHMachineTemplateResource_DeepCopyInto lib i = do {
     let out = i;
     objectMeta \<leftarrow> TemplateMeta_DeepCopyInto lib (OVHMachineTemplateResourceM_ObjectMeta i);
     let out = out\<lparr>OVHMachineTemplateResourceM_ObjectMeta := objectMeta\<rparr>;
     spec \<leftarrow> OVHMachineSpec_DeepCopyInto (OVHMachineTemplateResourceM_Spec i);
     let out = out\<lparr>OVHMachineTemplateResourceM_Spec := spec\<rparr>;
     State_Monad.return out
   }"

definition OVHMachineTemplateSpec_DeepCopyInto ::
    "v1alpha2 library \<Rightarrow> OVHMachineTemplateSpecM
      \<Rightarrow> (v1alpha2 cell, OVHMachineTemplateSpecM) copying" where
  "OVHMachineTemplateSpec_DeepCopyInto lib i = do {
     let out = i;
     template \<leftarrow> OVHMachineTemplateResource_DeepCopyInto lib (OVHMachineTemplateSpecM_Template i);
     let out = out\<lparr>OVHMachineTemplateSpecM_Template := template\<rparr>;
     State_Monad.return out
   }"

definition OVHMachineTemplate_DeepCopyInto ::
    "v1alpha2 library \<Rightarrow> OVHMachineTemplateM
      \<Rightarrow> (v1alpha2 cell, OVHMachineTemplateM) copying" where
  "OVHMachineTemplate_DeepCopyInto lib i = do {
     let out = i;
     let out = out\<lparr>OVHMachineTemplateM_TypeMeta := OVHMachineTemplateM_TypeMeta i\<rparr>;
     objectMeta \<leftarrow> ObjectMeta_DeepCopyInto lib (OVHMachineTemplateM_ObjectMeta i);
     let out = out\<lparr>OVHMachineTemplateM_ObjectMeta := objectMeta\<rparr>;
     spec \<leftarrow> OVHMachineTemplateSpec_DeepCopyInto lib (OVHMachineTemplateM_Spec i);
     let out = out\<lparr>OVHMachineTemplateM_Spec := spec\<rparr>;
     State_Monad.return out
   }"

definition OVHMachineTemplateList_DeepCopyInto ::
    "v1alpha2 library \<Rightarrow> OVHMachineTemplateListM
      \<Rightarrow> (v1alpha2 cell, OVHMachineTemplateListM) copying" where
  "OVHMachineTemplateList_DeepCopyInto lib i = do {
     let out = i;
     let out = out\<lparr>OVHMachineTemplateListM_TypeMeta := OVHMachineTemplateListM_TypeMeta i\<rparr>;
     listMeta \<leftarrow> ListMeta_DeepCopyInto lib (OVHMachineTemplateListM_ListMeta i);
     let out = out\<lparr>OVHMachineTemplateListM_ListMeta := listMeta\<rparr>;
     items \<leftarrow> makeDeepCopy kOVHMachineTemplate zero_OVHMachineTemplateM (OVHMachineTemplate_DeepCopyInto lib)
       (OVHMachineTemplateListM_Items i);
     let out = out\<lparr>OVHMachineTemplateListM_Items := items\<rparr>;
     State_Monad.return out
   }"

definition OVHMachineValidator_DeepCopyInto ::
    "unit
      \<Rightarrow> (v1alpha2 cell, unit) copying" where
  "OVHMachineValidator_DeepCopyInto i = do {
     let out = i;
     State_Monad.return out
   }"

text \<open>\<^verbatim>\<open>DeepCopy\<close>: nil for nil, otherwise a new struct that \<^verbatim>\<open>DeepCopyInto\<close> fills.\<close>

definition Initialization_DeepCopy ::
    "addr option
      \<Rightarrow> (v1alpha2 cell, addr option) copying" where
  "Initialization_DeepCopy p = newDeepCopy kInitialization zero_InitializationM Initialization_DeepCopyInto p"

definition OVHDNSConfig_DeepCopy ::
    "addr option
      \<Rightarrow> (v1alpha2 cell, addr option) copying" where
  "OVHDNSConfig_DeepCopy p = newDeepCopy kOVHDNSConfig zero_OVHDNSConfig OVHDNSConfig_DeepCopyInto p"

definition OVHListener_DeepCopy ::
    "addr option
      \<Rightarrow> (v1alpha2 cell, addr option) copying" where
  "OVHListener_DeepCopy p = newDeepCopy kOVHListener zero_OVHListener OVHListener_DeepCopyInto p"

definition OVHLoadBalancerConfig_DeepCopy ::
    "addr option
      \<Rightarrow> (v1alpha2 cell, addr option) copying" where
  "OVHLoadBalancerConfig_DeepCopy p = newDeepCopy kOVHLoadBalancerConfig zero_OVHLoadBalancerConfigM OVHLoadBalancerConfig_DeepCopyInto p"

definition OVHNetworkConfig_DeepCopy ::
    "addr option
      \<Rightarrow> (v1alpha2 cell, addr option) copying" where
  "OVHNetworkConfig_DeepCopy p = newDeepCopy kOVHNetworkConfig zero_OVHNetworkConfigM OVHNetworkConfig_DeepCopyInto p"

definition OVHSecurityRule_DeepCopy ::
    "addr option
      \<Rightarrow> (v1alpha2 cell, addr option) copying" where
  "OVHSecurityRule_DeepCopy p = newDeepCopy kOVHSecurityRule zero_OVHSecurityRuleM OVHSecurityRule_DeepCopyInto p"

definition OVHSecurityGroup_DeepCopy ::
    "addr option
      \<Rightarrow> (v1alpha2 cell, addr option) copying" where
  "OVHSecurityGroup_DeepCopy p = newDeepCopy kOVHSecurityGroup zero_OVHSecurityGroupM OVHSecurityGroup_DeepCopyInto p"

definition SecretKey_DeepCopy ::
    "addr option
      \<Rightarrow> (v1alpha2 cell, addr option) copying" where
  "SecretKey_DeepCopy p = newDeepCopy kSecretKey zero_SecretKey SecretKey_DeepCopyInto p"

definition OVHClusterSpec_DeepCopy ::
    "addr option
      \<Rightarrow> (v1alpha2 cell, addr option) copying" where
  "OVHClusterSpec_DeepCopy p = newDeepCopy kOVHClusterSpec zero_OVHClusterSpecM OVHClusterSpec_DeepCopyInto p"

definition OVHClusterStatus_DeepCopy ::
    "v1alpha2 library \<Rightarrow> addr option
      \<Rightarrow> (v1alpha2 cell, addr option) copying" where
  "OVHClusterStatus_DeepCopy lib p = newDeepCopy kOVHClusterStatus zero_OVHClusterStatusM (OVHClusterStatus_DeepCopyInto lib) p"

definition OVHCluster_DeepCopy ::
    "v1alpha2 library \<Rightarrow> addr option
      \<Rightarrow> (v1alpha2 cell, addr option) copying" where
  "OVHCluster_DeepCopy lib p = newDeepCopy kOVHCluster zero_OVHClusterM (OVHCluster_DeepCopyInto lib) p"

definition OVHClusterList_DeepCopy ::
    "v1alpha2 library \<Rightarrow> addr option
      \<Rightarrow> (v1alpha2 cell, addr option) copying" where
  "OVHClusterList_DeepCopy lib p = newDeepCopy kOVHClusterList zero_OVHClusterListM (OVHClusterList_DeepCopyInto lib) p"

definition OVHClusterTemplateResource_DeepCopy ::
    "v1alpha2 library \<Rightarrow> addr option
      \<Rightarrow> (v1alpha2 cell, addr option) copying" where
  "OVHClusterTemplateResource_DeepCopy lib p = newDeepCopy kOVHClusterTemplateResource zero_OVHClusterTemplateResourceM (OVHClusterTemplateResource_DeepCopyInto lib) p"

definition OVHClusterTemplateSpec_DeepCopy ::
    "v1alpha2 library \<Rightarrow> addr option
      \<Rightarrow> (v1alpha2 cell, addr option) copying" where
  "OVHClusterTemplateSpec_DeepCopy lib p = newDeepCopy kOVHClusterTemplateSpec zero_OVHClusterTemplateSpecM (OVHClusterTemplateSpec_DeepCopyInto lib) p"

definition OVHClusterTemplate_DeepCopy ::
    "v1alpha2 library \<Rightarrow> addr option
      \<Rightarrow> (v1alpha2 cell, addr option) copying" where
  "OVHClusterTemplate_DeepCopy lib p = newDeepCopy kOVHClusterTemplate zero_OVHClusterTemplateM (OVHClusterTemplate_DeepCopyInto lib) p"

definition OVHClusterTemplateList_DeepCopy ::
    "v1alpha2 library \<Rightarrow> addr option
      \<Rightarrow> (v1alpha2 cell, addr option) copying" where
  "OVHClusterTemplateList_DeepCopy lib p = newDeepCopy kOVHClusterTemplateList zero_OVHClusterTemplateListM (OVHClusterTemplateList_DeepCopyInto lib) p"

definition OVHClusterValidator_DeepCopy ::
    "addr option
      \<Rightarrow> (v1alpha2 cell, addr option) copying" where
  "OVHClusterValidator_DeepCopy p = newDeepCopy kOVHClusterValidator () OVHClusterValidator_DeepCopyInto p"

definition OVHVolume_DeepCopy ::
    "addr option
      \<Rightarrow> (v1alpha2 cell, addr option) copying" where
  "OVHVolume_DeepCopy p = newDeepCopy kOVHVolume zero_OVHVolume OVHVolume_DeepCopyInto p"

definition OVHMachineSpec_DeepCopy ::
    "addr option
      \<Rightarrow> (v1alpha2 cell, addr option) copying" where
  "OVHMachineSpec_DeepCopy p = newDeepCopy kOVHMachineSpec zero_OVHMachineSpecM OVHMachineSpec_DeepCopyInto p"

definition OVHMachineStatus_DeepCopy ::
    "v1alpha2 library \<Rightarrow> addr option
      \<Rightarrow> (v1alpha2 cell, addr option) copying" where
  "OVHMachineStatus_DeepCopy lib p = newDeepCopy kOVHMachineStatus zero_OVHMachineStatusM (OVHMachineStatus_DeepCopyInto lib) p"

definition OVHMachine_DeepCopy ::
    "v1alpha2 library \<Rightarrow> addr option
      \<Rightarrow> (v1alpha2 cell, addr option) copying" where
  "OVHMachine_DeepCopy lib p = newDeepCopy kOVHMachine zero_OVHMachineM (OVHMachine_DeepCopyInto lib) p"

definition OVHMachineList_DeepCopy ::
    "v1alpha2 library \<Rightarrow> addr option
      \<Rightarrow> (v1alpha2 cell, addr option) copying" where
  "OVHMachineList_DeepCopy lib p = newDeepCopy kOVHMachineList zero_OVHMachineListM (OVHMachineList_DeepCopyInto lib) p"

definition OVHMachinePoolSpec_DeepCopy ::
    "addr option
      \<Rightarrow> (v1alpha2 cell, addr option) copying" where
  "OVHMachinePoolSpec_DeepCopy p = newDeepCopy kOVHMachinePoolSpec zero_OVHMachinePoolSpecM OVHMachinePoolSpec_DeepCopyInto p"

definition OVHMachinePoolStatus_DeepCopy ::
    "v1alpha2 library \<Rightarrow> addr option
      \<Rightarrow> (v1alpha2 cell, addr option) copying" where
  "OVHMachinePoolStatus_DeepCopy lib p = newDeepCopy kOVHMachinePoolStatus zero_OVHMachinePoolStatusM (OVHMachinePoolStatus_DeepCopyInto lib) p"

definition OVHMachinePool_DeepCopy ::
    "v1alpha2 library \<Rightarrow> addr option
      \<Rightarrow> (v1alpha2 cell, addr option) copying" where
  "OVHMachinePool_DeepCopy lib p = newDeepCopy kOVHMachinePool zero_OVHMachinePoolM (OVHMachinePool_DeepCopyInto lib) p"

definition OVHMachinePoolList_DeepCopy ::
    "v1alpha2 library \<Rightarrow> addr option
      \<Rightarrow> (v1alpha2 cell, addr option) copying" where
  "OVHMachinePoolList_DeepCopy lib p = newDeepCopy kOVHMachinePoolList zero_OVHMachinePoolListM (OVHMachinePoolList_DeepCopyInto lib) p"

definition OVHMachineTemplateResource_DeepCopy ::
    "v1alpha2 library \<Rightarrow> addr option
      \<Rightarrow> (v1alpha2 cell, addr option) copying" where
  "OVHMachineTemplateResource_DeepCopy lib p = newDeepCopy kOVHMachineTemplateResource zero_OVHMachineTemplateResourceM (OVHMachineTemplateResource_DeepCopyInto lib) p"

definition OVHMachineTemplateSpec_DeepCopy ::
    "v1alpha2 library \<Rightarrow> addr option
      \<Rightarrow> (v1alpha2 cell, addr option) copying" where
  "OVHMachineTemplateSpec_DeepCopy lib p = newDeepCopy kOVHMachineTemplateSpec zero_OVHMachineTemplateSpecM (OVHMachineTemplateSpec_DeepCopyInto lib) p"

definition OVHMachineTemplate_DeepCopy ::
    "v1alpha2 library \<Rightarrow> addr option
      \<Rightarrow> (v1alpha2 cell, addr option) copying" where
  "OVHMachineTemplate_DeepCopy lib p = newDeepCopy kOVHMachineTemplate zero_OVHMachineTemplateM (OVHMachineTemplate_DeepCopyInto lib) p"

definition OVHMachineTemplateList_DeepCopy ::
    "v1alpha2 library \<Rightarrow> addr option
      \<Rightarrow> (v1alpha2 cell, addr option) copying" where
  "OVHMachineTemplateList_DeepCopy lib p = newDeepCopy kOVHMachineTemplateList zero_OVHMachineTemplateListM (OVHMachineTemplateList_DeepCopyInto lib) p"

definition OVHMachineValidator_DeepCopy ::
    "addr option
      \<Rightarrow> (v1alpha2 cell, addr option) copying" where
  "OVHMachineValidator_DeepCopy p = newDeepCopy kOVHMachineValidator () OVHMachineValidator_DeepCopyInto p"

text \<open>\<^verbatim>\<open>DeepCopyObject\<close>: the copy as a \<^verbatim>\<open>runtime.Object\<close>.\<close>

definition OVHCluster_DeepCopyObject ::
    "v1alpha2 library \<Rightarrow> addr option
      \<Rightarrow> (v1alpha2 cell, Object) copying" where
  "OVHCluster_DeepCopyObject lib p = do {
     c \<leftarrow> OVHCluster_DeepCopy lib p;
     State_Monad.return (case c of None \<Rightarrow> None | Some a \<Rightarrow> Some (''*v1alpha2.OVHCluster'', a))
   }"

definition OVHClusterList_DeepCopyObject ::
    "v1alpha2 library \<Rightarrow> addr option
      \<Rightarrow> (v1alpha2 cell, Object) copying" where
  "OVHClusterList_DeepCopyObject lib p = do {
     c \<leftarrow> OVHClusterList_DeepCopy lib p;
     State_Monad.return (case c of None \<Rightarrow> None | Some a \<Rightarrow> Some (''*v1alpha2.OVHClusterList'', a))
   }"

definition OVHClusterTemplate_DeepCopyObject ::
    "v1alpha2 library \<Rightarrow> addr option
      \<Rightarrow> (v1alpha2 cell, Object) copying" where
  "OVHClusterTemplate_DeepCopyObject lib p = do {
     c \<leftarrow> OVHClusterTemplate_DeepCopy lib p;
     State_Monad.return (case c of None \<Rightarrow> None | Some a \<Rightarrow> Some (''*v1alpha2.OVHClusterTemplate'', a))
   }"

definition OVHClusterTemplateList_DeepCopyObject ::
    "v1alpha2 library \<Rightarrow> addr option
      \<Rightarrow> (v1alpha2 cell, Object) copying" where
  "OVHClusterTemplateList_DeepCopyObject lib p = do {
     c \<leftarrow> OVHClusterTemplateList_DeepCopy lib p;
     State_Monad.return (case c of None \<Rightarrow> None | Some a \<Rightarrow> Some (''*v1alpha2.OVHClusterTemplateList'', a))
   }"

definition OVHMachine_DeepCopyObject ::
    "v1alpha2 library \<Rightarrow> addr option
      \<Rightarrow> (v1alpha2 cell, Object) copying" where
  "OVHMachine_DeepCopyObject lib p = do {
     c \<leftarrow> OVHMachine_DeepCopy lib p;
     State_Monad.return (case c of None \<Rightarrow> None | Some a \<Rightarrow> Some (''*v1alpha2.OVHMachine'', a))
   }"

definition OVHMachineList_DeepCopyObject ::
    "v1alpha2 library \<Rightarrow> addr option
      \<Rightarrow> (v1alpha2 cell, Object) copying" where
  "OVHMachineList_DeepCopyObject lib p = do {
     c \<leftarrow> OVHMachineList_DeepCopy lib p;
     State_Monad.return (case c of None \<Rightarrow> None | Some a \<Rightarrow> Some (''*v1alpha2.OVHMachineList'', a))
   }"

definition OVHMachinePool_DeepCopyObject ::
    "v1alpha2 library \<Rightarrow> addr option
      \<Rightarrow> (v1alpha2 cell, Object) copying" where
  "OVHMachinePool_DeepCopyObject lib p = do {
     c \<leftarrow> OVHMachinePool_DeepCopy lib p;
     State_Monad.return (case c of None \<Rightarrow> None | Some a \<Rightarrow> Some (''*v1alpha2.OVHMachinePool'', a))
   }"

definition OVHMachinePoolList_DeepCopyObject ::
    "v1alpha2 library \<Rightarrow> addr option
      \<Rightarrow> (v1alpha2 cell, Object) copying" where
  "OVHMachinePoolList_DeepCopyObject lib p = do {
     c \<leftarrow> OVHMachinePoolList_DeepCopy lib p;
     State_Monad.return (case c of None \<Rightarrow> None | Some a \<Rightarrow> Some (''*v1alpha2.OVHMachinePoolList'', a))
   }"

definition OVHMachineTemplate_DeepCopyObject ::
    "v1alpha2 library \<Rightarrow> addr option
      \<Rightarrow> (v1alpha2 cell, Object) copying" where
  "OVHMachineTemplate_DeepCopyObject lib p = do {
     c \<leftarrow> OVHMachineTemplate_DeepCopy lib p;
     State_Monad.return (case c of None \<Rightarrow> None | Some a \<Rightarrow> Some (''*v1alpha2.OVHMachineTemplate'', a))
   }"

definition OVHMachineTemplateList_DeepCopyObject ::
    "v1alpha2 library \<Rightarrow> addr option
      \<Rightarrow> (v1alpha2 cell, Object) copying" where
  "OVHMachineTemplateList_DeepCopyObject lib p = do {
     c \<leftarrow> OVHMachineTemplateList_DeepCopy lib p;
     State_Monad.return (case c of None \<Rightarrow> None | Some a \<Rightarrow> Some (''*v1alpha2.OVHMachineTemplateList'', a))
   }"

section \<open>Every deep copy keeps its contract\<close>

interpretation Initialization: element kInitialization Initialization_load Initialization_DeepCopyInto
proof (rule element.intro [OF kInitialization.storable_axioms])
  show "copier Initialization_load Initialization_DeepCopyInto"
    by (rule copier_struct [where
        dest = "\<lambda>i. (InitializationM_Provisioned i)"
        and put = "\<lambda>i x1.
          i\<lparr>InitializationM_Provisioned := x1\<rparr>",
        OF kBool.flat_pointer
        Initialization_load_def])
      (auto simp: Initialization_DeepCopyInto_def Let_def)
qed

interpretation OVHDNSConfig: element kOVHDNSConfig readPure OVHDNSConfig_DeepCopyInto
  by (intro element.intro kOVHDNSConfig.storable_axioms copier_same)
    (simp add: OVHDNSConfig_DeepCopyInto_def)

interpretation OVHListener: element kOVHListener readPure OVHListener_DeepCopyInto
  by (intro element.intro kOVHListener.storable_axioms copier_same)
    (simp add: OVHListener_DeepCopyInto_def)

interpretation OVHLoadBalancerConfig: element kOVHLoadBalancerConfig OVHLoadBalancerConfig_load OVHLoadBalancerConfig_DeepCopyInto
proof (rule element.intro [OF kOVHLoadBalancerConfig.storable_axioms])
  show "copier OVHLoadBalancerConfig_load OVHLoadBalancerConfig_DeepCopyInto"
    by (rule copier_struct [where
        dest = "\<lambda>i. (OVHLoadBalancerConfigM_Listeners i)"
        and put = "\<lambda>i x1.
          i\<lparr>OVHLoadBalancerConfigM_Listeners := x1\<rparr>",
        OF kOVHListener.flat_slices
        OVHLoadBalancerConfig_load_def])
      (auto simp: OVHLoadBalancerConfig_DeepCopyInto_def Let_def)
qed

interpretation OVHNetworkConfig: element kOVHNetworkConfig OVHNetworkConfig_load OVHNetworkConfig_DeepCopyInto
proof (rule element.intro [OF kOVHNetworkConfig.storable_axioms])
  show "copier OVHNetworkConfig_load OVHNetworkConfig_DeepCopyInto"
    by (rule copier_struct [where
        dest = "\<lambda>i. (OVHNetworkConfigM_DNSServers i)"
        and put = "\<lambda>i x1.
          i\<lparr>OVHNetworkConfigM_DNSServers := x1\<rparr>",
        OF kString.flat_slices
        OVHNetworkConfig_load_def])
      (auto simp: OVHNetworkConfig_DeepCopyInto_def Let_def)
qed

interpretation OVHSecurityRule: element kOVHSecurityRule OVHSecurityRule_load OVHSecurityRule_DeepCopyInto
proof (rule element.intro [OF kOVHSecurityRule.storable_axioms])
  show "copier OVHSecurityRule_load OVHSecurityRule_DeepCopyInto"
    by (rule copier_struct [where
        dest = "\<lambda>i. (OVHSecurityRuleM_PortRangeMin i, OVHSecurityRuleM_PortRangeMax i)"
        and put = "\<lambda>i (x1, x2).
          i\<lparr>OVHSecurityRuleM_PortRangeMin := x1, OVHSecurityRuleM_PortRangeMax := x2\<rparr>",
        OF copier_pair [OF kInt32.flat_pointer
        kInt32.flat_pointer]
        OVHSecurityRule_load_def])
      (auto simp: OVHSecurityRule_DeepCopyInto_def Let_def)
qed

interpretation OVHSecurityGroup: element kOVHSecurityGroup OVHSecurityGroup_load OVHSecurityGroup_DeepCopyInto
proof (rule element.intro [OF kOVHSecurityGroup.storable_axioms])
  show "copier OVHSecurityGroup_load OVHSecurityGroup_DeepCopyInto"
    by (rule copier_struct [where
        dest = "\<lambda>i. (OVHSecurityGroupM_Rules i)"
        and put = "\<lambda>i x1.
          i\<lparr>OVHSecurityGroupM_Rules := x1\<rparr>",
        OF OVHSecurityRule.slices
        OVHSecurityGroup_load_def])
      (auto simp: OVHSecurityGroup_DeepCopyInto_def Let_def)
qed

interpretation SecretKey: element kSecretKey readPure SecretKey_DeepCopyInto
  by (intro element.intro kSecretKey.storable_axioms copier_same)
    (simp add: SecretKey_DeepCopyInto_def)

interpretation OVHClusterSpec: element kOVHClusterSpec OVHClusterSpec_load OVHClusterSpec_DeepCopyInto
proof (rule element.intro [OF kOVHClusterSpec.storable_axioms])
  show "copier OVHClusterSpec_load OVHClusterSpec_DeepCopyInto"
    by (rule copier_struct [where
        dest = "\<lambda>i. (OVHClusterSpecM_LoadBalancerConfig i, OVHClusterSpecM_NetworkConfig i,
        OVHClusterSpecM_FailureDomains i, OVHClusterSpecM_SecurityGroups i,
        OVHClusterSpecM_DefaultTags i, OVHClusterSpecM_DNSConfig i)"
        and put = "\<lambda>i (x1, x2, x3, x4, x5, x6).
          i\<lparr>OVHClusterSpecM_LoadBalancerConfig := x1, OVHClusterSpecM_NetworkConfig := x2,
            OVHClusterSpecM_FailureDomains := x3, OVHClusterSpecM_SecurityGroups := x4,
            OVHClusterSpecM_DefaultTags := x5, OVHClusterSpecM_DNSConfig := x6\<rparr>",
        OF copier_pair [OF OVHLoadBalancerConfig.copier_axioms
        copier_pair [OF OVHNetworkConfig.pointer
        copier_pair [OF kString.flat_slices
        copier_pair [OF OVHSecurityGroup.slices
        copier_pair [OF kEntries.maps
        kOVHDNSConfig.flat_pointer]]]]]
        OVHClusterSpec_load_def])
      (auto simp: OVHClusterSpec_DeepCopyInto_def Let_def)
qed

lemma OVHClusterStatus_element:
  assumes "documented lib"
  shows "element kOVHClusterStatus OVHClusterStatus_load (OVHClusterStatus_DeepCopyInto lib)"
proof (rule element.intro [OF kOVHClusterStatus.storable_axioms])
  show "copier OVHClusterStatus_load (OVHClusterStatus_DeepCopyInto lib)"
    by (rule copier_struct [where
        dest = "\<lambda>i. (OVHClusterStatusM_Initialization i, OVHClusterStatusM_Conditions i,
        OVHClusterStatusM_FailureDomains i, OVHClusterStatusM_SecurityGroupIDs i)"
        and put = "\<lambda>i (x1, x2, x3, x4).
          i\<lparr>OVHClusterStatusM_Initialization := x1, OVHClusterStatusM_Conditions := x2,
            OVHClusterStatusM_FailureDomains := x3, OVHClusterStatusM_SecurityGroupIDs := x4\<rparr>",
        OF copier_pair [OF Initialization.copier_axioms
        copier_pair [OF documentedD(4) [OF assms]
        copier_pair [OF documentedD(5) [OF assms]
        kEntries.maps]]]
        OVHClusterStatus_load_def])
      (auto simp: OVHClusterStatus_DeepCopyInto_def Let_def)
qed

lemma OVHCluster_element:
  assumes "documented lib"
  shows "element kOVHCluster OVHCluster_load (OVHCluster_DeepCopyInto lib)"
proof (rule element.intro [OF kOVHCluster.storable_axioms])
  show "copier OVHCluster_load (OVHCluster_DeepCopyInto lib)"
    by (rule copier_struct [where
        dest = "\<lambda>i. (OVHClusterM_ObjectMeta i, OVHClusterM_Spec i, OVHClusterM_Status i)"
        and put = "\<lambda>i (x1, x2, x3).
          i\<lparr>OVHClusterM_ObjectMeta := x1, OVHClusterM_Spec := x2, OVHClusterM_Status := x3\<rparr>",
        OF copier_pair [OF documentedD(1) [OF assms]
        copier_pair [OF OVHClusterSpec.copier_axioms
        element.axioms(2) [OF OVHClusterStatus_element [OF assms]]]]
        OVHCluster_load_def])
      (auto simp: OVHCluster_DeepCopyInto_def Let_def)
qed

lemma OVHClusterList_element:
  assumes "documented lib"
  shows "element kOVHClusterList OVHClusterList_load (OVHClusterList_DeepCopyInto lib)"
proof (rule element.intro [OF kOVHClusterList.storable_axioms])
  show "copier OVHClusterList_load (OVHClusterList_DeepCopyInto lib)"
    by (rule copier_struct [where
        dest = "\<lambda>i. (OVHClusterListM_ListMeta i, OVHClusterListM_Items i)"
        and put = "\<lambda>i (x1, x2).
          i\<lparr>OVHClusterListM_ListMeta := x1, OVHClusterListM_Items := x2\<rparr>",
        OF copier_pair [OF documentedD(3) [OF assms]
        element.slices [OF OVHCluster_element [OF assms]]]
        OVHClusterList_load_def])
      (auto simp: OVHClusterList_DeepCopyInto_def Let_def)
qed

lemma OVHClusterTemplateResource_element:
  assumes "documented lib"
  shows "element kOVHClusterTemplateResource OVHClusterTemplateResource_load (OVHClusterTemplateResource_DeepCopyInto lib)"
proof (rule element.intro [OF kOVHClusterTemplateResource.storable_axioms])
  show "copier OVHClusterTemplateResource_load (OVHClusterTemplateResource_DeepCopyInto lib)"
    by (rule copier_struct [where
        dest = "\<lambda>i. (OVHClusterTemplateResourceM_ObjectMeta i, OVHClusterTemplateResourceM_Spec i)"
        and put = "\<lambda>i (x1, x2).
          i\<lparr>OVHClusterTemplateResourceM_ObjectMeta := x1, OVHClusterTemplateResourceM_Spec := x2\<rparr>",
        OF copier_pair [OF documentedD(2) [OF assms]
        OVHClusterSpec.copier_axioms]
        OVHClusterTemplateResource_load_def])
      (auto simp: OVHClusterTemplateResource_DeepCopyInto_def Let_def)
qed

lemma OVHClusterTemplateSpec_element:
  assumes "documented lib"
  shows "element kOVHClusterTemplateSpec OVHClusterTemplateSpec_load (OVHClusterTemplateSpec_DeepCopyInto lib)"
proof (rule element.intro [OF kOVHClusterTemplateSpec.storable_axioms])
  show "copier OVHClusterTemplateSpec_load (OVHClusterTemplateSpec_DeepCopyInto lib)"
    by (rule copier_struct [where
        dest = "\<lambda>i. (OVHClusterTemplateSpecM_Template i)"
        and put = "\<lambda>i x1.
          i\<lparr>OVHClusterTemplateSpecM_Template := x1\<rparr>",
        OF element.axioms(2) [OF OVHClusterTemplateResource_element [OF assms]]
        OVHClusterTemplateSpec_load_def])
      (auto simp: OVHClusterTemplateSpec_DeepCopyInto_def Let_def)
qed

lemma OVHClusterTemplate_element:
  assumes "documented lib"
  shows "element kOVHClusterTemplate OVHClusterTemplate_load (OVHClusterTemplate_DeepCopyInto lib)"
proof (rule element.intro [OF kOVHClusterTemplate.storable_axioms])
  show "copier OVHClusterTemplate_load (OVHClusterTemplate_DeepCopyInto lib)"
    by (rule copier_struct [where
        dest = "\<lambda>i. (OVHClusterTemplateM_ObjectMeta i, OVHClusterTemplateM_Spec i)"
        and put = "\<lambda>i (x1, x2).
          i\<lparr>OVHClusterTemplateM_ObjectMeta := x1, OVHClusterTemplateM_Spec := x2\<rparr>",
        OF copier_pair [OF documentedD(1) [OF assms]
        element.axioms(2) [OF OVHClusterTemplateSpec_element [OF assms]]]
        OVHClusterTemplate_load_def])
      (auto simp: OVHClusterTemplate_DeepCopyInto_def Let_def)
qed

lemma OVHClusterTemplateList_element:
  assumes "documented lib"
  shows "element kOVHClusterTemplateList OVHClusterTemplateList_load (OVHClusterTemplateList_DeepCopyInto lib)"
proof (rule element.intro [OF kOVHClusterTemplateList.storable_axioms])
  show "copier OVHClusterTemplateList_load (OVHClusterTemplateList_DeepCopyInto lib)"
    by (rule copier_struct [where
        dest = "\<lambda>i. (OVHClusterTemplateListM_ListMeta i, OVHClusterTemplateListM_Items i)"
        and put = "\<lambda>i (x1, x2).
          i\<lparr>OVHClusterTemplateListM_ListMeta := x1, OVHClusterTemplateListM_Items := x2\<rparr>",
        OF copier_pair [OF documentedD(3) [OF assms]
        element.slices [OF OVHClusterTemplate_element [OF assms]]]
        OVHClusterTemplateList_load_def])
      (auto simp: OVHClusterTemplateList_DeepCopyInto_def Let_def)
qed

interpretation OVHClusterValidator: element kOVHClusterValidator readPure OVHClusterValidator_DeepCopyInto
  by (intro element.intro kOVHClusterValidator.storable_axioms copier_same)
    (simp add: OVHClusterValidator_DeepCopyInto_def)

interpretation OVHVolume: element kOVHVolume readPure OVHVolume_DeepCopyInto
  by (intro element.intro kOVHVolume.storable_axioms copier_same)
    (simp add: OVHVolume_DeepCopyInto_def)

interpretation OVHMachineSpec: element kOVHMachineSpec OVHMachineSpec_load OVHMachineSpec_DeepCopyInto
proof (rule element.intro [OF kOVHMachineSpec.storable_axioms])
  show "copier OVHMachineSpec_load OVHMachineSpec_DeepCopyInto"
    by (rule copier_struct [where
        dest = "\<lambda>i. (OVHMachineSpecM_AdditionalVolumes i, OVHMachineSpecM_SecurityGroupNames i,
        OVHMachineSpecM_Tags i)"
        and put = "\<lambda>i (x1, x2, x3).
          i\<lparr>OVHMachineSpecM_AdditionalVolumes := x1, OVHMachineSpecM_SecurityGroupNames := x2,
            OVHMachineSpecM_Tags := x3\<rparr>",
        OF copier_pair [OF kOVHVolume.flat_slices
        copier_pair [OF kString.flat_slices
        kEntries.maps]]
        OVHMachineSpec_load_def])
      (auto simp: OVHMachineSpec_DeepCopyInto_def Let_def)
qed

lemma OVHMachineStatus_element:
  assumes "documented lib"
  shows "element kOVHMachineStatus OVHMachineStatus_load (OVHMachineStatus_DeepCopyInto lib)"
proof (rule element.intro [OF kOVHMachineStatus.storable_axioms])
  show "copier OVHMachineStatus_load (OVHMachineStatus_DeepCopyInto lib)"
    by (rule copier_struct [where
        dest = "\<lambda>i. (OVHMachineStatusM_Conditions i, OVHMachineStatusM_Addresses i,
        OVHMachineStatusM_Initialization i, OVHMachineStatusM_VolumeIDs i)"
        and put = "\<lambda>i (x1, x2, x3, x4).
          i\<lparr>OVHMachineStatusM_Conditions := x1, OVHMachineStatusM_Addresses := x2,
            OVHMachineStatusM_Initialization := x3, OVHMachineStatusM_VolumeIDs := x4\<rparr>",
        OF copier_pair [OF documentedD(4) [OF assms]
        copier_pair [OF kMachineAddress.flat_slices
        copier_pair [OF Initialization.copier_axioms
        kString.flat_slices]]]
        OVHMachineStatus_load_def])
      (auto simp: OVHMachineStatus_DeepCopyInto_def Let_def)
qed

lemma OVHMachine_element:
  assumes "documented lib"
  shows "element kOVHMachine OVHMachine_load (OVHMachine_DeepCopyInto lib)"
proof (rule element.intro [OF kOVHMachine.storable_axioms])
  show "copier OVHMachine_load (OVHMachine_DeepCopyInto lib)"
    by (rule copier_struct [where
        dest = "\<lambda>i. (OVHMachineM_ObjectMeta i, OVHMachineM_Spec i, OVHMachineM_Status i)"
        and put = "\<lambda>i (x1, x2, x3).
          i\<lparr>OVHMachineM_ObjectMeta := x1, OVHMachineM_Spec := x2, OVHMachineM_Status := x3\<rparr>",
        OF copier_pair [OF documentedD(1) [OF assms]
        copier_pair [OF OVHMachineSpec.copier_axioms
        element.axioms(2) [OF OVHMachineStatus_element [OF assms]]]]
        OVHMachine_load_def])
      (auto simp: OVHMachine_DeepCopyInto_def Let_def)
qed

lemma OVHMachineList_element:
  assumes "documented lib"
  shows "element kOVHMachineList OVHMachineList_load (OVHMachineList_DeepCopyInto lib)"
proof (rule element.intro [OF kOVHMachineList.storable_axioms])
  show "copier OVHMachineList_load (OVHMachineList_DeepCopyInto lib)"
    by (rule copier_struct [where
        dest = "\<lambda>i. (OVHMachineListM_ListMeta i, OVHMachineListM_Items i)"
        and put = "\<lambda>i (x1, x2).
          i\<lparr>OVHMachineListM_ListMeta := x1, OVHMachineListM_Items := x2\<rparr>",
        OF copier_pair [OF documentedD(3) [OF assms]
        element.slices [OF OVHMachine_element [OF assms]]]
        OVHMachineList_load_def])
      (auto simp: OVHMachineList_DeepCopyInto_def Let_def)
qed

interpretation OVHMachinePoolSpec: element kOVHMachinePoolSpec OVHMachinePoolSpec_load OVHMachinePoolSpec_DeepCopyInto
proof (rule element.intro [OF kOVHMachinePoolSpec.storable_axioms])
  show "copier OVHMachinePoolSpec_load OVHMachinePoolSpec_DeepCopyInto"
    by (rule copier_struct [where
        dest = "\<lambda>i. (OVHMachinePoolSpecM_ProviderIDList i)"
        and put = "\<lambda>i x1.
          i\<lparr>OVHMachinePoolSpecM_ProviderIDList := x1\<rparr>",
        OF kString.flat_slices
        OVHMachinePoolSpec_load_def])
      (auto simp: OVHMachinePoolSpec_DeepCopyInto_def Let_def)
qed

lemma OVHMachinePoolStatus_element:
  assumes "documented lib"
  shows "element kOVHMachinePoolStatus OVHMachinePoolStatus_load (OVHMachinePoolStatus_DeepCopyInto lib)"
proof (rule element.intro [OF kOVHMachinePoolStatus.storable_axioms])
  show "copier OVHMachinePoolStatus_load (OVHMachinePoolStatus_DeepCopyInto lib)"
    by (rule copier_struct [where
        dest = "\<lambda>i. (OVHMachinePoolStatusM_Conditions i, OVHMachinePoolStatusM_InstanceIDs i)"
        and put = "\<lambda>i (x1, x2).
          i\<lparr>OVHMachinePoolStatusM_Conditions := x1, OVHMachinePoolStatusM_InstanceIDs := x2\<rparr>",
        OF copier_pair [OF documentedD(4) [OF assms]
        kString.flat_slices]
        OVHMachinePoolStatus_load_def])
      (auto simp: OVHMachinePoolStatus_DeepCopyInto_def Let_def)
qed

lemma OVHMachinePool_element:
  assumes "documented lib"
  shows "element kOVHMachinePool OVHMachinePool_load (OVHMachinePool_DeepCopyInto lib)"
proof (rule element.intro [OF kOVHMachinePool.storable_axioms])
  show "copier OVHMachinePool_load (OVHMachinePool_DeepCopyInto lib)"
    by (rule copier_struct [where
        dest = "\<lambda>i. (OVHMachinePoolM_ObjectMeta i, OVHMachinePoolM_Spec i, OVHMachinePoolM_Status i)"
        and put = "\<lambda>i (x1, x2, x3).
          i\<lparr>OVHMachinePoolM_ObjectMeta := x1, OVHMachinePoolM_Spec := x2,
            OVHMachinePoolM_Status := x3\<rparr>",
        OF copier_pair [OF documentedD(1) [OF assms]
        copier_pair [OF OVHMachinePoolSpec.copier_axioms
        element.axioms(2) [OF OVHMachinePoolStatus_element [OF assms]]]]
        OVHMachinePool_load_def])
      (auto simp: OVHMachinePool_DeepCopyInto_def Let_def)
qed

lemma OVHMachinePoolList_element:
  assumes "documented lib"
  shows "element kOVHMachinePoolList OVHMachinePoolList_load (OVHMachinePoolList_DeepCopyInto lib)"
proof (rule element.intro [OF kOVHMachinePoolList.storable_axioms])
  show "copier OVHMachinePoolList_load (OVHMachinePoolList_DeepCopyInto lib)"
    by (rule copier_struct [where
        dest = "\<lambda>i. (OVHMachinePoolListM_ListMeta i, OVHMachinePoolListM_Items i)"
        and put = "\<lambda>i (x1, x2).
          i\<lparr>OVHMachinePoolListM_ListMeta := x1, OVHMachinePoolListM_Items := x2\<rparr>",
        OF copier_pair [OF documentedD(3) [OF assms]
        element.slices [OF OVHMachinePool_element [OF assms]]]
        OVHMachinePoolList_load_def])
      (auto simp: OVHMachinePoolList_DeepCopyInto_def Let_def)
qed

lemma OVHMachineTemplateResource_element:
  assumes "documented lib"
  shows "element kOVHMachineTemplateResource OVHMachineTemplateResource_load (OVHMachineTemplateResource_DeepCopyInto lib)"
proof (rule element.intro [OF kOVHMachineTemplateResource.storable_axioms])
  show "copier OVHMachineTemplateResource_load (OVHMachineTemplateResource_DeepCopyInto lib)"
    by (rule copier_struct [where
        dest = "\<lambda>i. (OVHMachineTemplateResourceM_ObjectMeta i, OVHMachineTemplateResourceM_Spec i)"
        and put = "\<lambda>i (x1, x2).
          i\<lparr>OVHMachineTemplateResourceM_ObjectMeta := x1, OVHMachineTemplateResourceM_Spec := x2\<rparr>",
        OF copier_pair [OF documentedD(2) [OF assms]
        OVHMachineSpec.copier_axioms]
        OVHMachineTemplateResource_load_def])
      (auto simp: OVHMachineTemplateResource_DeepCopyInto_def Let_def)
qed

lemma OVHMachineTemplateSpec_element:
  assumes "documented lib"
  shows "element kOVHMachineTemplateSpec OVHMachineTemplateSpec_load (OVHMachineTemplateSpec_DeepCopyInto lib)"
proof (rule element.intro [OF kOVHMachineTemplateSpec.storable_axioms])
  show "copier OVHMachineTemplateSpec_load (OVHMachineTemplateSpec_DeepCopyInto lib)"
    by (rule copier_struct [where
        dest = "\<lambda>i. (OVHMachineTemplateSpecM_Template i)"
        and put = "\<lambda>i x1.
          i\<lparr>OVHMachineTemplateSpecM_Template := x1\<rparr>",
        OF element.axioms(2) [OF OVHMachineTemplateResource_element [OF assms]]
        OVHMachineTemplateSpec_load_def])
      (auto simp: OVHMachineTemplateSpec_DeepCopyInto_def Let_def)
qed

lemma OVHMachineTemplate_element:
  assumes "documented lib"
  shows "element kOVHMachineTemplate OVHMachineTemplate_load (OVHMachineTemplate_DeepCopyInto lib)"
proof (rule element.intro [OF kOVHMachineTemplate.storable_axioms])
  show "copier OVHMachineTemplate_load (OVHMachineTemplate_DeepCopyInto lib)"
    by (rule copier_struct [where
        dest = "\<lambda>i. (OVHMachineTemplateM_ObjectMeta i, OVHMachineTemplateM_Spec i)"
        and put = "\<lambda>i (x1, x2).
          i\<lparr>OVHMachineTemplateM_ObjectMeta := x1, OVHMachineTemplateM_Spec := x2\<rparr>",
        OF copier_pair [OF documentedD(1) [OF assms]
        element.axioms(2) [OF OVHMachineTemplateSpec_element [OF assms]]]
        OVHMachineTemplate_load_def])
      (auto simp: OVHMachineTemplate_DeepCopyInto_def Let_def)
qed

lemma OVHMachineTemplateList_element:
  assumes "documented lib"
  shows "element kOVHMachineTemplateList OVHMachineTemplateList_load (OVHMachineTemplateList_DeepCopyInto lib)"
proof (rule element.intro [OF kOVHMachineTemplateList.storable_axioms])
  show "copier OVHMachineTemplateList_load (OVHMachineTemplateList_DeepCopyInto lib)"
    by (rule copier_struct [where
        dest = "\<lambda>i. (OVHMachineTemplateListM_ListMeta i, OVHMachineTemplateListM_Items i)"
        and put = "\<lambda>i (x1, x2).
          i\<lparr>OVHMachineTemplateListM_ListMeta := x1, OVHMachineTemplateListM_Items := x2\<rparr>",
        OF copier_pair [OF documentedD(3) [OF assms]
        element.slices [OF OVHMachineTemplate_element [OF assms]]]
        OVHMachineTemplateList_load_def])
      (auto simp: OVHMachineTemplateList_DeepCopyInto_def Let_def)
qed

interpretation OVHMachineValidator: element kOVHMachineValidator readPure OVHMachineValidator_DeepCopyInto
  by (intro element.intro kOVHMachineValidator.storable_axioms copier_same)
    (simp add: OVHMachineValidator_DeepCopyInto_def)

lemmas deep_copied =
  pointer_copied [OF Initialization.element_axioms Initialization_DeepCopy_def]
  pointer_copied [OF OVHCluster_element OVHCluster_DeepCopy_def]
  pointer_copied [OF OVHClusterList_element OVHClusterList_DeepCopy_def]
  pointer_copied [OF OVHClusterSpec.element_axioms OVHClusterSpec_DeepCopy_def]
  pointer_copied [OF OVHClusterStatus_element OVHClusterStatus_DeepCopy_def]
  pointer_copied [OF OVHClusterTemplate_element OVHClusterTemplate_DeepCopy_def]
  pointer_copied [OF OVHClusterTemplateList_element OVHClusterTemplateList_DeepCopy_def]
  pointer_copied [OF OVHClusterTemplateResource_element OVHClusterTemplateResource_DeepCopy_def]
  pointer_copied [OF OVHClusterTemplateSpec_element OVHClusterTemplateSpec_DeepCopy_def]
  pointer_copied [OF OVHClusterValidator.element_axioms OVHClusterValidator_DeepCopy_def]
  pointer_copied [OF OVHDNSConfig.element_axioms OVHDNSConfig_DeepCopy_def]
  pointer_copied [OF OVHListener.element_axioms OVHListener_DeepCopy_def]
  pointer_copied [OF OVHLoadBalancerConfig.element_axioms OVHLoadBalancerConfig_DeepCopy_def]
  pointer_copied [OF OVHMachine_element OVHMachine_DeepCopy_def]
  pointer_copied [OF OVHMachineList_element OVHMachineList_DeepCopy_def]
  pointer_copied [OF OVHMachinePool_element OVHMachinePool_DeepCopy_def]
  pointer_copied [OF OVHMachinePoolList_element OVHMachinePoolList_DeepCopy_def]
  pointer_copied [OF OVHMachinePoolSpec.element_axioms OVHMachinePoolSpec_DeepCopy_def]
  pointer_copied [OF OVHMachinePoolStatus_element OVHMachinePoolStatus_DeepCopy_def]
  pointer_copied [OF OVHMachineSpec.element_axioms OVHMachineSpec_DeepCopy_def]
  pointer_copied [OF OVHMachineStatus_element OVHMachineStatus_DeepCopy_def]
  pointer_copied [OF OVHMachineTemplate_element OVHMachineTemplate_DeepCopy_def]
  pointer_copied [OF OVHMachineTemplateList_element OVHMachineTemplateList_DeepCopy_def]
  pointer_copied [OF OVHMachineTemplateResource_element OVHMachineTemplateResource_DeepCopy_def]
  pointer_copied [OF OVHMachineTemplateSpec_element OVHMachineTemplateSpec_DeepCopy_def]
  pointer_copied [OF OVHMachineValidator.element_axioms OVHMachineValidator_DeepCopy_def]
  pointer_copied [OF OVHNetworkConfig.element_axioms OVHNetworkConfig_DeepCopy_def]
  pointer_copied [OF OVHSecurityGroup.element_axioms OVHSecurityGroup_DeepCopy_def]
  pointer_copied [OF OVHSecurityRule.element_axioms OVHSecurityRule_DeepCopy_def]
  pointer_copied [OF OVHVolume.element_axioms OVHVolume_DeepCopy_def]
  pointer_copied [OF SecretKey.element_axioms SecretKey_DeepCopy_def]

lemmas objects_copied =
  object_copied [OF OVHCluster_element OVHCluster_DeepCopy_def OVHCluster_DeepCopyObject_def]
  object_copied [OF OVHClusterList_element OVHClusterList_DeepCopy_def OVHClusterList_DeepCopyObject_def]
  object_copied [OF OVHClusterTemplate_element OVHClusterTemplate_DeepCopy_def OVHClusterTemplate_DeepCopyObject_def]
  object_copied [OF OVHClusterTemplateList_element OVHClusterTemplateList_DeepCopy_def OVHClusterTemplateList_DeepCopyObject_def]
  object_copied [OF OVHMachine_element OVHMachine_DeepCopy_def OVHMachine_DeepCopyObject_def]
  object_copied [OF OVHMachineList_element OVHMachineList_DeepCopy_def OVHMachineList_DeepCopyObject_def]
  object_copied [OF OVHMachinePool_element OVHMachinePool_DeepCopy_def OVHMachinePool_DeepCopyObject_def]
  object_copied [OF OVHMachinePoolList_element OVHMachinePoolList_DeepCopy_def OVHMachinePoolList_DeepCopyObject_def]
  object_copied [OF OVHMachineTemplate_element OVHMachineTemplate_DeepCopy_def OVHMachineTemplate_DeepCopyObject_def]
  object_copied [OF OVHMachineTemplateList_element OVHMachineTemplateList_DeepCopy_def OVHMachineTemplateList_DeepCopyObject_def]


text \<open>C36: for every type of the package v1alpha2, \<^verbatim>\<open>DeepCopy\<close> gives, for a valid pointer, a pointer
  to the same value in new cells only: what was in memory is unchanged, later writes to the copy do
  not reach the original, and later writes to the original do not reach the copy.
  \<^verbatim>\<open>DeepCopyObject\<close> gives nil for nil, and else an object of the same type whose pointer is not
  nil, with the same value in new cells.\<close>

theorem deep_copies:
  assumes "documented lib"
  shows
    "deepCopies (loadPtr kInitialization Initialization_load) Initialization_DeepCopy
     \<and> deepCopies (loadPtr kOVHCluster OVHCluster_load) (OVHCluster_DeepCopy lib)
     \<and> deepCopies (loadPtr kOVHClusterList OVHClusterList_load) (OVHClusterList_DeepCopy lib)
     \<and> deepCopies (loadPtr kOVHClusterSpec OVHClusterSpec_load) OVHClusterSpec_DeepCopy
     \<and> deepCopies (loadPtr kOVHClusterStatus OVHClusterStatus_load) (OVHClusterStatus_DeepCopy lib)
     \<and> deepCopies (loadPtr kOVHClusterTemplate OVHClusterTemplate_load) (OVHClusterTemplate_DeepCopy lib)
     \<and> deepCopies (loadPtr kOVHClusterTemplateList OVHClusterTemplateList_load) (OVHClusterTemplateList_DeepCopy lib)
     \<and> deepCopies (loadPtr kOVHClusterTemplateResource OVHClusterTemplateResource_load) (OVHClusterTemplateResource_DeepCopy lib)
     \<and> deepCopies (loadPtr kOVHClusterTemplateSpec OVHClusterTemplateSpec_load) (OVHClusterTemplateSpec_DeepCopy lib)
     \<and> deepCopies (loadPtr kOVHClusterValidator readPure) OVHClusterValidator_DeepCopy
     \<and> deepCopies (loadPtr kOVHDNSConfig readPure) OVHDNSConfig_DeepCopy
     \<and> deepCopies (loadPtr kOVHListener readPure) OVHListener_DeepCopy
     \<and> deepCopies (loadPtr kOVHLoadBalancerConfig OVHLoadBalancerConfig_load) OVHLoadBalancerConfig_DeepCopy
     \<and> deepCopies (loadPtr kOVHMachine OVHMachine_load) (OVHMachine_DeepCopy lib)
     \<and> deepCopies (loadPtr kOVHMachineList OVHMachineList_load) (OVHMachineList_DeepCopy lib)
     \<and> deepCopies (loadPtr kOVHMachinePool OVHMachinePool_load) (OVHMachinePool_DeepCopy lib)
     \<and> deepCopies (loadPtr kOVHMachinePoolList OVHMachinePoolList_load) (OVHMachinePoolList_DeepCopy lib)
     \<and> deepCopies (loadPtr kOVHMachinePoolSpec OVHMachinePoolSpec_load) OVHMachinePoolSpec_DeepCopy
     \<and> deepCopies (loadPtr kOVHMachinePoolStatus OVHMachinePoolStatus_load) (OVHMachinePoolStatus_DeepCopy lib)
     \<and> deepCopies (loadPtr kOVHMachineSpec OVHMachineSpec_load) OVHMachineSpec_DeepCopy
     \<and> deepCopies (loadPtr kOVHMachineStatus OVHMachineStatus_load) (OVHMachineStatus_DeepCopy lib)
     \<and> deepCopies (loadPtr kOVHMachineTemplate OVHMachineTemplate_load) (OVHMachineTemplate_DeepCopy lib)
     \<and> deepCopies (loadPtr kOVHMachineTemplateList OVHMachineTemplateList_load) (OVHMachineTemplateList_DeepCopy lib)
     \<and> deepCopies (loadPtr kOVHMachineTemplateResource OVHMachineTemplateResource_load) (OVHMachineTemplateResource_DeepCopy lib)
     \<and> deepCopies (loadPtr kOVHMachineTemplateSpec OVHMachineTemplateSpec_load) (OVHMachineTemplateSpec_DeepCopy lib)
     \<and> deepCopies (loadPtr kOVHMachineValidator readPure) OVHMachineValidator_DeepCopy
     \<and> deepCopies (loadPtr kOVHNetworkConfig OVHNetworkConfig_load) OVHNetworkConfig_DeepCopy
     \<and> deepCopies (loadPtr kOVHSecurityGroup OVHSecurityGroup_load) OVHSecurityGroup_DeepCopy
     \<and> deepCopies (loadPtr kOVHSecurityRule OVHSecurityRule_load) OVHSecurityRule_DeepCopy
     \<and> deepCopies (loadPtr kOVHVolume readPure) OVHVolume_DeepCopy
     \<and> deepCopies (loadPtr kSecretKey readPure) SecretKey_DeepCopy
     \<and> objectCopies ''*v1alpha2.OVHCluster'' (loadPtr kOVHCluster OVHCluster_load) (OVHCluster_DeepCopyObject lib)
     \<and> objectCopies ''*v1alpha2.OVHClusterList'' (loadPtr kOVHClusterList OVHClusterList_load) (OVHClusterList_DeepCopyObject lib)
     \<and> objectCopies ''*v1alpha2.OVHClusterTemplate'' (loadPtr kOVHClusterTemplate OVHClusterTemplate_load) (OVHClusterTemplate_DeepCopyObject lib)
     \<and> objectCopies ''*v1alpha2.OVHClusterTemplateList'' (loadPtr kOVHClusterTemplateList OVHClusterTemplateList_load) (OVHClusterTemplateList_DeepCopyObject lib)
     \<and> objectCopies ''*v1alpha2.OVHMachine'' (loadPtr kOVHMachine OVHMachine_load) (OVHMachine_DeepCopyObject lib)
     \<and> objectCopies ''*v1alpha2.OVHMachineList'' (loadPtr kOVHMachineList OVHMachineList_load) (OVHMachineList_DeepCopyObject lib)
     \<and> objectCopies ''*v1alpha2.OVHMachinePool'' (loadPtr kOVHMachinePool OVHMachinePool_load) (OVHMachinePool_DeepCopyObject lib)
     \<and> objectCopies ''*v1alpha2.OVHMachinePoolList'' (loadPtr kOVHMachinePoolList OVHMachinePoolList_load) (OVHMachinePoolList_DeepCopyObject lib)
     \<and> objectCopies ''*v1alpha2.OVHMachineTemplate'' (loadPtr kOVHMachineTemplate OVHMachineTemplate_load) (OVHMachineTemplate_DeepCopyObject lib)
     \<and> objectCopies ''*v1alpha2.OVHMachineTemplateList'' (loadPtr kOVHMachineTemplateList OVHMachineTemplateList_load) (OVHMachineTemplateList_DeepCopyObject lib)"
  using assms by (intro conjI deep_copied objects_copied)

text \<open>A machine with a finalizer, a volume, tags and a provisioned flag in memory.\<close>

definition sampleMemory :: "v1alpha2 cell list" where
  "sampleMemory = [
     CString [''f'', ''g'', ''h''],
     CApi (COVHVolume [\<lparr>OVHVolume_Name = ''v'', OVHVolume_SizeGB = 10, OVHVolume_Type = ''t''\<rparr>]),
     CEntries [(''a'', ''1''), (''b'', ''2'')],
     CBool [True],
     CApi (COVHMachine [zero_OVHMachineM\<lparr>
       OVHMachineM_TypeMeta := \<lparr>TypeMeta_Kind = ''OVHMachine'', TypeMeta_APIVersion = ''v1alpha2''\<rparr>,
       OVHMachineM_ObjectMeta := zero_ObjectMetaM\<lparr>ObjectMetaM_Name := ''m'',
         ObjectMetaM_Finalizers := Some (Slice 0 1 2)\<rparr>,
       OVHMachineM_Spec := zero_OVHMachineSpecM\<lparr>
         OVHMachineSpecM_AdditionalVolumes := Some (Slice 1 0 1), OVHMachineSpecM_Tags := Some 2\<rparr>,
       OVHMachineM_Status := zero_OVHMachineStatusM\<lparr>
         OVHMachineStatusM_Initialization := \<lparr>InitializationM_Provisioned = Some 3\<rparr>\<rparr>\<rparr>])]"

definition sampleValue :: "TypeMeta \<times> OVHMachine" where
  "sampleValue = (\<lparr>TypeMeta_Kind = ''OVHMachine'', TypeMeta_APIVersion = ''v1alpha2''\<rparr>,
     zero_OVHMachine\<lparr>
       OVHMachine_ObjectMeta := zero_ObjectMeta\<lparr>ObjectMeta_Name := ''m'',
         ObjectMeta_Finalizers := [''g'', ''h'']\<rparr>,
       OVHMachine_Spec := zero_OVHMachineSpec\<lparr>
         OVHMachineSpec_AdditionalVolumes :=
           [\<lparr>OVHVolume_Name = ''v'', OVHVolume_SizeGB = 10, OVHVolume_Type = ''t''\<rparr>],
         OVHMachineSpec_Tags := [(''a'', ''1''), (''b'', ''2'')]\<rparr>,
       OVHMachine_Status := zero_OVHMachineStatus\<lparr>
         OVHMachineStatus_Initialization := \<lparr>Initialization_Provisioned = Some True\<rparr>\<rparr>\<rparr>)"

lemma sample_loaded:
  "loadPtr kOVHMachine OVHMachine_load (Some 4) sampleMemory = Some (Some sampleValue, [4, 0, 1, 2, 3])"
  by code_simp

lemma sample_copied:
  "fst (run_state (OVHMachine_DeepCopy fieldwise (Some 4)) sampleMemory) = Some 5"
  by code_simp

theorem deep_copies_witness:
  "\<exists>h bs. run_state (OVHMachine_DeepCopy fieldwise (Some 4)) sampleMemory = (Some 5, h)
     \<and> loadPtr kOVHMachine OVHMachine_load (Some 5) h = Some (Some sampleValue, bs)
     \<and> set bs \<inter> {0, 1, 2, 3, 4} = {}
     \<and> (\<forall>g. differ g h bs \<longrightarrow>
          loadPtr kOVHMachine OVHMachine_load (Some 4) g = Some (Some sampleValue, [4, 0, 1, 2, 3]))"
proof -
  have copies: "deepCopies (loadPtr kOVHMachine OVHMachine_load) (OVHMachine_DeepCopy fieldwise)"
    using deep_copies [OF fieldwise_documented] by simp
  obtain h where run: "run_state (OVHMachine_DeepCopy fieldwise (Some 4)) sampleMemory = (Some 5, h)"
    using sample_copied by (metis prod.collapse)
  from copies sample_loaded run obtain bs
    where "loadPtr kOVHMachine OVHMachine_load (Some 5) h = Some (Some sampleValue, bs)"
      and "set bs \<inter> {..<length sampleMemory} = {}"
      and "\<forall>g. differ g h bs \<longrightarrow>
        loadPtr kOVHMachine OVHMachine_load (Some 4) g = Some (Some sampleValue, [4, 0, 1, 2, 3])"
    by (rule deepCopiesE)
  moreover have "{..<length sampleMemory} = {0, 1, 2, 3, 4}"
    by (auto simp: sampleMemory_def)
  ultimately show ?thesis using run by auto
qed

end
