(* ===== verification/Structs_V1.thy ===== *)
theory Structs_V1
  imports Api_Memory
begin

text \<open>
  The structs of \<^verbatim>\<open>api/v1alpha1\<close> in memory, as in \<open>Structs\<close>.
\<close>

section \<open>Structs and cells\<close>

record OVHLoadBalancerConfigV1M =
  OVHLoadBalancerConfigV1M_SubnetID :: string
  OVHLoadBalancerConfigV1M_FlavorName :: string
  OVHLoadBalancerConfigV1M_FloatingNetworkID :: string
  OVHLoadBalancerConfigV1M_Listeners :: "slice option"

record OVHNetworkConfigV1M =
  OVHNetworkConfigV1M_PrivateNetworkID :: string
  OVHNetworkConfigV1M_SubnetCIDR :: string
  OVHNetworkConfigV1M_VlanID :: int
  OVHNetworkConfigV1M_Gateway :: string
  OVHNetworkConfigV1M_DNSServers :: "slice option"

record OVHClusterSpecV1M =
  OVHClusterSpecV1M_ServiceName :: string
  OVHClusterSpecV1M_Region :: string
  OVHClusterSpecV1M_IdentitySecret :: SecretKeyV1
  OVHClusterSpecV1M_ControlPlaneEndpoint :: APIEndpoint
  OVHClusterSpecV1M_LoadBalancerConfig :: OVHLoadBalancerConfigV1M
  OVHClusterSpecV1M_NetworkConfig :: "addr option"
  OVHClusterSpecV1M_SSHKeyName :: string

record OVHClusterStatusV1M =
  OVHClusterStatusV1M_Ready :: bool
  OVHClusterStatusV1M_FailureReason :: string
  OVHClusterStatusV1M_FailureMessage :: string
  OVHClusterStatusV1M_Conditions :: "slice option"
  OVHClusterStatusV1M_NetworkID :: string
  OVHClusterStatusV1M_SubnetID :: string
  OVHClusterStatusV1M_LoadBalancerID :: string
  OVHClusterStatusV1M_ListenerID :: string
  OVHClusterStatusV1M_PoolID :: string
  OVHClusterStatusV1M_FloatingIPID :: string
  OVHClusterStatusV1M_GatewayID :: string
  OVHClusterStatusV1M_GatewayExposed :: bool
  OVHClusterStatusV1M_RegisterListenerID :: string
  OVHClusterStatusV1M_RegisterPoolID :: string

record OVHClusterV1M =
  OVHClusterV1M_TypeMeta :: TypeMeta
  OVHClusterV1M_ObjectMeta :: ObjectMetaM
  OVHClusterV1M_Spec :: OVHClusterSpecV1M
  OVHClusterV1M_Status :: OVHClusterStatusV1M

record OVHClusterListV1M =
  OVHClusterListV1M_TypeMeta :: TypeMeta
  OVHClusterListV1M_ListMeta :: ListMeta
  OVHClusterListV1M_Items :: "slice option"

record OVHClusterTemplateResourceV1M =
  OVHClusterTemplateResourceV1M_ObjectMeta :: TemplateMetaM
  OVHClusterTemplateResourceV1M_Spec :: OVHClusterSpecV1M

record OVHClusterTemplateSpecV1M =
  OVHClusterTemplateSpecV1M_Template :: OVHClusterTemplateResourceV1M

record OVHClusterTemplateV1M =
  OVHClusterTemplateV1M_TypeMeta :: TypeMeta
  OVHClusterTemplateV1M_ObjectMeta :: ObjectMetaM
  OVHClusterTemplateV1M_Spec :: OVHClusterTemplateSpecV1M

record OVHClusterTemplateListV1M =
  OVHClusterTemplateListV1M_TypeMeta :: TypeMeta
  OVHClusterTemplateListV1M_ListMeta :: ListMeta
  OVHClusterTemplateListV1M_Items :: "slice option"

record OVHMachineSpecV1M =
  OVHMachineSpecV1M_ProviderID :: string
  OVHMachineSpecV1M_FlavorName :: string
  OVHMachineSpecV1M_ImageName :: string
  OVHMachineSpecV1M_SSHKeyName :: string
  OVHMachineSpecV1M_RootDiskSize :: int
  OVHMachineSpecV1M_AdditionalVolumes :: "slice option"
  OVHMachineSpecV1M_FailureDomain :: string

record OVHMachineStatusV1M =
  OVHMachineStatusV1M_Ready :: bool
  OVHMachineStatusV1M_Conditions :: "slice option"
  OVHMachineStatusV1M_FailureReason :: string
  OVHMachineStatusV1M_FailureMessage :: string
  OVHMachineStatusV1M_Addresses :: "slice option"
  OVHMachineStatusV1M_Initialization :: InitializationV1
  OVHMachineStatusV1M_InstanceID :: string
  OVHMachineStatusV1M_VolumeIDs :: "slice option"
  OVHMachineStatusV1M_LBPoolMemberID :: string
  OVHMachineStatusV1M_RegisterPoolMemberID :: string

record OVHMachineV1M =
  OVHMachineV1M_TypeMeta :: TypeMeta
  OVHMachineV1M_ObjectMeta :: ObjectMetaM
  OVHMachineV1M_Spec :: OVHMachineSpecV1M
  OVHMachineV1M_Status :: OVHMachineStatusV1M

record OVHMachineListV1M =
  OVHMachineListV1M_TypeMeta :: TypeMeta
  OVHMachineListV1M_ListMeta :: ListMeta
  OVHMachineListV1M_Items :: "slice option"

record OVHMachineTemplateResourceV1M =
  OVHMachineTemplateResourceV1M_ObjectMeta :: TemplateMetaM
  OVHMachineTemplateResourceV1M_Spec :: OVHMachineSpecV1M

record OVHMachineTemplateSpecV1M =
  OVHMachineTemplateSpecV1M_Template :: OVHMachineTemplateResourceV1M

record OVHMachineTemplateV1M =
  OVHMachineTemplateV1M_TypeMeta :: TypeMeta
  OVHMachineTemplateV1M_ObjectMeta :: ObjectMetaM
  OVHMachineTemplateV1M_Spec :: OVHMachineTemplateSpecV1M

record OVHMachineTemplateListV1M =
  OVHMachineTemplateListV1M_TypeMeta :: TypeMeta
  OVHMachineTemplateListV1M_ListMeta :: ListMeta
  OVHMachineTemplateListV1M_Items :: "slice option"

datatype v1alpha1 =
    CInitializationV1 "InitializationV1 list"
  | COVHListenerV1 "OVHListenerV1 list"
  | COVHLoadBalancerConfigV1 "OVHLoadBalancerConfigV1M list"
  | COVHNetworkConfigV1 "OVHNetworkConfigV1M list"
  | CSecretKeyV1 "SecretKeyV1 list"
  | COVHClusterSpecV1 "OVHClusterSpecV1M list"
  | COVHClusterStatusV1 "OVHClusterStatusV1M list"
  | COVHClusterV1 "OVHClusterV1M list"
  | COVHClusterListV1 "OVHClusterListV1M list"
  | COVHClusterTemplateResourceV1 "OVHClusterTemplateResourceV1M list"
  | COVHClusterTemplateSpecV1 "OVHClusterTemplateSpecV1M list"
  | COVHClusterTemplateV1 "OVHClusterTemplateV1M list"
  | COVHClusterTemplateListV1 "OVHClusterTemplateListV1M list"
  | COVHClusterValidatorV1 "unit list"
  | COVHVolumeV1 "OVHVolumeV1 list"
  | COVHMachineSpecV1 "OVHMachineSpecV1M list"
  | COVHMachineStatusV1 "OVHMachineStatusV1M list"
  | COVHMachineV1 "OVHMachineV1M list"
  | COVHMachineListV1 "OVHMachineListV1M list"
  | COVHMachineTemplateResourceV1 "OVHMachineTemplateResourceV1M list"
  | COVHMachineTemplateSpecV1 "OVHMachineTemplateSpecV1M list"
  | COVHMachineTemplateV1 "OVHMachineTemplateV1M list"
  | COVHMachineTemplateListV1 "OVHMachineTemplateListV1M list"
  | COVHMachineValidatorV1 "unit list"

definition kInitializationV1 :: "(v1alpha1 cell, InitializationV1) kind" where
  "kInitializationV1 = \<lparr>wrap = (\<lambda>xs. CApi (CInitializationV1 xs)),
     unwrap = (\<lambda>c. case c of CApi (CInitializationV1 xs) \<Rightarrow> Some xs | _ \<Rightarrow> None)\<rparr>"
definition kOVHListenerV1 :: "(v1alpha1 cell, OVHListenerV1) kind" where
  "kOVHListenerV1 = \<lparr>wrap = (\<lambda>xs. CApi (COVHListenerV1 xs)),
     unwrap = (\<lambda>c. case c of CApi (COVHListenerV1 xs) \<Rightarrow> Some xs | _ \<Rightarrow> None)\<rparr>"
definition kOVHLoadBalancerConfigV1 :: "(v1alpha1 cell, OVHLoadBalancerConfigV1M) kind" where
  "kOVHLoadBalancerConfigV1 = \<lparr>wrap = (\<lambda>xs. CApi (COVHLoadBalancerConfigV1 xs)),
     unwrap = (\<lambda>c. case c of CApi (COVHLoadBalancerConfigV1 xs) \<Rightarrow> Some xs | _ \<Rightarrow> None)\<rparr>"
definition kOVHNetworkConfigV1 :: "(v1alpha1 cell, OVHNetworkConfigV1M) kind" where
  "kOVHNetworkConfigV1 = \<lparr>wrap = (\<lambda>xs. CApi (COVHNetworkConfigV1 xs)),
     unwrap = (\<lambda>c. case c of CApi (COVHNetworkConfigV1 xs) \<Rightarrow> Some xs | _ \<Rightarrow> None)\<rparr>"
definition kSecretKeyV1 :: "(v1alpha1 cell, SecretKeyV1) kind" where
  "kSecretKeyV1 = \<lparr>wrap = (\<lambda>xs. CApi (CSecretKeyV1 xs)),
     unwrap = (\<lambda>c. case c of CApi (CSecretKeyV1 xs) \<Rightarrow> Some xs | _ \<Rightarrow> None)\<rparr>"
definition kOVHClusterSpecV1 :: "(v1alpha1 cell, OVHClusterSpecV1M) kind" where
  "kOVHClusterSpecV1 = \<lparr>wrap = (\<lambda>xs. CApi (COVHClusterSpecV1 xs)),
     unwrap = (\<lambda>c. case c of CApi (COVHClusterSpecV1 xs) \<Rightarrow> Some xs | _ \<Rightarrow> None)\<rparr>"
definition kOVHClusterStatusV1 :: "(v1alpha1 cell, OVHClusterStatusV1M) kind" where
  "kOVHClusterStatusV1 = \<lparr>wrap = (\<lambda>xs. CApi (COVHClusterStatusV1 xs)),
     unwrap = (\<lambda>c. case c of CApi (COVHClusterStatusV1 xs) \<Rightarrow> Some xs | _ \<Rightarrow> None)\<rparr>"
definition kOVHClusterV1 :: "(v1alpha1 cell, OVHClusterV1M) kind" where
  "kOVHClusterV1 = \<lparr>wrap = (\<lambda>xs. CApi (COVHClusterV1 xs)),
     unwrap = (\<lambda>c. case c of CApi (COVHClusterV1 xs) \<Rightarrow> Some xs | _ \<Rightarrow> None)\<rparr>"
definition kOVHClusterListV1 :: "(v1alpha1 cell, OVHClusterListV1M) kind" where
  "kOVHClusterListV1 = \<lparr>wrap = (\<lambda>xs. CApi (COVHClusterListV1 xs)),
     unwrap = (\<lambda>c. case c of CApi (COVHClusterListV1 xs) \<Rightarrow> Some xs | _ \<Rightarrow> None)\<rparr>"
definition kOVHClusterTemplateResourceV1 ::
    "(v1alpha1 cell, OVHClusterTemplateResourceV1M) kind" where
  "kOVHClusterTemplateResourceV1 = \<lparr>wrap = (\<lambda>xs. CApi (COVHClusterTemplateResourceV1 xs)),
     unwrap = (\<lambda>c. case c of CApi (COVHClusterTemplateResourceV1 xs) \<Rightarrow> Some xs | _ \<Rightarrow> None)\<rparr>"
definition kOVHClusterTemplateSpecV1 :: "(v1alpha1 cell, OVHClusterTemplateSpecV1M) kind" where
  "kOVHClusterTemplateSpecV1 = \<lparr>wrap = (\<lambda>xs. CApi (COVHClusterTemplateSpecV1 xs)),
     unwrap = (\<lambda>c. case c of CApi (COVHClusterTemplateSpecV1 xs) \<Rightarrow> Some xs | _ \<Rightarrow> None)\<rparr>"
definition kOVHClusterTemplateV1 :: "(v1alpha1 cell, OVHClusterTemplateV1M) kind" where
  "kOVHClusterTemplateV1 = \<lparr>wrap = (\<lambda>xs. CApi (COVHClusterTemplateV1 xs)),
     unwrap = (\<lambda>c. case c of CApi (COVHClusterTemplateV1 xs) \<Rightarrow> Some xs | _ \<Rightarrow> None)\<rparr>"
definition kOVHClusterTemplateListV1 :: "(v1alpha1 cell, OVHClusterTemplateListV1M) kind" where
  "kOVHClusterTemplateListV1 = \<lparr>wrap = (\<lambda>xs. CApi (COVHClusterTemplateListV1 xs)),
     unwrap = (\<lambda>c. case c of CApi (COVHClusterTemplateListV1 xs) \<Rightarrow> Some xs | _ \<Rightarrow> None)\<rparr>"
definition kOVHClusterValidatorV1 :: "(v1alpha1 cell, unit) kind" where
  "kOVHClusterValidatorV1 = \<lparr>wrap = (\<lambda>xs. CApi (COVHClusterValidatorV1 xs)),
     unwrap = (\<lambda>c. case c of CApi (COVHClusterValidatorV1 xs) \<Rightarrow> Some xs | _ \<Rightarrow> None)\<rparr>"
definition kOVHVolumeV1 :: "(v1alpha1 cell, OVHVolumeV1) kind" where
  "kOVHVolumeV1 = \<lparr>wrap = (\<lambda>xs. CApi (COVHVolumeV1 xs)),
     unwrap = (\<lambda>c. case c of CApi (COVHVolumeV1 xs) \<Rightarrow> Some xs | _ \<Rightarrow> None)\<rparr>"
definition kOVHMachineSpecV1 :: "(v1alpha1 cell, OVHMachineSpecV1M) kind" where
  "kOVHMachineSpecV1 = \<lparr>wrap = (\<lambda>xs. CApi (COVHMachineSpecV1 xs)),
     unwrap = (\<lambda>c. case c of CApi (COVHMachineSpecV1 xs) \<Rightarrow> Some xs | _ \<Rightarrow> None)\<rparr>"
definition kOVHMachineStatusV1 :: "(v1alpha1 cell, OVHMachineStatusV1M) kind" where
  "kOVHMachineStatusV1 = \<lparr>wrap = (\<lambda>xs. CApi (COVHMachineStatusV1 xs)),
     unwrap = (\<lambda>c. case c of CApi (COVHMachineStatusV1 xs) \<Rightarrow> Some xs | _ \<Rightarrow> None)\<rparr>"
definition kOVHMachineV1 :: "(v1alpha1 cell, OVHMachineV1M) kind" where
  "kOVHMachineV1 = \<lparr>wrap = (\<lambda>xs. CApi (COVHMachineV1 xs)),
     unwrap = (\<lambda>c. case c of CApi (COVHMachineV1 xs) \<Rightarrow> Some xs | _ \<Rightarrow> None)\<rparr>"
definition kOVHMachineListV1 :: "(v1alpha1 cell, OVHMachineListV1M) kind" where
  "kOVHMachineListV1 = \<lparr>wrap = (\<lambda>xs. CApi (COVHMachineListV1 xs)),
     unwrap = (\<lambda>c. case c of CApi (COVHMachineListV1 xs) \<Rightarrow> Some xs | _ \<Rightarrow> None)\<rparr>"
definition kOVHMachineTemplateResourceV1 ::
    "(v1alpha1 cell, OVHMachineTemplateResourceV1M) kind" where
  "kOVHMachineTemplateResourceV1 = \<lparr>wrap = (\<lambda>xs. CApi (COVHMachineTemplateResourceV1 xs)),
     unwrap = (\<lambda>c. case c of CApi (COVHMachineTemplateResourceV1 xs) \<Rightarrow> Some xs | _ \<Rightarrow> None)\<rparr>"
definition kOVHMachineTemplateSpecV1 :: "(v1alpha1 cell, OVHMachineTemplateSpecV1M) kind" where
  "kOVHMachineTemplateSpecV1 = \<lparr>wrap = (\<lambda>xs. CApi (COVHMachineTemplateSpecV1 xs)),
     unwrap = (\<lambda>c. case c of CApi (COVHMachineTemplateSpecV1 xs) \<Rightarrow> Some xs | _ \<Rightarrow> None)\<rparr>"
definition kOVHMachineTemplateV1 :: "(v1alpha1 cell, OVHMachineTemplateV1M) kind" where
  "kOVHMachineTemplateV1 = \<lparr>wrap = (\<lambda>xs. CApi (COVHMachineTemplateV1 xs)),
     unwrap = (\<lambda>c. case c of CApi (COVHMachineTemplateV1 xs) \<Rightarrow> Some xs | _ \<Rightarrow> None)\<rparr>"
definition kOVHMachineTemplateListV1 :: "(v1alpha1 cell, OVHMachineTemplateListV1M) kind" where
  "kOVHMachineTemplateListV1 = \<lparr>wrap = (\<lambda>xs. CApi (COVHMachineTemplateListV1 xs)),
     unwrap = (\<lambda>c. case c of CApi (COVHMachineTemplateListV1 xs) \<Rightarrow> Some xs | _ \<Rightarrow> None)\<rparr>"
definition kOVHMachineValidatorV1 :: "(v1alpha1 cell, unit) kind" where
  "kOVHMachineValidatorV1 = \<lparr>wrap = (\<lambda>xs. CApi (COVHMachineValidatorV1 xs)),
     unwrap = (\<lambda>c. case c of CApi (COVHMachineValidatorV1 xs) \<Rightarrow> Some xs | _ \<Rightarrow> None)\<rparr>"

interpretation kInitializationV1: storable kInitializationV1
  by unfold_locales (simp add: kInitializationV1_def)
interpretation kOVHListenerV1: storable kOVHListenerV1
  by unfold_locales (simp add: kOVHListenerV1_def)
interpretation kOVHLoadBalancerConfigV1: storable kOVHLoadBalancerConfigV1
  by unfold_locales (simp add: kOVHLoadBalancerConfigV1_def)
interpretation kOVHNetworkConfigV1: storable kOVHNetworkConfigV1
  by unfold_locales (simp add: kOVHNetworkConfigV1_def)
interpretation kSecretKeyV1: storable kSecretKeyV1
  by unfold_locales (simp add: kSecretKeyV1_def)
interpretation kOVHClusterSpecV1: storable kOVHClusterSpecV1
  by unfold_locales (simp add: kOVHClusterSpecV1_def)
interpretation kOVHClusterStatusV1: storable kOVHClusterStatusV1
  by unfold_locales (simp add: kOVHClusterStatusV1_def)
interpretation kOVHClusterV1: storable kOVHClusterV1
  by unfold_locales (simp add: kOVHClusterV1_def)
interpretation kOVHClusterListV1: storable kOVHClusterListV1
  by unfold_locales (simp add: kOVHClusterListV1_def)
interpretation kOVHClusterTemplateResourceV1: storable kOVHClusterTemplateResourceV1
  by unfold_locales (simp add: kOVHClusterTemplateResourceV1_def)
interpretation kOVHClusterTemplateSpecV1: storable kOVHClusterTemplateSpecV1
  by unfold_locales (simp add: kOVHClusterTemplateSpecV1_def)
interpretation kOVHClusterTemplateV1: storable kOVHClusterTemplateV1
  by unfold_locales (simp add: kOVHClusterTemplateV1_def)
interpretation kOVHClusterTemplateListV1: storable kOVHClusterTemplateListV1
  by unfold_locales (simp add: kOVHClusterTemplateListV1_def)
interpretation kOVHClusterValidatorV1: storable kOVHClusterValidatorV1
  by unfold_locales (simp add: kOVHClusterValidatorV1_def)
interpretation kOVHVolumeV1: storable kOVHVolumeV1
  by unfold_locales (simp add: kOVHVolumeV1_def)
interpretation kOVHMachineSpecV1: storable kOVHMachineSpecV1
  by unfold_locales (simp add: kOVHMachineSpecV1_def)
interpretation kOVHMachineStatusV1: storable kOVHMachineStatusV1
  by unfold_locales (simp add: kOVHMachineStatusV1_def)
interpretation kOVHMachineV1: storable kOVHMachineV1
  by unfold_locales (simp add: kOVHMachineV1_def)
interpretation kOVHMachineListV1: storable kOVHMachineListV1
  by unfold_locales (simp add: kOVHMachineListV1_def)
interpretation kOVHMachineTemplateResourceV1: storable kOVHMachineTemplateResourceV1
  by unfold_locales (simp add: kOVHMachineTemplateResourceV1_def)
interpretation kOVHMachineTemplateSpecV1: storable kOVHMachineTemplateSpecV1
  by unfold_locales (simp add: kOVHMachineTemplateSpecV1_def)
interpretation kOVHMachineTemplateV1: storable kOVHMachineTemplateV1
  by unfold_locales (simp add: kOVHMachineTemplateV1_def)
interpretation kOVHMachineTemplateListV1: storable kOVHMachineTemplateListV1
  by unfold_locales (simp add: kOVHMachineTemplateListV1_def)
interpretation kOVHMachineValidatorV1: storable kOVHMachineValidatorV1
  by unfold_locales (simp add: kOVHMachineValidatorV1_def)

definition zero_OVHLoadBalancerConfigV1M :: OVHLoadBalancerConfigV1M where
  "zero_OVHLoadBalancerConfigV1M = \<lparr>
     OVHLoadBalancerConfigV1M_SubnetID = '''', OVHLoadBalancerConfigV1M_FlavorName = '''',
     OVHLoadBalancerConfigV1M_FloatingNetworkID = '''', OVHLoadBalancerConfigV1M_Listeners = None\<rparr>"
definition zero_OVHNetworkConfigV1M :: OVHNetworkConfigV1M where
  "zero_OVHNetworkConfigV1M = \<lparr>
     OVHNetworkConfigV1M_PrivateNetworkID = '''', OVHNetworkConfigV1M_SubnetCIDR = '''',
     OVHNetworkConfigV1M_VlanID = 0, OVHNetworkConfigV1M_Gateway = '''',
     OVHNetworkConfigV1M_DNSServers = None\<rparr>"
definition zero_OVHClusterSpecV1M :: OVHClusterSpecV1M where
  "zero_OVHClusterSpecV1M = \<lparr>
     OVHClusterSpecV1M_ServiceName = '''', OVHClusterSpecV1M_Region = '''',
     OVHClusterSpecV1M_IdentitySecret = zero_SecretKeyV1,
     OVHClusterSpecV1M_ControlPlaneEndpoint = zero_APIEndpoint,
     OVHClusterSpecV1M_LoadBalancerConfig = zero_OVHLoadBalancerConfigV1M,
     OVHClusterSpecV1M_NetworkConfig = None, OVHClusterSpecV1M_SSHKeyName = ''''\<rparr>"
definition zero_OVHClusterStatusV1M :: OVHClusterStatusV1M where
  "zero_OVHClusterStatusV1M = \<lparr>
     OVHClusterStatusV1M_Ready = False, OVHClusterStatusV1M_FailureReason = '''',
     OVHClusterStatusV1M_FailureMessage = '''', OVHClusterStatusV1M_Conditions = None,
     OVHClusterStatusV1M_NetworkID = '''', OVHClusterStatusV1M_SubnetID = '''',
     OVHClusterStatusV1M_LoadBalancerID = '''', OVHClusterStatusV1M_ListenerID = '''',
     OVHClusterStatusV1M_PoolID = '''', OVHClusterStatusV1M_FloatingIPID = '''',
     OVHClusterStatusV1M_GatewayID = '''', OVHClusterStatusV1M_GatewayExposed = False,
     OVHClusterStatusV1M_RegisterListenerID = '''', OVHClusterStatusV1M_RegisterPoolID = ''''\<rparr>"
definition zero_OVHClusterV1M :: OVHClusterV1M where
  "zero_OVHClusterV1M = \<lparr>
     OVHClusterV1M_TypeMeta = zero_TypeMeta, OVHClusterV1M_ObjectMeta = zero_ObjectMetaM,
     OVHClusterV1M_Spec = zero_OVHClusterSpecV1M, OVHClusterV1M_Status = zero_OVHClusterStatusV1M\<rparr>"
definition zero_OVHClusterListV1M :: OVHClusterListV1M where
  "zero_OVHClusterListV1M = \<lparr>
     OVHClusterListV1M_TypeMeta = zero_TypeMeta, OVHClusterListV1M_ListMeta = zero_ListMeta,
     OVHClusterListV1M_Items = None\<rparr>"
definition zero_OVHClusterTemplateResourceV1M :: OVHClusterTemplateResourceV1M where
  "zero_OVHClusterTemplateResourceV1M = \<lparr>
     OVHClusterTemplateResourceV1M_ObjectMeta = zero_TemplateMetaM,
     OVHClusterTemplateResourceV1M_Spec = zero_OVHClusterSpecV1M\<rparr>"
definition zero_OVHClusterTemplateSpecV1M :: OVHClusterTemplateSpecV1M where
  "zero_OVHClusterTemplateSpecV1M = \<lparr>
     OVHClusterTemplateSpecV1M_Template = zero_OVHClusterTemplateResourceV1M\<rparr>"
definition zero_OVHClusterTemplateV1M :: OVHClusterTemplateV1M where
  "zero_OVHClusterTemplateV1M = \<lparr>
     OVHClusterTemplateV1M_TypeMeta = zero_TypeMeta,
     OVHClusterTemplateV1M_ObjectMeta = zero_ObjectMetaM,
     OVHClusterTemplateV1M_Spec = zero_OVHClusterTemplateSpecV1M\<rparr>"
definition zero_OVHClusterTemplateListV1M :: OVHClusterTemplateListV1M where
  "zero_OVHClusterTemplateListV1M = \<lparr>
     OVHClusterTemplateListV1M_TypeMeta = zero_TypeMeta,
     OVHClusterTemplateListV1M_ListMeta = zero_ListMeta, OVHClusterTemplateListV1M_Items = None\<rparr>"
definition zero_OVHMachineSpecV1M :: OVHMachineSpecV1M where
  "zero_OVHMachineSpecV1M = \<lparr>
     OVHMachineSpecV1M_ProviderID = '''', OVHMachineSpecV1M_FlavorName = '''',
     OVHMachineSpecV1M_ImageName = '''', OVHMachineSpecV1M_SSHKeyName = '''',
     OVHMachineSpecV1M_RootDiskSize = 0, OVHMachineSpecV1M_AdditionalVolumes = None,
     OVHMachineSpecV1M_FailureDomain = ''''\<rparr>"
definition zero_OVHMachineStatusV1M :: OVHMachineStatusV1M where
  "zero_OVHMachineStatusV1M = \<lparr>
     OVHMachineStatusV1M_Ready = False, OVHMachineStatusV1M_Conditions = None,
     OVHMachineStatusV1M_FailureReason = '''', OVHMachineStatusV1M_FailureMessage = '''',
     OVHMachineStatusV1M_Addresses = None,
     OVHMachineStatusV1M_Initialization = zero_InitializationV1,
     OVHMachineStatusV1M_InstanceID = '''', OVHMachineStatusV1M_VolumeIDs = None,
     OVHMachineStatusV1M_LBPoolMemberID = '''', OVHMachineStatusV1M_RegisterPoolMemberID = ''''\<rparr>"
definition zero_OVHMachineV1M :: OVHMachineV1M where
  "zero_OVHMachineV1M = \<lparr>
     OVHMachineV1M_TypeMeta = zero_TypeMeta, OVHMachineV1M_ObjectMeta = zero_ObjectMetaM,
     OVHMachineV1M_Spec = zero_OVHMachineSpecV1M, OVHMachineV1M_Status = zero_OVHMachineStatusV1M\<rparr>"
definition zero_OVHMachineListV1M :: OVHMachineListV1M where
  "zero_OVHMachineListV1M = \<lparr>
     OVHMachineListV1M_TypeMeta = zero_TypeMeta, OVHMachineListV1M_ListMeta = zero_ListMeta,
     OVHMachineListV1M_Items = None\<rparr>"
definition zero_OVHMachineTemplateResourceV1M :: OVHMachineTemplateResourceV1M where
  "zero_OVHMachineTemplateResourceV1M = \<lparr>
     OVHMachineTemplateResourceV1M_ObjectMeta = zero_TemplateMetaM,
     OVHMachineTemplateResourceV1M_Spec = zero_OVHMachineSpecV1M\<rparr>"
definition zero_OVHMachineTemplateSpecV1M :: OVHMachineTemplateSpecV1M where
  "zero_OVHMachineTemplateSpecV1M = \<lparr>
     OVHMachineTemplateSpecV1M_Template = zero_OVHMachineTemplateResourceV1M\<rparr>"
definition zero_OVHMachineTemplateV1M :: OVHMachineTemplateV1M where
  "zero_OVHMachineTemplateV1M = \<lparr>
     OVHMachineTemplateV1M_TypeMeta = zero_TypeMeta,
     OVHMachineTemplateV1M_ObjectMeta = zero_ObjectMetaM,
     OVHMachineTemplateV1M_Spec = zero_OVHMachineTemplateSpecV1M\<rparr>"
definition zero_OVHMachineTemplateListV1M :: OVHMachineTemplateListV1M where
  "zero_OVHMachineTemplateListV1M = \<lparr>
     OVHMachineTemplateListV1M_TypeMeta = zero_TypeMeta,
     OVHMachineTemplateListV1M_ListMeta = zero_ListMeta, OVHMachineTemplateListV1M_Items = None\<rparr>"

section \<open>Values\<close>

definition OVHLoadBalancerConfigV1_load ::
    "OVHLoadBalancerConfigV1M
      \<Rightarrow> (v1alpha1 cell, OVHLoadBalancerConfigV1) reading" where
  "OVHLoadBalancerConfigV1_load i =
     readMap (\<lambda>listeners.
       \<lparr>OVHLoadBalancerConfigV1_SubnetID = OVHLoadBalancerConfigV1M_SubnetID i,
        OVHLoadBalancerConfigV1_FlavorName = OVHLoadBalancerConfigV1M_FlavorName i,
        OVHLoadBalancerConfigV1_FloatingNetworkID = OVHLoadBalancerConfigV1M_FloatingNetworkID i,
        OVHLoadBalancerConfigV1_Listeners = listeners\<rparr>)
     (loadSlice kOVHListenerV1 readPure
       (OVHLoadBalancerConfigV1M_Listeners i))"

definition OVHNetworkConfigV1_load ::
    "OVHNetworkConfigV1M
      \<Rightarrow> (v1alpha1 cell, OVHNetworkConfigV1) reading" where
  "OVHNetworkConfigV1_load i =
     readMap (\<lambda>dnsServers.
       \<lparr>OVHNetworkConfigV1_PrivateNetworkID = OVHNetworkConfigV1M_PrivateNetworkID i,
        OVHNetworkConfigV1_SubnetCIDR = OVHNetworkConfigV1M_SubnetCIDR i,
        OVHNetworkConfigV1_VlanID = OVHNetworkConfigV1M_VlanID i,
        OVHNetworkConfigV1_Gateway = OVHNetworkConfigV1M_Gateway i,
        OVHNetworkConfigV1_DNSServers = dnsServers\<rparr>)
     (loadSlice kString readPure
       (OVHNetworkConfigV1M_DNSServers i))"

definition OVHClusterSpecV1_load ::
    "OVHClusterSpecV1M
      \<Rightarrow> (v1alpha1 cell, OVHClusterSpecV1) reading" where
  "OVHClusterSpecV1_load i =
     readMap (\<lambda>(loadBalancerConfig, networkConfig).
       \<lparr>OVHClusterSpecV1_ServiceName = OVHClusterSpecV1M_ServiceName i,
        OVHClusterSpecV1_Region = OVHClusterSpecV1M_Region i,
        OVHClusterSpecV1_IdentitySecret = OVHClusterSpecV1M_IdentitySecret i,
        OVHClusterSpecV1_ControlPlaneEndpoint = OVHClusterSpecV1M_ControlPlaneEndpoint i,
        OVHClusterSpecV1_LoadBalancerConfig = loadBalancerConfig,
        OVHClusterSpecV1_NetworkConfig = networkConfig,
        OVHClusterSpecV1_SSHKeyName = OVHClusterSpecV1M_SSHKeyName i\<rparr>)
     (loadPair OVHLoadBalancerConfigV1_load
         (loadPtr kOVHNetworkConfigV1 OVHNetworkConfigV1_load)
       (OVHClusterSpecV1M_LoadBalancerConfig i, OVHClusterSpecV1M_NetworkConfig i))"

definition OVHClusterStatusV1_load ::
    "OVHClusterStatusV1M
      \<Rightarrow> (v1alpha1 cell, OVHClusterStatusV1) reading" where
  "OVHClusterStatusV1_load i =
     readMap (\<lambda>conditions.
       \<lparr>OVHClusterStatusV1_Ready = OVHClusterStatusV1M_Ready i,
        OVHClusterStatusV1_FailureReason = OVHClusterStatusV1M_FailureReason i,
        OVHClusterStatusV1_FailureMessage = OVHClusterStatusV1M_FailureMessage i,
        OVHClusterStatusV1_Conditions = conditions,
        OVHClusterStatusV1_NetworkID = OVHClusterStatusV1M_NetworkID i,
        OVHClusterStatusV1_SubnetID = OVHClusterStatusV1M_SubnetID i,
        OVHClusterStatusV1_LoadBalancerID = OVHClusterStatusV1M_LoadBalancerID i,
        OVHClusterStatusV1_ListenerID = OVHClusterStatusV1M_ListenerID i,
        OVHClusterStatusV1_PoolID = OVHClusterStatusV1M_PoolID i,
        OVHClusterStatusV1_FloatingIPID = OVHClusterStatusV1M_FloatingIPID i,
        OVHClusterStatusV1_GatewayID = OVHClusterStatusV1M_GatewayID i,
        OVHClusterStatusV1_GatewayExposed = OVHClusterStatusV1M_GatewayExposed i,
        OVHClusterStatusV1_RegisterListenerID = OVHClusterStatusV1M_RegisterListenerID i,
        OVHClusterStatusV1_RegisterPoolID = OVHClusterStatusV1M_RegisterPoolID i\<rparr>)
     (loadSlice kCondition readPure
       (OVHClusterStatusV1M_Conditions i))"

definition OVHClusterV1_load ::
    "OVHClusterV1M
      \<Rightarrow> (v1alpha1 cell, TypeMeta \<times> OVHClusterV1) reading" where
  "OVHClusterV1_load i =
     readMap (\<lambda>(objectMeta, spec, status).
       (OVHClusterV1M_TypeMeta i,
        \<lparr>OVHClusterV1_ObjectMeta = objectMeta, OVHClusterV1_Spec = spec,
        OVHClusterV1_Status = status\<rparr>))
     (loadPair ObjectMeta_load
         (loadPair OVHClusterSpecV1_load
         OVHClusterStatusV1_load)
       (OVHClusterV1M_ObjectMeta i, OVHClusterV1M_Spec i, OVHClusterV1M_Status i))"

definition OVHClusterListV1_load ::
    "OVHClusterListV1M
      \<Rightarrow> (v1alpha1 cell, TypeMeta \<times> TypeMeta list \<times> OVHClusterListV1) reading" where
  "OVHClusterListV1_load i =
     readMap (\<lambda>(listMeta, items).
       (OVHClusterListV1M_TypeMeta i, map fst items,
        \<lparr>OVHClusterListV1_ListMeta = listMeta, OVHClusterListV1_Items = map snd items\<rparr>))
     (loadPair readPure
         (loadSlice kOVHClusterV1 OVHClusterV1_load)
       (OVHClusterListV1M_ListMeta i, OVHClusterListV1M_Items i))"

definition OVHClusterTemplateResourceV1_load ::
    "OVHClusterTemplateResourceV1M
      \<Rightarrow> (v1alpha1 cell, OVHClusterTemplateResourceV1) reading" where
  "OVHClusterTemplateResourceV1_load i =
     readMap (\<lambda>(objectMeta, spec).
       \<lparr>OVHClusterTemplateResourceV1_ObjectMeta = objectMeta,
        OVHClusterTemplateResourceV1_Spec = spec\<rparr>)
     (loadPair TemplateMeta_load
         OVHClusterSpecV1_load
       (OVHClusterTemplateResourceV1M_ObjectMeta i, OVHClusterTemplateResourceV1M_Spec i))"

definition OVHClusterTemplateSpecV1_load ::
    "OVHClusterTemplateSpecV1M
      \<Rightarrow> (v1alpha1 cell, OVHClusterTemplateSpecV1) reading" where
  "OVHClusterTemplateSpecV1_load i =
     readMap (\<lambda>template.
       \<lparr>OVHClusterTemplateSpecV1_Template = template\<rparr>)
     (OVHClusterTemplateResourceV1_load
       (OVHClusterTemplateSpecV1M_Template i))"

definition OVHClusterTemplateV1_load ::
    "OVHClusterTemplateV1M
      \<Rightarrow> (v1alpha1 cell, TypeMeta \<times> OVHClusterTemplateV1) reading" where
  "OVHClusterTemplateV1_load i =
     readMap (\<lambda>(objectMeta, spec).
       (OVHClusterTemplateV1M_TypeMeta i,
        \<lparr>OVHClusterTemplateV1_ObjectMeta = objectMeta, OVHClusterTemplateV1_Spec = spec\<rparr>))
     (loadPair ObjectMeta_load
         OVHClusterTemplateSpecV1_load
       (OVHClusterTemplateV1M_ObjectMeta i, OVHClusterTemplateV1M_Spec i))"

definition OVHClusterTemplateListV1_load ::
    "OVHClusterTemplateListV1M
      \<Rightarrow> (v1alpha1 cell, TypeMeta \<times> TypeMeta list \<times> OVHClusterTemplateListV1) reading" where
  "OVHClusterTemplateListV1_load i =
     readMap (\<lambda>(listMeta, items).
       (OVHClusterTemplateListV1M_TypeMeta i, map fst items,
        \<lparr>OVHClusterTemplateListV1_ListMeta = listMeta,
        OVHClusterTemplateListV1_Items = map snd items\<rparr>))
     (loadPair readPure
         (loadSlice kOVHClusterTemplateV1 OVHClusterTemplateV1_load)
       (OVHClusterTemplateListV1M_ListMeta i, OVHClusterTemplateListV1M_Items i))"

definition OVHMachineSpecV1_load ::
    "OVHMachineSpecV1M
      \<Rightarrow> (v1alpha1 cell, OVHMachineSpecV1) reading" where
  "OVHMachineSpecV1_load i =
     readMap (\<lambda>additionalVolumes.
       \<lparr>OVHMachineSpecV1_ProviderID = OVHMachineSpecV1M_ProviderID i,
        OVHMachineSpecV1_FlavorName = OVHMachineSpecV1M_FlavorName i,
        OVHMachineSpecV1_ImageName = OVHMachineSpecV1M_ImageName i,
        OVHMachineSpecV1_SSHKeyName = OVHMachineSpecV1M_SSHKeyName i,
        OVHMachineSpecV1_RootDiskSize = OVHMachineSpecV1M_RootDiskSize i,
        OVHMachineSpecV1_AdditionalVolumes = additionalVolumes,
        OVHMachineSpecV1_FailureDomain = OVHMachineSpecV1M_FailureDomain i\<rparr>)
     (loadSlice kOVHVolumeV1 readPure
       (OVHMachineSpecV1M_AdditionalVolumes i))"

definition OVHMachineStatusV1_load ::
    "OVHMachineStatusV1M
      \<Rightarrow> (v1alpha1 cell, OVHMachineStatusV1) reading" where
  "OVHMachineStatusV1_load i =
     readMap (\<lambda>(conditions, addresses, volumeIDs).
       \<lparr>OVHMachineStatusV1_Ready = OVHMachineStatusV1M_Ready i,
        OVHMachineStatusV1_Conditions = conditions,
        OVHMachineStatusV1_FailureReason = OVHMachineStatusV1M_FailureReason i,
        OVHMachineStatusV1_FailureMessage = OVHMachineStatusV1M_FailureMessage i,
        OVHMachineStatusV1_Addresses = addresses,
        OVHMachineStatusV1_Initialization = OVHMachineStatusV1M_Initialization i,
        OVHMachineStatusV1_InstanceID = OVHMachineStatusV1M_InstanceID i,
        OVHMachineStatusV1_VolumeIDs = volumeIDs,
        OVHMachineStatusV1_LBPoolMemberID = OVHMachineStatusV1M_LBPoolMemberID i,
        OVHMachineStatusV1_RegisterPoolMemberID = OVHMachineStatusV1M_RegisterPoolMemberID i\<rparr>)
     (loadPair (loadSlice kCondition readPure)
         (loadPair (loadSlice kMachineAddress readPure)
         (loadSlice kString readPure))
       (OVHMachineStatusV1M_Conditions i, OVHMachineStatusV1M_Addresses i,
        OVHMachineStatusV1M_VolumeIDs i))"

definition OVHMachineV1_load ::
    "OVHMachineV1M
      \<Rightarrow> (v1alpha1 cell, TypeMeta \<times> OVHMachineV1) reading" where
  "OVHMachineV1_load i =
     readMap (\<lambda>(objectMeta, spec, status).
       (OVHMachineV1M_TypeMeta i,
        \<lparr>OVHMachineV1_ObjectMeta = objectMeta, OVHMachineV1_Spec = spec,
        OVHMachineV1_Status = status\<rparr>))
     (loadPair ObjectMeta_load
         (loadPair OVHMachineSpecV1_load
         OVHMachineStatusV1_load)
       (OVHMachineV1M_ObjectMeta i, OVHMachineV1M_Spec i, OVHMachineV1M_Status i))"

definition OVHMachineListV1_load ::
    "OVHMachineListV1M
      \<Rightarrow> (v1alpha1 cell, TypeMeta \<times> TypeMeta list \<times> OVHMachineListV1) reading" where
  "OVHMachineListV1_load i =
     readMap (\<lambda>(listMeta, items).
       (OVHMachineListV1M_TypeMeta i, map fst items,
        \<lparr>OVHMachineListV1_ListMeta = listMeta, OVHMachineListV1_Items = map snd items\<rparr>))
     (loadPair readPure
         (loadSlice kOVHMachineV1 OVHMachineV1_load)
       (OVHMachineListV1M_ListMeta i, OVHMachineListV1M_Items i))"

definition OVHMachineTemplateResourceV1_load ::
    "OVHMachineTemplateResourceV1M
      \<Rightarrow> (v1alpha1 cell, OVHMachineTemplateResourceV1) reading" where
  "OVHMachineTemplateResourceV1_load i =
     readMap (\<lambda>(objectMeta, spec).
       \<lparr>OVHMachineTemplateResourceV1_ObjectMeta = objectMeta,
        OVHMachineTemplateResourceV1_Spec = spec\<rparr>)
     (loadPair TemplateMeta_load
         OVHMachineSpecV1_load
       (OVHMachineTemplateResourceV1M_ObjectMeta i, OVHMachineTemplateResourceV1M_Spec i))"

definition OVHMachineTemplateSpecV1_load ::
    "OVHMachineTemplateSpecV1M
      \<Rightarrow> (v1alpha1 cell, OVHMachineTemplateSpecV1) reading" where
  "OVHMachineTemplateSpecV1_load i =
     readMap (\<lambda>template.
       \<lparr>OVHMachineTemplateSpecV1_Template = template\<rparr>)
     (OVHMachineTemplateResourceV1_load
       (OVHMachineTemplateSpecV1M_Template i))"

definition OVHMachineTemplateV1_load ::
    "OVHMachineTemplateV1M
      \<Rightarrow> (v1alpha1 cell, TypeMeta \<times> OVHMachineTemplateV1) reading" where
  "OVHMachineTemplateV1_load i =
     readMap (\<lambda>(objectMeta, spec).
       (OVHMachineTemplateV1M_TypeMeta i,
        \<lparr>OVHMachineTemplateV1_ObjectMeta = objectMeta, OVHMachineTemplateV1_Spec = spec\<rparr>))
     (loadPair ObjectMeta_load
         OVHMachineTemplateSpecV1_load
       (OVHMachineTemplateV1M_ObjectMeta i, OVHMachineTemplateV1M_Spec i))"

definition OVHMachineTemplateListV1_load ::
    "OVHMachineTemplateListV1M
      \<Rightarrow> (v1alpha1 cell, TypeMeta \<times> TypeMeta list \<times> OVHMachineTemplateListV1) reading" where
  "OVHMachineTemplateListV1_load i =
     readMap (\<lambda>(listMeta, items).
       (OVHMachineTemplateListV1M_TypeMeta i, map fst items,
        \<lparr>OVHMachineTemplateListV1_ListMeta = listMeta,
        OVHMachineTemplateListV1_Items = map snd items\<rparr>))
     (loadPair readPure
         (loadSlice kOVHMachineTemplateV1 OVHMachineTemplateV1_load)
       (OVHMachineTemplateListV1M_ListMeta i, OVHMachineTemplateListV1M_Items i))"

end
