(* ===== verification/Deep_Copies_V1.thy ===== *)
theory Deep_Copies_V1
  imports Structs_V1
begin

text \<open>
  \<^verbatim>\<open>api/v1alpha1/zz_generated.deepcopy.go\<close>, as in \<open>Deep_Copies\<close>.
\<close>

section \<open>Deep copies\<close>

definition InitializationV1_DeepCopyInto ::
    "InitializationV1
      \<Rightarrow> (v1alpha1 cell, InitializationV1) copying" where
  "InitializationV1_DeepCopyInto i = do {
     let out = i;
     State_Monad.return out
   }"

definition OVHListenerV1_DeepCopyInto ::
    "OVHListenerV1
      \<Rightarrow> (v1alpha1 cell, OVHListenerV1) copying" where
  "OVHListenerV1_DeepCopyInto i = do {
     let out = i;
     State_Monad.return out
   }"

definition OVHLoadBalancerConfigV1_DeepCopyInto ::
    "OVHLoadBalancerConfigV1M
      \<Rightarrow> (v1alpha1 cell, OVHLoadBalancerConfigV1M) copying" where
  "OVHLoadBalancerConfigV1_DeepCopyInto i = do {
     let out = i;
     listeners \<leftarrow> makeCopy kOVHListenerV1 zero_OVHListenerV1 (OVHLoadBalancerConfigV1M_Listeners i);
     let out = out\<lparr>OVHLoadBalancerConfigV1M_Listeners := listeners\<rparr>;
     State_Monad.return out
   }"

definition OVHNetworkConfigV1_DeepCopyInto ::
    "OVHNetworkConfigV1M
      \<Rightarrow> (v1alpha1 cell, OVHNetworkConfigV1M) copying" where
  "OVHNetworkConfigV1_DeepCopyInto i = do {
     let out = i;
     dnsServers \<leftarrow> makeCopy kString '''' (OVHNetworkConfigV1M_DNSServers i);
     let out = out\<lparr>OVHNetworkConfigV1M_DNSServers := dnsServers\<rparr>;
     State_Monad.return out
   }"

definition SecretKeyV1_DeepCopyInto ::
    "SecretKeyV1
      \<Rightarrow> (v1alpha1 cell, SecretKeyV1) copying" where
  "SecretKeyV1_DeepCopyInto i = do {
     let out = i;
     State_Monad.return out
   }"

definition OVHClusterSpecV1_DeepCopyInto ::
    "OVHClusterSpecV1M
      \<Rightarrow> (v1alpha1 cell, OVHClusterSpecV1M) copying" where
  "OVHClusterSpecV1_DeepCopyInto i = do {
     let out = i;
     let out = out\<lparr>OVHClusterSpecV1M_IdentitySecret := OVHClusterSpecV1M_IdentitySecret i\<rparr>;
     let out = out\<lparr>OVHClusterSpecV1M_ControlPlaneEndpoint := OVHClusterSpecV1M_ControlPlaneEndpoint i\<rparr>;
     loadBalancerConfig \<leftarrow> OVHLoadBalancerConfigV1_DeepCopyInto (OVHClusterSpecV1M_LoadBalancerConfig i);
     let out = out\<lparr>OVHClusterSpecV1M_LoadBalancerConfig := loadBalancerConfig\<rparr>;
     networkConfig \<leftarrow> newDeepCopy kOVHNetworkConfigV1 zero_OVHNetworkConfigV1M OVHNetworkConfigV1_DeepCopyInto
       (OVHClusterSpecV1M_NetworkConfig i);
     let out = out\<lparr>OVHClusterSpecV1M_NetworkConfig := networkConfig\<rparr>;
     State_Monad.return out
   }"

definition OVHClusterStatusV1_DeepCopyInto ::
    "v1alpha1 library \<Rightarrow> OVHClusterStatusV1M
      \<Rightarrow> (v1alpha1 cell, OVHClusterStatusV1M) copying" where
  "OVHClusterStatusV1_DeepCopyInto lib i = do {
     let out = i;
     conditions \<leftarrow> makeDeepCopy kCondition (zero_Condition lib) (Condition_DeepCopyInto lib)
       (OVHClusterStatusV1M_Conditions i);
     let out = out\<lparr>OVHClusterStatusV1M_Conditions := conditions\<rparr>;
     State_Monad.return out
   }"

definition OVHClusterV1_DeepCopyInto ::
    "v1alpha1 library \<Rightarrow> OVHClusterV1M
      \<Rightarrow> (v1alpha1 cell, OVHClusterV1M) copying" where
  "OVHClusterV1_DeepCopyInto lib i = do {
     let out = i;
     let out = out\<lparr>OVHClusterV1M_TypeMeta := OVHClusterV1M_TypeMeta i\<rparr>;
     objectMeta \<leftarrow> ObjectMeta_DeepCopyInto lib (OVHClusterV1M_ObjectMeta i);
     let out = out\<lparr>OVHClusterV1M_ObjectMeta := objectMeta\<rparr>;
     spec \<leftarrow> OVHClusterSpecV1_DeepCopyInto (OVHClusterV1M_Spec i);
     let out = out\<lparr>OVHClusterV1M_Spec := spec\<rparr>;
     status \<leftarrow> OVHClusterStatusV1_DeepCopyInto lib (OVHClusterV1M_Status i);
     let out = out\<lparr>OVHClusterV1M_Status := status\<rparr>;
     State_Monad.return out
   }"

definition OVHClusterListV1_DeepCopyInto ::
    "v1alpha1 library \<Rightarrow> OVHClusterListV1M
      \<Rightarrow> (v1alpha1 cell, OVHClusterListV1M) copying" where
  "OVHClusterListV1_DeepCopyInto lib i = do {
     let out = i;
     let out = out\<lparr>OVHClusterListV1M_TypeMeta := OVHClusterListV1M_TypeMeta i\<rparr>;
     listMeta \<leftarrow> ListMeta_DeepCopyInto lib (OVHClusterListV1M_ListMeta i);
     let out = out\<lparr>OVHClusterListV1M_ListMeta := listMeta\<rparr>;
     items \<leftarrow> makeDeepCopy kOVHClusterV1 zero_OVHClusterV1M (OVHClusterV1_DeepCopyInto lib)
       (OVHClusterListV1M_Items i);
     let out = out\<lparr>OVHClusterListV1M_Items := items\<rparr>;
     State_Monad.return out
   }"

definition OVHClusterTemplateResourceV1_DeepCopyInto ::
    "v1alpha1 library \<Rightarrow> OVHClusterTemplateResourceV1M
      \<Rightarrow> (v1alpha1 cell, OVHClusterTemplateResourceV1M) copying" where
  "OVHClusterTemplateResourceV1_DeepCopyInto lib i = do {
     let out = i;
     objectMeta \<leftarrow> TemplateMeta_DeepCopyInto lib (OVHClusterTemplateResourceV1M_ObjectMeta i);
     let out = out\<lparr>OVHClusterTemplateResourceV1M_ObjectMeta := objectMeta\<rparr>;
     spec \<leftarrow> OVHClusterSpecV1_DeepCopyInto (OVHClusterTemplateResourceV1M_Spec i);
     let out = out\<lparr>OVHClusterTemplateResourceV1M_Spec := spec\<rparr>;
     State_Monad.return out
   }"

definition OVHClusterTemplateSpecV1_DeepCopyInto ::
    "v1alpha1 library \<Rightarrow> OVHClusterTemplateSpecV1M
      \<Rightarrow> (v1alpha1 cell, OVHClusterTemplateSpecV1M) copying" where
  "OVHClusterTemplateSpecV1_DeepCopyInto lib i = do {
     let out = i;
     template \<leftarrow> OVHClusterTemplateResourceV1_DeepCopyInto lib (OVHClusterTemplateSpecV1M_Template i);
     let out = out\<lparr>OVHClusterTemplateSpecV1M_Template := template\<rparr>;
     State_Monad.return out
   }"

definition OVHClusterTemplateV1_DeepCopyInto ::
    "v1alpha1 library \<Rightarrow> OVHClusterTemplateV1M
      \<Rightarrow> (v1alpha1 cell, OVHClusterTemplateV1M) copying" where
  "OVHClusterTemplateV1_DeepCopyInto lib i = do {
     let out = i;
     let out = out\<lparr>OVHClusterTemplateV1M_TypeMeta := OVHClusterTemplateV1M_TypeMeta i\<rparr>;
     objectMeta \<leftarrow> ObjectMeta_DeepCopyInto lib (OVHClusterTemplateV1M_ObjectMeta i);
     let out = out\<lparr>OVHClusterTemplateV1M_ObjectMeta := objectMeta\<rparr>;
     spec \<leftarrow> OVHClusterTemplateSpecV1_DeepCopyInto lib (OVHClusterTemplateV1M_Spec i);
     let out = out\<lparr>OVHClusterTemplateV1M_Spec := spec\<rparr>;
     State_Monad.return out
   }"

definition OVHClusterTemplateListV1_DeepCopyInto ::
    "v1alpha1 library \<Rightarrow> OVHClusterTemplateListV1M
      \<Rightarrow> (v1alpha1 cell, OVHClusterTemplateListV1M) copying" where
  "OVHClusterTemplateListV1_DeepCopyInto lib i = do {
     let out = i;
     let out = out\<lparr>OVHClusterTemplateListV1M_TypeMeta := OVHClusterTemplateListV1M_TypeMeta i\<rparr>;
     listMeta \<leftarrow> ListMeta_DeepCopyInto lib (OVHClusterTemplateListV1M_ListMeta i);
     let out = out\<lparr>OVHClusterTemplateListV1M_ListMeta := listMeta\<rparr>;
     items \<leftarrow> makeDeepCopy kOVHClusterTemplateV1 zero_OVHClusterTemplateV1M (OVHClusterTemplateV1_DeepCopyInto lib)
       (OVHClusterTemplateListV1M_Items i);
     let out = out\<lparr>OVHClusterTemplateListV1M_Items := items\<rparr>;
     State_Monad.return out
   }"

definition OVHClusterValidatorV1_DeepCopyInto ::
    "unit
      \<Rightarrow> (v1alpha1 cell, unit) copying" where
  "OVHClusterValidatorV1_DeepCopyInto i = do {
     let out = i;
     State_Monad.return out
   }"

definition OVHVolumeV1_DeepCopyInto ::
    "OVHVolumeV1
      \<Rightarrow> (v1alpha1 cell, OVHVolumeV1) copying" where
  "OVHVolumeV1_DeepCopyInto i = do {
     let out = i;
     State_Monad.return out
   }"

definition OVHMachineSpecV1_DeepCopyInto ::
    "OVHMachineSpecV1M
      \<Rightarrow> (v1alpha1 cell, OVHMachineSpecV1M) copying" where
  "OVHMachineSpecV1_DeepCopyInto i = do {
     let out = i;
     additionalVolumes \<leftarrow> makeCopy kOVHVolumeV1 zero_OVHVolumeV1 (OVHMachineSpecV1M_AdditionalVolumes i);
     let out = out\<lparr>OVHMachineSpecV1M_AdditionalVolumes := additionalVolumes\<rparr>;
     State_Monad.return out
   }"

definition OVHMachineStatusV1_DeepCopyInto ::
    "v1alpha1 library \<Rightarrow> OVHMachineStatusV1M
      \<Rightarrow> (v1alpha1 cell, OVHMachineStatusV1M) copying" where
  "OVHMachineStatusV1_DeepCopyInto lib i = do {
     let out = i;
     conditions \<leftarrow> makeDeepCopy kCondition (zero_Condition lib) (Condition_DeepCopyInto lib)
       (OVHMachineStatusV1M_Conditions i);
     let out = out\<lparr>OVHMachineStatusV1M_Conditions := conditions\<rparr>;
     addresses \<leftarrow> makeCopy kMachineAddress zero_MachineAddress (OVHMachineStatusV1M_Addresses i);
     let out = out\<lparr>OVHMachineStatusV1M_Addresses := addresses\<rparr>;
     let out = out\<lparr>OVHMachineStatusV1M_Initialization := OVHMachineStatusV1M_Initialization i\<rparr>;
     volumeIDs \<leftarrow> makeCopy kString '''' (OVHMachineStatusV1M_VolumeIDs i);
     let out = out\<lparr>OVHMachineStatusV1M_VolumeIDs := volumeIDs\<rparr>;
     State_Monad.return out
   }"

definition OVHMachineV1_DeepCopyInto ::
    "v1alpha1 library \<Rightarrow> OVHMachineV1M
      \<Rightarrow> (v1alpha1 cell, OVHMachineV1M) copying" where
  "OVHMachineV1_DeepCopyInto lib i = do {
     let out = i;
     let out = out\<lparr>OVHMachineV1M_TypeMeta := OVHMachineV1M_TypeMeta i\<rparr>;
     objectMeta \<leftarrow> ObjectMeta_DeepCopyInto lib (OVHMachineV1M_ObjectMeta i);
     let out = out\<lparr>OVHMachineV1M_ObjectMeta := objectMeta\<rparr>;
     spec \<leftarrow> OVHMachineSpecV1_DeepCopyInto (OVHMachineV1M_Spec i);
     let out = out\<lparr>OVHMachineV1M_Spec := spec\<rparr>;
     status \<leftarrow> OVHMachineStatusV1_DeepCopyInto lib (OVHMachineV1M_Status i);
     let out = out\<lparr>OVHMachineV1M_Status := status\<rparr>;
     State_Monad.return out
   }"

definition OVHMachineListV1_DeepCopyInto ::
    "v1alpha1 library \<Rightarrow> OVHMachineListV1M
      \<Rightarrow> (v1alpha1 cell, OVHMachineListV1M) copying" where
  "OVHMachineListV1_DeepCopyInto lib i = do {
     let out = i;
     let out = out\<lparr>OVHMachineListV1M_TypeMeta := OVHMachineListV1M_TypeMeta i\<rparr>;
     listMeta \<leftarrow> ListMeta_DeepCopyInto lib (OVHMachineListV1M_ListMeta i);
     let out = out\<lparr>OVHMachineListV1M_ListMeta := listMeta\<rparr>;
     items \<leftarrow> makeDeepCopy kOVHMachineV1 zero_OVHMachineV1M (OVHMachineV1_DeepCopyInto lib)
       (OVHMachineListV1M_Items i);
     let out = out\<lparr>OVHMachineListV1M_Items := items\<rparr>;
     State_Monad.return out
   }"

definition OVHMachineTemplateResourceV1_DeepCopyInto ::
    "v1alpha1 library \<Rightarrow> OVHMachineTemplateResourceV1M
      \<Rightarrow> (v1alpha1 cell, OVHMachineTemplateResourceV1M) copying" where
  "OVHMachineTemplateResourceV1_DeepCopyInto lib i = do {
     let out = i;
     objectMeta \<leftarrow> TemplateMeta_DeepCopyInto lib (OVHMachineTemplateResourceV1M_ObjectMeta i);
     let out = out\<lparr>OVHMachineTemplateResourceV1M_ObjectMeta := objectMeta\<rparr>;
     spec \<leftarrow> OVHMachineSpecV1_DeepCopyInto (OVHMachineTemplateResourceV1M_Spec i);
     let out = out\<lparr>OVHMachineTemplateResourceV1M_Spec := spec\<rparr>;
     State_Monad.return out
   }"

definition OVHMachineTemplateSpecV1_DeepCopyInto ::
    "v1alpha1 library \<Rightarrow> OVHMachineTemplateSpecV1M
      \<Rightarrow> (v1alpha1 cell, OVHMachineTemplateSpecV1M) copying" where
  "OVHMachineTemplateSpecV1_DeepCopyInto lib i = do {
     let out = i;
     template \<leftarrow> OVHMachineTemplateResourceV1_DeepCopyInto lib (OVHMachineTemplateSpecV1M_Template i);
     let out = out\<lparr>OVHMachineTemplateSpecV1M_Template := template\<rparr>;
     State_Monad.return out
   }"

definition OVHMachineTemplateV1_DeepCopyInto ::
    "v1alpha1 library \<Rightarrow> OVHMachineTemplateV1M
      \<Rightarrow> (v1alpha1 cell, OVHMachineTemplateV1M) copying" where
  "OVHMachineTemplateV1_DeepCopyInto lib i = do {
     let out = i;
     let out = out\<lparr>OVHMachineTemplateV1M_TypeMeta := OVHMachineTemplateV1M_TypeMeta i\<rparr>;
     objectMeta \<leftarrow> ObjectMeta_DeepCopyInto lib (OVHMachineTemplateV1M_ObjectMeta i);
     let out = out\<lparr>OVHMachineTemplateV1M_ObjectMeta := objectMeta\<rparr>;
     spec \<leftarrow> OVHMachineTemplateSpecV1_DeepCopyInto lib (OVHMachineTemplateV1M_Spec i);
     let out = out\<lparr>OVHMachineTemplateV1M_Spec := spec\<rparr>;
     State_Monad.return out
   }"

definition OVHMachineTemplateListV1_DeepCopyInto ::
    "v1alpha1 library \<Rightarrow> OVHMachineTemplateListV1M
      \<Rightarrow> (v1alpha1 cell, OVHMachineTemplateListV1M) copying" where
  "OVHMachineTemplateListV1_DeepCopyInto lib i = do {
     let out = i;
     let out = out\<lparr>OVHMachineTemplateListV1M_TypeMeta := OVHMachineTemplateListV1M_TypeMeta i\<rparr>;
     listMeta \<leftarrow> ListMeta_DeepCopyInto lib (OVHMachineTemplateListV1M_ListMeta i);
     let out = out\<lparr>OVHMachineTemplateListV1M_ListMeta := listMeta\<rparr>;
     items \<leftarrow> makeDeepCopy kOVHMachineTemplateV1 zero_OVHMachineTemplateV1M (OVHMachineTemplateV1_DeepCopyInto lib)
       (OVHMachineTemplateListV1M_Items i);
     let out = out\<lparr>OVHMachineTemplateListV1M_Items := items\<rparr>;
     State_Monad.return out
   }"

definition OVHMachineValidatorV1_DeepCopyInto ::
    "unit
      \<Rightarrow> (v1alpha1 cell, unit) copying" where
  "OVHMachineValidatorV1_DeepCopyInto i = do {
     let out = i;
     State_Monad.return out
   }"

text \<open>\<^verbatim>\<open>DeepCopy\<close>: nil for nil, otherwise a new struct that \<^verbatim>\<open>DeepCopyInto\<close> fills.\<close>

definition InitializationV1_DeepCopy ::
    "addr option
      \<Rightarrow> (v1alpha1 cell, addr option) copying" where
  "InitializationV1_DeepCopy p = newDeepCopy kInitializationV1 zero_InitializationV1 InitializationV1_DeepCopyInto p"

definition OVHListenerV1_DeepCopy ::
    "addr option
      \<Rightarrow> (v1alpha1 cell, addr option) copying" where
  "OVHListenerV1_DeepCopy p = newDeepCopy kOVHListenerV1 zero_OVHListenerV1 OVHListenerV1_DeepCopyInto p"

definition OVHLoadBalancerConfigV1_DeepCopy ::
    "addr option
      \<Rightarrow> (v1alpha1 cell, addr option) copying" where
  "OVHLoadBalancerConfigV1_DeepCopy p = newDeepCopy kOVHLoadBalancerConfigV1 zero_OVHLoadBalancerConfigV1M OVHLoadBalancerConfigV1_DeepCopyInto p"

definition OVHNetworkConfigV1_DeepCopy ::
    "addr option
      \<Rightarrow> (v1alpha1 cell, addr option) copying" where
  "OVHNetworkConfigV1_DeepCopy p = newDeepCopy kOVHNetworkConfigV1 zero_OVHNetworkConfigV1M OVHNetworkConfigV1_DeepCopyInto p"

definition SecretKeyV1_DeepCopy ::
    "addr option
      \<Rightarrow> (v1alpha1 cell, addr option) copying" where
  "SecretKeyV1_DeepCopy p = newDeepCopy kSecretKeyV1 zero_SecretKeyV1 SecretKeyV1_DeepCopyInto p"

definition OVHClusterSpecV1_DeepCopy ::
    "addr option
      \<Rightarrow> (v1alpha1 cell, addr option) copying" where
  "OVHClusterSpecV1_DeepCopy p = newDeepCopy kOVHClusterSpecV1 zero_OVHClusterSpecV1M OVHClusterSpecV1_DeepCopyInto p"

definition OVHClusterStatusV1_DeepCopy ::
    "v1alpha1 library \<Rightarrow> addr option
      \<Rightarrow> (v1alpha1 cell, addr option) copying" where
  "OVHClusterStatusV1_DeepCopy lib p = newDeepCopy kOVHClusterStatusV1 zero_OVHClusterStatusV1M (OVHClusterStatusV1_DeepCopyInto lib) p"

definition OVHClusterV1_DeepCopy ::
    "v1alpha1 library \<Rightarrow> addr option
      \<Rightarrow> (v1alpha1 cell, addr option) copying" where
  "OVHClusterV1_DeepCopy lib p = newDeepCopy kOVHClusterV1 zero_OVHClusterV1M (OVHClusterV1_DeepCopyInto lib) p"

definition OVHClusterListV1_DeepCopy ::
    "v1alpha1 library \<Rightarrow> addr option
      \<Rightarrow> (v1alpha1 cell, addr option) copying" where
  "OVHClusterListV1_DeepCopy lib p = newDeepCopy kOVHClusterListV1 zero_OVHClusterListV1M (OVHClusterListV1_DeepCopyInto lib) p"

definition OVHClusterTemplateResourceV1_DeepCopy ::
    "v1alpha1 library \<Rightarrow> addr option
      \<Rightarrow> (v1alpha1 cell, addr option) copying" where
  "OVHClusterTemplateResourceV1_DeepCopy lib p = newDeepCopy kOVHClusterTemplateResourceV1 zero_OVHClusterTemplateResourceV1M (OVHClusterTemplateResourceV1_DeepCopyInto lib) p"

definition OVHClusterTemplateSpecV1_DeepCopy ::
    "v1alpha1 library \<Rightarrow> addr option
      \<Rightarrow> (v1alpha1 cell, addr option) copying" where
  "OVHClusterTemplateSpecV1_DeepCopy lib p = newDeepCopy kOVHClusterTemplateSpecV1 zero_OVHClusterTemplateSpecV1M (OVHClusterTemplateSpecV1_DeepCopyInto lib) p"

definition OVHClusterTemplateV1_DeepCopy ::
    "v1alpha1 library \<Rightarrow> addr option
      \<Rightarrow> (v1alpha1 cell, addr option) copying" where
  "OVHClusterTemplateV1_DeepCopy lib p = newDeepCopy kOVHClusterTemplateV1 zero_OVHClusterTemplateV1M (OVHClusterTemplateV1_DeepCopyInto lib) p"

definition OVHClusterTemplateListV1_DeepCopy ::
    "v1alpha1 library \<Rightarrow> addr option
      \<Rightarrow> (v1alpha1 cell, addr option) copying" where
  "OVHClusterTemplateListV1_DeepCopy lib p = newDeepCopy kOVHClusterTemplateListV1 zero_OVHClusterTemplateListV1M (OVHClusterTemplateListV1_DeepCopyInto lib) p"

definition OVHClusterValidatorV1_DeepCopy ::
    "addr option
      \<Rightarrow> (v1alpha1 cell, addr option) copying" where
  "OVHClusterValidatorV1_DeepCopy p = newDeepCopy kOVHClusterValidatorV1 () OVHClusterValidatorV1_DeepCopyInto p"

definition OVHVolumeV1_DeepCopy ::
    "addr option
      \<Rightarrow> (v1alpha1 cell, addr option) copying" where
  "OVHVolumeV1_DeepCopy p = newDeepCopy kOVHVolumeV1 zero_OVHVolumeV1 OVHVolumeV1_DeepCopyInto p"

definition OVHMachineSpecV1_DeepCopy ::
    "addr option
      \<Rightarrow> (v1alpha1 cell, addr option) copying" where
  "OVHMachineSpecV1_DeepCopy p = newDeepCopy kOVHMachineSpecV1 zero_OVHMachineSpecV1M OVHMachineSpecV1_DeepCopyInto p"

definition OVHMachineStatusV1_DeepCopy ::
    "v1alpha1 library \<Rightarrow> addr option
      \<Rightarrow> (v1alpha1 cell, addr option) copying" where
  "OVHMachineStatusV1_DeepCopy lib p = newDeepCopy kOVHMachineStatusV1 zero_OVHMachineStatusV1M (OVHMachineStatusV1_DeepCopyInto lib) p"

definition OVHMachineV1_DeepCopy ::
    "v1alpha1 library \<Rightarrow> addr option
      \<Rightarrow> (v1alpha1 cell, addr option) copying" where
  "OVHMachineV1_DeepCopy lib p = newDeepCopy kOVHMachineV1 zero_OVHMachineV1M (OVHMachineV1_DeepCopyInto lib) p"

definition OVHMachineListV1_DeepCopy ::
    "v1alpha1 library \<Rightarrow> addr option
      \<Rightarrow> (v1alpha1 cell, addr option) copying" where
  "OVHMachineListV1_DeepCopy lib p = newDeepCopy kOVHMachineListV1 zero_OVHMachineListV1M (OVHMachineListV1_DeepCopyInto lib) p"

definition OVHMachineTemplateResourceV1_DeepCopy ::
    "v1alpha1 library \<Rightarrow> addr option
      \<Rightarrow> (v1alpha1 cell, addr option) copying" where
  "OVHMachineTemplateResourceV1_DeepCopy lib p = newDeepCopy kOVHMachineTemplateResourceV1 zero_OVHMachineTemplateResourceV1M (OVHMachineTemplateResourceV1_DeepCopyInto lib) p"

definition OVHMachineTemplateSpecV1_DeepCopy ::
    "v1alpha1 library \<Rightarrow> addr option
      \<Rightarrow> (v1alpha1 cell, addr option) copying" where
  "OVHMachineTemplateSpecV1_DeepCopy lib p = newDeepCopy kOVHMachineTemplateSpecV1 zero_OVHMachineTemplateSpecV1M (OVHMachineTemplateSpecV1_DeepCopyInto lib) p"

definition OVHMachineTemplateV1_DeepCopy ::
    "v1alpha1 library \<Rightarrow> addr option
      \<Rightarrow> (v1alpha1 cell, addr option) copying" where
  "OVHMachineTemplateV1_DeepCopy lib p = newDeepCopy kOVHMachineTemplateV1 zero_OVHMachineTemplateV1M (OVHMachineTemplateV1_DeepCopyInto lib) p"

definition OVHMachineTemplateListV1_DeepCopy ::
    "v1alpha1 library \<Rightarrow> addr option
      \<Rightarrow> (v1alpha1 cell, addr option) copying" where
  "OVHMachineTemplateListV1_DeepCopy lib p = newDeepCopy kOVHMachineTemplateListV1 zero_OVHMachineTemplateListV1M (OVHMachineTemplateListV1_DeepCopyInto lib) p"

definition OVHMachineValidatorV1_DeepCopy ::
    "addr option
      \<Rightarrow> (v1alpha1 cell, addr option) copying" where
  "OVHMachineValidatorV1_DeepCopy p = newDeepCopy kOVHMachineValidatorV1 () OVHMachineValidatorV1_DeepCopyInto p"

text \<open>\<^verbatim>\<open>DeepCopyObject\<close>: the copy as a \<^verbatim>\<open>runtime.Object\<close>.\<close>

definition OVHClusterV1_DeepCopyObject ::
    "v1alpha1 library \<Rightarrow> addr option
      \<Rightarrow> (v1alpha1 cell, Object) copying" where
  "OVHClusterV1_DeepCopyObject lib p = do {
     c \<leftarrow> OVHClusterV1_DeepCopy lib p;
     State_Monad.return (case c of None \<Rightarrow> None | Some a \<Rightarrow> Some (''*v1alpha1.OVHCluster'', a))
   }"

definition OVHClusterListV1_DeepCopyObject ::
    "v1alpha1 library \<Rightarrow> addr option
      \<Rightarrow> (v1alpha1 cell, Object) copying" where
  "OVHClusterListV1_DeepCopyObject lib p = do {
     c \<leftarrow> OVHClusterListV1_DeepCopy lib p;
     State_Monad.return (case c of None \<Rightarrow> None | Some a \<Rightarrow> Some (''*v1alpha1.OVHClusterList'', a))
   }"

definition OVHClusterTemplateV1_DeepCopyObject ::
    "v1alpha1 library \<Rightarrow> addr option
      \<Rightarrow> (v1alpha1 cell, Object) copying" where
  "OVHClusterTemplateV1_DeepCopyObject lib p = do {
     c \<leftarrow> OVHClusterTemplateV1_DeepCopy lib p;
     State_Monad.return (case c of None \<Rightarrow> None | Some a \<Rightarrow> Some (''*v1alpha1.OVHClusterTemplate'', a))
   }"

definition OVHClusterTemplateListV1_DeepCopyObject ::
    "v1alpha1 library \<Rightarrow> addr option
      \<Rightarrow> (v1alpha1 cell, Object) copying" where
  "OVHClusterTemplateListV1_DeepCopyObject lib p = do {
     c \<leftarrow> OVHClusterTemplateListV1_DeepCopy lib p;
     State_Monad.return (case c of None \<Rightarrow> None | Some a \<Rightarrow> Some (''*v1alpha1.OVHClusterTemplateList'', a))
   }"

definition OVHMachineV1_DeepCopyObject ::
    "v1alpha1 library \<Rightarrow> addr option
      \<Rightarrow> (v1alpha1 cell, Object) copying" where
  "OVHMachineV1_DeepCopyObject lib p = do {
     c \<leftarrow> OVHMachineV1_DeepCopy lib p;
     State_Monad.return (case c of None \<Rightarrow> None | Some a \<Rightarrow> Some (''*v1alpha1.OVHMachine'', a))
   }"

definition OVHMachineListV1_DeepCopyObject ::
    "v1alpha1 library \<Rightarrow> addr option
      \<Rightarrow> (v1alpha1 cell, Object) copying" where
  "OVHMachineListV1_DeepCopyObject lib p = do {
     c \<leftarrow> OVHMachineListV1_DeepCopy lib p;
     State_Monad.return (case c of None \<Rightarrow> None | Some a \<Rightarrow> Some (''*v1alpha1.OVHMachineList'', a))
   }"

definition OVHMachineTemplateV1_DeepCopyObject ::
    "v1alpha1 library \<Rightarrow> addr option
      \<Rightarrow> (v1alpha1 cell, Object) copying" where
  "OVHMachineTemplateV1_DeepCopyObject lib p = do {
     c \<leftarrow> OVHMachineTemplateV1_DeepCopy lib p;
     State_Monad.return (case c of None \<Rightarrow> None | Some a \<Rightarrow> Some (''*v1alpha1.OVHMachineTemplate'', a))
   }"

definition OVHMachineTemplateListV1_DeepCopyObject ::
    "v1alpha1 library \<Rightarrow> addr option
      \<Rightarrow> (v1alpha1 cell, Object) copying" where
  "OVHMachineTemplateListV1_DeepCopyObject lib p = do {
     c \<leftarrow> OVHMachineTemplateListV1_DeepCopy lib p;
     State_Monad.return (case c of None \<Rightarrow> None | Some a \<Rightarrow> Some (''*v1alpha1.OVHMachineTemplateList'', a))
   }"

section \<open>Every deep copy keeps its contract\<close>

interpretation InitializationV1: element kInitializationV1 readPure InitializationV1_DeepCopyInto
  by (intro element.intro kInitializationV1.storable_axioms copier_same)
    (simp add: InitializationV1_DeepCopyInto_def)

interpretation OVHListenerV1: element kOVHListenerV1 readPure OVHListenerV1_DeepCopyInto
  by (intro element.intro kOVHListenerV1.storable_axioms copier_same)
    (simp add: OVHListenerV1_DeepCopyInto_def)

interpretation OVHLoadBalancerConfigV1: element kOVHLoadBalancerConfigV1 OVHLoadBalancerConfigV1_load OVHLoadBalancerConfigV1_DeepCopyInto
proof (rule element.intro [OF kOVHLoadBalancerConfigV1.storable_axioms])
  show "copier OVHLoadBalancerConfigV1_load OVHLoadBalancerConfigV1_DeepCopyInto"
    by (rule copier_struct [where
        dest = "\<lambda>i. (OVHLoadBalancerConfigV1M_Listeners i)"
        and put = "\<lambda>i x1.
          i\<lparr>OVHLoadBalancerConfigV1M_Listeners := x1\<rparr>",
        OF kOVHListenerV1.flat_slices
        OVHLoadBalancerConfigV1_load_def])
      (auto simp: OVHLoadBalancerConfigV1_DeepCopyInto_def Let_def)
qed

interpretation OVHNetworkConfigV1: element kOVHNetworkConfigV1 OVHNetworkConfigV1_load OVHNetworkConfigV1_DeepCopyInto
proof (rule element.intro [OF kOVHNetworkConfigV1.storable_axioms])
  show "copier OVHNetworkConfigV1_load OVHNetworkConfigV1_DeepCopyInto"
    by (rule copier_struct [where
        dest = "\<lambda>i. (OVHNetworkConfigV1M_DNSServers i)"
        and put = "\<lambda>i x1.
          i\<lparr>OVHNetworkConfigV1M_DNSServers := x1\<rparr>",
        OF kString.flat_slices
        OVHNetworkConfigV1_load_def])
      (auto simp: OVHNetworkConfigV1_DeepCopyInto_def Let_def)
qed

interpretation SecretKeyV1: element kSecretKeyV1 readPure SecretKeyV1_DeepCopyInto
  by (intro element.intro kSecretKeyV1.storable_axioms copier_same)
    (simp add: SecretKeyV1_DeepCopyInto_def)

interpretation OVHClusterSpecV1: element kOVHClusterSpecV1 OVHClusterSpecV1_load OVHClusterSpecV1_DeepCopyInto
proof (rule element.intro [OF kOVHClusterSpecV1.storable_axioms])
  show "copier OVHClusterSpecV1_load OVHClusterSpecV1_DeepCopyInto"
    by (rule copier_struct [where
        dest = "\<lambda>i. (OVHClusterSpecV1M_LoadBalancerConfig i, OVHClusterSpecV1M_NetworkConfig i)"
        and put = "\<lambda>i (x1, x2).
          i\<lparr>OVHClusterSpecV1M_LoadBalancerConfig := x1, OVHClusterSpecV1M_NetworkConfig := x2\<rparr>",
        OF copier_pair [OF OVHLoadBalancerConfigV1.copier_axioms
        OVHNetworkConfigV1.pointer]
        OVHClusterSpecV1_load_def])
      (auto simp: OVHClusterSpecV1_DeepCopyInto_def Let_def)
qed

lemma OVHClusterStatusV1_element:
  assumes "documented lib"
  shows "element kOVHClusterStatusV1 OVHClusterStatusV1_load (OVHClusterStatusV1_DeepCopyInto lib)"
proof (rule element.intro [OF kOVHClusterStatusV1.storable_axioms])
  show "copier OVHClusterStatusV1_load (OVHClusterStatusV1_DeepCopyInto lib)"
    by (rule copier_struct [where
        dest = "\<lambda>i. (OVHClusterStatusV1M_Conditions i)"
        and put = "\<lambda>i x1.
          i\<lparr>OVHClusterStatusV1M_Conditions := x1\<rparr>",
        OF documentedD(4) [OF assms]
        OVHClusterStatusV1_load_def])
      (auto simp: OVHClusterStatusV1_DeepCopyInto_def Let_def)
qed

lemma OVHClusterV1_element:
  assumes "documented lib"
  shows "element kOVHClusterV1 OVHClusterV1_load (OVHClusterV1_DeepCopyInto lib)"
proof (rule element.intro [OF kOVHClusterV1.storable_axioms])
  show "copier OVHClusterV1_load (OVHClusterV1_DeepCopyInto lib)"
    by (rule copier_struct [where
        dest = "\<lambda>i. (OVHClusterV1M_ObjectMeta i, OVHClusterV1M_Spec i, OVHClusterV1M_Status i)"
        and put = "\<lambda>i (x1, x2, x3).
          i\<lparr>OVHClusterV1M_ObjectMeta := x1, OVHClusterV1M_Spec := x2, OVHClusterV1M_Status := x3\<rparr>",
        OF copier_pair [OF documentedD(1) [OF assms]
        copier_pair [OF OVHClusterSpecV1.copier_axioms
        element.axioms(2) [OF OVHClusterStatusV1_element [OF assms]]]]
        OVHClusterV1_load_def])
      (auto simp: OVHClusterV1_DeepCopyInto_def Let_def)
qed

lemma OVHClusterListV1_element:
  assumes "documented lib"
  shows "element kOVHClusterListV1 OVHClusterListV1_load (OVHClusterListV1_DeepCopyInto lib)"
proof (rule element.intro [OF kOVHClusterListV1.storable_axioms])
  show "copier OVHClusterListV1_load (OVHClusterListV1_DeepCopyInto lib)"
    by (rule copier_struct [where
        dest = "\<lambda>i. (OVHClusterListV1M_ListMeta i, OVHClusterListV1M_Items i)"
        and put = "\<lambda>i (x1, x2).
          i\<lparr>OVHClusterListV1M_ListMeta := x1, OVHClusterListV1M_Items := x2\<rparr>",
        OF copier_pair [OF documentedD(3) [OF assms]
        element.slices [OF OVHClusterV1_element [OF assms]]]
        OVHClusterListV1_load_def])
      (auto simp: OVHClusterListV1_DeepCopyInto_def Let_def)
qed

lemma OVHClusterTemplateResourceV1_element:
  assumes "documented lib"
  shows "element kOVHClusterTemplateResourceV1 OVHClusterTemplateResourceV1_load (OVHClusterTemplateResourceV1_DeepCopyInto lib)"
proof (rule element.intro [OF kOVHClusterTemplateResourceV1.storable_axioms])
  show "copier OVHClusterTemplateResourceV1_load (OVHClusterTemplateResourceV1_DeepCopyInto lib)"
    by (rule copier_struct [where
        dest = "\<lambda>i. (OVHClusterTemplateResourceV1M_ObjectMeta i, OVHClusterTemplateResourceV1M_Spec i)"
        and put = "\<lambda>i (x1, x2).
          i\<lparr>OVHClusterTemplateResourceV1M_ObjectMeta := x1,
            OVHClusterTemplateResourceV1M_Spec := x2\<rparr>",
        OF copier_pair [OF documentedD(2) [OF assms]
        OVHClusterSpecV1.copier_axioms]
        OVHClusterTemplateResourceV1_load_def])
      (auto simp: OVHClusterTemplateResourceV1_DeepCopyInto_def Let_def)
qed

lemma OVHClusterTemplateSpecV1_element:
  assumes "documented lib"
  shows "element kOVHClusterTemplateSpecV1 OVHClusterTemplateSpecV1_load (OVHClusterTemplateSpecV1_DeepCopyInto lib)"
proof (rule element.intro [OF kOVHClusterTemplateSpecV1.storable_axioms])
  show "copier OVHClusterTemplateSpecV1_load (OVHClusterTemplateSpecV1_DeepCopyInto lib)"
    by (rule copier_struct [where
        dest = "\<lambda>i. (OVHClusterTemplateSpecV1M_Template i)"
        and put = "\<lambda>i x1.
          i\<lparr>OVHClusterTemplateSpecV1M_Template := x1\<rparr>",
        OF element.axioms(2) [OF OVHClusterTemplateResourceV1_element [OF assms]]
        OVHClusterTemplateSpecV1_load_def])
      (auto simp: OVHClusterTemplateSpecV1_DeepCopyInto_def Let_def)
qed

lemma OVHClusterTemplateV1_element:
  assumes "documented lib"
  shows "element kOVHClusterTemplateV1 OVHClusterTemplateV1_load (OVHClusterTemplateV1_DeepCopyInto lib)"
proof (rule element.intro [OF kOVHClusterTemplateV1.storable_axioms])
  show "copier OVHClusterTemplateV1_load (OVHClusterTemplateV1_DeepCopyInto lib)"
    by (rule copier_struct [where
        dest = "\<lambda>i. (OVHClusterTemplateV1M_ObjectMeta i, OVHClusterTemplateV1M_Spec i)"
        and put = "\<lambda>i (x1, x2).
          i\<lparr>OVHClusterTemplateV1M_ObjectMeta := x1, OVHClusterTemplateV1M_Spec := x2\<rparr>",
        OF copier_pair [OF documentedD(1) [OF assms]
        element.axioms(2) [OF OVHClusterTemplateSpecV1_element [OF assms]]]
        OVHClusterTemplateV1_load_def])
      (auto simp: OVHClusterTemplateV1_DeepCopyInto_def Let_def)
qed

lemma OVHClusterTemplateListV1_element:
  assumes "documented lib"
  shows "element kOVHClusterTemplateListV1 OVHClusterTemplateListV1_load (OVHClusterTemplateListV1_DeepCopyInto lib)"
proof (rule element.intro [OF kOVHClusterTemplateListV1.storable_axioms])
  show "copier OVHClusterTemplateListV1_load (OVHClusterTemplateListV1_DeepCopyInto lib)"
    by (rule copier_struct [where
        dest = "\<lambda>i. (OVHClusterTemplateListV1M_ListMeta i, OVHClusterTemplateListV1M_Items i)"
        and put = "\<lambda>i (x1, x2).
          i\<lparr>OVHClusterTemplateListV1M_ListMeta := x1, OVHClusterTemplateListV1M_Items := x2\<rparr>",
        OF copier_pair [OF documentedD(3) [OF assms]
        element.slices [OF OVHClusterTemplateV1_element [OF assms]]]
        OVHClusterTemplateListV1_load_def])
      (auto simp: OVHClusterTemplateListV1_DeepCopyInto_def Let_def)
qed

interpretation OVHClusterValidatorV1: element kOVHClusterValidatorV1 readPure OVHClusterValidatorV1_DeepCopyInto
  by (intro element.intro kOVHClusterValidatorV1.storable_axioms copier_same)
    (simp add: OVHClusterValidatorV1_DeepCopyInto_def)

interpretation OVHVolumeV1: element kOVHVolumeV1 readPure OVHVolumeV1_DeepCopyInto
  by (intro element.intro kOVHVolumeV1.storable_axioms copier_same)
    (simp add: OVHVolumeV1_DeepCopyInto_def)

interpretation OVHMachineSpecV1: element kOVHMachineSpecV1 OVHMachineSpecV1_load OVHMachineSpecV1_DeepCopyInto
proof (rule element.intro [OF kOVHMachineSpecV1.storable_axioms])
  show "copier OVHMachineSpecV1_load OVHMachineSpecV1_DeepCopyInto"
    by (rule copier_struct [where
        dest = "\<lambda>i. (OVHMachineSpecV1M_AdditionalVolumes i)"
        and put = "\<lambda>i x1.
          i\<lparr>OVHMachineSpecV1M_AdditionalVolumes := x1\<rparr>",
        OF kOVHVolumeV1.flat_slices
        OVHMachineSpecV1_load_def])
      (auto simp: OVHMachineSpecV1_DeepCopyInto_def Let_def)
qed

lemma OVHMachineStatusV1_element:
  assumes "documented lib"
  shows "element kOVHMachineStatusV1 OVHMachineStatusV1_load (OVHMachineStatusV1_DeepCopyInto lib)"
proof (rule element.intro [OF kOVHMachineStatusV1.storable_axioms])
  show "copier OVHMachineStatusV1_load (OVHMachineStatusV1_DeepCopyInto lib)"
    by (rule copier_struct [where
        dest = "\<lambda>i. (OVHMachineStatusV1M_Conditions i, OVHMachineStatusV1M_Addresses i,
        OVHMachineStatusV1M_VolumeIDs i)"
        and put = "\<lambda>i (x1, x2, x3).
          i\<lparr>OVHMachineStatusV1M_Conditions := x1, OVHMachineStatusV1M_Addresses := x2,
            OVHMachineStatusV1M_VolumeIDs := x3\<rparr>",
        OF copier_pair [OF documentedD(4) [OF assms]
        copier_pair [OF kMachineAddress.flat_slices
        kString.flat_slices]]
        OVHMachineStatusV1_load_def])
      (auto simp: OVHMachineStatusV1_DeepCopyInto_def Let_def)
qed

lemma OVHMachineV1_element:
  assumes "documented lib"
  shows "element kOVHMachineV1 OVHMachineV1_load (OVHMachineV1_DeepCopyInto lib)"
proof (rule element.intro [OF kOVHMachineV1.storable_axioms])
  show "copier OVHMachineV1_load (OVHMachineV1_DeepCopyInto lib)"
    by (rule copier_struct [where
        dest = "\<lambda>i. (OVHMachineV1M_ObjectMeta i, OVHMachineV1M_Spec i, OVHMachineV1M_Status i)"
        and put = "\<lambda>i (x1, x2, x3).
          i\<lparr>OVHMachineV1M_ObjectMeta := x1, OVHMachineV1M_Spec := x2, OVHMachineV1M_Status := x3\<rparr>",
        OF copier_pair [OF documentedD(1) [OF assms]
        copier_pair [OF OVHMachineSpecV1.copier_axioms
        element.axioms(2) [OF OVHMachineStatusV1_element [OF assms]]]]
        OVHMachineV1_load_def])
      (auto simp: OVHMachineV1_DeepCopyInto_def Let_def)
qed

lemma OVHMachineListV1_element:
  assumes "documented lib"
  shows "element kOVHMachineListV1 OVHMachineListV1_load (OVHMachineListV1_DeepCopyInto lib)"
proof (rule element.intro [OF kOVHMachineListV1.storable_axioms])
  show "copier OVHMachineListV1_load (OVHMachineListV1_DeepCopyInto lib)"
    by (rule copier_struct [where
        dest = "\<lambda>i. (OVHMachineListV1M_ListMeta i, OVHMachineListV1M_Items i)"
        and put = "\<lambda>i (x1, x2).
          i\<lparr>OVHMachineListV1M_ListMeta := x1, OVHMachineListV1M_Items := x2\<rparr>",
        OF copier_pair [OF documentedD(3) [OF assms]
        element.slices [OF OVHMachineV1_element [OF assms]]]
        OVHMachineListV1_load_def])
      (auto simp: OVHMachineListV1_DeepCopyInto_def Let_def)
qed

lemma OVHMachineTemplateResourceV1_element:
  assumes "documented lib"
  shows "element kOVHMachineTemplateResourceV1 OVHMachineTemplateResourceV1_load (OVHMachineTemplateResourceV1_DeepCopyInto lib)"
proof (rule element.intro [OF kOVHMachineTemplateResourceV1.storable_axioms])
  show "copier OVHMachineTemplateResourceV1_load (OVHMachineTemplateResourceV1_DeepCopyInto lib)"
    by (rule copier_struct [where
        dest = "\<lambda>i. (OVHMachineTemplateResourceV1M_ObjectMeta i, OVHMachineTemplateResourceV1M_Spec i)"
        and put = "\<lambda>i (x1, x2).
          i\<lparr>OVHMachineTemplateResourceV1M_ObjectMeta := x1,
            OVHMachineTemplateResourceV1M_Spec := x2\<rparr>",
        OF copier_pair [OF documentedD(2) [OF assms]
        OVHMachineSpecV1.copier_axioms]
        OVHMachineTemplateResourceV1_load_def])
      (auto simp: OVHMachineTemplateResourceV1_DeepCopyInto_def Let_def)
qed

lemma OVHMachineTemplateSpecV1_element:
  assumes "documented lib"
  shows "element kOVHMachineTemplateSpecV1 OVHMachineTemplateSpecV1_load (OVHMachineTemplateSpecV1_DeepCopyInto lib)"
proof (rule element.intro [OF kOVHMachineTemplateSpecV1.storable_axioms])
  show "copier OVHMachineTemplateSpecV1_load (OVHMachineTemplateSpecV1_DeepCopyInto lib)"
    by (rule copier_struct [where
        dest = "\<lambda>i. (OVHMachineTemplateSpecV1M_Template i)"
        and put = "\<lambda>i x1.
          i\<lparr>OVHMachineTemplateSpecV1M_Template := x1\<rparr>",
        OF element.axioms(2) [OF OVHMachineTemplateResourceV1_element [OF assms]]
        OVHMachineTemplateSpecV1_load_def])
      (auto simp: OVHMachineTemplateSpecV1_DeepCopyInto_def Let_def)
qed

lemma OVHMachineTemplateV1_element:
  assumes "documented lib"
  shows "element kOVHMachineTemplateV1 OVHMachineTemplateV1_load (OVHMachineTemplateV1_DeepCopyInto lib)"
proof (rule element.intro [OF kOVHMachineTemplateV1.storable_axioms])
  show "copier OVHMachineTemplateV1_load (OVHMachineTemplateV1_DeepCopyInto lib)"
    by (rule copier_struct [where
        dest = "\<lambda>i. (OVHMachineTemplateV1M_ObjectMeta i, OVHMachineTemplateV1M_Spec i)"
        and put = "\<lambda>i (x1, x2).
          i\<lparr>OVHMachineTemplateV1M_ObjectMeta := x1, OVHMachineTemplateV1M_Spec := x2\<rparr>",
        OF copier_pair [OF documentedD(1) [OF assms]
        element.axioms(2) [OF OVHMachineTemplateSpecV1_element [OF assms]]]
        OVHMachineTemplateV1_load_def])
      (auto simp: OVHMachineTemplateV1_DeepCopyInto_def Let_def)
qed

lemma OVHMachineTemplateListV1_element:
  assumes "documented lib"
  shows "element kOVHMachineTemplateListV1 OVHMachineTemplateListV1_load (OVHMachineTemplateListV1_DeepCopyInto lib)"
proof (rule element.intro [OF kOVHMachineTemplateListV1.storable_axioms])
  show "copier OVHMachineTemplateListV1_load (OVHMachineTemplateListV1_DeepCopyInto lib)"
    by (rule copier_struct [where
        dest = "\<lambda>i. (OVHMachineTemplateListV1M_ListMeta i, OVHMachineTemplateListV1M_Items i)"
        and put = "\<lambda>i (x1, x2).
          i\<lparr>OVHMachineTemplateListV1M_ListMeta := x1, OVHMachineTemplateListV1M_Items := x2\<rparr>",
        OF copier_pair [OF documentedD(3) [OF assms]
        element.slices [OF OVHMachineTemplateV1_element [OF assms]]]
        OVHMachineTemplateListV1_load_def])
      (auto simp: OVHMachineTemplateListV1_DeepCopyInto_def Let_def)
qed

interpretation OVHMachineValidatorV1: element kOVHMachineValidatorV1 readPure OVHMachineValidatorV1_DeepCopyInto
  by (intro element.intro kOVHMachineValidatorV1.storable_axioms copier_same)
    (simp add: OVHMachineValidatorV1_DeepCopyInto_def)

lemmas deep_copied =
  pointer_copied [OF InitializationV1.element_axioms InitializationV1_DeepCopy_def]
  pointer_copied [OF OVHClusterV1_element OVHClusterV1_DeepCopy_def]
  pointer_copied [OF OVHClusterListV1_element OVHClusterListV1_DeepCopy_def]
  pointer_copied [OF OVHClusterSpecV1.element_axioms OVHClusterSpecV1_DeepCopy_def]
  pointer_copied [OF OVHClusterStatusV1_element OVHClusterStatusV1_DeepCopy_def]
  pointer_copied [OF OVHClusterTemplateV1_element OVHClusterTemplateV1_DeepCopy_def]
  pointer_copied [OF OVHClusterTemplateListV1_element OVHClusterTemplateListV1_DeepCopy_def]
  pointer_copied [OF OVHClusterTemplateResourceV1_element OVHClusterTemplateResourceV1_DeepCopy_def]
  pointer_copied [OF OVHClusterTemplateSpecV1_element OVHClusterTemplateSpecV1_DeepCopy_def]
  pointer_copied [OF OVHClusterValidatorV1.element_axioms OVHClusterValidatorV1_DeepCopy_def]
  pointer_copied [OF OVHListenerV1.element_axioms OVHListenerV1_DeepCopy_def]
  pointer_copied [OF OVHLoadBalancerConfigV1.element_axioms OVHLoadBalancerConfigV1_DeepCopy_def]
  pointer_copied [OF OVHMachineV1_element OVHMachineV1_DeepCopy_def]
  pointer_copied [OF OVHMachineListV1_element OVHMachineListV1_DeepCopy_def]
  pointer_copied [OF OVHMachineSpecV1.element_axioms OVHMachineSpecV1_DeepCopy_def]
  pointer_copied [OF OVHMachineStatusV1_element OVHMachineStatusV1_DeepCopy_def]
  pointer_copied [OF OVHMachineTemplateV1_element OVHMachineTemplateV1_DeepCopy_def]
  pointer_copied [OF OVHMachineTemplateListV1_element OVHMachineTemplateListV1_DeepCopy_def]
  pointer_copied [OF OVHMachineTemplateResourceV1_element OVHMachineTemplateResourceV1_DeepCopy_def]
  pointer_copied [OF OVHMachineTemplateSpecV1_element OVHMachineTemplateSpecV1_DeepCopy_def]
  pointer_copied [OF OVHMachineValidatorV1.element_axioms OVHMachineValidatorV1_DeepCopy_def]
  pointer_copied [OF OVHNetworkConfigV1.element_axioms OVHNetworkConfigV1_DeepCopy_def]
  pointer_copied [OF OVHVolumeV1.element_axioms OVHVolumeV1_DeepCopy_def]
  pointer_copied [OF SecretKeyV1.element_axioms SecretKeyV1_DeepCopy_def]

lemmas objects_copied =
  object_copied [OF OVHClusterV1_element OVHClusterV1_DeepCopy_def OVHClusterV1_DeepCopyObject_def]
  object_copied [OF OVHClusterListV1_element OVHClusterListV1_DeepCopy_def OVHClusterListV1_DeepCopyObject_def]
  object_copied [OF OVHClusterTemplateV1_element OVHClusterTemplateV1_DeepCopy_def OVHClusterTemplateV1_DeepCopyObject_def]
  object_copied [OF OVHClusterTemplateListV1_element OVHClusterTemplateListV1_DeepCopy_def OVHClusterTemplateListV1_DeepCopyObject_def]
  object_copied [OF OVHMachineV1_element OVHMachineV1_DeepCopy_def OVHMachineV1_DeepCopyObject_def]
  object_copied [OF OVHMachineListV1_element OVHMachineListV1_DeepCopy_def OVHMachineListV1_DeepCopyObject_def]
  object_copied [OF OVHMachineTemplateV1_element OVHMachineTemplateV1_DeepCopy_def OVHMachineTemplateV1_DeepCopyObject_def]
  object_copied [OF OVHMachineTemplateListV1_element OVHMachineTemplateListV1_DeepCopy_def OVHMachineTemplateListV1_DeepCopyObject_def]


text \<open>C37: for every type of the package v1alpha1, \<^verbatim>\<open>DeepCopy\<close> gives, for a valid pointer, a pointer
  to the same value in new cells only: what was in memory is unchanged, later writes to the copy do
  not reach the original, and later writes to the original do not reach the copy.
  \<^verbatim>\<open>DeepCopyObject\<close> gives nil for nil, and else an object of the same type whose pointer is not
  nil, with the same value in new cells.\<close>

theorem deep_copies_v1:
  assumes "documented lib"
  shows
    "deepCopies (loadPtr kInitializationV1 readPure) InitializationV1_DeepCopy
     \<and> deepCopies (loadPtr kOVHClusterV1 OVHClusterV1_load) (OVHClusterV1_DeepCopy lib)
     \<and> deepCopies (loadPtr kOVHClusterListV1 OVHClusterListV1_load) (OVHClusterListV1_DeepCopy lib)
     \<and> deepCopies (loadPtr kOVHClusterSpecV1 OVHClusterSpecV1_load) OVHClusterSpecV1_DeepCopy
     \<and> deepCopies (loadPtr kOVHClusterStatusV1 OVHClusterStatusV1_load) (OVHClusterStatusV1_DeepCopy lib)
     \<and> deepCopies (loadPtr kOVHClusterTemplateV1 OVHClusterTemplateV1_load) (OVHClusterTemplateV1_DeepCopy lib)
     \<and> deepCopies (loadPtr kOVHClusterTemplateListV1 OVHClusterTemplateListV1_load) (OVHClusterTemplateListV1_DeepCopy lib)
     \<and> deepCopies (loadPtr kOVHClusterTemplateResourceV1 OVHClusterTemplateResourceV1_load) (OVHClusterTemplateResourceV1_DeepCopy lib)
     \<and> deepCopies (loadPtr kOVHClusterTemplateSpecV1 OVHClusterTemplateSpecV1_load) (OVHClusterTemplateSpecV1_DeepCopy lib)
     \<and> deepCopies (loadPtr kOVHClusterValidatorV1 readPure) OVHClusterValidatorV1_DeepCopy
     \<and> deepCopies (loadPtr kOVHListenerV1 readPure) OVHListenerV1_DeepCopy
     \<and> deepCopies (loadPtr kOVHLoadBalancerConfigV1 OVHLoadBalancerConfigV1_load) OVHLoadBalancerConfigV1_DeepCopy
     \<and> deepCopies (loadPtr kOVHMachineV1 OVHMachineV1_load) (OVHMachineV1_DeepCopy lib)
     \<and> deepCopies (loadPtr kOVHMachineListV1 OVHMachineListV1_load) (OVHMachineListV1_DeepCopy lib)
     \<and> deepCopies (loadPtr kOVHMachineSpecV1 OVHMachineSpecV1_load) OVHMachineSpecV1_DeepCopy
     \<and> deepCopies (loadPtr kOVHMachineStatusV1 OVHMachineStatusV1_load) (OVHMachineStatusV1_DeepCopy lib)
     \<and> deepCopies (loadPtr kOVHMachineTemplateV1 OVHMachineTemplateV1_load) (OVHMachineTemplateV1_DeepCopy lib)
     \<and> deepCopies (loadPtr kOVHMachineTemplateListV1 OVHMachineTemplateListV1_load) (OVHMachineTemplateListV1_DeepCopy lib)
     \<and> deepCopies (loadPtr kOVHMachineTemplateResourceV1 OVHMachineTemplateResourceV1_load) (OVHMachineTemplateResourceV1_DeepCopy lib)
     \<and> deepCopies (loadPtr kOVHMachineTemplateSpecV1 OVHMachineTemplateSpecV1_load) (OVHMachineTemplateSpecV1_DeepCopy lib)
     \<and> deepCopies (loadPtr kOVHMachineValidatorV1 readPure) OVHMachineValidatorV1_DeepCopy
     \<and> deepCopies (loadPtr kOVHNetworkConfigV1 OVHNetworkConfigV1_load) OVHNetworkConfigV1_DeepCopy
     \<and> deepCopies (loadPtr kOVHVolumeV1 readPure) OVHVolumeV1_DeepCopy
     \<and> deepCopies (loadPtr kSecretKeyV1 readPure) SecretKeyV1_DeepCopy
     \<and> objectCopies ''*v1alpha1.OVHCluster'' (loadPtr kOVHClusterV1 OVHClusterV1_load) (OVHClusterV1_DeepCopyObject lib)
     \<and> objectCopies ''*v1alpha1.OVHClusterList'' (loadPtr kOVHClusterListV1 OVHClusterListV1_load) (OVHClusterListV1_DeepCopyObject lib)
     \<and> objectCopies ''*v1alpha1.OVHClusterTemplate'' (loadPtr kOVHClusterTemplateV1 OVHClusterTemplateV1_load) (OVHClusterTemplateV1_DeepCopyObject lib)
     \<and> objectCopies ''*v1alpha1.OVHClusterTemplateList'' (loadPtr kOVHClusterTemplateListV1 OVHClusterTemplateListV1_load) (OVHClusterTemplateListV1_DeepCopyObject lib)
     \<and> objectCopies ''*v1alpha1.OVHMachine'' (loadPtr kOVHMachineV1 OVHMachineV1_load) (OVHMachineV1_DeepCopyObject lib)
     \<and> objectCopies ''*v1alpha1.OVHMachineList'' (loadPtr kOVHMachineListV1 OVHMachineListV1_load) (OVHMachineListV1_DeepCopyObject lib)
     \<and> objectCopies ''*v1alpha1.OVHMachineTemplate'' (loadPtr kOVHMachineTemplateV1 OVHMachineTemplateV1_load) (OVHMachineTemplateV1_DeepCopyObject lib)
     \<and> objectCopies ''*v1alpha1.OVHMachineTemplateList'' (loadPtr kOVHMachineTemplateListV1 OVHMachineTemplateListV1_load) (OVHMachineTemplateListV1_DeepCopyObject lib)"
  using assms by (intro conjI deep_copied objects_copied)

text \<open>A cluster with a listener and a network with DNS servers in memory.\<close>

definition sampleMemoryV1 :: "v1alpha1 cell list" where
  "sampleMemoryV1 = [
     CApi (COVHListenerV1 [zero_OVHListenerV1\<lparr>OVHListenerV1_Port := 80\<rparr>]),
     CString [''1.1.1.1''],
     CApi (COVHNetworkConfigV1 [zero_OVHNetworkConfigV1M\<lparr>OVHNetworkConfigV1M_VlanID := 7,
       OVHNetworkConfigV1M_DNSServers := Some (Slice 1 0 1)\<rparr>]),
     CApi (COVHClusterV1 [zero_OVHClusterV1M\<lparr>
       OVHClusterV1M_Spec := zero_OVHClusterSpecV1M\<lparr>
         OVHClusterSpecV1M_LoadBalancerConfig := zero_OVHLoadBalancerConfigV1M\<lparr>
           OVHLoadBalancerConfigV1M_Listeners := Some (Slice 0 0 1)\<rparr>,
         OVHClusterSpecV1M_NetworkConfig := Some 2\<rparr>\<rparr>])]"

definition sampleValueV1 :: "TypeMeta \<times> OVHClusterV1" where
  "sampleValueV1 = (zero_TypeMeta,
     zero_OVHClusterV1\<lparr>OVHClusterV1_Spec := zero_OVHClusterSpecV1\<lparr>
       OVHClusterSpecV1_LoadBalancerConfig := zero_OVHLoadBalancerConfigV1\<lparr>
         OVHLoadBalancerConfigV1_Listeners := [zero_OVHListenerV1\<lparr>OVHListenerV1_Port := 80\<rparr>]\<rparr>,
       OVHClusterSpecV1_NetworkConfig := Some (zero_OVHNetworkConfigV1\<lparr>
         OVHNetworkConfigV1_VlanID := 7, OVHNetworkConfigV1_DNSServers := [''1.1.1.1'']\<rparr>)\<rparr>\<rparr>)"

lemma sampleV1_loaded:
  "loadPtr kOVHClusterV1 OVHClusterV1_load (Some 3) sampleMemoryV1
     = Some (Some sampleValueV1, [3, 0, 2, 1])"
  by code_simp

lemma sampleV1_copied:
  "fst (run_state (OVHClusterV1_DeepCopyObject fieldwise (Some 3)) sampleMemoryV1)
     = Some (''*v1alpha1.OVHCluster'', 4)"
  by code_simp

theorem deep_copies_v1_witness:
  "\<exists>h bs. run_state (OVHClusterV1_DeepCopyObject fieldwise (Some 3)) sampleMemoryV1
       = (Some (''*v1alpha1.OVHCluster'', 4), h)
     \<and> loadPtr kOVHClusterV1 OVHClusterV1_load (Some 4) h = Some (Some sampleValueV1, bs)
     \<and> set bs \<inter> {0, 1, 2, 3} = {}"
proof -
  have "objectCopies ''*v1alpha1.OVHCluster'' (loadPtr kOVHClusterV1 OVHClusterV1_load)
      (OVHClusterV1_DeepCopyObject fieldwise)"
    using deep_copies_v1 [OF fieldwise_documented] by simp
  moreover obtain h where "run_state (OVHClusterV1_DeepCopyObject fieldwise (Some 3)) sampleMemoryV1
      = (Some (''*v1alpha1.OVHCluster'', 4), h)"
    using sampleV1_copied by (metis prod.collapse)
  moreover have "{..<length sampleMemoryV1} = {0, 1, 2, 3}"
    by (auto simp: sampleMemoryV1_def)
  ultimately show ?thesis
    using sampleV1_loaded unfolding objectCopies_def by fastforce
qed

end
