(* ===== verification/Spec2Isabelle.thy ===== *)
theory Spec2Isabelle
  imports Webhooks Startup Metrics Effort Cluster_Convergence Single_Instance Patches Etcd System
    System_Provisioning Deep_Copies Deep_Copies_V1
begin

text \<open>
  \<^bold>\<open>A verification of the Cluster API infrastructure provider for OVHcloud.\<close>

  The program is a Kubernetes controller. Users describe clusters and machines as custom resources
  (\<^verbatim>\<open>OVHCluster\<close>, \<^verbatim>\<open>OVHMachine\<close>); two reconcilers compare each object with the
  public cloud of OVH and send the requests that bring the cloud closer to it. Around them are a
  client of OVH's API with a retry loop, conversion and validation webhooks for two versions of the
  resources, helpers for names and user data, and code that touches the workload cluster (its nodes
  and its etcd members). The paths below are relative to \<^verbatim>\<open>src/\<close>.

  \<^bold>\<open>Execution model.\<close> A handler is a function in a state monad over the record \<open>st\<close>:
  \<open>st_obj\<close> is the object under reconciliation (the Go pointer in the scope), \<open>st_env\<close> the state of
  the world outside, of any type, and \<open>st_trace\<close> the list of events so far: requests to OVH, calls
  of the workload cluster, pauses, metric updates. Code outside the repository (the OVH SDK,
  controller-runtime, Cluster API, the Kubernetes client, \<^verbatim>\<open>time.Parse\<close>) is a parameter: the
  fields of \<open>Client_api\<close>, \<open>Deps\<close>, \<open>Clientset\<close> and \<open>ExecConfig\<close>. They may answer anything; where a
  theorem needs more, the law is a named hypothesis (\<open>finalizersOK\<close>, \<open>conditionsOK\<close>, \<open>pauseOK\<close>, \<open>etcdOK\<close>,
  \<open>cloudOK\<close>, \<open>networkServed\<close>, \<open>balancerServed\<close>, \<open>orderable\<close>, \<open>documented\<close> and the like) with an instance in the witness of that theorem. Every Go error is a value, every early
  return a branch. A Go map is an association list in its iteration order, and statements hold for
  every order. Strings are lists of bytes. Log lines are left out.

  \<^bold>\<open>Theories and sources.\<close>

  \<^item> \<open>Go_Prelude\<close>: what is used of Go's \<^verbatim>\<open>strings\<close>, \<^verbatim>\<open>strconv\<close> and \<^verbatim>\<open>fmt\<close>; the
    monad; the judgements \<open>emits\<close> (which events can be added), \<open>runs\<close> (an invariant of the object and
    the events together), \<open>keepsObj\<close> and \<open>wp\<close>, each with a collection of rules by which the later
    proofs run.
  \<^item> \<open>Ovh_Errors\<close> (\<^verbatim>\<open>pkg/ovh/errors.go\<close>), \<open>Ovh_Types\<close> (\<^verbatim>\<open>pkg/ovh/types.go\<close>),
    \<open>Ovh_Client\<close> (\<^verbatim>\<open>pkg/ovh/client.go\<close>): the error classifiers, one record per struct, and one
    definition per method of the client. The locales \<open>ovh_operation\<close> (an operation sends only its own
    requests and leaves the object alone) and \<open>ovh_deletion\<close> (a deletion that reports success was
    confirmed) are interpreted for every method; the controllers rest on these interpretations.
  \<^item> \<open>Api_Types\<close> (\<^verbatim>\<open>api/v1alpha1\<close>, \<^verbatim>\<open>api/v1alpha2\<close>), \<open>Conversion\<close>
    (\<^verbatim>\<open>api/v1alpha1/conversion.go\<close>), \<open>Webhooks\<close> (\<^verbatim>\<open>api/*/*_webhook.go\<close>): the custom
    resources, the conversions in both directions with the value of their target before the call,
    and the validators, with \<^verbatim>\<open>net.ParseIP\<close>. The locale \<open>convertible\<close> lifts a round trip to
    lists and is interpreted for four kinds; \<open>admission\<close> for the validators.
  \<^item> \<open>Memory\<close>, \<open>Api_Memory\<close>, \<open>Structs\<close>, \<open>Structs_V1\<close>, \<open>Deep_Copies\<close>, \<open>Deep_Copies_V1\<close>
    (\<^verbatim>\<open>api/*/zz_generated.deepcopy.go\<close>): a memory of cells, the structs with references, and every
    deep copy, statement by statement. Elsewhere objects are values; here is shown that a copy is one:
    the same value in new cells, out of reach of writes to the original. The locale \<open>copier\<close> is that
    contract, closed under structs, pointers, slices and maps (\<open>element\<close>, \<open>mapping_kind\<close>), and
    interpreted for the types; copies of Kubernetes types are parameters (\<open>documented\<close>). A nil and an
    empty slice or map stand for the same value.
  \<^item> \<open>Util\<close> (\<^verbatim>\<open>util/util.go\<close>, \<^verbatim>\<open>util/cloudinit.go\<close>), \<open>Workload\<close>
    (\<^verbatim>\<open>util/node_init.go\<close>), \<open>Etcd\<close> (\<^verbatim>\<open>util/etcd.go\<close>), \<open>Patches\<close> and \<open>Json\<close> (the two
    patches of a node and the documents they are, the JSON reader that the member list goes through).
  \<^item> \<open>Management\<close>: the parameters that stand for the management cluster and the locale
    \<open>deletion_protocol\<close> (a finalizer goes only after its work) that both reconcilers interpret.
  \<^item> \<open>Machine_Controller\<close> and \<open>Cluster_Controller\<close> (the two files of \<^verbatim>\<open>internal/controller\<close>):
    every method of the reconcilers. Long methods are cut into definitions at their comments; the
    methods of the cluster reconciler that share a name with one of the machine's have the prefix
    \<open>Cluster\<close>.
  \<^item> \<open>Metrics\<close> (\<^verbatim>\<open>internal/metrics/metrics.go\<close>): the collectors and their registration.
  \<^item> \<open>Startup\<close> (\<^verbatim>\<open>cmd/main.go\<close>, \<^verbatim>\<open>SetupWithManager\<close> of both reconcilers,
    \<^verbatim>\<open>groupversion_info.go\<close>): the start of the process as a sequence of library calls.
  \<^item> \<open>Machine_Properties\<close>, \<open>Cluster_Properties\<close>, \<open>Cluster_Deletion\<close>: one call of a reconciler: which
    requests it may send, when it creates, what it reports, when the finalizer goes, that it comes
    back. \<open>Machine_Lifecycle\<close>, \<open>Cluster_Lifecycle\<close>: step relations of one object under any sequence of
    reconciles and edits, with their invariants by rule induction. \<open>Refinement\<close>: both step relations
    refine the abstract life of an infrastructure object (locale \<open>simulation\<close>). \<open>System\<close>: a cluster
    and its machines together, in every interleaving. \<open>Single_Instance\<close>: the state of the cloud
    over all calls of both reconcilers, on which the judgement \<open>drifts\<close> (locale \<open>drift\<close>, interpreted
    for two relations between states) shows that no name gets a second instance. \<open>Convergence\<close>,
    \<open>Provisioning\<close> and \<open>Cluster_Convergence\<close>: repeated calls make a machine, from its instance or from
    nothing, and a cluster ready and keep them so. \<open>System_Provisioning\<close>: a new cluster and a new
    machine of it, reconciled in turns, become ready together.
    \<open>Deletion_Liveness\<close>: deletions come to an end. \<open>Effort\<close>: bounds on requests and pauses of one
    call (locale \<open>meter\<close>, interpreted for both).

  \<^bold>\<open>Bounds.\<close> Nothing runs on fuel. The retry loop recurses on the attempts that are left (five
  retries, pauses of 2 to 32 seconds), the polling for a new load balancer on its ten attempts; the
  JSON reader takes one byte per step and refuses documents nested deeper than 10000 as Go does;
  all other loops are over lists. So every handler is total, and \<open>Effort\<close> says what a call can cost:
  at most six requests and 62 seconds of pauses for each of a number of operations that only the
  object determines. Go's integers are copied and compared but not added to, except in the backoff,
  whose values are far from a limit; they are \<^typ>\<open>int\<close>. The identifiers of etcd members are
  64-bit words.

  \<^bold>\<open>Not modelled.\<close> Command-line flags are taken as parsed; the texts of errors of the JSON decoder, which reach only
  the log, are abridged. Concurrency is that of controller-runtime:
  calls for one object do not overlap, so a step is a whole call; a patch that fails is no step of
  the object. A cancelled context shows as an error that a call answers; the sleeps ignore it, as in the code.
  The charts, the manifests and the user interface are not part of the controller.
\<close>

section \<open>Metrics across the components\<close>

lemma typed_etcd: "emits typedUpdate (RemoveEtcdMember cfg node)"
  unfolding RemoveEtcdMember_def
  by (intro emits_bind emits_emit emits_mono [OF removeEtcdMember_emits])
    (auto simp: etcdEvent_def live_def registered_def)

text \<open>C40: no metric update can panic. All collectors are registered; they have distinct, well-formed names, distinct labels and
  increasing buckets, so registering them succeeds; and whatever the reconcilers and the etcd removal
  do, they update a collector by a method of the collector's kind, with one value
  per label, and set gauges to 0 or 1. Three registered collectors are never updated: they are not
  among the live ones.\<close>

theorem metric_updates_typed:
  "set registered = UNIV \<and> distinct (map fullName registered) \<and> (\<forall>m. declarable m)
   \<and> emits typedUpdate (Reconcile d ns name) \<and> emits typedUpdate (ClusterReconcile d' ns' name')
   \<and> emits typedUpdate (RemoveEtcdMember cfg node)"
  by (simp add: registered_UNIV registration_ok typed_Reconcile typed_ClusterReconcile typed_etcd)

end
